(* ===== verification/Prelude.thy ===== *)
theory Prelude
  imports Main "HOL-Library.Word"
begin

text \<open>
  Shared vocabulary of the development: the machine integer types of the C code, the Linux
  error numbers it returns, the overflow-checked arithmetic and alignment macros of the
  kernel, C strings inside fixed-size buffers, and the generic lemmas on lists and words
  that the component theories use.
\<close>

unbundle bit_operations_syntax

section \<open>Machine types\<close>

type_synonym u8 = "8 word"
type_synonym u16 = "16 word"
type_synonym u32 = "32 word"
type_synonym u64 = "64 word"
type_synonym bytes = "u8 list"

named_theorems wordnat \<open>natural-number readings of the wrapping word operations\<close>
named_theorems cstr_simps \<open>contents of C strings after the copy routines\<close>

section \<open>Error numbers (asm-generic/errno)\<close>

abbreviation (input) ENOENT :: int where "ENOENT \<equiv> 2"
abbreviation (input) EINTR :: int where "EINTR \<equiv> 4"
abbreviation (input) EIO :: int where "EIO \<equiv> 5"
abbreviation (input) E2BIG :: int where "E2BIG \<equiv> 7"
abbreviation (input) EAGAIN :: int where "EAGAIN \<equiv> 11"
abbreviation (input) ENOMEM :: int where "ENOMEM \<equiv> 12"
abbreviation (input) EACCES :: int where "EACCES \<equiv> 13"
abbreviation (input) EFAULT :: int where "EFAULT \<equiv> 14"
abbreviation (input) EBUSY :: int where "EBUSY \<equiv> 16"
abbreviation (input) EEXIST :: int where "EEXIST \<equiv> 17"
abbreviation (input) ENODEV :: int where "ENODEV \<equiv> 19"
abbreviation (input) EINVAL :: int where "EINVAL \<equiv> 22"
abbreviation (input) ENOSPC :: int where "ENOSPC \<equiv> 28"
abbreviation (input) ERANGE :: int where "ERANGE \<equiv> 34"
abbreviation (input) ENOSYS :: int where "ENOSYS \<equiv> 38"
abbreviation (input) ENOLINK :: int where "ENOLINK \<equiv> 67"
abbreviation (input) EPROTO :: int where "EPROTO \<equiv> 71"
abbreviation (input) EOVERFLOW :: int where "EOVERFLOW \<equiv> 75"
abbreviation (input) EMSGSIZE :: int where "EMSGSIZE \<equiv> 90"
abbreviation (input) EOPNOTSUPP :: int where "EOPNOTSUPP \<equiv> 95"
abbreviation (input) ENOTCONN :: int where "ENOTCONN \<equiv> 107"
abbreviation (input) ESHUTDOWN :: int where "ESHUTDOWN \<equiv> 108"
abbreviation (input) ETIMEDOUT :: int where "ETIMEDOUT \<equiv> 110"
abbreviation (input) EALREADY :: int where "EALREADY \<equiv> 114"

section \<open>Checked arithmetic and alignment\<close>

text \<open>
  The kernel's \<^verbatim>\<open>check_mul_overflow\<close> and \<^verbatim>\<open>check_add_overflow\<close> deliver the wrapped result and
  report whether it wrapped; every caller gives up on a wrap, so the result is an option.
  \<^verbatim>\<open>ALIGN(x, a)\<close> computes at the width of \<open>x\<close> and itself wraps.
\<close>

definition check_mul_overflow :: "'a::len word \<Rightarrow> 'a word \<Rightarrow> 'a word option" where
  "check_mul_overflow a b = (if unat a * unat b < 2 ^ LENGTH('a) then Some (a * b) else None)"

definition check_add_overflow :: "'a::len word \<Rightarrow> 'a word \<Rightarrow> 'a word option" where
  "check_add_overflow a b = (if unat a + unat b < 2 ^ LENGTH('a) then Some (a + b) else None)"

definition ALIGN :: "'a::len word \<Rightarrow> 'a word \<Rightarrow> 'a word" where
  "ALIGN x a = (x + (a - 1)) AND NOT (a - 1)"

definition BIT :: "u16 \<Rightarrow> u32" where
  "BIT k = push_bit (unat k) 1"

lemma check_mul_overflow_Some [wordnat]:
  "check_mul_overflow a b = Some c \<longleftrightarrow> unat a * unat b < 2 ^ LENGTH('a) \<and> c = a * b"
  for a b c :: "'a::len word"
  by (auto simp: check_mul_overflow_def)

lemma check_add_overflow_Some [wordnat]:
  "check_add_overflow a b = Some c \<longleftrightarrow> unat a + unat b < 2 ^ LENGTH('a) \<and> c = a + b"
  for a b c :: "'a::len word"
  by (auto simp: check_add_overflow_def)

lemma unat_mult_small [wordnat]:
  "unat a * unat b < 2 ^ LENGTH('a) \<Longrightarrow> unat (a * b) = unat a * unat b" for a b :: "'a::len word"
  by (simp add: unat_word_ariths)

lemma unat_add_small [wordnat]:
  "unat a + unat b < 2 ^ LENGTH('a) \<Longrightarrow> unat (a + b) = unat a + unat b" for a b :: "'a::len word"
  by (simp add: unat_word_ariths)

lemma unat_clear_low_bits:
  "unat (x AND NOT (mask n)) = unat x div 2 ^ n * 2 ^ n" for x :: "'a::len word"
proof -
  have "x AND NOT (mask n) = push_bit n (drop_bit n x)"
    by (rule bit_word_eqI) (auto simp: bit_simps)
  moreover have "unat (push_bit n (drop_bit n x)) = unat x div 2 ^ n * 2 ^ n"
  proof -
    have "unat x div 2 ^ n * 2 ^ n < 2 ^ LENGTH('a)"
      by (meson div_times_less_eq_dividend le_less_trans unsigned_less)
    then show ?thesis
      by (simp only: unsigned_push_bit_eq unsigned_drop_bit_eq)
        (simp add: drop_bit_eq_div push_bit_eq_mult take_bit_eq_mod)
  qed
  ultimately show ?thesis by simp
qed

lemma unat_ALIGN:
  fixes x :: "'a::len word"
  assumes "unat x + (2 ^ k - 1) < 2 ^ LENGTH('a)" and "k < LENGTH('a)"
  shows "unat (ALIGN x (2 ^ k)) = (unat x + (2 ^ k - 1)) div 2 ^ k * 2 ^ k"
proof -
  have m: "(2 ^ k - 1 :: 'a word) = mask k"
    by (simp add: mask_eq_exp_minus_1)
  have "uint (mask k :: 'a word) = int (2 ^ k - 1)"
    using assms(2) unfolding uint_mask_eq by (simp add: min_def mask_eq_exp_minus_1 of_nat_diff)
  then have "unat (mask k :: 'a word) = 2 ^ k - 1"
    by (metis nat_int unat_eq_nat_uint)
  then have "unat (x + mask k) = unat x + (2 ^ k - 1)"
    using assms(1) by (simp add: unat_add_small)
  then show ?thesis
    by (simp only: ALIGN_def m unat_clear_low_bits)
qed

lemmas unat_ALIGN_2 [wordnat] = unat_ALIGN [where k = 1, simplified]
lemmas unat_ALIGN_4 [wordnat] = unat_ALIGN [where k = 2, simplified]
lemmas unat_ALIGN_64 [wordnat] = unat_ALIGN [where k = 6, simplified]
lemmas unat_ALIGN_4096 [wordnat] = unat_ALIGN [where k = 12, simplified]

text \<open>The distance between two free-running counters shrinks as the lower one advances.\<close>

lemma unat_dist_Suc:
  "l \<noteq> u \<Longrightarrow> unat (u - l) = Suc (unat (u - (l + 1)))" for u l :: "'a::len word"
proof -
  assume "l \<noteq> u"
  then have "u - l \<noteq> 0" by simp
  then have "unat (u - l - 1) = unat (u - l) - 1" by (rule unat_minus_one)
  moreover have "0 < unat (u - l)" using \<open>u - l \<noteq> 0\<close> by (simp add: unat_gt_0)
  ultimately show ?thesis by (simp add: diff_diff_eq)
qed

text \<open>The first index with a property.\<close>

lemma find_upt_Some:
  "find P [0..<n] = Some i \<longleftrightarrow> i < n \<and> P i \<and> (\<forall>j<i. \<not> P j)"
proof -
  have "find P [0..<n] = Some i \<longleftrightarrow> (\<exists>j<n. P j \<and> i = j \<and> (\<forall>k<j. \<not> P k))"
    by (auto simp: find_Some_iff)
  then show ?thesis by auto
qed

lemma find_upt_None: "find P [0..<n] = None \<longleftrightarrow> (\<forall>i<n. \<not> P i)"
  by (auto simp: find_None_iff)

end
