(* ===== verification/Layout.thy ===== *)
theory Layout
  imports Prelude
begin

text \<open>
  The shared-memory layout of \<^verbatim>\<open>mkring/mkring.c\<close>: the sizes of the packed ring structures, the
  offsets \<^verbatim>\<open>mkring_calc_layout\<close> computes for one directional queue, the pointer helpers that
  address descriptors, ring slots and data slots inside a queue, and the index of the queue
  from one kernel to another. All offsets are 32-bit words and wrap as the code's do.
\<close>

section \<open>Sizes and offsets\<close>

abbreviation (input) PAGE_SIZE :: u32 where "PAGE_SIZE \<equiv> 4096"
abbreviation (input) MKRING_ALIGN :: u32 where "MKRING_ALIGN \<equiv> 64"
abbreviation (input) MKRING_MAX_KERNELS :: u16 where "MKRING_MAX_KERNELS \<equiv> 32"

abbreviation (input) sizeof_mkring_desc :: u32 where "sizeof_mkring_desc \<equiv> 16"
abbreviation (input) sizeof_le16 :: u32 where "sizeof_le16 \<equiv> 2"
abbreviation (input) sizeof_mkring_avail_hdr :: u32 where "sizeof_mkring_avail_hdr \<equiv> 4"
abbreviation (input) sizeof_mkring_used_elem :: u32 where "sizeof_mkring_used_elem \<equiv> 8"
abbreviation (input) sizeof_mkring_used_hdr :: u32 where "sizeof_mkring_used_hdr \<equiv> 4"
abbreviation (input) sizeof_mkring_shm_hdr :: u64 where "sizeof_mkring_shm_hdr \<equiv> 56"

record mkring_layout =
  desc_off :: u32
  avail_off :: u32
  avail_ring_off :: u32
  avail_event_off :: u32
  used_off :: u32
  used_ring_off :: u32
  used_event_off :: u32
  data_off :: u32
  queue_size :: u32

definition mkring_calc_layout :: "u16 \<Rightarrow> u32 \<Rightarrow> int + mkring_layout" where
  "mkring_calc_layout ndesc payload =
    (if ndesc = 0 \<or> payload = 0 then Inl (- EINVAL)
     else case check_mul_overflow (ucast ndesc) sizeof_mkring_desc of
       None \<Rightarrow> Inl (- EOVERFLOW)
     | Some desc_bytes \<Rightarrow>
     (case check_mul_overflow (ucast ndesc) sizeof_le16 of
       None \<Rightarrow> Inl (- EOVERFLOW)
     | Some ab \<Rightarrow>
     (case check_mul_overflow (ucast ndesc) sizeof_mkring_used_elem of
       None \<Rightarrow> Inl (- EOVERFLOW)
     | Some ub \<Rightarrow>
       let avail_bytes = ab + (sizeof_mkring_avail_hdr + sizeof_le16);
           used_bytes = ub + (sizeof_mkring_used_hdr + sizeof_le16);
           off0 = 0;
           off1 = off0 + desc_bytes;
           a_off = ALIGN off1 2;
           ar_off = a_off + sizeof_mkring_avail_hdr;
           ae_off = ar_off + sizeof_le16 * ucast ndesc;
           off2 = a_off + avail_bytes;
           u_off = ALIGN off2 4;
           ur_off = u_off + sizeof_mkring_used_hdr;
           ue_off = ur_off + sizeof_mkring_used_elem * ucast ndesc;
           off3 = u_off + used_bytes;
           d_off = ALIGN off3 MKRING_ALIGN
       in (case check_mul_overflow (ucast ndesc) payload of
             None \<Rightarrow> Inl (- EOVERFLOW)
           | Some data_bytes \<Rightarrow>
           (case check_add_overflow d_off data_bytes of
             None \<Rightarrow> Inl (- EOVERFLOW)
           | Some off4 \<Rightarrow>
             Inr \<lparr>desc_off = off0, avail_off = a_off, avail_ring_off = ar_off,
                  avail_event_off = ae_off, used_off = u_off, used_ring_off = ur_off,
                  used_event_off = ue_off, data_off = d_off,
                  queue_size = ALIGN off4 PAGE_SIZE\<rparr>)))))"

text \<open>
  The pointer helpers: byte offsets from the base of a queue. \<^verbatim>\<open>mkring_avail_idx_ptr\<close> and
  \<^verbatim>\<open>mkring_used_idx_ptr\<close> add the offset of \<^verbatim>\<open>idx\<close> in its header, which is 2.
\<close>

definition mkring_desc_ptr :: "mkring_layout \<Rightarrow> u16 \<Rightarrow> nat" where
  "mkring_desc_ptr L i = unat (desc_off L) + 16 * unat i"

definition mkring_avail_idx_ptr :: "mkring_layout \<Rightarrow> nat" where
  "mkring_avail_idx_ptr L = unat (avail_off L) + 2"

definition mkring_avail_ring_ptr :: "mkring_layout \<Rightarrow> u16 \<Rightarrow> nat" where
  "mkring_avail_ring_ptr L slot = unat (avail_ring_off L) + 2 * unat slot"

definition mkring_used_idx_ptr :: "mkring_layout \<Rightarrow> nat" where
  "mkring_used_idx_ptr L = unat (used_off L) + 2"

definition mkring_used_elem_ptr :: "mkring_layout \<Rightarrow> u16 \<Rightarrow> nat" where
  "mkring_used_elem_ptr L slot = unat (used_ring_off L) + 8 * unat slot"

definition mkring_data_ptr :: "mkring_layout \<Rightarrow> u32 \<Rightarrow> u16 \<Rightarrow> nat" where
  "mkring_data_ptr L msg_size i = unat (data_off L + ucast i * msg_size)"

definition mkring_data_phys :: "u64 \<Rightarrow> mkring_layout \<Rightarrow> u32 \<Rightarrow> u16 \<Rightarrow> u64" where
  "mkring_data_phys phys L msg_size i = phys + ucast (data_off L) + ucast (ucast i * msg_size)"

definition mkring_qindex :: "u16 \<Rightarrow> u16 \<Rightarrow> u16 \<Rightarrow> u32" where
  "mkring_qindex kernels src dst = ucast src * ucast kernels + ucast dst"

section \<open>The layout in natural numbers\<close>

lemma unat_ucast_up [wordnat]:
  "unat (ucast (x :: u16) :: u32) = unat x" "unat (ucast (x :: u16) :: u64) = unat x"
  "unat (ucast (y :: u32) :: u64) = unat y"
  using unsigned_less [of x, where 'a = nat] unsigned_less [of y, where 'a = nat]
  by (simp_all add: unsigned_ucast_eq take_bit_eq_mod)

lemma unat_u16_less: "unat (x :: u16) < 65536"
  using unsigned_less [of x, where 'a = nat] by simp

lemma unat_u32_less: "unat (x :: u32) < 4294967296"
  using unsigned_less [of x, where 'a = nat] by simp

definition layout_nat :: "nat \<Rightarrow> nat \<Rightarrow> mkring_layout \<Rightarrow> bool" where
  "layout_nat n p L \<longleftrightarrow>
     unat (desc_off L) = 0 \<and>
     unat (avail_off L) = 16 * n \<and>
     unat (avail_ring_off L) = 16 * n + 4 \<and>
     unat (avail_event_off L) = 18 * n + 4 \<and>
     unat (used_off L) = (18 * n + 9) div 4 * 4 \<and>
     unat (used_ring_off L) = unat (used_off L) + 4 \<and>
     unat (used_event_off L) = unat (used_off L) + 8 * n + 4 \<and>
     unat (data_off L) = (unat (used_off L) + 8 * n + 69) div 64 * 64 \<and>
     unat (data_off L) + n * p < 2 ^ 32"

definition data_start :: "nat \<Rightarrow> nat" where
  "data_start n = ((18 * n + 9) div 4 * 4 + 8 * n + 69) div 64 * 64"

lemma calc_layout_cases:
  assumes "ndesc \<noteq> 0" "payload \<noteq> 0"
  shows "if data_start (unat ndesc) + unat ndesc * unat payload < 2 ^ 32
    then \<exists>L. mkring_calc_layout ndesc payload = Inr L \<and> layout_nat (unat ndesc) (unat payload) L \<and>
           queue_size L = ALIGN (data_off L + ucast ndesc * payload) PAGE_SIZE
    else mkring_calc_layout ndesc payload = Inl (- EOVERFLOW)"
proof -
  let ?n = "ucast ndesc :: u32"
  define a where "a = ALIGN (?n * 16) 2"
  define u where "u = ALIGN (a + (?n * 2 + 6)) 4"
  define d where "d = ALIGN (u + (?n * 8 + 6)) 64"
  have n: "unat ?n < 65536" using unat_u16_less [of ndesc] by (simp add: wordnat)
  have a: "unat a = 16 * unat ?n"
    using n unfolding a_def by (simp add: wordnat)
  have a2: "unat (a + (?n * 2 + 6)) = 18 * unat ?n + 6"
    using n a by (simp add: wordnat)
  have u: "unat u = (18 * unat ?n + 9) div 4 * 4"
    using n a2 unfolding u_def by (simp add: wordnat)
  then have ub: "unat u \<le> 18 * unat ?n + 9" by simp
  have u2: "unat (u + (?n * 8 + 6)) = unat u + 8 * unat ?n + 6"
    using n ub by (simp add: wordnat)
  have d: "unat d = (unat u + 8 * unat ?n + 69) div 64 * 64"
    using n ub u2 unfolding d_def by (simp add: wordnat)
  let ?L = "\<lparr>desc_off = 0, avail_off = a, avail_ring_off = a + 4,
      avail_event_off = a + 4 + 2 * ?n, used_off = u, used_ring_off = u + 4,
      used_event_off = u + 4 + 8 * ?n, data_off = d,
      queue_size = ALIGN (d + ?n * payload) 4096\<rparr>"
  have calc: "mkring_calc_layout ndesc payload =
      (if unat d + unat ?n * unat payload < 2 ^ 32 then Inr ?L else Inl (- EOVERFLOW))"
    using assms n unfolding mkring_calc_layout_def a_def u_def d_def
    by (simp add: Let_def check_mul_overflow_def check_add_overflow_def wordnat)
  have "unat (a + 4 + 2 * ?n) = 18 * unat ?n + 4" "unat (u + 4) = unat u + 4"
    "unat (u + 4 + 8 * ?n) = unat u + 8 * unat ?n + 4" "unat (a + 4) = 16 * unat ?n + 4"
    using n a ub by (simp_all add: wordnat)
  then have "unat d + unat ?n * unat payload < 2 ^ 32 \<Longrightarrow> layout_nat (unat ndesc) (unat payload) ?L"
    using a u d by (simp add: layout_nat_def wordnat)
  moreover have "data_start (unat ndesc) = unat d"
    using d u by (simp add: data_start_def wordnat)
  ultimately show ?thesis
    using calc by (simp add: wordnat)
qed

lemma calc_layout_nat:
  assumes "mkring_calc_layout ndesc payload = Inr L"
  shows "layout_nat (unat ndesc) (unat payload) L \<and>
         queue_size L = ALIGN (data_off L + ucast ndesc * payload) PAGE_SIZE"
proof -
  have "ndesc \<noteq> 0" "payload \<noteq> 0"
    using assms by (auto simp: mkring_calc_layout_def)
  from calc_layout_cases [OF this] assms show ?thesis
    by (auto split: if_splits)
qed

lemma layout_fits: "layout_nat n p L \<Longrightarrow> unat (data_off L) + n * p < 2 ^ 32"
  unfolding layout_nat_def by blast

lemma layout_order:
  assumes "layout_nat n p L"
  shows "unat (desc_off L) = 0" "unat (avail_off L) = 16 * n" "unat (avail_ring_off L) = 16 * n + 4"
    "18 * n + 4 \<le> unat (used_off L)" "unat (used_ring_off L) = unat (used_off L) + 4"
    "unat (used_off L) + 8 * n + 4 \<le> unat (data_off L)"
proof -
  define u where "u = unat (used_off L)"
  have "u = (18 * n + 9) div 4 * 4" and d: "unat (data_off L) = (u + 8 * n + 69) div 64 * 64"
    using assms unfolding layout_nat_def u_def by blast+
  then show "18 * n + 4 \<le> unat (used_off L)" unfolding u_def by linarith
  show "unat (used_off L) + 8 * n + 4 \<le> unat (data_off L)"
    unfolding d u_def [symmetric] by linarith
qed (use assms in \<open>simp_all add: layout_nat_def\<close>)

lemma queue_size_nat:
  assumes "mkring_calc_layout ndesc payload = Inr L"
  shows "unat (queue_size L) =
    (let off = unat (data_off L) + unat ndesc * unat payload
     in if off + 4095 < 2 ^ 32 then (off + 4095) div 4096 * 4096 else 0)"
proof -
  let ?off = "data_off L + ucast ndesc * payload"
  have b: "unat (data_off L) + unat ndesc * unat payload < 2 ^ 32"
    and q: "queue_size L = ALIGN ?off PAGE_SIZE"
    using calc_layout_nat [OF assms] layout_fits by blast+
  then have off: "unat ?off = unat (data_off L) + unat ndesc * unat payload"
    by (simp add: wordnat)
  show ?thesis
  proof (cases "unat ?off + 4095 < 2 ^ 32")
    case True
    then show ?thesis using q off by (simp add: wordnat)
  next
    case False
    then have "unat (?off + 4095) = unat ?off + 4095 - 2 ^ 32"
      using unat_u32_less [of ?off] by (simp add: unat_word_ariths le_mod_geq)
    then have "unat (?off + 4095) div 4096 = 0"
      using unat_u32_less [of ?off] by simp
    moreover have "(4095 :: u32) = mask 12" by (simp add: mask_eq_exp_minus_1)
    ultimately have "unat (queue_size L) = 0"
      using unat_clear_low_bits [of "?off + 4095" 12] by (simp add: q ALIGN_def)
    then show ?thesis using False off by simp
  qed
qed

section \<open>Regions of a queue\<close>

text \<open>
  The objects the code addresses through the pointer helpers, with the bytes each occupies.
\<close>

datatype region = Desc u16 | AvailIdx | AvailSlot u16 | UsedIdx | UsedElem u16 | DataSlot u16

fun region_ok :: "u16 \<Rightarrow> region \<Rightarrow> bool" where
  "region_ok ndesc (Desc i) = (i < ndesc)"
| "region_ok ndesc (AvailSlot i) = (i < ndesc)"
| "region_ok ndesc (UsedElem i) = (i < ndesc)"
| "region_ok ndesc (DataSlot i) = (i < ndesc)"
| "region_ok ndesc AvailIdx = True"
| "region_ok ndesc UsedIdx = True"

fun region_start :: "mkring_layout \<Rightarrow> u32 \<Rightarrow> region \<Rightarrow> nat" where
  "region_start L ms (Desc i) = mkring_desc_ptr L i"
| "region_start L ms AvailIdx = mkring_avail_idx_ptr L"
| "region_start L ms (AvailSlot i) = mkring_avail_ring_ptr L i"
| "region_start L ms UsedIdx = mkring_used_idx_ptr L"
| "region_start L ms (UsedElem i) = mkring_used_elem_ptr L i"
| "region_start L ms (DataSlot i) = mkring_data_ptr L ms i"

fun region_len :: "u32 \<Rightarrow> region \<Rightarrow> nat" where
  "region_len ms (Desc i) = 16"
| "region_len ms AvailIdx = 2"
| "region_len ms (AvailSlot i) = 2"
| "region_len ms UsedIdx = 2"
| "region_len ms (UsedElem i) = 8"
| "region_len ms (DataSlot i) = unat ms"

definition region_bytes :: "mkring_layout \<Rightarrow> u32 \<Rightarrow> region \<Rightarrow> nat set" where
  "region_bytes L ms r = {region_start L ms r ..< region_start L ms r + region_len ms r}"

fun region_rank :: "region \<Rightarrow> nat" where
  "region_rank (Desc i) = 0"
| "region_rank AvailIdx = 1"
| "region_rank (AvailSlot i) = 2"
| "region_rank UsedIdx = 3"
| "region_rank (UsedElem i) = 4"
| "region_rank (DataSlot i) = 5"

definition seg_lo :: "mkring_layout \<Rightarrow> nat \<Rightarrow> nat" where
  "seg_lo L k = [0, unat (avail_off L), unat (avail_ring_off L), unat (used_off L),
                 unat (used_ring_off L), unat (data_off L)] ! k"

definition seg_hi :: "mkring_layout \<Rightarrow> nat \<Rightarrow> nat \<Rightarrow> nat \<Rightarrow> nat" where
  "seg_hi L n p k = [unat (avail_off L), unat (avail_ring_off L), unat (used_off L),
                     unat (used_ring_off L), unat (data_off L), unat (data_off L) + n * p] ! k"

lemma stripe_le: "i < n \<Longrightarrow> w * i + w \<le> w * n" for i n w :: nat
  by (metis Suc_leI mult_Suc_right add.commute mult_le_mono2)

lemma stripes_disjoint:
  "i \<noteq> j \<Longrightarrow> {b + w * i ..< b + w * i + w} \<inter> {b + w * j ..< b + w * j + w} = {}" for b w i j :: nat
proof (induction i j rule: linorder_wlog)
  case (le i j)
  then have "w * i + w \<le> w * j" by (intro stripe_le) simp
  then show ?case by auto
next
  case (sym i j)
  then show ?case by (simp add: Int_commute)
qed

lemma word_stripes_disjoint:
  "i \<noteq> j \<Longrightarrow> {b + w * unat i ..< b + w * unat i + w} \<inter> {b + w * unat j ..< b + w * unat j + w} = {}"
  for i j :: u16
  by (rule stripes_disjoint) (simp add: word_unat_eq_iff)

lemma mkring_data_ptr_nat:
  assumes "layout_nat (unat ndesc) (unat ms) L" and "i < ndesc"
  shows "mkring_data_ptr L ms i = unat (data_off L) + unat ms * unat i"
proof -
  have "unat i < unat ndesc" using assms(2) by (simp add: word_less_nat_alt)
  then have "unat i * unat ms \<le> unat ndesc * unat ms" by simp
  with layout_fits [OF assms(1)] have "unat (data_off L) + unat i * unat ms < 2 ^ 32"
    by linarith
  then show ?thesis
    unfolding mkring_data_ptr_def by (simp add: wordnat mult.commute)
qed

lemma region_in_segment:
  assumes L: "layout_nat (unat ndesc) (unat ms) L" and r: "region_ok ndesc r"
  shows "seg_lo L (region_rank r) \<le> region_start L ms r"
    and "region_start L ms r + region_len ms r \<le> seg_hi L (unat ndesc) (unat ms) (region_rank r)"
proof -
  have s: "w * unat i + w \<le> w * unat ndesc" if "i < ndesc" for i w
    using that by (intro stripe_le) (simp add: word_less_nat_alt)
  show "seg_lo L (region_rank r) \<le> region_start L ms r"
    using L r by (cases r)
      (auto simp: layout_order [OF L] seg_lo_def mkring_desc_ptr_def mkring_avail_idx_ptr_def
        mkring_avail_ring_ptr_def mkring_used_idx_ptr_def mkring_used_elem_ptr_def
        mkring_data_ptr_nat [OF L])
  show "region_start L ms r + region_len ms r \<le> seg_hi L (unat ndesc) (unat ms) (region_rank r)"
  proof (cases r)
    case (DataSlot i)
    with r s [of i "unat ms"] show ?thesis
      by (simp add: mkring_data_ptr_nat [OF L] seg_hi_def mult.commute)
  next
    case (Desc i)
    with r s [of i 16] show ?thesis
      by (simp add: layout_order [OF L] seg_hi_def mkring_desc_ptr_def)
  next
    case (AvailSlot i)
    with r s [of i 2] layout_order [OF L] show ?thesis
      by (simp add: seg_hi_def mkring_avail_ring_ptr_def)
  next
    case (UsedElem i)
    with r s [of i 8] layout_order [OF L] show ?thesis
      by (simp add: seg_hi_def mkring_used_elem_ptr_def)
  qed (simp_all add: layout_order [OF L] seg_hi_def mkring_avail_idx_ptr_def
        mkring_used_idx_ptr_def)
qed

lemma segments_ordered:
  assumes "layout_nat n p L" and "j < k" and "k \<le> 5"
  shows "seg_hi L n p j \<le> seg_lo L k"
proof -
  have "j \<in> {0, 1, 2, 3, 4}" "k \<in> {1, 2, 3, 4, 5}" using assms by auto
  with assms(2) layout_order [OF assms(1)] show ?thesis
    by (elim insertE emptyE) (simp_all add: seg_lo_def seg_hi_def)
qed

lemma segment_in_queue:
  assumes "layout_nat n p L" and "k \<le> 5"
  shows "seg_hi L n p k \<le> unat (data_off L) + n * p"
proof -
  have "k \<in> {0, 1, 2, 3, 4, 5}" using assms by auto
  with layout_order [OF assms(1)] show ?thesis
    by (elim insertE emptyE) (simp_all add: seg_hi_def)
qed

lemma region_bytes_disjoint:
  assumes L: "layout_nat (unat ndesc) (unat ms) L"
    and r: "region_ok ndesc r" "region_ok ndesc r'" "r \<noteq> r'"
  shows "region_bytes L ms r \<inter> region_bytes L ms r' = {}"
proof (cases "region_rank r" "region_rank r'" rule: linorder_cases)
  case less
  moreover have "region_rank r' \<le> 5" by (cases r') simp_all
  ultimately have "seg_hi L (unat ndesc) (unat ms) (region_rank r) \<le> seg_lo L (region_rank r')"
    by (rule segments_ordered [OF L])
  with region_in_segment [OF L r(1)] region_in_segment [OF L r(2)] show ?thesis
    by (auto simp: region_bytes_def)
next
  case greater
  moreover have "region_rank r \<le> 5" by (cases r) simp_all
  ultimately have "seg_hi L (unat ndesc) (unat ms) (region_rank r') \<le> seg_lo L (region_rank r)"
    by (rule segments_ordered [OF L])
  with region_in_segment [OF L r(1)] region_in_segment [OF L r(2)] show ?thesis
    by (auto simp: region_bytes_def)
next
  case equal
  then show ?thesis
    using r by (cases r; cases r')
      (simp_all add: region_bytes_def mkring_desc_ptr_def mkring_avail_ring_ptr_def
        mkring_used_elem_ptr_def mkring_data_ptr_nat [OF L] word_stripes_disjoint
        del: add_2_eq_Suc' add_2_eq_Suc Int_atLeastLessThan)
qed

lemma region_bytes_in_queue:
  assumes L: "mkring_calc_layout ndesc ms = Inr L" and q: "queue_size L \<noteq> 0"
    and r: "region_ok ndesc r"
  shows "region_bytes L ms r \<subseteq> {0 ..< unat (queue_size L)}"
proof -
  have n: "layout_nat (unat ndesc) (unat ms) L" using calc_layout_nat [OF L] by blast
  let ?off = "unat (data_off L) + unat ndesc * unat ms"
  have "unat (queue_size L) = (?off + 4095) div 4096 * 4096"
    using queue_size_nat [OF L] q by (auto simp: Let_def unat_eq_zero split: if_splits)
  then have "?off \<le> unat (queue_size L)" by linarith
  moreover have "region_rank r \<le> 5" by (cases r) simp_all
  ultimately show ?thesis
    using region_in_segment(2) [OF n r] segment_in_queue [OF n, of "region_rank r"]
    by (auto simp: region_bytes_def)
qed

section \<open>Properties\<close>

text \<open>
  C24. Whenever \<^verbatim>\<open>mkring_calc_layout\<close> succeeds with a non-zero queue size, every object the
  pointer helpers address (descriptors, ring indices, ring slots, used elements, data slots)
  lies inside the queue, and two different objects never share a byte.
\<close>

theorem layout_regions_sound:
  assumes "mkring_calc_layout ndesc ms = Inr L" and "queue_size L \<noteq> 0"
    and "region_ok ndesc r" and "region_ok ndesc r'" and "r \<noteq> r'"
  shows "region_bytes L ms r \<subseteq> {0 ..< unat (queue_size L)} \<and>
         region_bytes L ms r \<inter> region_bytes L ms r' = {}"
proof
  show "region_bytes L ms r \<subseteq> {0 ..< unat (queue_size L)}"
    by (rule region_bytes_in_queue [OF assms(1-3)])
  show "region_bytes L ms r \<inter> region_bytes L ms r' = {}"
    using region_bytes_disjoint [OF _ assms(3-5)] calc_layout_nat [OF assms(1)] by blast
qed

definition layout_256_1024 :: mkring_layout where
  "layout_256_1024 = \<lparr>desc_off = 0, avail_off = 4096, avail_ring_off = 4100, avail_event_off = 4612,
     used_off = 4616, used_ring_off = 4620, used_event_off = 6668, data_off = 6720,
     queue_size = 270336\<rparr>"

lemma layout_default: "mkring_calc_layout 256 1024 = Inr layout_256_1024"
  by (simp add: mkring_calc_layout_def layout_256_1024_def check_mul_overflow_def
      check_add_overflow_def ALIGN_def Let_def)

theorem layout_regions_sound_witness:
  "region_bytes layout_256_1024 1024 (DataSlot 255) \<subseteq> {0 ..< 270336} \<and>
   region_bytes layout_256_1024 1024 (DataSlot 255) \<inter> region_bytes layout_256_1024 1024 (UsedElem 255) = {}"
  using layout_regions_sound [OF layout_default, of "DataSlot 255" "UsedElem 255"]
  by (simp add: layout_256_1024_def)

text \<open>
  \<^verbatim>\<open>mkring_calc_layout\<close> is total and decides exactly: it rejects a zero descriptor count or
  message size with \<^verbatim>\<open>-EINVAL\<close>, rejects with \<^verbatim>\<open>-EOVERFLOW\<close> exactly when the end of the data area
  does not fit 32 bits, and succeeds otherwise.
\<close>

theorem calc_layout_decides:
  "(mkring_calc_layout ndesc ms = Inl (- EINVAL) \<longleftrightarrow> ndesc = 0 \<or> ms = 0) \<and>
   (mkring_calc_layout ndesc ms = Inl (- EOVERFLOW) \<longleftrightarrow>
      ndesc \<noteq> 0 \<and> ms \<noteq> 0 \<and> 2 ^ 32 \<le> data_start (unat ndesc) + unat ndesc * unat ms) \<and>
   ((\<exists>L. mkring_calc_layout ndesc ms = Inr L) \<longleftrightarrow>
      ndesc \<noteq> 0 \<and> ms \<noteq> 0 \<and> data_start (unat ndesc) + unat ndesc * unat ms < 2 ^ 32)"
proof (cases "ndesc = 0 \<or> ms = 0")
  case True
  then show ?thesis by (auto simp: mkring_calc_layout_def)
next
  case False
  with calc_layout_cases [of ndesc ms] show ?thesis
    by (auto split: if_splits)
qed

text \<open>
  C35. The rounding of the queue size to pages is not covered by the overflow checks: an
  accepted layout has queue size 0 exactly when its data area ends in the last page below
  4 GiB, in which case all queues would coincide and the shared memory is sized for none.
\<close>

theorem queue_size_wraps_iff:
  assumes "mkring_calc_layout ndesc ms = Inr L"
  shows "queue_size L = 0 \<longleftrightarrow> 2 ^ 32 - 4096 < unat (data_off L) + unat ndesc * unat ms"
proof -
  have "ndesc \<noteq> 0" "ms \<noteq> 0" using assms by (auto simp: mkring_calc_layout_def)
  then have pos: "0 < unat ndesc * unat ms" by (simp add: unat_gt_0)
  define off where "off = unat (data_off L) + unat ndesc * unat ms"
  have "unat (queue_size L) = (if off + 4095 < 2 ^ 32 then (off + 4095) div 4096 * 4096 else 0)"
    using queue_size_nat [OF assms] by (simp add: Let_def off_def)
  moreover have "4096 \<le> off + 4095" using pos unfolding off_def by linarith
  then have "0 < (off + 4095) div 4096" by (simp add: div_greater_zero_iff)
  ultimately have "unat (queue_size L) = 0 \<longleftrightarrow> 2 ^ 32 - 4096 < off" by auto
  then show ?thesis by (simp add: off_def unat_eq_zero)
qed

theorem queue_size_wraps_iff_witness:
  "\<exists>L. mkring_calc_layout 1 0xFFFFFF00 = Inr L \<and> queue_size L = 0"
proof -
  have "\<exists>L. mkring_calc_layout 1 0xFFFFFF00 = Inr L \<and> data_off L = 64"
    by (simp add: mkring_calc_layout_def check_mul_overflow_def check_add_overflow_def
        ALIGN_def Let_def)
  then obtain L where L: "mkring_calc_layout 1 0xFFFFFF00 = Inr L" "data_off L = 64"
    by blast
  with queue_size_wraps_iff [OF L(1)] show ?thesis by simp
qed

end
