(* ===== verification/Fifo.thy ===== *)
theory Fifo
  imports Prelude
begin

text \<open>
  Circular buffers and the contract of a first-in first-out channel. \<open>ring_slice\<close> reads the
  occupied part of a circular array; its push and pop laws carry the proofs of every ring of
  the program. The locale \<open>fifo_chan\<close> states what a channel promises of its push and pop
  operations (return code 0 for success, an error code otherwise) and derives, once for all
  implementations, that any interleaving of pushes and pops delivers exactly the accepted
  messages, in order and without loss or duplication.
\<close>

section \<open>Slices of circular arrays\<close>

definition ring_slice :: "nat \<Rightarrow> nat \<Rightarrow> nat \<Rightarrow> 'a list \<Rightarrow> 'a list" where
  "ring_slice n b k xs = map (\<lambda>i. xs ! ((b + i) mod n)) [0..<k]"

lemma ring_slice_0 [simp]: "ring_slice n b 0 xs = []"
  by (simp add: ring_slice_def)

lemma length_ring_slice [simp]: "length (ring_slice n b k xs) = k"
  by (simp add: ring_slice_def)

lemma nth_ring_slice: "i < k \<Longrightarrow> ring_slice n b k xs ! i = xs ! ((b + i) mod n)"
  by (simp add: ring_slice_def)

lemma ring_slice_Suc: "ring_slice n b (Suc k) xs = ring_slice n b k xs @ [xs ! ((b + k) mod n)]"
  by (simp add: ring_slice_def)

lemma ring_slice_pop: "ring_slice n b (Suc k) xs = xs ! (b mod n) # ring_slice n (Suc b) k xs"
  by (simp add: ring_slice_def upt_conv_Cons map_Suc_upt [symmetric] del: upt_Suc)

lemma ring_slice_cong_base: "b mod n = c mod n \<Longrightarrow> ring_slice n b k xs = ring_slice n c k xs"
  unfolding ring_slice_def by (metis mod_add_left_eq)

lemma mod_add_inj: "(b + i) mod n = (b + j) mod n \<Longrightarrow> i < n \<Longrightarrow> j < n \<Longrightarrow> i = j" for n :: nat
proof (induction i j rule: linorder_wlog)
  case (le i j)
  then have "n dvd (b + j) - (b + i)" by (metis mod_eq_dvd_iff_nat add_le_cancel_left)
  then have "n dvd j - i" by simp
  moreover have "j - i < n" using le by simp
  ultimately have "j - i = 0" by (meson nat_dvd_not_less neq0_conv)
  then show ?case using le by simp
next
  case (sym i j)
  then show ?case by simp
qed

lemma ring_slice_update_outside:
  assumes "k \<le> j" "j < n"
  shows "ring_slice n b k (xs[(b + j) mod n := x]) = ring_slice n b k xs"
proof (rule nth_equalityI)
  fix i assume "i < length (ring_slice n b k (xs[(b + j) mod n := x]))"
  then have "i < k" by simp
  moreover have "(b + j) mod n \<noteq> (b + i) mod n"
    using mod_add_inj [of b j n i] assms \<open>i < k\<close> by auto
  ultimately show "ring_slice n b k (xs[(b + j) mod n := x]) ! i = ring_slice n b k xs ! i"
    by (simp add: nth_ring_slice)
qed simp

lemma ring_slice_push:
  assumes "k < n" "length xs = n"
  shows "ring_slice n b (Suc k) (xs[(b + k) mod n := x]) = ring_slice n b k xs @ [x]"
  using assms by (simp add: ring_slice_Suc ring_slice_update_outside)

lemma ring_slice_map: "ring_slice n b k (map f xs) = map f (ring_slice n b k xs)"
  if "0 < n" "length xs = n"
  using that by (simp add: ring_slice_def)

section \<open>The channel contract\<close>

datatype 'm chan_op = Push 'm | Pop

text \<open>Running a sequence of operations: the accepted messages, the delivered ones, the state.\<close>

fun chan_run :: "('m \<Rightarrow> 's \<Rightarrow> int \<times> 's) \<Rightarrow> ('s \<Rightarrow> 'w option \<times> 's) \<Rightarrow> ('m \<Rightarrow> 'w) \<Rightarrow>
    'm chan_op list \<Rightarrow> 's \<Rightarrow> 'w list \<times> 'w list \<times> 's" where
  "chan_run psh pp w [] s = ([], [], s)"
| "chan_run psh pp w (Push m # ops) s =
     (let (rc, s') = psh m s; (acc, del, t) = chan_run psh pp w ops s'
      in (if rc = 0 then w m # acc else acc, del, t))"
| "chan_run psh pp w (Pop # ops) s =
     (let (r, s') = pp s; (acc, del, t) = chan_run psh pp w ops s'
      in (acc, (case r of None \<Rightarrow> del | Some x \<Rightarrow> x # del), t))"

locale fifo_chan =
  fixes invar :: "'s \<Rightarrow> bool"
    and contents :: "'s \<Rightarrow> 'w list"
    and wire :: "'m \<Rightarrow> 'w"
    and push :: "'m \<Rightarrow> 's \<Rightarrow> int \<times> 's"
    and pop :: "'s \<Rightarrow> 'w option \<times> 's"
  assumes push_ok: "invar s \<Longrightarrow> push m s = (0, s') \<Longrightarrow> invar s' \<and> contents s' = contents s @ [wire m]"
    and push_err: "invar s \<Longrightarrow> push m s = (rc, s') \<Longrightarrow> rc \<noteq> 0 \<Longrightarrow> invar s' \<and> contents s' = contents s"
    and pop_spec: "invar s \<Longrightarrow> pop s = (r, s') \<Longrightarrow>
      invar s' \<and> (case r of None \<Rightarrow> contents s = [] \<and> contents s' = []
                         | Some w \<Rightarrow> contents s = w # contents s')"
begin

lemma push_cases:
  assumes "invar s"
  obtains s' where "push m s = (0, s')" "invar s'" "contents s' = contents s @ [wire m]"
  | rc s' where "push m s = (rc, s')" "rc \<noteq> 0" "invar s'" "contents s' = contents s"
  using push_ok [OF assms] push_err [OF assms] by (metis surj_pair)

lemma pop_cases:
  assumes "invar s"
  obtains s' where "pop s = (None, s')" "invar s'" "contents s = []" "contents s' = []"
  | w s' where "pop s = (Some w, s')" "invar s'" "contents s = w # contents s'"
proof -
  obtain r s' where p: "pop s = (r, s')" by fastforce
  with pop_spec [OF assms p] that show thesis by (cases r) auto
qed

lemma run_fifo:
  assumes "invar s" "chan_run push pop wire ops s = (acc, del, t)"
  shows "invar t \<and> contents s @ acc = del @ contents t"
  using assms
proof (induction ops arbitrary: s acc del t)
  case Nil
  then show ?case by simp
next
  case (Cons op ops)
  show ?case
  proof (cases op)
    case (Push m)
    show ?thesis
    proof (cases rule: push_cases [OF Cons.prems(1), of m])
      case (1 s')
      obtain acc' where "chan_run push pop wire ops s' = (acc', del, t)" "acc = wire m # acc'"
        using Cons.prems(2) 1 Push by (auto split: prod.splits)
      with Cons.IH [of s'] 1 show ?thesis by auto
    next
      case (2 rc s')
      then have "chan_run push pop wire ops s' = (acc, del, t)"
        using Cons.prems(2) Push by (auto split: prod.splits)
      with Cons.IH [of s'] 2 show ?thesis by auto
    qed
  next
    case Pop
    show ?thesis
    proof (cases rule: pop_cases [OF Cons.prems(1)])
      case (1 s')
      then have "chan_run push pop wire ops s' = (acc, del, t)"
        using Cons.prems(2) Pop by (auto split: prod.splits)
      with Cons.IH [of s'] 1 show ?thesis by auto
    next
      case (2 w s')
      obtain del' where "chan_run push pop wire ops s' = (acc, del', t)" "del = w # del'"
        using Cons.prems(2) 2 Pop by (auto split: prod.splits)
      with Cons.IH [of s'] 2 show ?thesis by auto
    qed
  qed
qed

end

end
