(* ===== verification/Ring.thy ===== *)
theory Ring
  imports Layout Fifo
begin

text \<open>
  One directional queue of \<^verbatim>\<open>mkring/mkring.c\<close>. \<open>mkring_vring\<close> is the part that lives in shared
  memory (descriptor table, avail ring, used ring, data slots; theory Layout shows that these
  are disjoint byte ranges), \<open>mkring_queue\<close> the local view each kernel keeps of it. The sender's
  operations are \<open>mkring_tx_reclaim_locked\<close> and \<open>mkring_tx_enqueue\<close>, the receiver's
  \<open>mkring_rx_enqueue_local\<close> and \<open>mkring_process_rx_queue\<close>, whose loop body is \<open>mkring_rx_step\<close>.
  Ring indices are free-running 16-bit counters and wrap as in the code.
\<close>

section \<open>State\<close>

record mkring_desc =
  desc_addr :: u64
  desc_len :: u32
  desc_flags :: u16
  desc_next :: u16

record mkring_used_elem =
  elem_id :: u32
  elem_len :: u32

record mkring_vring =
  descs :: "mkring_desc list"
  avail_idx :: u16
  avail_ring :: "u16 list"
  used_idx :: u16
  used_ring :: "mkring_used_elem list"
  slots :: "bytes list"

text \<open>
  \<open>inflight\<close> is \<open>None\<close> for the NULL bitmap of a receive queue. \<open>rx_cb\<close> stands for the pair of
  \<^verbatim>\<open>cb\<close> and \<^verbatim>\<open>cb_priv\<close>, named by an opaque number. The locks and the back pointer have no entry:
  each operation holds its lock for its whole critical section.
\<close>

record mkring_queue =
  remote_id :: u16
  qindex :: u32
  inflight :: "bool list option"
  free_cnt :: u16
  last_used_idx :: u16
  last_avail_idx :: u16
  rx_msgs :: "bytes list"
  rx_pending :: int
  rx_cb :: "nat option"

record rx_call =
  call_cb :: nat
  call_src :: u16
  call_data :: bytes

section \<open>Initial state\<close>

text \<open>
  \<open>mkring_init_one_queue\<close> clears the queue's memory and writes the descriptor table;
  \<open>queue_view\<close> is the part of \<^verbatim>\<open>mkring_queue_setup\<close> that initialises the fields of a local view
  from what the shared queue holds at that moment.
\<close>

definition mkring_init_one_queue :: "u16 \<Rightarrow> u32 \<Rightarrow> mkring_layout \<Rightarrow> u64 \<Rightarrow> mkring_vring" where
  "mkring_init_one_queue dn ms L qphys =
    \<lparr>descs = map (\<lambda>i. \<lparr>desc_addr = mkring_data_phys qphys L ms (of_nat i), desc_len = ms,
                       desc_flags = 0, desc_next = 0\<rparr>) [0..<unat dn],
     avail_idx = 0, avail_ring = replicate (unat dn) 0,
     used_idx = 0, used_ring = replicate (unat dn) \<lparr>elem_id = 0, elem_len = 0\<rparr>,
     slots = replicate (unat dn) (replicate (unat ms) 0)\<rparr>"

definition queue_view :: "u16 \<Rightarrow> u32 \<Rightarrow> u16 \<Rightarrow> mkring_vring \<Rightarrow> bool \<Rightarrow> mkring_queue" where
  "queue_view remote qidx dn v need_bitmap =
    \<lparr>remote_id = remote, qindex = qidx,
     inflight = (if need_bitmap then Some (replicate (unat dn) False) else None),
     free_cnt = dn, last_used_idx = used_idx v, last_avail_idx = avail_idx v,
     rx_msgs = [], rx_pending = 0, rx_cb = None\<rparr>"

section \<open>Sender\<close>

function tx_reclaim_loop ::
    "u16 \<Rightarrow> mkring_vring \<Rightarrow> bool list \<Rightarrow> u16 \<Rightarrow> u16 \<Rightarrow> bool list \<times> u16 \<times> u16" where
  "tx_reclaim_loop dn v fl fc lu =
    (if lu = used_idx v then (fl, fc, lu)
     else let slot = lu mod dn;
              i = elem_id (used_ring v ! unat slot)
          in if i < ucast dn \<and> fl ! unat i
             then tx_reclaim_loop dn v (fl[unat i := False]) (fc + 1) (lu + 1)
             else tx_reclaim_loop dn v fl fc (lu + 1))"
  by pat_completeness auto
termination
  by (relation "measure (\<lambda>(dn, v, fl, fc, lu). unat (used_idx v - lu))")
    (simp_all add: unat_dist_Suc)

definition mkring_tx_reclaim_locked :: "u16 \<Rightarrow> mkring_vring \<Rightarrow> mkring_queue \<Rightarrow> mkring_queue" where
  "mkring_tx_reclaim_locked dn v q =
    (case inflight q of
       None \<Rightarrow> q
     | Some fl \<Rightarrow>
         if used_idx v = last_used_idx q then q
         else let (fl', fc', lu') = tx_reclaim_loop dn v fl (free_cnt q) (last_used_idx q)
              in q\<lparr>inflight := Some fl', free_cnt := fc', last_used_idx := lu'\<rparr>)"

definition find_first_zero_bit :: "bool list \<Rightarrow> nat" where
  "find_first_zero_bit fl = length (takeWhile (\<lambda>b. b) fl)"

definition memcpy :: "bytes \<Rightarrow> bytes \<Rightarrow> nat \<Rightarrow> bytes" where
  "memcpy old src n = take n src @ drop n old"

text \<open>
  \<open>data\<close> is the caller's buffer, of which the first \<open>len\<close> bytes are sent. A queue without a
  bitmap is a receive queue and is never handed to this function.
\<close>

definition mkring_tx_enqueue ::
    "u16 \<Rightarrow> mkring_vring \<Rightarrow> mkring_queue \<Rightarrow> bytes \<Rightarrow> u32 \<Rightarrow> int \<times> mkring_vring \<times> mkring_queue" where
  "mkring_tx_enqueue dn v q0 data len =
    (let q = mkring_tx_reclaim_locked dn v q0 in
     if free_cnt q = 0 then (- EAGAIN, v, q)
     else case inflight q of
       None \<Rightarrow> (- EAGAIN, v, q)
     | Some fl \<Rightarrow>
       let i = find_first_zero_bit fl in
       if unat dn \<le> i then (- EAGAIN, v, q)
       else
         let q' = q\<lparr>inflight := Some (fl[i := True]), free_cnt := free_cnt q - 1\<rparr>;
             v1 = (if len \<noteq> 0
                   then v\<lparr>slots := (slots v)[i := memcpy (slots v ! i) data (unat len)]\<rparr>
                   else v);
             v2 = v1\<lparr>descs := (descs v1)[i := (descs v1 ! i)\<lparr>desc_len := len\<rparr>]\<rparr>;
             a = avail_idx v2;
             slot = a mod dn;
             v3 = v2\<lparr>avail_ring := (avail_ring v2)[unat slot := of_nat i]\<rparr>;
             v4 = v3\<lparr>avail_idx := a + 1\<rparr>
         in (0, v4, q'))"

section \<open>Receiver\<close>

text \<open>
  \<open>ok\<close> tells whether the atomic allocation succeeded; on failure the message is dropped. The
  callback, when one is registered, is called with the copied message: the model returns the
  call for the caller to carry out.
\<close>

definition mkring_rx_enqueue_local ::
    "bool \<Rightarrow> mkring_queue \<Rightarrow> bytes \<Rightarrow> mkring_queue \<times> rx_call list" where
  "mkring_rx_enqueue_local ok q data =
    (if \<not> ok then (q, [])
     else (q\<lparr>rx_msgs := rx_msgs q @ [data], rx_pending := rx_pending q + 1\<rparr>,
           case rx_cb q of
             None \<Rightarrow> []
           | Some c \<Rightarrow> [\<lparr>call_cb = c, call_src = remote_id q, call_data = data\<rparr>]))"

definition mkring_rx_step ::
    "bool \<Rightarrow> u16 \<Rightarrow> u32 \<Rightarrow> mkring_vring \<Rightarrow> mkring_queue \<Rightarrow>
     mkring_vring \<times> mkring_queue \<times> rx_call list" where
  "mkring_rx_step ok dn ms v q =
    (let slot = last_avail_idx q mod dn;
         i = avail_ring v ! unat slot;
         (len, q1, calls) =
           (if i < dn then
              let len0 = desc_len (descs v ! unat i);
                  len = (if ms < len0 then ms else len0);
                  (q1, calls) = mkring_rx_enqueue_local ok q (take (unat len) (slots v ! unat i))
              in (len, q1, calls)
            else (0, q, []));
         u = used_idx v;
         used_slot = u mod dn;
         v1 = v\<lparr>used_ring := (used_ring v)[unat used_slot := \<lparr>elem_id = ucast i, elem_len = len\<rparr>]\<rparr>;
         v2 = v1\<lparr>used_idx := u + 1\<rparr>
     in (v2, q1\<lparr>last_avail_idx := last_avail_idx q1 + 1\<rparr>, calls))"

lemma rx_step_avail:
  "mkring_rx_step ok dn ms v q = (v', q', calls) \<Longrightarrow>
   avail_idx v' = avail_idx v \<and> last_avail_idx q' = last_avail_idx q + 1"
  by (auto simp: mkring_rx_step_def mkring_rx_enqueue_local_def Let_def split: if_splits prod.splits)

text \<open>
  The loop of \<^verbatim>\<open>mkring_process_rx_queue\<close>, with the number of entries processed so far; \<open>oks k\<close> is
  the outcome of the allocation for the \<open>k\<close>-th entry.
\<close>

function process_rx_loop ::
    "(nat \<Rightarrow> bool) \<Rightarrow> u16 \<Rightarrow> u32 \<Rightarrow> mkring_vring \<Rightarrow> mkring_queue \<Rightarrow> nat \<Rightarrow>
     mkring_vring \<times> mkring_queue \<times> rx_call list \<times> nat" where
  "process_rx_loop oks dn ms v q processed =
    (if last_avail_idx q = avail_idx v then (v, q, [], processed)
     else case mkring_rx_step (oks processed) dn ms v q of
       (v1, q1, calls) \<Rightarrow>
         (case process_rx_loop oks dn ms v1 q1 (Suc processed) of
            (v2, q2, calls', p) \<Rightarrow> (v2, q2, calls @ calls', p)))"
  by pat_completeness auto
termination
  by (relation "measure (\<lambda>(oks, dn, ms, v, q, p). unat (avail_idx v - last_avail_idx q))")
    (auto simp: unat_dist_Suc dest!: rx_step_avail [OF sym])

definition mkring_process_rx_queue ::
    "(nat \<Rightarrow> bool) \<Rightarrow> u16 \<Rightarrow> u32 \<Rightarrow> mkring_vring \<Rightarrow> mkring_queue \<Rightarrow>
     mkring_vring \<times> mkring_queue \<times> rx_call list \<times> nat" where
  "mkring_process_rx_queue oks dn ms v q = process_rx_loop oks dn ms v q 0"

declare tx_reclaim_loop.simps [simp del] process_rx_loop.simps [simp del]

section \<open>The ring invariant\<close>

text \<open>
  A descriptor is owned by the sender's free pool, pending in the avail ring, or finished in the
  used ring and not yet reclaimed. The invariant says that these are exactly the cases: the
  pending and the finished identifiers are pairwise different and are exactly the bits set in
  the sender's bitmap, and the free count is the number of the others. It needs the number of
  descriptors to divide 65536, since a slot is computed from a wrapping 16-bit index.
\<close>

definition wf_vring :: "u16 \<Rightarrow> u32 \<Rightarrow> mkring_vring \<Rightarrow> bool" where
  "wf_vring dn ms v \<longleftrightarrow> length (descs v) = unat dn \<and> length (avail_ring v) = unat dn \<and>
     length (used_ring v) = unat dn \<and> length (slots v) = unat dn \<and>
     (\<forall>s\<in>set (slots v). length s = unat ms)"

definition pend_from :: "u16 \<Rightarrow> mkring_vring \<Rightarrow> u16 \<Rightarrow> nat list" where
  "pend_from dn v la = map unat (ring_slice (unat dn) (unat la) (unat (avail_idx v - la)) (avail_ring v))"

definition done_from :: "u16 \<Rightarrow> mkring_vring \<Rightarrow> u16 \<Rightarrow> nat list" where
  "done_from dn v lu = map (\<lambda>e. unat (elem_id e))
     (ring_slice (unat dn) (unat lu) (unat (used_idx v - lu)) (used_ring v))"

abbreviation pend_ids :: "u16 \<Rightarrow> mkring_vring \<Rightarrow> mkring_queue \<Rightarrow> nat list" where
  "pend_ids dn v rx \<equiv> pend_from dn v (last_avail_idx rx)"

abbreviation done_ids :: "u16 \<Rightarrow> mkring_vring \<Rightarrow> mkring_queue \<Rightarrow> nat list" where
  "done_ids dn v tx \<equiv> done_from dn v (last_used_idx tx)"

definition bits_of :: "bool list \<Rightarrow> nat set" where
  "bits_of fl = {i. i < length fl \<and> fl ! i}"

definition ring_inv :: "u16 \<Rightarrow> u32 \<Rightarrow> mkring_vring \<Rightarrow> mkring_queue \<Rightarrow> mkring_queue \<Rightarrow> bool" where
  "ring_inv dn ms v tx rx \<longleftrightarrow>
     dn \<noteq> 0 \<and> unat dn dvd 65536 \<and> wf_vring dn ms v \<and>
     (\<exists>fl. inflight tx = Some fl \<and> length fl = unat dn \<and>
        set (pend_ids dn v rx @ done_ids dn v tx) = bits_of fl) \<and>
     distinct (pend_ids dn v rx @ done_ids dn v tx) \<and>
     unat (free_cnt tx) + length (pend_ids dn v rx) + length (done_ids dn v tx) = unat dn \<and>
     (\<forall>i\<in>set (pend_ids dn v rx). desc_len (descs v ! i) \<le> ms)"

definition slot_msg :: "mkring_vring \<Rightarrow> nat \<Rightarrow> bytes" where
  "slot_msg v i = take (unat (desc_len (descs v ! i))) (slots v ! i)"

text \<open>The messages in flight, oldest first: what the queue abstractly holds.\<close>

definition ring_contents :: "u16 \<Rightarrow> mkring_vring \<Rightarrow> mkring_queue \<Rightarrow> bytes list" where
  "ring_contents dn v rx = map (slot_msg v) (pend_ids dn v rx)"

section \<open>Index arithmetic\<close>

lemma unat_Suc_mod:
  assumes "n dvd 65536"
  shows "unat (x + 1 :: u16) mod n = Suc (unat x) mod n"
proof -
  have "unat (x + 1) = Suc (unat x) mod 65536" by (simp add: unat_word_ariths)
  then show ?thesis using mod_mod_cancel [OF assms] by simp
qed

lemma unat_add_dist_mod:
  assumes "n dvd 65536"
  shows "unat (a :: u16) mod n = (unat l + unat (a - l)) mod n"
proof -
  have "unat (l + (a - l)) = (unat l + unat (a - l)) mod 65536"
    by (simp only: unat_word_ariths) simp
  then have "unat a = (unat l + unat (a - l)) mod 65536" by simp
  then show ?thesis using mod_mod_cancel [OF assms] by simp
qed

lemma ring_slice_wrap:
  "n dvd 65536 \<Longrightarrow> ring_slice n (unat (x + 1 :: u16)) k xs = ring_slice n (Suc (unat x)) k xs"
  by (rule ring_slice_cong_base) (rule unat_Suc_mod)

lemma unat_mod_u16: "unat (x mod y :: u16) = unat x mod unat y"
  by (simp add: unat_mod_distrib)

lemma pend_from_empty_iff: "pend_from dn v la = [] \<longleftrightarrow> la = avail_idx v"
  by (auto simp: pend_from_def ring_slice_def unat_eq_zero)

lemma done_from_self [simp]: "done_from dn v (used_idx v) = []"
  by (simp add: done_from_def)

lemma done_from_Cons:
  assumes "unat dn dvd 65536" "lu \<noteq> used_idx v"
  shows "done_from dn v lu = unat (elem_id (used_ring v ! unat (lu mod dn))) # done_from dn v (lu + 1)"
  using assms unfolding done_from_def unat_dist_Suc [OF assms(2)]
  by (simp add: ring_slice_pop unat_mod_u16 ring_slice_wrap)

lemma pend_from_Cons:
  assumes "unat dn dvd 65536" "la \<noteq> avail_idx v"
  shows "pend_from dn v la = unat (avail_ring v ! unat (la mod dn)) # pend_from dn v (la + 1)"
  using assms unfolding pend_from_def unat_dist_Suc [OF assms(2)]
  by (simp add: ring_slice_pop unat_mod_u16 ring_slice_wrap)

section \<open>Reclaiming finished descriptors\<close>

lemma bits_of_clear: "bits_of (fl[i := False]) = bits_of fl - {i}"
  by (cases "i < length fl") (auto simp: bits_of_def nth_list_update split: if_splits)

lemma bits_of_set: "i < length fl \<Longrightarrow> bits_of (fl[i := True]) = insert i (bits_of fl)"
  by (auto simp: bits_of_def nth_list_update split: if_splits)

lemma reclaim_loop_spec:
  assumes "unat dn dvd 65536" "length fl = unat dn" "distinct (done_from dn v lu)"
    "set (done_from dn v lu) \<subseteq> bits_of fl" "unat fc + length (done_from dn v lu) < 65536"
  shows "\<exists>fl' fc'. tx_reclaim_loop dn v fl fc lu = (fl', fc', used_idx v) \<and> length fl' = unat dn \<and>
     bits_of fl' = bits_of fl - set (done_from dn v lu) \<and>
     unat fc' = unat fc + length (done_from dn v lu)"
  using assms
proof (induction dn v fl fc lu rule: tx_reclaim_loop.induct)
  case (1 dn v fl fc lu)
  show ?case
  proof (cases "lu = used_idx v")
    case True
    with "1.prems" show ?thesis by (simp add: tx_reclaim_loop.simps)
  next
    case False
    let ?i = "elem_id (used_ring v ! unat (lu mod dn))"
    note Cons = done_from_Cons [OF "1.prems"(1) False]
    have i: "unat ?i \<in> bits_of fl" using "1.prems"(4) by (simp add: Cons)
    then have test: "?i < ucast dn \<and> fl ! unat ?i"
      using "1.prems"(2) by (simp add: bits_of_def word_less_nat_alt wordnat)
    have fc: "unat (fc + 1) = Suc (unat fc)"
      using "1.prems"(5) by (simp add: Cons unat_add_small)
    have "\<exists>fl' fc'. tx_reclaim_loop dn v (fl[unat ?i := False]) (fc + 1) (lu + 1) = (fl', fc', used_idx v) \<and>
       length fl' = unat dn \<and> bits_of fl' = bits_of (fl[unat ?i := False]) - set (done_from dn v (lu + 1)) \<and>
       unat fc' = unat (fc + 1) + length (done_from dn v (lu + 1))"
      using "1.prems" by (intro "1.IH"(1) [OF False refl refl test])
        (auto simp: Cons bits_of_clear fc)
    then show ?thesis
      using False test by (auto simp: tx_reclaim_loop.simps [of dn v fl fc lu] Let_def Cons bits_of_clear fc)
  qed
qed

text \<open>After a reclaim the used ring holds nothing for the sender and its bitmap is the pending set.\<close>

lemma reclaim_inv:
  assumes "ring_inv dn ms v tx rx"
  defines "tx' \<equiv> mkring_tx_reclaim_locked dn v tx"
  shows "ring_inv dn ms v tx' rx \<and> last_used_idx tx' = used_idx v"
proof -
  obtain fl where fl: "inflight tx = Some fl" "length fl = unat dn"
      "set (pend_ids dn v rx @ done_ids dn v tx) = bits_of fl"
    and dist: "distinct (pend_ids dn v rx @ done_ids dn v tx)"
    and cnt: "unat (free_cnt tx) + length (pend_ids dn v rx) + length (done_ids dn v tx) = unat dn"
    and dvd: "unat dn dvd 65536"
    using assms(1) by (auto simp: ring_inv_def)
  have "unat (free_cnt tx) + length (done_ids dn v tx) < 65536"
    using cnt unat_u16_less [of dn] by linarith
  with reclaim_loop_spec [OF dvd fl(2), of v "last_used_idx tx" "free_cnt tx"] fl dist
  obtain fl' fc' where loop:
      "tx_reclaim_loop dn v fl (free_cnt tx) (last_used_idx tx) = (fl', fc', used_idx v)"
    and fl': "length fl' = unat dn" "bits_of fl' = bits_of fl - set (done_ids dn v tx)"
    and fc': "unat fc' = unat (free_cnt tx) + length (done_ids dn v tx)"
    by auto
  show ?thesis
  proof (cases "used_idx v = last_used_idx tx")
    case True
    then show ?thesis using assms(1) by (simp add: tx'_def mkring_tx_reclaim_locked_def fl(1))
  next
    case False
    then have tx': "tx' = tx\<lparr>inflight := Some fl', free_cnt := fc', last_used_idx := used_idx v\<rparr>"
      by (simp add: tx'_def mkring_tx_reclaim_locked_def fl(1) loop)
    have "bits_of fl' = set (pend_ids dn v rx)"
      using fl(3) fl'(2) dist by auto
    then show ?thesis
      using assms(1) fl'(1) fc' cnt dist by (auto simp: tx' ring_inv_def)
  qed
qed

section \<open>Sending\<close>

lemma find_first_zero_bit_spec:
  assumes "card (bits_of fl) < length fl"
  shows "find_first_zero_bit fl < length fl \<and> find_first_zero_bit fl \<notin> bits_of fl"
proof -
  have "find_first_zero_bit fl \<noteq> length fl"
  proof
    assume "find_first_zero_bit fl = length fl"
    then have "takeWhile (\<lambda>b. b) fl = fl"
      unfolding find_first_zero_bit_def by (metis takeWhile_eq_take take_all order_refl)
    then have "\<forall>b\<in>set fl. b" by (simp add: takeWhile_eq_all_conv)
    then have "bits_of fl = {..<length fl}" by (auto simp: bits_of_def)
    with assms show False by simp
  qed
  moreover have "find_first_zero_bit fl \<le> length fl"
    by (simp add: find_first_zero_bit_def length_takeWhile_le)
  ultimately have lt: "find_first_zero_bit fl < length fl" by simp
  then have "\<not> fl ! find_first_zero_bit fl"
    unfolding find_first_zero_bit_def by (rule nth_length_takeWhile)
  with lt show ?thesis by (simp add: bits_of_def)
qed

lemma pend_from_push:
  assumes "unat dn dvd 65536" "length (avail_ring v) = unat dn"
    "length (pend_from dn v la) < unat dn" "unat dn < 65536" "i < unat dn"
  shows "pend_from dn (v\<lparr>avail_ring := (avail_ring v)[unat (avail_idx v mod dn) := of_nat i],
      avail_idx := avail_idx v + 1\<rparr>) la = pend_from dn v la @ [i]"
proof -
  let ?k = "unat (avail_idx v - la)" and ?n = "unat dn"
  have k: "?k < ?n" using assms(3) by (simp add: pend_from_def)
  have "avail_idx v + 1 - la = (avail_idx v - la) + 1" by simp
  then have k': "unat (avail_idx v + 1 - la) = Suc ?k"
    using k assms(4) by (simp only: unat_word_ariths) simp
  have slot: "unat (avail_idx v mod dn) = (unat la + ?k) mod ?n"
    using unat_add_dist_mod [OF assms(1)] by (simp add: unat_mod_u16)
  have "unat (of_nat i :: u16) = i"
    using assms(4,5) by (simp add: unat_of_nat)
  then show ?thesis
    using ring_slice_push [OF k assms(2), of "unat la" "of_nat i"]
    by (simp add: pend_from_def k' slot)
qed

text \<open>
  The outcome of \<^verbatim>\<open>mkring_tx_enqueue\<close>: either every descriptor holds a message the receiver has
  not consumed, and the queue is unchanged, or the message is appended.
\<close>

lemma tx_enqueue_spec:
  assumes inv: "ring_inv dn ms v tx rx" and len: "len \<le> ms" "unat len \<le> length data"
    and enq: "mkring_tx_enqueue dn v tx data len = (rc, v', tx')"
  shows "ring_inv dn ms v' tx' rx \<and>
    (if length (ring_contents dn v rx) = unat dn
     then rc = - EAGAIN \<and> v' = v
     else rc = 0 \<and> ring_contents dn v' rx = ring_contents dn v rx @ [take (unat len) data])"
proof -
  define q where "q = mkring_tx_reclaim_locked dn v tx"
  have q: "ring_inv dn ms v q rx" "last_used_idx q = used_idx v"
    using reclaim_inv [OF inv] by (simp_all add: q_def)
  let ?n = "unat dn" and ?P = "pend_ids dn v rx"
  obtain fl where fl: "inflight q = Some fl" "length fl = ?n" "set ?P = bits_of fl"
    and dist: "distinct ?P" and cnt: "unat (free_cnt q) + length ?P = ?n"
    and dvd: "?n dvd 65536" and wf: "wf_vring dn ms v" and dn: "dn \<noteq> 0"
    and lens: "\<forall>i\<in>set ?P. desc_len (descs v ! i) \<le> ms"
    using q by (auto simp: ring_inv_def)
  show ?thesis
  proof (cases "free_cnt q = 0")
    case True
    then have "rc = - EAGAIN" "v' = v" "tx' = q"
      using enq by (simp_all add: mkring_tx_enqueue_def Let_def flip: q_def)
    moreover have "length ?P = ?n" using cnt True by simp
    ultimately show ?thesis using q(1) by (simp add: ring_contents_def)
  next
    case False
    define i where "i = find_first_zero_bit fl"
    have free: "length ?P < ?n" using cnt False by (simp add: unat_gt_0 [symmetric])
    then have "card (bits_of fl) < length fl"
      using dist fl(2,3) by (metis distinct_card)
    then have i: "i < ?n" "i \<notin> bits_of fl"
      using find_first_zero_bit_spec [of fl] fl(2) by (simp_all add: i_def)
    define w where "w = v\<lparr>slots := (slots v)[i := memcpy (slots v ! i) data (unat len)],
       descs := (descs v)[i := (descs v ! i)\<lparr>desc_len := len\<rparr>]\<rparr>"
    have "memcpy (slots v ! i) data 0 = slots v ! i" by (simp add: memcpy_def)
    then have v': "v' = w\<lparr>avail_ring := (avail_ring w)[unat (avail_idx w mod dn) := of_nat i],
         avail_idx := avail_idx w + 1\<rparr>"
      and tx': "tx' = q\<lparr>inflight := Some (fl[i := True]), free_cnt := free_cnt q - 1\<rparr>"
      and rc: "rc = 0"
      using enq False fl(1) i(1)
      by (auto simp: mkring_tx_enqueue_def Let_def i_def w_def simp flip: q_def split: if_splits)
    have P': "pend_ids dn v' rx = ?P @ [i]"
      unfolding v' using free wf i(1) unat_u16_less [of dn]
      by (subst pend_from_push [OF dvd]) (simp_all add: w_def wf_vring_def pend_from_def)
    have D': "done_from dn v' (used_idx v) = []"
      by (simp add: v' w_def done_from_def)
    have slot: "length (slots v ! i) = unat ms"
      using wf i(1) by (simp add: wf_vring_def)
    then have wf': "wf_vring dn ms v'"
      using wf i(1) len by (auto simp: v' w_def wf_vring_def memcpy_def word_le_nat_alt
          dest!: set_update_subset_insert [THEN subsetD])
    have "unat (free_cnt q - 1) = unat (free_cnt q) - 1"
      using False by (rule unat_minus_one)
    then have cnt': "unat (free_cnt q - 1) + Suc (length ?P) = ?n"
      using cnt False by (simp add: unat_gt_0 [symmetric])
    have other: "descs v' ! j = descs v ! j" "slots v' ! j = slots v ! j" if "j \<noteq> i" for j
      using that by (simp_all add: v' w_def)
    have new: "desc_len (descs v' ! i) = len" "slot_msg v' i = take (unat len) data"
      using i(1) wf len slot
      by (simp_all add: v' w_def wf_vring_def slot_msg_def memcpy_def word_le_nat_alt)
    have lens': "desc_len (descs v' ! j) \<le> ms" if "j \<in> set (?P @ [i])" for j
      using that lens other(1) new(1) len(1) by (cases "j = i") auto
    have "ring_inv dn ms v' tx' rx"
      unfolding ring_inv_def tx' using dn dvd wf' fl i P' D' q(2) dist cnt' lens'
      by (auto simp: bits_of_set)
    moreover have "map (slot_msg v') ?P = map (slot_msg v) ?P"
      using fl(3) i(2) by (intro map_cong refl) (metis slot_msg_def other)
    ultimately show ?thesis
      using free rc P' new(2) by (simp add: ring_contents_def)
  qed
qed

section \<open>Receiving\<close>

lemma done_from_push:
  assumes "unat dn dvd 65536" "length (used_ring v) = unat dn"
    "length (done_from dn v lu) < unat dn" "unat dn < 65536"
  shows "done_from dn (v\<lparr>used_ring := (used_ring v)[unat (used_idx v mod dn) := e],
      used_idx := used_idx v + 1\<rparr>) lu = done_from dn v lu @ [unat (elem_id e)]"
proof -
  let ?k = "unat (used_idx v - lu)" and ?n = "unat dn"
  have k: "?k < ?n" using assms(3) by (simp add: done_from_def)
  have "used_idx v + 1 - lu = (used_idx v - lu) + 1" by simp
  then have k': "unat (used_idx v + 1 - lu) = Suc ?k"
    using k assms(4) by (simp only: unat_word_ariths) simp
  have slot: "unat (used_idx v mod dn) = (unat lu + ?k) mod ?n"
    using unat_add_dist_mod [OF assms(1)] by (simp add: unat_mod_u16)
  show ?thesis
    using ring_slice_push [OF k assms(2), of "unat lu" e]
    by (simp add: done_from_def k' slot)
qed

text \<open>What receiving message \<open>m\<close> does to the local queue, apart from the index.\<close>

definition rx_delivered :: "bool \<Rightarrow> bytes \<Rightarrow> mkring_queue \<Rightarrow> mkring_queue" where
  "rx_delivered ok m q = fst (mkring_rx_enqueue_local ok q m)"

lemma rx_delivered_index [simp]:
  "last_avail_idx (rx_delivered ok m q) = last_avail_idx q"
  by (simp add: rx_delivered_def mkring_rx_enqueue_local_def)

lemma rx_step_valid:
  assumes "i = avail_ring v ! unat (last_avail_idx q mod dn)" "i < dn"
    "\<not> ms < desc_len (descs v ! unat i)"
  shows "mkring_rx_step ok dn ms v q =
    (v\<lparr>used_ring := (used_ring v)[unat (used_idx v mod dn) :=
         \<lparr>elem_id = ucast i, elem_len = desc_len (descs v ! unat i)\<rparr>], used_idx := used_idx v + 1\<rparr>,
     rx_delivered ok (slot_msg v (unat i)) q\<lparr>last_avail_idx := last_avail_idx q + 1\<rparr>,
     snd (mkring_rx_enqueue_local ok q (slot_msg v (unat i))))"
  using assms(2,3) unfolding mkring_rx_step_def Let_def assms(1) [symmetric]
  by (simp add: split_def slot_msg_def rx_delivered_def mkring_rx_enqueue_local_def)

lemma rx_step_spec:
  assumes inv: "ring_inv dn ms v tx rx" and ne: "last_avail_idx rx \<noteq> avail_idx v"
    and step: "mkring_rx_step ok dn ms v rx = (v', rx', calls)"
  shows "ring_inv dn ms v' tx rx' \<and>
    (\<exists>m. ring_contents dn v rx = m # ring_contents dn v' rx' \<and>
      (rx'\<lparr>last_avail_idx := 0\<rparr>, calls) =
        (rx_delivered ok m rx\<lparr>last_avail_idx := 0\<rparr>, snd (mkring_rx_enqueue_local ok rx m)))"
proof -
  let ?n = "unat dn" and ?P = "pend_ids dn v rx" and ?D = "done_ids dn v tx"
  define i where "i = avail_ring v ! unat (last_avail_idx rx mod dn)"
  define P' where "P' = pend_from dn v (last_avail_idx rx + 1)"
  obtain fl where fl: "inflight tx = Some fl" "length fl = ?n" "set (?P @ ?D) = bits_of fl"
    and dist: "distinct (?P @ ?D)" and cnt: "unat (free_cnt tx) + length ?P + length ?D = ?n"
    and dvd: "?n dvd 65536" and wf: "wf_vring dn ms v" and dn: "dn \<noteq> 0"
    and lens: "\<forall>i\<in>set ?P. desc_len (descs v ! i) \<le> ms"
    using inv by (auto simp: ring_inv_def)
  have P: "?P = unat i # P'" using pend_from_Cons [OF dvd ne] by (simp add: i_def P'_def)
  then have "unat i \<in> bits_of fl" using fl(3) by auto
  then have id: "i < dn" using fl(2) by (simp add: bits_of_def word_less_nat_alt)
  have clamp: "\<not> ms < desc_len (descs v ! unat i)" using lens P by (auto simp: not_less)
  define e where "e = \<lparr>elem_id = ucast i, elem_len = desc_len (descs v ! unat i)\<rparr>"
  have v': "v' = v\<lparr>used_ring := (used_ring v)[unat (used_idx v mod dn) := e], used_idx := used_idx v + 1\<rparr>"
    and rx': "rx' = rx_delivered ok (slot_msg v (unat i)) rx\<lparr>last_avail_idx := last_avail_idx rx + 1\<rparr>"
    and calls: "calls = snd (mkring_rx_enqueue_local ok rx (slot_msg v (unat i)))"
    using step rx_step_valid [OF i_def id clamp, of ok] by (simp_all add: e_def)
  have D': "done_ids dn v' tx = ?D @ [unat i]"
    unfolding v' using cnt P wf unat_u16_less [of dn]
    by (subst done_from_push [OF dvd]) (simp_all add: wf_vring_def e_def wordnat)
  have la: "last_avail_idx rx' = last_avail_idx rx + 1" by (simp add: rx')
  have P'': "pend_ids dn v' rx' = P'"
    by (simp add: la v' P'_def pend_from_def)
  have "wf_vring dn ms v'" using wf by (simp add: wf_vring_def v')
  moreover have "descs v' = descs v" "slots v' = slots v" by (simp_all add: v')
  ultimately have "ring_inv dn ms v' tx rx'"
    unfolding ring_inv_def P'' D' using dn dvd fl dist cnt lens P by auto
  moreover have "ring_contents dn v rx = slot_msg v (unat i) # ring_contents dn v' rx'"
    using \<open>descs v' = descs v\<close> \<open>slots v' = slots v\<close>
    by (simp add: ring_contents_def P P'' slot_msg_def)
  ultimately show ?thesis
    using rx' calls by auto
qed

text \<open>The messages for which the allocation succeeded.\<close>

fun kept :: "(nat \<Rightarrow> bool) \<Rightarrow> nat \<Rightarrow> 'a list \<Rightarrow> 'a list" where
  "kept oks p [] = []"
| "kept oks p (m # ms) = (if oks p then m # kept oks (Suc p) ms else kept oks (Suc p) ms)"

lemma kept_all [simp]: "kept (\<lambda>_. True) p ms = ms"
  by (induction ms arbitrary: p) auto

definition rx_calls :: "mkring_queue \<Rightarrow> bytes list \<Rightarrow> rx_call list" where
  "rx_calls q ms = (case rx_cb q of None \<Rightarrow> []
     | Some c \<Rightarrow> map (\<lambda>m. \<lparr>call_cb = c, call_src = remote_id q, call_data = m\<rparr>) ms)"

lemma rx_delivered_fields:
  assumes "rx'\<lparr>last_avail_idx := 0\<rparr> = rx_delivered ok m rx\<lparr>last_avail_idx := 0\<rparr>"
  shows "rx_msgs rx' = rx_msgs rx @ (if ok then [m] else [])"
    "rx_pending rx' = rx_pending rx + (if ok then 1 else 0)"
    "rx_cb rx' = rx_cb rx" "remote_id rx' = remote_id rx"
  using assms by (cases rx; cases rx'; auto simp: rx_delivered_def mkring_rx_enqueue_local_def
      split: if_splits)+

lemma process_rx_loop_spec:
  assumes "ring_inv dn ms v tx rx" "process_rx_loop oks dn ms v rx p = (v', rx', calls, p')"
  shows "ring_inv dn ms v' tx rx' \<and> ring_contents dn v' rx' = [] \<and>
    p' = p + length (ring_contents dn v rx) \<and>
    rx_msgs rx' = rx_msgs rx @ kept oks p (ring_contents dn v rx) \<and>
    rx_pending rx' = rx_pending rx + int (length (kept oks p (ring_contents dn v rx))) \<and>
    calls = rx_calls rx (kept oks p (ring_contents dn v rx)) \<and>
    rx_cb rx' = rx_cb rx \<and> remote_id rx' = remote_id rx"
  using assms
proof (induction oks dn ms v rx p arbitrary: calls rule: process_rx_loop.induct)
  case (1 oks dn ms v rx p)
  show ?case
  proof (cases "last_avail_idx rx = avail_idx v")
    case True
    then have "ring_contents dn v rx = []"
      by (simp add: ring_contents_def pend_from_empty_iff)
    with "1.prems" True show ?thesis
      by (auto simp: process_rx_loop.simps [of oks dn ms v rx] rx_calls_def split: option.splits)
  next
    case False
    obtain v1 rx1 c1 where step: "mkring_rx_step (oks p) dn ms v rx = (v1, rx1, c1)"
      by (metis prod_cases3)
    obtain m where inv1: "ring_inv dn ms v1 tx rx1"
      and cont: "ring_contents dn v rx = m # ring_contents dn v1 rx1"
      and del: "rx1\<lparr>last_avail_idx := 0\<rparr> = rx_delivered (oks p) m rx\<lparr>last_avail_idx := 0\<rparr>"
      and c1: "c1 = snd (mkring_rx_enqueue_local (oks p) rx m)"
      using rx_step_spec [OF "1.prems"(1) False step] by auto
    obtain c2 where rest: "process_rx_loop oks dn ms v1 rx1 (Suc p) = (v', rx', c2, p')"
      and calls: "calls = c1 @ c2"
      using "1.prems"(2) False step
      by (auto simp: process_rx_loop.simps [of oks dn ms v rx] split: prod.splits)
    note IH = "1.IH" [OF False step [symmetric] refl inv1 rest]
    show ?thesis
      using IH calls c1 rx_delivered_fields [OF del]
      by (auto simp: cont rx_calls_def mkring_rx_enqueue_local_def split: option.splits)
  qed
qed

lemmas process_rx_queue_spec =
  process_rx_loop_spec [where p = 0, folded mkring_process_rx_queue_def, simplified]

section \<open>The ring as a channel\<close>

type_synonym ring_chan = "mkring_vring \<times> mkring_queue \<times> mkring_queue"

text \<open>
  Pushing is the size check of \<^verbatim>\<open>mkring_send\<close> followed by the enqueue; popping is one iteration of
  the receive loop, which yields the message it appends to the local list.
\<close>

definition ring_push :: "u16 \<Rightarrow> u32 \<Rightarrow> bytes \<Rightarrow> ring_chan \<Rightarrow> int \<times> ring_chan" where
  "ring_push dn ms m = (\<lambda>(v, tx, rx).
     if unat ms < length m then (- EMSGSIZE, (v, tx, rx))
     else case mkring_tx_enqueue dn v tx m (of_nat (length m)) of
            (rc, v', tx') \<Rightarrow> (rc, (v', tx', rx)))"

definition ring_pop :: "u16 \<Rightarrow> u32 \<Rightarrow> ring_chan \<Rightarrow> bytes option \<times> ring_chan" where
  "ring_pop dn ms = (\<lambda>(v, tx, rx).
     if last_avail_idx rx = avail_idx v then (None, (v, tx, rx))
     else case mkring_rx_step True dn ms v rx of
            (v', rx', calls) \<Rightarrow> (Some (last (rx_msgs rx')), (v', tx, rx')))"

definition chan_inv :: "u16 \<Rightarrow> u32 \<Rightarrow> ring_chan \<Rightarrow> bool" where
  "chan_inv dn ms = (\<lambda>(v, tx, rx). ring_inv dn ms v tx rx)"

definition chan_contents :: "u16 \<Rightarrow> ring_chan \<Rightarrow> bytes list" where
  "chan_contents dn = (\<lambda>(v, tx, rx). ring_contents dn v rx)"

lemma ring_push_spec:
  assumes inv: "chan_inv dn ms s" and psh: "ring_push dn ms m s = (rc, s')"
  shows "chan_inv dn ms s' \<and>
    (if unat ms < length m then rc = - EMSGSIZE \<and> chan_contents dn s' = chan_contents dn s
     else if length (chan_contents dn s) = unat dn
     then rc = - EAGAIN \<and> chan_contents dn s' = chan_contents dn s
     else rc = 0 \<and> chan_contents dn s' = chan_contents dn s @ [m])"
proof -
  obtain v tx rx where s: "s = (v, tx, rx)" by (cases s)
  show ?thesis
  proof (cases "unat ms < length m")
    case True
    with inv psh show ?thesis by (auto simp: ring_push_def s chan_contents_def)
  next
    case False
    obtain v' tx' where enq: "mkring_tx_enqueue dn v tx m (of_nat (length m)) = (rc, v', tx')"
      and s': "s' = (v', tx', rx)"
      using psh False by (auto simp: ring_push_def s split: prod.splits)
    have "unat (of_nat (length m) :: u32) = length m"
      using False unat_u32_less [of ms] by (simp add: unat_of_nat)
    with tx_enqueue_spec [OF _ _ _ enq, of ms rx] inv False show ?thesis
      by (auto simp: s s' chan_inv_def chan_contents_def word_le_nat_alt)
  qed
qed

lemma ring_pop_spec:
  assumes inv: "chan_inv dn ms s" and pp: "ring_pop dn ms s = (r, s')"
  shows "chan_inv dn ms s' \<and>
    (case r of None \<Rightarrow> chan_contents dn s = [] \<and> chan_contents dn s' = []
             | Some w \<Rightarrow> chan_contents dn s = w # chan_contents dn s')"
proof -
  obtain v tx rx where s: "s = (v, tx, rx)" by (cases s)
  show ?thesis
  proof (cases "last_avail_idx rx = avail_idx v")
    case True
    with inv pp show ?thesis
      by (auto simp: ring_pop_def s chan_contents_def ring_contents_def pend_from_empty_iff)
  next
    case False
    obtain v' rx' calls where step: "mkring_rx_step True dn ms v rx = (v', rx', calls)"
      by (metis prod_cases3)
    then have r: "r = Some (last (rx_msgs rx'))" and s': "s' = (v', tx, rx')"
      using pp False by (auto simp: ring_pop_def s)
    from inv have "ring_inv dn ms v tx rx" by (simp add: chan_inv_def s)
    from rx_step_spec [OF this False step] obtain m where
        "ring_inv dn ms v' tx rx'" "ring_contents dn v rx = m # ring_contents dn v' rx'"
        and d: "rx'\<lparr>last_avail_idx := 0\<rparr> = rx_delivered True m rx\<lparr>last_avail_idx := 0\<rparr>"
      by auto
    moreover have "last (rx_msgs rx') = m" using rx_delivered_fields(1) [OF d] by simp
    ultimately show ?thesis by (simp add: r s s' chan_inv_def chan_contents_def)
  qed
qed

interpretation ring: fifo_chan "chan_inv dn ms" "chan_contents dn" "\<lambda>m. m"
    "ring_push dn ms" "ring_pop dn ms" for dn ms
proof
  fix s m s' assume "chan_inv dn ms s" "ring_push dn ms m s = (0, s')"
  from ring_push_spec [OF this] show "chan_inv dn ms s' \<and> chan_contents dn s' = chan_contents dn s @ [m]"
    by (auto split: if_splits)
next
  fix s m rc s' assume "chan_inv dn ms s" "ring_push dn ms m s = (rc, s')" "rc \<noteq> 0"
  from ring_push_spec [OF this(1,2)] this(3)
  show "chan_inv dn ms s' \<and> chan_contents dn s' = chan_contents dn s"
    by (auto split: if_splits)
qed (rule ring_pop_spec)

lemma fresh_ring_inv:
  fixes dn :: u16 and ms :: u32 and v :: mkring_vring
  assumes "dn \<noteq> 0" "unat dn dvd 65536" and "v = mkring_init_one_queue dn ms L phys"
  shows "ring_inv dn ms v (queue_view r1 q1 dn v True) (queue_view r2 q2 dn v False)"
    and "ring_contents dn v (queue_view r2 q2 dn v False) = []"
  using assms
  by (auto simp: ring_inv_def ring_contents_def wf_vring_def mkring_init_one_queue_def queue_view_def
      pend_from_def done_from_def bits_of_def)

section \<open>Properties of the ring\<close>

definition fresh_chan :: "u16 \<Rightarrow> u32 \<Rightarrow> u64 \<Rightarrow> ring_chan" where
  "fresh_chan dn ms phys =
    (let v = mkring_init_one_queue dn ms (projr (mkring_calc_layout dn ms)) phys
     in (v, queue_view 1 1 dn v True, queue_view 0 1 dn v False))"

lemma fresh_chan_inv:
  assumes "dn \<noteq> 0" "unat dn dvd 65536"
  shows "chan_inv dn ms (fresh_chan dn ms phys)" "chan_contents dn (fresh_chan dn ms phys) = []"
  using fresh_ring_inv [OF assms refl] by (simp_all add: fresh_chan_def Let_def chan_inv_def chan_contents_def)

text \<open>
  The send path refines appending to a bounded list. From a state in which the sender's
  bitmap, the avail ring and the used ring agree, sending a message leaves such a state, fails
  with EMSGSIZE exactly when the message exceeds the slot size, fails with EAGAIN exactly when
  all descriptors hold undelivered messages, leaves the messages in flight alone in both cases,
  and otherwise appends exactly the message.
\<close>

theorem ring_send_refines:
  assumes "chan_inv dn ms s"
  shows "case ring_push dn ms m s of (rc, s') \<Rightarrow> chan_inv dn ms s' \<and>
    rc = (if unat ms < length m then - EMSGSIZE
          else if length (chan_contents dn s) = unat dn then - EAGAIN else 0) \<and>
    chan_contents dn s' = (if rc = 0 then chan_contents dn s @ [m] else chan_contents dn s)"
proof -
  obtain rc s' where "ring_push dn ms m s = (rc, s')" by (cases "ring_push dn ms m s")
  with ring_push_spec [OF assms this] show ?thesis by (auto split: if_splits)
qed

theorem ring_send_refines_witness:
  "case ring_push 4 8 [1, 2] (fresh_chan 4 8 0) of (rc, s') \<Rightarrow> rc = 0 \<and> chan_contents 4 s' = [[1, 2]]"
  using ring_send_refines [OF fresh_chan_inv(1) [of 4 8 0], of "[1, 2]"] fresh_chan_inv(2) [of 4 8 0]
  by (auto split: prod.splits)

text \<open>
  One run of the receive loop drains the queue. It terminates, processes exactly the messages
  in flight, appends those whose allocation succeeded to the local list in the order they were
  sent, calls the registered callback once for each of them in that order, keeps the invariant,
  and leaves nothing pending.
\<close>

theorem process_rx_drains:
  assumes "ring_inv dn ms v tx rx"
  shows "case mkring_process_rx_queue oks dn ms v rx of (v', rx', calls, processed) \<Rightarrow>
    ring_inv dn ms v' tx rx' \<and> ring_contents dn v' rx' = [] \<and>
    processed = length (ring_contents dn v rx) \<and>
    rx_msgs rx' = rx_msgs rx @ kept oks 0 (ring_contents dn v rx) \<and>
    rx_pending rx' = rx_pending rx + int (length (kept oks 0 (ring_contents dn v rx))) \<and>
    calls = rx_calls rx (kept oks 0 (ring_contents dn v rx))"
proof -
  obtain v' rx' calls p where r: "mkring_process_rx_queue oks dn ms v rx = (v', rx', calls, p)"
    by (metis prod_cases4)
  with process_rx_queue_spec [OF assms r] show ?thesis by simp
qed

theorem process_rx_drains_witness:
  "\<exists>v tx rx. ring_inv 4 8 v tx rx \<and> ring_contents 4 v rx = [[7]] \<and>
    rx_msgs (fst (snd (mkring_process_rx_queue (\<lambda>_. True) 4 8 v rx))) = [[7]]"
proof -
  let ?v = "mkring_init_one_queue 4 8 (projr (mkring_calc_layout 4 8)) 0"
  let ?tx = "queue_view 1 1 4 ?v True" and ?rx = "queue_view 0 1 4 ?v False"
  have inv: "ring_inv 4 8 ?v ?tx ?rx" and emp: "ring_contents 4 ?v ?rx = []"
    using fresh_ring_inv [of 4 ?v 8] by simp_all
  obtain rc v' tx' where enq: "mkring_tx_enqueue 4 ?v ?tx [7] 1 = (rc, v', tx')"
    by (metis prod_cases3)
  have "ring_inv 4 8 v' tx' ?rx" and c: "ring_contents 4 v' ?rx = [[7]]"
    using tx_enqueue_spec [OF inv _ _ enq] emp by simp_all
  with process_rx_drains [OF this(1), of "\<lambda>_. True"] show ?thesis
    by (intro exI [of _ v'] exI [of _ tx'] exI [of _ ?rx]) (auto simp: queue_view_def split: prod.splits)
qed

text \<open>
  C3. A queue whose number of descriptors divides 65536 is a FIFO channel: starting from the
  freshly initialised queue, for every interleaving of sends and receive steps, of any length
  and so across any number of wrap-arounds of the 16-bit indices, the accepted messages are the
  delivered ones followed by those still in flight. Nothing is lost, duplicated, reordered or
  altered.
\<close>

theorem ring_fifo:
  assumes "dn \<noteq> 0" "unat dn dvd 65536"
    and "chan_run (ring_push dn ms) (ring_pop dn ms) (\<lambda>m. m) ops (fresh_chan dn ms phys) = (acc, del, t)"
  shows "acc = del @ chan_contents dn t"
  using ring.run_fifo [OF fresh_chan_inv(1) [OF assms(1,2)] assms(3)] fresh_chan_inv(2) [OF assms(1,2)]
  by simp

theorem ring_fifo_witness:
  "\<exists>acc del t. chan_run (ring_push 2 4) (ring_pop 2 4) (\<lambda>m. m) [Push [1], Push [2], Push [3], Pop]
     (fresh_chan 2 4 0) = (acc, del, t) \<and> acc = del @ chan_contents 2 t"
proof -
  obtain acc del t where r: "chan_run (ring_push 2 4) (ring_pop 2 4) (\<lambda>m. m)
      [Push [1], Push [2], Push [3], Pop] (fresh_chan 2 4 0) = (acc, del, t)"
    by (metis prod_cases3)
  with ring_fifo [OF _ _ r] show ?thesis by auto
qed

end
