(* ===== verification/RingWrap.thy ===== *)
theory RingWrap
  imports Ring
begin

text \<open>
  A queue whose number of descriptors does not divide 65536. \<^verbatim>\<open>mkring_init\<close> and the parser of
  the \<^verbatim>\<open>mkring.desc_num\<close> boot parameter accept every non-zero number, but a ring slot is the
  16-bit index modulo that number, so when the index wraps from 65535 to 0 two consecutive
  indices share a slot. The theory runs a queue of three descriptors up to the wrap.
\<close>

text \<open>
  The state after \<open>k\<close> rounds of sending and receiving an empty message: each round reclaims
  descriptor 0 and uses it again, so both rings hold only zeros and all indices are \<open>k\<close>.
\<close>

definition round_vring :: "nat \<Rightarrow> mkring_vring" where
  "round_vring k =
    (let d = \<lambda>i len. \<lparr>desc_addr = mkring_data_phys 0 (projr (mkring_calc_layout 3 8)) 8 i,
                     desc_len = len, desc_flags = 0, desc_next = 0\<rparr>
     in \<lparr>descs = [d 0 (if k = 0 then 8 else 0), d 1 8, d 2 8],
         avail_idx = of_nat k, avail_ring = [0, 0, 0],
         used_idx = of_nat k, used_ring = replicate 3 \<lparr>elem_id = 0, elem_len = 0\<rparr>,
         slots = replicate 3 (replicate 8 0)\<rparr>)"

definition round_tx :: "nat \<Rightarrow> mkring_queue" where
  "round_tx k =
    \<lparr>remote_id = 1, qindex = 1, inflight = Some [0 < k, False, False],
     free_cnt = (if k = 0 then 3 else 2), last_used_idx = of_nat k - (if k = 0 then 0 else 1),
     last_avail_idx = 0, rx_msgs = [], rx_pending = 0, rx_cb = None\<rparr>"

definition round_rx :: "nat \<Rightarrow> mkring_queue" where
  "round_rx k =
    \<lparr>remote_id = 0, qindex = 1, inflight = None, free_cnt = 3,
     last_used_idx = 0, last_avail_idx = of_nat k, rx_msgs = replicate k [], rx_pending = int k,
     rx_cb = None\<rparr>"

definition round_chan :: "nat \<Rightarrow> ring_chan" where
  "round_chan k = (round_vring k, round_tx k, round_rx k)"

abbreviation run3 :: "bytes chan_op list \<Rightarrow> ring_chan \<Rightarrow> bytes list \<times> bytes list \<times> ring_chan" where
  "run3 \<equiv> chan_run (ring_push 3 8) (ring_pop 3 8) (\<lambda>m. m)"

lemma replicate_3: "replicate 3 x = [x, x, x]"
  by (simp add: numeral_eq_Suc)

lemma unat_3: "unat (3 :: u16) = 3"
  by simp

lemma upt_3: "[0..<3] = [0, 1, 2 :: nat]"
  by (simp add: upt_rec)

lemma same_3 [simp]:
  "[x, x, x][unat (w mod 3) := x] = [x, x, x]" "[x, x, x] ! unat (w mod 3) = x" for w :: u16
proof -
  have "unat (w mod 3) = unat w mod 3" by (simp add: unat_mod_distrib)
  then have "unat (w mod 3) = 0 \<or> unat (w mod 3) = 1 \<or> unat (w mod 3) = 2" by auto
  then show "[x, x, x][unat (w mod 3) := x] = [x, x, x]" "[x, x, x] ! unat (w mod 3) = x"
    by auto
qed

lemma round_chan_0: "fresh_chan 3 8 0 = round_chan 0"
  unfolding fresh_chan_def queue_view_def mkring_init_one_queue_def round_chan_def round_tx_def
    round_rx_def round_vring_def Let_def replicate_3 unat_3 upt_3
  by simp

lemma reclaim_round:
  "mkring_tx_reclaim_locked 3 (round_vring k) (round_tx k) =
    \<lparr>remote_id = 1, qindex = 1, inflight = Some [False, False, False], free_cnt = 3,
     last_used_idx = of_nat k, last_avail_idx = 0, rx_msgs = [], rx_pending = 0, rx_cb = None\<rparr>"
proof (cases "k = 0")
  case True
  then show ?thesis by (simp add: mkring_tx_reclaim_locked_def round_tx_def round_vring_def Let_def)
next
  case False
  then show ?thesis
    by (simp add: mkring_tx_reclaim_locked_def round_tx_def round_vring_def Let_def
      tx_reclaim_loop.simps replicate_3)
qed

lemma enqueue_round:
  "mkring_tx_enqueue 3 (round_vring k) (round_tx k) [] 0 =
    (0, round_vring (Suc k)\<lparr>used_idx := of_nat k\<rparr>, (round_tx (Suc k))\<lparr>last_used_idx := of_nat k\<rparr>)"
  unfolding mkring_tx_enqueue_def reclaim_round
  by (simp add: find_first_zero_bit_def round_tx_def round_vring_def Let_def replicate_3 unat_3
      list_update_code add.commute [of 1] del: list_update.simps)

lemma rx_step_round:
  "mkring_rx_step True 3 8 (round_vring (Suc k)\<lparr>used_idx := of_nat k\<rparr>) (round_rx k) =
    (round_vring (Suc k), round_rx (Suc k), [])"
  by (subst rx_step_valid [OF refl])
    (simp_all add: rx_delivered_def mkring_rx_enqueue_local_def round_rx_def round_vring_def slot_msg_def
      Let_def replicate_3 replicate_append_same del: list_update.simps)

lemma round_step: "run3 [Push [], Pop] (round_chan k) = ([[]], [[]], round_chan (Suc k))"
proof -
  have psh: "ring_push 3 8 [] (round_chan k) =
      (0, round_vring (Suc k)\<lparr>used_idx := of_nat k\<rparr>, (round_tx (Suc k))\<lparr>last_used_idx := of_nat k\<rparr>, round_rx k)"
    by (simp add: ring_push_def round_chan_def enqueue_round)
  have "last_avail_idx (round_rx k) \<noteq> avail_idx (round_vring (Suc k))"
    by (simp add: round_rx_def round_vring_def Let_def)
  then have pop: "ring_pop 3 8 (round_vring (Suc k)\<lparr>used_idx := of_nat k\<rparr>,
      (round_tx (Suc k))\<lparr>last_used_idx := of_nat k\<rparr>, round_rx k) = (Some [], round_chan (Suc k))"
    by (simp add: ring_pop_def rx_step_round round_chan_def) (simp add: round_rx_def round_tx_def)
  show ?thesis by (simp add: psh pop)
qed

lemma chan_run_append:
  "chan_run psh pp w (xs @ ys) s =
    (let (a, d, t) = chan_run psh pp w xs s; (a', d', u) = chan_run psh pp w ys t
     in (a @ a', d @ d', u))"
  by (induction psh pp w xs s rule: chan_run.induct) (auto simp: Let_def split: prod.splits option.splits)

lemma rounds:
  "run3 (concat (replicate n [Push [], Pop])) (round_chan k) =
    (replicate n [], replicate n [], round_chan (k + n))"
proof (induction n arbitrary: k)
  case (Suc n)
  have "run3 ([Push [], Pop] @ concat (replicate n [Push [], Pop])) (round_chan k) =
      (replicate (Suc n) [], replicate (Suc n) [], round_chan (Suc k + n))"
    by (subst chan_run_append) (simp add: round_step Suc.IH del: chan_run.simps)
  then show ?case by simp
qed simp

text \<open>The two sends around the wrap, and the two receive steps that follow.\<close>

definition wrap_vring :: mkring_vring where
  "wrap_vring = round_vring 65535
    \<lparr>descs := [(descs (round_vring 65535) ! 0)\<lparr>desc_len := 1\<rparr>,
               (descs (round_vring 65535) ! 1)\<lparr>desc_len := 1\<rparr>, descs (round_vring 65535) ! 2],
     slots := [1 # replicate 7 0, 2 # replicate 7 0, replicate 8 0],
     avail_ring := [1, 0, 0], avail_idx := 1\<rparr>"

definition wrap_tx :: "bool \<Rightarrow> u16 \<Rightarrow> mkring_queue" where
  "wrap_tx b fc = \<lparr>remote_id = 1, qindex = 1, inflight = Some [True, b, False], free_cnt = fc,
     last_used_idx = 65535, last_avail_idx = 0, rx_msgs = [], rx_pending = 0, rx_cb = None\<rparr>"

lemma wrap_enqueue_1:
  "mkring_tx_enqueue 3 (round_vring 65535) (round_tx 65535) [1] 1 =
    (0, round_vring 65535\<lparr>descs := (descs (round_vring 65535))[0 := (descs (round_vring 65535) ! 0)\<lparr>desc_len := 1\<rparr>],
          slots := [1 # replicate 7 0, replicate 8 0, replicate 8 0], avail_idx := 0\<rparr>,
     wrap_tx False 2)"
  unfolding mkring_tx_enqueue_def reclaim_round
  by (simp add: find_first_zero_bit_def round_vring_def wrap_tx_def memcpy_def Let_def replicate_3
      unat_3 list_update_code drop_replicate del: list_update.simps)

lemma wrap_enqueue_2:
  "mkring_tx_enqueue 3
     (round_vring 65535\<lparr>descs := (descs (round_vring 65535))[0 := (descs (round_vring 65535) ! 0)\<lparr>desc_len := 1\<rparr>],
          slots := [1 # replicate 7 0, replicate 8 0, replicate 8 0], avail_idx := 0\<rparr>)
     (wrap_tx False 2) [2] 1 = (0, wrap_vring, wrap_tx True 1)"
  by (simp add: mkring_tx_enqueue_def mkring_tx_reclaim_locked_def find_first_zero_bit_def round_vring_def
      wrap_tx_def wrap_vring_def memcpy_def Let_def replicate_3 drop_replicate)

lemma wrap_receive_1:
  "mkring_rx_step True 3 8 wrap_vring (round_rx 65535) =
    (wrap_vring\<lparr>used_ring := (used_ring wrap_vring)[0 := \<lparr>elem_id = 1, elem_len = 1\<rparr>], used_idx := 0\<rparr>,
     (round_rx 65535)\<lparr>rx_msgs := replicate 65535 [] @ [[2]], rx_pending := 65536, last_avail_idx := 0\<rparr>, [])"
  by (subst rx_step_valid [OF refl])
    (simp_all add: wrap_vring_def round_vring_def round_rx_def Let_def rx_delivered_def slot_msg_def
      mkring_rx_enqueue_local_def)

lemma wrap_receive_2:
  "fst (snd (mkring_rx_step True 3 8
     (wrap_vring\<lparr>used_ring := (used_ring wrap_vring)[0 := \<lparr>elem_id = 1, elem_len = 1\<rparr>], used_idx := 0\<rparr>)
     ((round_rx 65535)\<lparr>rx_msgs := replicate 65535 [] @ [[2]], rx_pending := 65536, last_avail_idx := 0\<rparr>))) =
    (round_rx 65535)\<lparr>rx_msgs := replicate 65535 [] @ [[2], [2]], rx_pending := 65537, last_avail_idx := 1\<rparr>"
  by (subst rx_step_valid [OF refl])
    (simp_all add: wrap_vring_def round_vring_def round_rx_def Let_def rx_delivered_def slot_msg_def
      mkring_rx_enqueue_local_def)

lemma wrap_indices:
  "last_avail_idx (round_rx 65535) = 65535" "avail_idx wrap_vring = 1"
  by (simp_all add: round_rx_def wrap_vring_def)

lemma wrap_steps:
  "\<exists>t. run3 [Push [1], Push [2], Pop, Pop] (round_chan 65535) = ([[1], [2]], [[2], [2]], t)"
  by (simp add: ring_push_def ring_pop_def round_chan_def wrap_enqueue_1 wrap_enqueue_2 wrap_receive_1
      wrap_receive_2 wrap_indices split_def)

text \<open>
  C34. A queue of three descriptors, which initialisation accepts, loses a message when its
  16-bit index wraps: after 65535 messages sent and received one by one, two messages sent in a
  row take the same slot of the avail ring. Both sends report success, the receiver gets the
  second message twice and the first one never.
\<close>

theorem desc_num_3_loses_message:
  "\<exists>t. run3 (concat (replicate 65535 [Push [], Pop]) @ [Push [1], Push [2], Pop, Pop]) (fresh_chan 3 8 0) =
     (replicate 65535 [] @ [[1], [2]], replicate 65535 [] @ [[2], [2]], t)"
proof -
  obtain t where t: "run3 [Push [1], Push [2], Pop, Pop] (round_chan 65535) = ([[1], [2]], [[2], [2]], t)"
    using wrap_steps by blast
  have "run3 (concat (replicate 65535 [Push [], Pop])) (round_chan 0) =
      (replicate 65535 [], replicate 65535 [], round_chan 65535)"
    using rounds [of 65535 0] by simp
  with t show ?thesis
    by (subst chan_run_append) (cases t, simp add: round_chan_0 del: chan_run.simps)
qed

end
