(* ===== verification/Mkring.thy ===== *)
theory Mkring
  imports Ring
begin

text \<open>
  The rest of \<^verbatim>\<open>mkring/mkring.c\<close>: the shared header and its initialisation protocol, the context
  of one kernel, and the exported operations (\<^verbatim>\<open>mkring_init\<close>, \<^verbatim>\<open>mkring_send\<close>, \<^verbatim>\<open>mkring_recv\<close>, the
  registration functions, \<^verbatim>\<open>mkring_handle_ipi_all\<close>, \<^verbatim>\<open>mkring_exit\<close>). An operation takes the memory
  and the context it acts on and returns the updated ones. What the kernel around it decides
  (allocations, the values seen while polling, the writes of other kernels between a read and a
  compare-and-exchange, how a wait ends) is an argument.
\<close>

section \<open>State\<close>

abbreviation (input) MKRING_MAGIC :: u32 where "MKRING_MAGIC \<equiv> 0x4d4b5247"
abbreviation (input) MKRING_VERSION :: u16 where "MKRING_VERSION \<equiv> 1"
abbreviation (input) MKRING_SHM_UNINIT :: u32 where "MKRING_SHM_UNINIT \<equiv> 0"
abbreviation (input) MKRING_SHM_INITING :: u32 where "MKRING_SHM_INITING \<equiv> 1"
abbreviation (input) MKRING_SHM_READY :: u32 where "MKRING_SHM_READY \<equiv> 2"

record mkring_shm_hdr =
  hdr_magic :: u32
  hdr_version :: u16
  hdr_hdr_len :: u16
  hdr_kernels :: u16
  hdr_desc_num :: u16
  hdr_msg_size :: u32
  hdr_queue_size :: u32
  hdr_total_size :: u32
  hdr_init_state :: u32
  hdr_ready_bitmap :: u32
  hdr_reserved :: "u32 list"

text \<open>The shared region: the header followed by one queue block per ordered pair of kernels.\<close>

record mkring_shm =
  shm_hdr :: mkring_shm_hdr
  shm_queues :: "mkring_vring list"

text \<open>
  \<open>shm_res\<close>, \<open>shm_base\<close> and \<open>hdr_set\<close> tell whether the pointers are set; \<open>txq\<close> and \<open>rxq\<close> are \<open>None\<close>
  while the arrays are not allocated, and \<open>rxq_lists\<close> records for which receive queues the list
  head has been initialised: the others still hold the zeros of \<^verbatim>\<open>kcalloc\<close>. \<open>notify\<close> stands for the
  pair of \<^verbatim>\<open>notify\<close> and \<^verbatim>\<open>notify_priv\<close>.
\<close>

record mkring_ctx =
  shm_phys :: u64
  shm_size :: u64
  shm_res :: bool
  shm_base :: bool
  hdr_set :: bool
  hdr_len :: u64
  local_id :: u16
  kernels :: u16
  desc_num :: u16
  msg_size :: u32
  layout :: mkring_layout
  txq :: "mkring_queue list option"
  rxq :: "mkring_queue list option"
  rxq_lists :: "bool list"
  notify :: "nat option"
  force_init :: bool
  ready :: bool

record mkring_info =
  info_local_id :: u16
  info_kernels :: u16
  info_desc_num :: u16
  info_msg_size :: u32
  info_ready_bitmap :: u32

record mkring_boot_params =
  bp_shm_phys :: u64
  bp_shm_size :: u64
  bp_kernel_id :: u16
  bp_kernels :: u16
  bp_desc_num :: u16
  bp_msg_size :: u32
  bp_force_init :: bool
  bp_notify :: "nat option"

definition zero_hdr :: mkring_shm_hdr where
  "zero_hdr = \<lparr>hdr_magic = 0, hdr_version = 0, hdr_hdr_len = 0, hdr_kernels = 0, hdr_desc_num = 0,
     hdr_msg_size = 0, hdr_queue_size = 0, hdr_total_size = 0, hdr_init_state = 0,
     hdr_ready_bitmap = 0, hdr_reserved = replicate 6 0\<rparr>"

definition zero_vring :: "u16 \<Rightarrow> u32 \<Rightarrow> mkring_vring" where
  "zero_vring dn ms =
    \<lparr>descs = replicate (unat dn) \<lparr>desc_addr = 0, desc_len = 0, desc_flags = 0, desc_next = 0\<rparr>,
     avail_idx = 0, avail_ring = replicate (unat dn) 0,
     used_idx = 0, used_ring = replicate (unat dn) \<lparr>elem_id = 0, elem_len = 0\<rparr>,
     slots = replicate (unat dn) (replicate (unat ms) 0)\<rparr>"

definition zero_queue :: mkring_queue where
  "zero_queue = \<lparr>remote_id = 0, qindex = 0, inflight = None, free_cnt = 0, last_used_idx = 0,
     last_avail_idx = 0, rx_msgs = [], rx_pending = 0, rx_cb = None\<rparr>"

text \<open>The effect of \<^verbatim>\<open>memset(ctx->shm_base, 0, required)\<close>.\<close>

definition zero_shm :: "mkring_ctx \<Rightarrow> mkring_shm" where
  "zero_shm c = \<lparr>shm_hdr = zero_hdr,
     shm_queues = replicate (unat (kernels c) * unat (kernels c)) (zero_vring (desc_num c) (msg_size c))\<rparr>"

section \<open>Preparing the shared region\<close>

text \<open>The values of \<^verbatim>\<open>init_state\<close> read by the polling loop before its deadline.\<close>

fun mkring_wait_shm_ready :: "u32 list \<Rightarrow> int" where
  "mkring_wait_shm_ready [] = - ETIMEDOUT"
| "mkring_wait_shm_ready (s # polls) = (if s = MKRING_SHM_READY then 0 else mkring_wait_shm_ready polls)"

definition mkring_hdr_compatible :: "mkring_ctx \<Rightarrow> mkring_shm_hdr \<Rightarrow> bool" where
  "mkring_hdr_compatible c h \<longleftrightarrow> hdr_magic h = MKRING_MAGIC \<and> hdr_version h = MKRING_VERSION \<and>
     hdr_kernels h = kernels c \<and> hdr_desc_num h = desc_num c \<and> hdr_msg_size h = msg_size c \<and>
     hdr_queue_size h = queue_size (layout c)"

text \<open>
  The loop \<^verbatim>\<open>old = READ_ONCE(w); while (cmpxchg(&w, old, f(old)) != old) old = READ_ONCE(w);\<close> on a
  shared word. An element of the list is what the other kernels do to the word between one read
  and the exchange that follows it; when the list ends they leave it alone.
\<close>

fun cmpxchg_loop :: "('w \<Rightarrow> 'w) \<Rightarrow> ('w \<Rightarrow> 'w) list \<Rightarrow> 'w \<Rightarrow> 'w" where
  "cmpxchg_loop f [] w = f w"
| "cmpxchg_loop f (g # gs) w = (if g w = w then f w else cmpxchg_loop f gs (g w))"

definition set_ready_bit :: "(u32 \<Rightarrow> u32) list \<Rightarrow> u16 \<Rightarrow> mkring_shm \<Rightarrow> mkring_shm" where
  "set_ready_bit gs k s = s\<lparr>shm_hdr := (shm_hdr s)\<lparr>hdr_ready_bitmap :=
     cmpxchg_loop (\<lambda>old. or old (BIT k)) gs (hdr_ready_bitmap (shm_hdr s))\<rparr>\<rparr>"

definition clear_ready_bit :: "(u32 \<Rightarrow> u32) list \<Rightarrow> u16 \<Rightarrow> mkring_shm \<Rightarrow> mkring_shm" where
  "clear_ready_bit gs k s = s\<lparr>shm_hdr := (shm_hdr s)\<lparr>hdr_ready_bitmap :=
     cmpxchg_loop (\<lambda>old. and old (not (BIT k))) gs (hdr_ready_bitmap (shm_hdr s))\<rparr>\<rparr>"

definition queue_off :: "mkring_ctx \<Rightarrow> u32 \<Rightarrow> u64" where
  "queue_off c qi = hdr_len c + ucast qi * ucast (queue_size (layout c))"

definition init_all_queues :: "mkring_ctx \<Rightarrow> mkring_vring list \<Rightarrow> mkring_vring list" where
  "init_all_queues c qs =
    fold (\<lambda>(src, dst) qs.
            let qi = mkring_qindex (kernels c) (of_nat src) (of_nat dst)
            in qs[unat qi := mkring_init_one_queue (desc_num c) (msg_size c) (layout c)
                               (shm_phys c + queue_off c qi)])
      (List.product [0..<unat (kernels c)] [0..<unat (kernels c)]) qs"

text \<open>
  \<open>polls\<close> and \<open>waited\<close> are what the polling loop reads and what the memory holds when it ends;
  \<open>gs\<close> is the interference on the ready bitmap. The sizes are computed as \<^verbatim>\<open>size_t\<close>.
\<close>

definition required_size :: "mkring_ctx \<Rightarrow> u64 option" where
  "required_size c =
    (case check_mul_overflow (ucast (kernels c)) (ucast (kernels c) :: u64) of
       None \<Rightarrow> None
     | Some queue_count \<Rightarrow>
         (case check_mul_overflow queue_count (ucast (queue_size (layout c))) of
            None \<Rightarrow> None
          | Some queue_bytes \<Rightarrow> check_add_overflow (hdr_len c) queue_bytes))"

definition init_shared :: "mkring_ctx \<Rightarrow> u64 \<Rightarrow> mkring_shm" where
  "init_shared c required =
    (let z = zero_shm c;
         h = (shm_hdr z)\<lparr>hdr_magic := MKRING_MAGIC, hdr_version := MKRING_VERSION,
               hdr_hdr_len := ucast (hdr_len c), hdr_kernels := kernels c, hdr_desc_num := desc_num c,
               hdr_msg_size := msg_size c, hdr_queue_size := queue_size (layout c),
               hdr_total_size := ucast required\<rparr>;
         qs = init_all_queues c (shm_queues z)
     in \<lparr>shm_hdr = h\<lparr>hdr_init_state := MKRING_SHM_READY\<rparr>, shm_queues = qs\<rparr>)"

definition mkring_prepare_shared ::
    "u32 list \<Rightarrow> mkring_shm \<Rightarrow> (u32 \<Rightarrow> u32) list \<Rightarrow> mkring_ctx \<Rightarrow> mkring_shm \<Rightarrow> int \<times> mkring_shm" where
  "mkring_prepare_shared polls waited gs c s0 =
    (case required_size c of
       None \<Rightarrow> (- EOVERFLOW, s0)
     | Some required \<Rightarrow>
         if shm_size c < required then (- EINVAL, s0)
         else if 0xFFFFFFFF < required then (- EOVERFLOW, s0)
         else
           let s = (if force_init c \<and> local_id c = 0 then zero_shm c else s0);
               set_ready = (\<lambda>s. (0, set_ready_bit gs (local_id c) s))
           in if hdr_init_state (shm_hdr s) = MKRING_SHM_READY \<and> mkring_hdr_compatible c (shm_hdr s)
              then set_ready s
              else
                let old = hdr_init_state (shm_hdr s);
                    (rc, s') =
                      (if old = MKRING_SHM_UNINIT then (0, init_shared c required)
                       else if old = MKRING_SHM_INITING then
                         (if mkring_wait_shm_ready polls \<noteq> 0 then (mkring_wait_shm_ready polls, waited)
                          else if hdr_init_state (shm_hdr waited) \<noteq> MKRING_SHM_READY then (- EAGAIN, waited)
                          else (0, waited))
                       else if hdr_init_state (shm_hdr s) \<noteq> MKRING_SHM_READY then (- EAGAIN, s)
                       else (0, s))
                in if rc \<noteq> 0 then (rc, s')
                   else if \<not> mkring_hdr_compatible c (shm_hdr s') then (- EPROTO, s')
                   else set_ready s')"

section \<open>Local queues\<close>

definition mkring_queue_setup ::
    "bool \<Rightarrow> mkring_ctx \<Rightarrow> mkring_shm \<Rightarrow> u16 \<Rightarrow> u16 \<Rightarrow> u16 \<Rightarrow> bool \<Rightarrow> int \<times> mkring_queue" where
  "mkring_queue_setup bitmap_ok c s remote src dst need_bitmap =
    (let qi = mkring_qindex (kernels c) src dst;
         off = queue_off c qi
     in if shm_size c < off + ucast (queue_size (layout c))
        then (- ERANGE, zero_queue\<lparr>remote_id := remote, qindex := qi\<rparr>)
        else
          let q = queue_view remote qi (desc_num c) (shm_queues s ! unat qi) need_bitmap
          in if need_bitmap \<and> \<not> bitmap_ok then (- ENOMEM, q\<lparr>inflight := None\<rparr>) else (0, q))"

definition mkring_queue_flush_msgs :: "mkring_queue \<Rightarrow> mkring_queue" where
  "mkring_queue_flush_msgs q = q\<lparr>rx_msgs := [], rx_pending := 0\<rparr>"

text \<open>The identifiers of the other kernels, in the order of the \<^verbatim>\<open>for\<close> loops.\<close>

definition remote_kids :: "mkring_ctx \<Rightarrow> u16 list" where
  "remote_kids c = filter (\<lambda>k. k \<noteq> local_id c) (map of_nat [0..<unat (kernels c)])"

definition bad_peer :: "mkring_ctx \<Rightarrow> u16 \<Rightarrow> bool" where
  "bad_peer c k \<longleftrightarrow> kernels c \<le> k \<or> k = local_id c"

abbreviation tx_of :: "mkring_ctx \<Rightarrow> u16 \<Rightarrow> mkring_queue" where
  "tx_of c k \<equiv> the (txq c) ! unat k"

abbreviation rx_of :: "mkring_ctx \<Rightarrow> u16 \<Rightarrow> mkring_queue" where
  "rx_of c k \<equiv> the (rxq c) ! unat k"

definition set_tx :: "u16 \<Rightarrow> mkring_queue \<Rightarrow> mkring_ctx \<Rightarrow> mkring_ctx" where
  "set_tx k q c = c\<lparr>txq := map_option (\<lambda>qs. qs[unat k := q]) (txq c)\<rparr>"

definition set_rx :: "u16 \<Rightarrow> mkring_queue \<Rightarrow> mkring_ctx \<Rightarrow> mkring_ctx" where
  "set_rx k q c = c\<lparr>rxq := map_option (\<lambda>qs. qs[unat k := q]) (rxq c)\<rparr>"

definition queue_mem :: "mkring_shm \<Rightarrow> mkring_queue \<Rightarrow> mkring_vring" where
  "queue_mem s q = shm_queues s ! unat (qindex q)"

definition set_queue_mem :: "mkring_queue \<Rightarrow> mkring_vring \<Rightarrow> mkring_shm \<Rightarrow> mkring_shm" where
  "set_queue_mem q v s = s\<lparr>shm_queues := (shm_queues s)[unat (qindex q) := v]\<rparr>"

section \<open>Exported operations\<close>

text \<open>
  The global pointer \<^verbatim>\<open>mkring\<close> is an optional context. \<open>nf\<close> gives the return value of the
  registered notify function; the list returned by \<open>mkring_send\<close> holds its calls.
\<close>

definition mkring_send ::
    "(nat \<Rightarrow> u16 \<Rightarrow> u16 \<Rightarrow> int) \<Rightarrow> u16 \<Rightarrow> bytes option \<Rightarrow> u32 \<Rightarrow> mkring_shm \<Rightarrow> mkring_ctx option \<Rightarrow>
     int \<times> mkring_shm \<times> mkring_ctx option \<times> (u16 \<times> u16) list" where
  "mkring_send nf dst_kid data len s g =
    (case g of
       None \<Rightarrow> (- ENODEV, s, g, [])
     | Some c \<Rightarrow>
         if \<not> ready c then (- ENODEV, s, g, [])
         else if data = None \<and> len \<noteq> 0 then (- EINVAL, s, g, [])
         else if bad_peer c dst_kid then (- EINVAL, s, g, [])
         else if msg_size c < len then (- EMSGSIZE, s, g, [])
         else if and (hdr_ready_bitmap (shm_hdr s)) (BIT dst_kid) = 0 then (- ENOLINK, s, g, [])
         else case notify c of
           None \<Rightarrow> (- ENOTCONN, s, g, [])
         | Some n \<Rightarrow>
             let q = tx_of c dst_kid;
                 (rc, v', q') = mkring_tx_enqueue (desc_num c) (queue_mem s q) q
                                  (case data of None \<Rightarrow> [] | Some d \<Rightarrow> d) len;
                 s' = set_queue_mem q v' s;
                 g' = Some (set_tx dst_kid q' c)
             in if rc \<noteq> 0 then (rc, s', g', [])
                else (nf n (local_id c) dst_kid, s', g', [(local_id c, dst_kid)]))"

text \<open>
  \<open>blocked\<close> is the result of the wait when the condition does not hold: 0 on timeout, a negative
  code on a signal, positive when another reader took the message after the wake-up.
\<close>

definition wait_event :: "bool \<Rightarrow> int \<Rightarrow> int \<Rightarrow> int" where
  "wait_event cond timeout blocked = (if cond then max 1 timeout else blocked)"

definition mkring_recv ::
    "int \<Rightarrow> u16 \<Rightarrow> bytes option \<Rightarrow> u32 \<Rightarrow> bool \<Rightarrow> int \<Rightarrow> mkring_ctx option \<Rightarrow>
     int \<times> u32 option \<times> bytes option \<times> mkring_ctx option" where
  "mkring_recv blocked src_kid buf buf_len have_out timeout g =
    (case g of
       None \<Rightarrow> (- ENODEV, None, buf, g)
     | Some c \<Rightarrow>
         if \<not> ready c then (- ENODEV, None, buf, g)
         else if \<not> have_out then (- EINVAL, None, buf, g)
         else if bad_peer c src_kid then (- EINVAL, None, buf, g)
         else
           let q = rx_of c src_kid;
               wret = wait_event (0 < rx_pending q) timeout blocked
           in if wret < 0 then (wret, None, buf, g)
              else if wret = 0 then (- ETIMEDOUT, None, buf, g)
              else case rx_msgs q of
                [] \<Rightarrow> (- EAGAIN, None, buf, g)
              | m # rest \<Rightarrow>
                  let g' = Some (set_rx src_kid (q\<lparr>rx_msgs := rest, rx_pending := rx_pending q - 1\<rparr>) c);
                      len = of_nat (length m) :: u32
                  in if buf_len < len
                     then (- EMSGSIZE, Some len,
                           (if buf_len \<noteq> 0 then map_option (\<lambda>b. memcpy b m (unat buf_len)) buf else buf), g')
                     else (0, Some len,
                           (if len \<noteq> 0 then map_option (\<lambda>b. memcpy b m (unat len)) buf else buf), g'))"

definition mkring_register_rx_cb ::
    "u16 \<Rightarrow> nat option \<Rightarrow> mkring_ctx option \<Rightarrow> int \<times> mkring_ctx option" where
  "mkring_register_rx_cb src_kid cb g =
    (case g of
       None \<Rightarrow> (- ENODEV, g)
     | Some c \<Rightarrow>
         if \<not> ready c then (- ENODEV, g)
         else if bad_peer c src_kid then (- EINVAL, g)
         else (0, Some (set_rx src_kid ((rx_of c src_kid)\<lparr>rx_cb := cb\<rparr>) c)))"

definition mkring_unregister_rx_cb :: "u16 \<Rightarrow> mkring_ctx option \<Rightarrow> mkring_ctx option" where
  "mkring_unregister_rx_cb src_kid g =
    (case g of
       None \<Rightarrow> g
     | Some c \<Rightarrow>
         if \<not> ready c then g
         else if bad_peer c src_kid then g
         else Some (set_rx src_kid ((rx_of c src_kid)\<lparr>rx_cb := None\<rparr>) c))"

definition mkring_register_ipi_notify ::
    "nat option \<Rightarrow> mkring_ctx option \<Rightarrow> int \<times> mkring_ctx option" where
  "mkring_register_ipi_notify n g =
    (case g of
       None \<Rightarrow> (- ENODEV, g)
     | Some c \<Rightarrow>
         if \<not> ready c then (- ENODEV, g)
         else if n = None then (- EINVAL, g)
         else if notify c \<noteq> None then (- EBUSY, g)
         else (0, Some (c\<lparr>notify := n\<rparr>)))"

definition mkring_unregister_ipi_notify :: "mkring_ctx option \<Rightarrow> mkring_ctx option" where
  "mkring_unregister_ipi_notify g = map_option (\<lambda>c. c\<lparr>notify := None\<rparr>) g"

definition mkring_get_info :: "bool \<Rightarrow> mkring_shm \<Rightarrow> mkring_ctx option \<Rightarrow> int + mkring_info" where
  "mkring_get_info have_info s g =
    (case g of
       None \<Rightarrow> Inl (- ENODEV)
     | Some c \<Rightarrow>
         if \<not> ready c then Inl (- ENODEV)
         else if \<not> have_info then Inl (- EINVAL)
         else Inr \<lparr>info_local_id = local_id c, info_kernels = kernels c, info_desc_num = desc_num c,
                   info_msg_size = msg_size c, info_ready_bitmap = hdr_ready_bitmap (shm_hdr s)\<rparr>)"

fun handle_ipi_loop ::
    "(u16 \<Rightarrow> nat \<Rightarrow> bool) \<Rightarrow> u16 list \<Rightarrow> mkring_shm \<Rightarrow> mkring_ctx \<Rightarrow> mkring_shm \<times> mkring_ctx \<times> rx_call list" where
  "handle_ipi_loop oks [] s c = (s, c, [])"
| "handle_ipi_loop oks (k # ks) s c =
    (let q = rx_of c k;
         (v', q', calls, n) = mkring_process_rx_queue (oks k) (desc_num c) (msg_size c) (queue_mem s q) q;
         (s', c', calls') = handle_ipi_loop oks ks (set_queue_mem q v' s) (set_rx k q' c)
     in (s', c', calls @ calls'))"

definition mkring_handle_ipi_all ::
    "(u16 \<Rightarrow> nat \<Rightarrow> bool) \<Rightarrow> mkring_shm \<Rightarrow> mkring_ctx option \<Rightarrow>
     mkring_shm \<times> mkring_ctx option \<times> rx_call list" where
  "mkring_handle_ipi_all oks s g =
    (case g of
       None \<Rightarrow> (s, g, [])
     | Some c \<Rightarrow>
         if \<not> ready c then (s, g, [])
         else let (s', c', calls) = handle_ipi_loop oks (remote_kids c) s c in (s', Some c', calls))"

definition mkring_ipi_interrupt ::
    "(u16 \<Rightarrow> nat \<Rightarrow> bool) \<Rightarrow> mkring_shm \<Rightarrow> mkring_ctx option \<Rightarrow>
     mkring_shm \<times> mkring_ctx option \<times> rx_call list" where
  "mkring_ipi_interrupt oks s g = mkring_handle_ipi_all oks s g"

section \<open>Initialisation and teardown\<close>

text \<open>
  One kernel's view of the machine: the shared memory, whether the memory region is claimed, and
  the global pointer. \<open>mkring_release_ctx\<close> walks the list of every remote receive queue; walking
  a list head that is still zero dereferences NULL, which the model returns as \<open>None\<close>.
\<close>

record mk_world =
  w_shm :: mkring_shm
  w_region :: bool
  w_mkring :: "mkring_ctx option"

definition mkring_release_ctx ::
    "(u32 \<Rightarrow> u32) list \<Rightarrow> mkring_ctx option \<Rightarrow> mk_world \<Rightarrow> mk_world option" where
  "mkring_release_ctx gs g w =
    (case g of
       None \<Rightarrow> Some w
     | Some c \<Rightarrow>
         if rxq c \<noteq> None \<and> (\<exists>k\<in>set (remote_kids c). \<not> rxq_lists c ! unat k) then None
         else
           let s = (if hdr_set c then clear_ready_bit gs (local_id c) (w_shm w) else w_shm w);
               r = (if shm_res c then False else w_region w)
           in Some (w\<lparr>w_shm := s, w_region := r\<rparr>))"

record init_env =
  ctx_ok :: bool
  remap_ok :: bool
  txq_ok :: bool
  rxq_ok :: bool
  bitmap_ok :: "u16 \<Rightarrow> bool"
  polls :: "u32 list"
  waited :: mkring_shm
  set_interf :: "(u32 \<Rightarrow> u32) list"
  clear_interf :: "(u32 \<Rightarrow> u32) list"

fun setup_loop :: "(u16 \<Rightarrow> bool) \<Rightarrow> u16 list \<Rightarrow> mkring_shm \<Rightarrow> mkring_ctx \<Rightarrow> int \<times> mkring_ctx" where
  "setup_loop bm [] s c = (0, c)"
| "setup_loop bm (i # is) s c =
    (case mkring_queue_setup (bm i) c s i (local_id c) i True of
       (rc, q) \<Rightarrow>
         let c1 = set_tx i q c in
         if rc \<noteq> 0 then (rc, c1)
         else (case mkring_queue_setup True c1 s i i (local_id c1) False of
                 (rc', q') \<Rightarrow>
                   if rc' \<noteq> 0 then (rc', set_rx i q' c1)
                   else setup_loop bm is s
                     ((set_rx i q' c1)\<lparr>rxq_lists := (rxq_lists c1)[unat i := True]\<rparr>)))"

definition bad_params :: "mkring_boot_params \<Rightarrow> bool" where
  "bad_params p \<longleftrightarrow> bp_shm_phys p = 0 \<or> bp_shm_size p = 0 \<or>
     bp_kernels p = 0 \<or> MKRING_MAX_KERNELS < bp_kernels p \<or>
     bp_kernels p \<le> bp_kernel_id p \<or> bp_desc_num p = 0 \<or> bp_msg_size p = 0"

definition new_ctx :: "mkring_boot_params \<Rightarrow> mkring_layout \<Rightarrow> mkring_ctx" where
  "new_ctx p L =
    \<lparr>shm_phys = bp_shm_phys p, shm_size = bp_shm_size p, shm_res = False, shm_base = False,
     hdr_set = False, hdr_len = 0, local_id = bp_kernel_id p, kernels = bp_kernels p,
     desc_num = bp_desc_num p, msg_size = bp_msg_size p, layout = L, txq = None, rxq = None,
     rxq_lists = [], notify = None, force_init = bp_force_init p, ready = False\<rparr>"

definition alloc_queues :: "init_env \<Rightarrow> mkring_ctx \<Rightarrow> mkring_ctx" where
  "alloc_queues e c =
    (let n = unat (kernels c) in
     c\<lparr>txq := (if txq_ok e then Some (replicate n zero_queue) else None),
       rxq := (if rxq_ok e then Some (replicate n zero_queue) else None),
       rxq_lists := replicate n False\<rparr>)"

definition mkring_init ::
    "init_env \<Rightarrow> mkring_boot_params option \<Rightarrow> mk_world \<Rightarrow> (int \<times> mk_world) option" where
  "mkring_init e params w =
    (case params of
       None \<Rightarrow> Some (- EINVAL, w)
     | Some p \<Rightarrow>
       if bad_params p then Some (- EINVAL, w)
       else if w_mkring w \<noteq> None then Some (- EALREADY, w)
       else if \<not> ctx_ok e then Some (- ENOMEM, w)
       else
         let err = (\<lambda>ret c w. map_option (Pair ret) (mkring_release_ctx (clear_interf e) (Some c) w))
         in case mkring_calc_layout (bp_desc_num p) (bp_msg_size p) of
           Inl ret \<Rightarrow> err ret (new_ctx p \<lparr>desc_off = 0, avail_off = 0, avail_ring_off = 0,
                       avail_event_off = 0, used_off = 0, used_ring_off = 0, used_event_off = 0,
                       data_off = 0, queue_size = 0\<rparr>) w
         | Inr L \<Rightarrow>
           let c0 = (new_ctx p L)\<lparr>hdr_len := ALIGN sizeof_mkring_shm_hdr 64\<rparr> in
           if w_region w then err (- EBUSY) c0 w
           else
             let w1 = w\<lparr>w_region := True\<rparr>;
                 c1 = c0\<lparr>shm_res := True\<rparr> in
             if \<not> remap_ok e then err (- ENOMEM) c1 w1
             else
               let c2 = c1\<lparr>shm_base := True, hdr_set := True\<rparr>;
                   (ret, s2) = mkring_prepare_shared (polls e) (waited e) (set_interf e) c2 (w_shm w1);
                   w2 = w1\<lparr>w_shm := s2\<rparr> in
               if ret \<noteq> 0 then err ret c2 w2
               else
                 let c3 = alloc_queues e c2 in
                 if txq c3 = None \<or> rxq c3 = None then err (- ENOMEM) c3 w2
                 else
                   case setup_loop (bitmap_ok e) (remote_kids c3) s2 c3 of
                     (ret, c4) \<Rightarrow>
                       if ret \<noteq> 0 then err ret c4 w2
                       else
                         let c5 = c4\<lparr>ready := True\<rparr>;
                             w3 = w2\<lparr>w_mkring := Some c5\<rparr> in
                         if bp_notify p = None then Some (0, w3)
                         else case mkring_register_ipi_notify (bp_notify p) (w_mkring w3) of
                           (ret, g) \<Rightarrow>
                             if ret \<noteq> 0 then err ret (c5\<lparr>ready := False\<rparr>) (w3\<lparr>w_mkring := None\<rparr>)
                             else Some (0, w3\<lparr>w_mkring := g\<rparr>))"

definition mkring_exit :: "(u32 \<Rightarrow> u32) list \<Rightarrow> mk_world \<Rightarrow> mk_world option" where
  "mkring_exit gs w = mkring_release_ctx gs (w_mkring w) (w\<lparr>w_mkring := None\<rparr>)"

section \<open>Queue indices\<close>

lemma unat_qindex:
  assumes "unat K \<le> 32" "a < K" "b < K"
  shows "unat (mkring_qindex K a b) = unat a * unat K + unat b"
proof -
  have ab: "unat a < unat K" "unat b < unat K" using assms by (simp_all add: word_less_nat_alt)
  have "unat a * unat K + unat b < 32 * 32 + 32"
    using ab assms(1) mult_mono [of "unat a" 32 "unat K" 32] by linarith
  then show ?thesis
    unfolding mkring_qindex_def by (simp add: wordnat)
qed

lemma qindex_bound:
  assumes "unat K \<le> 32" "a < K" "b < K"
  shows "unat (mkring_qindex K a b) < unat K * unat K"
proof -
  have ab: "Suc (unat a) \<le> unat K" "unat b < unat K" using assms by (simp_all add: word_less_nat_alt)
  have "unat a * unat K + unat b < Suc (unat a) * unat K" using ab(2) by simp
  also have "\<dots> \<le> unat K * unat K" using ab(1) by (rule mult_le_mono1)
  finally show ?thesis by (simp add: unat_qindex [OF assms])
qed

lemma qindex_inj:
  assumes "unat K \<le> 32" "a < K" "b < K" "a' < K" "b' < K"
  shows "unat (mkring_qindex K a b) = unat (mkring_qindex K a' b') \<longleftrightarrow> a = a' \<and> b = b'"
proof
  assume eq: "unat (mkring_qindex K a b) = unat (mkring_qindex K a' b')"
  have lt: "unat b < unat K" "unat b' < unat K" using assms by (simp_all add: word_less_nat_alt)
  have eq': "unat a * unat K + unat b = unat a' * unat K + unat b'"
    using eq unat_qindex [OF assms(1-3)] unat_qindex [OF assms(1,4,5)] by simp
  then have "(unat a * unat K + unat b) div unat K = (unat a' * unat K + unat b') div unat K"
    "(unat a * unat K + unat b) mod unat K = (unat a' * unat K + unat b') mod unat K"
    by simp_all
  then have "unat a = unat a'" "unat b = unat b'" using lt by simp_all
  then show "a = a' \<and> b = b'" by (simp add: word_unat_eq_iff)
qed simp

lemma fold_update_nth:
  assumes "i \<in> set is" "inj_on f (set is)" "f i < length qs"
  shows "fold (\<lambda>i qs. qs[f i := g i]) is qs ! f i = g i"
  using assms
proof (induction "is" rule: rev_induct)
  case (snoc j js)
  have len: "length (fold (\<lambda>i qs. qs[f i := g i]) js qs) = length qs" for qs :: "'b list"
    by (induction js arbitrary: qs) simp_all
  show ?case
  proof (cases "j = i")
    case True
    with snoc.prems(3) len show ?thesis by simp
  next
    case False
    then have "i \<in> set js" and "f j \<noteq> f i" using snoc.prems(1,2) by (auto simp: inj_on_def)
    moreover have "inj_on f (set js)" using snoc.prems(2) by (simp add: inj_on_def)
    ultimately show ?thesis using snoc.IH snoc.prems(3) by simp
  qed
qed simp

lemma length_init_all_queues [simp]: "length (init_all_queues c qs) = length qs"
proof -
  have "length (fold (\<lambda>p qs. qs[f p := g p]) ps qs) = length qs" for f g and ps :: "(nat \<times> nat) list"
    by (induction ps arbitrary: qs) simp_all
  then show ?thesis by (simp add: init_all_queues_def Let_def split_def)
qed

lemma init_all_queues_nth:
  assumes K: "unat (kernels c) \<le> 32" and ab: "a < kernels c" "b < kernels c"
    and len: "length qs = unat (kernels c) * unat (kernels c)"
  shows "init_all_queues c qs ! unat (mkring_qindex (kernels c) a b) =
    mkring_init_one_queue (desc_num c) (msg_size c) (layout c)
      (shm_phys c + queue_off c (mkring_qindex (kernels c) a b))"
proof -
  let ?K = "kernels c"
  let ?f = "\<lambda>p. unat (mkring_qindex ?K (of_nat (fst p)) (of_nat (snd p)))"
  let ?g = "\<lambda>p. mkring_init_one_queue (desc_num c) (msg_size c) (layout c)
      (shm_phys c + queue_off c (mkring_qindex ?K (of_nat (fst p)) (of_nat (snd p))))"
  have small: "of_nat i < ?K \<and> unat (of_nat i :: u16) = i" if "i < unat ?K" for i
    using that unat_u16_less [of ?K] by (simp add: word_less_nat_alt unat_of_nat)
  have "inj_on ?f (set (List.product [0..<unat ?K] [0..<unat ?K]))"
  proof (rule inj_onI)
    fix p q assume p: "p \<in> set (List.product [0..<unat ?K] [0..<unat ?K])"
      and q: "q \<in> set (List.product [0..<unat ?K] [0..<unat ?K])" and eq: "?f p = ?f q"
    have "of_nat (fst p) = (of_nat (fst q) :: u16)" "of_nat (snd p) = (of_nat (snd q) :: u16)"
      using eq p q small qindex_inj [OF K, of "of_nat (fst p)" "of_nat (snd p)" "of_nat (fst q)" "of_nat (snd q)"]
      by auto
    then show "p = q" using p q small by (metis SigmaE atLeastLessThan_iff fst_conv mem_Sigma_iff prod.collapse set_product set_upt snd_conv)
  qed
  moreover have "(unat a, unat b) \<in> set (List.product [0..<unat ?K] [0..<unat ?K])"
    using ab by (simp add: word_less_nat_alt)
  moreover have "?f (unat a, unat b) < length qs"
    using qindex_bound [OF K ab] len by simp
  ultimately have "fold (\<lambda>p qs. qs[?f p := ?g p]) (List.product [0..<unat ?K] [0..<unat ?K]) qs ! ?f (unat a, unat b)
      = ?g (unat a, unat b)"
    by (intro fold_update_nth)
  then show ?thesis by (simp add: init_all_queues_def Let_def split_def)
qed

section \<open>Loops over the other kernels\<close>

lemma set_remote_kids [simp]: "set (remote_kids c) = {k. \<not> bad_peer c k}"
proof -
  have "k \<in> of_nat ` {0..<unat (kernels c)}" if "k < kernels c" for k :: u16
    using that by (intro image_eqI [of _ _ "unat k"]) (simp_all add: word_less_nat_alt)
  moreover have "of_nat i < kernels c" if "i < unat (kernels c)" for i
    using that unat_u16_less [of "kernels c"] by (simp add: word_less_nat_alt unat_of_nat)
  ultimately show ?thesis by (auto simp: remote_kids_def bad_peer_def not_le)
qed

lemma distinct_remote_kids [simp]: "distinct (remote_kids c)"
proof -
  have "inj_on (of_nat :: nat \<Rightarrow> u16) {0..<unat (kernels c)}"
    using unat_u16_less [of "kernels c"]
    by (intro inj_onI) (drule arg_cong [where f = unat], simp add: unat_of_nat)
  then show ?thesis by (simp add: remote_kids_def distinct_map)
qed

lemma set_tx_simps [simp]:
  "rxq (set_tx k q c) = rxq c" "kernels (set_tx k q c) = kernels c" "local_id (set_tx k q c) = local_id c"
  "desc_num (set_tx k q c) = desc_num c" "msg_size (set_tx k q c) = msg_size c"
  "layout (set_tx k q c) = layout c" "hdr_len (set_tx k q c) = hdr_len c"
  "shm_size (set_tx k q c) = shm_size c" "ready (set_tx k q c) = ready c"
  "notify (set_tx k q c) = notify c" "rxq_lists (set_tx k q c) = rxq_lists c"
  "txq (set_tx k q c) = map_option (\<lambda>qs. qs[unat k := q]) (txq c)"
  by (simp_all add: set_tx_def)

lemma set_rx_simps [simp]:
  "txq (set_rx k q c) = txq c" "kernels (set_rx k q c) = kernels c" "local_id (set_rx k q c) = local_id c"
  "desc_num (set_rx k q c) = desc_num c" "msg_size (set_rx k q c) = msg_size c"
  "layout (set_rx k q c) = layout c" "hdr_len (set_rx k q c) = hdr_len c"
  "shm_size (set_rx k q c) = shm_size c" "ready (set_rx k q c) = ready c"
  "notify (set_rx k q c) = notify c" "rxq_lists (set_rx k q c) = rxq_lists c"
  "rxq (set_rx k q c) = map_option (\<lambda>qs. qs[unat k := q]) (rxq c)"
  by (simp_all add: set_rx_def)

text \<open>The parts of a context that the operations on its queues leave alone.\<close>

definition same_params :: "mkring_ctx \<Rightarrow> mkring_ctx \<Rightarrow> bool" where
  "same_params c c' \<longleftrightarrow> kernels c' = kernels c \<and> local_id c' = local_id c \<and> desc_num c' = desc_num c \<and>
     msg_size c' = msg_size c \<and> layout c' = layout c \<and> hdr_len c' = hdr_len c \<and>
     shm_size c' = shm_size c \<and> ready c' = ready c \<and> notify c' = notify c"

lemma same_params_simps [simp]:
  "same_params c c" "same_params c (set_tx k q c') = same_params c c'"
  "same_params c (set_rx k q c') = same_params c c'" "same_params c (c'\<lparr>rxq_lists := l\<rparr>) = same_params c c'"
  by (simp_all add: same_params_def)

lemma same_params_trans: "same_params a b \<Longrightarrow> same_params b c \<Longrightarrow> same_params a c"
  by (simp add: same_params_def)

text \<open>Every remote queue of the context has an entry in both arrays.\<close>

definition has_queues :: "mkring_ctx \<Rightarrow> bool" where
  "has_queues c \<longleftrightarrow> (\<exists>t r. txq c = Some t \<and> length t = unat (kernels c) \<and>
     rxq c = Some r \<and> length r = unat (kernels c)) \<and> length (rxq_lists c) = unat (kernels c)"

lemma has_queues_set [simp]:
  "has_queues (set_tx k q c) = has_queues c" "has_queues (set_rx k q c) = has_queues c"
  by (auto simp: has_queues_def)

lemma tx_of_set:
  assumes "has_queues c" "k < kernels c"
  shows "tx_of (set_tx k q c) j = (if j = k then q else tx_of c j)"
  using assms by (auto simp: has_queues_def word_less_nat_alt word_unat_eq_iff nth_list_update)

lemma rx_of_set:
  assumes "has_queues c" "k < kernels c"
  shows "rx_of (set_rx k q c) j = (if j = k then q else rx_of c j)"
  using assms by (auto simp: has_queues_def word_less_nat_alt word_unat_eq_iff nth_list_update)

lemma setup_loop_spec:
  assumes "has_queues c" "\<forall>k\<in>set ks. \<not> bad_peer c k" "distinct ks"
    "\<forall>k\<in>set ks. mkring_queue_setup (bm k) c s k (local_id c) k True = (0, T k)"
    "\<forall>k\<in>set ks. mkring_queue_setup True c s k k (local_id c) False = (0, R k)"
  shows "\<exists>c'. setup_loop bm ks s c = (0, c') \<and> same_params c c' \<and> has_queues c' \<and>
    shm_res c' = shm_res c \<and> hdr_set c' = hdr_set c \<and>
    (\<forall>k. tx_of c' k = (if k \<in> set ks then T k else tx_of c k)) \<and>
    (\<forall>k. rx_of c' k = (if k \<in> set ks then R k else rx_of c k))"
  using assms
proof (induction ks arbitrary: c)
  case Nil
  then show ?case by simp
next
  case (Cons k ks)
  define c1 where "c1 = set_tx k (T k) c"
  define c2 where "c2 = (set_rx k (R k) c1)\<lparr>rxq_lists := (rxq_lists c1)[unat k := True]\<rparr>"
  have k: "k < kernels c" using Cons.prems(2) by (auto simp: bad_peer_def)
  have stp: "mkring_queue_setup b c' s r x y n = mkring_queue_setup b c s r x y n"
    if "same_params c c'" for c' b r x y n
    using that by (simp add: mkring_queue_setup_def same_params_def queue_off_def Let_def)
  have same: "same_params c c1" "same_params c c2" by (simp_all add: c1_def c2_def)
  have hq: "has_queues c1" "has_queues c2"
    using Cons.prems(1) by (auto simp: c1_def c2_def has_queues_def)
  have tx: "tx_of c2 j = (if j = k then T k else tx_of c j)" for j
    using tx_of_set [OF Cons.prems(1) k] by (simp add: c1_def c2_def)
  have rx: "rx_of c2 j = (if j = k then R k else rx_of c j)" for j
    using rx_of_set [OF hq(1), of k] k by (simp add: c1_def c2_def)
  have loop: "setup_loop bm (k # ks) s c = setup_loop bm ks s c2"
    using Cons.prems(4,5) stp [OF same(1)] by (simp add: Let_def c1_def c2_def)
  have bad: "bad_peer c2 j = bad_peer c j" for j using same(2) by (simp add: bad_peer_def same_params_def)
  have flds: "local_id c2 = local_id c" "shm_res c2 = shm_res c" "hdr_set c2 = hdr_set c"
    by (simp_all add: c1_def c2_def set_tx_def set_rx_def)
  have "\<exists>c'. setup_loop bm ks s c2 = (0, c') \<and> same_params c2 c' \<and> has_queues c' \<and>
    shm_res c' = shm_res c2 \<and> hdr_set c' = hdr_set c2 \<and>
    (\<forall>j. tx_of c' j = (if j \<in> set ks then T j else tx_of c2 j)) \<and>
    (\<forall>j. rx_of c' j = (if j \<in> set ks then R j else rx_of c2 j))"
    by (rule Cons.IH [OF hq(2)])
      (use Cons.prems(2-5) in \<open>simp_all add: bad flds stp [OF same(2)]\<close>)
  then obtain c' where c': "setup_loop bm ks s c2 = (0, c')" "same_params c2 c'" "has_queues c'"
    "shm_res c' = shm_res c" "hdr_set c' = hdr_set c"
    "\<And>j. tx_of c' j = (if j \<in> set ks then T j else tx_of c2 j)"
    "\<And>j. rx_of c' j = (if j \<in> set ks then R j else rx_of c2 j)"
    unfolding flds by blast
  have "tx_of c' j = (if j \<in> set (k # ks) then T j else tx_of c j)"
    "rx_of c' j = (if j \<in> set (k # ks) then R j else rx_of c j)" for j
    unfolding c'(6,7) tx rx by simp_all
  with c'(1,3-5) same_params_trans [OF same(2) c'(2)] show ?case
    unfolding loop by (intro exI [of _ c'] conjI allI)
qed

lemma set_queue_mem_simps [simp]:
  "shm_hdr (set_queue_mem q v s) = shm_hdr s"
  "length (shm_queues (set_queue_mem q v s)) = length (shm_queues s)"
  by (simp_all add: set_queue_mem_def)

lemma set_queue_mem_nth:
  "unat (qindex q) < length (shm_queues s) \<Longrightarrow>
   shm_queues (set_queue_mem q v s) ! i = (if i = unat (qindex q) then v else shm_queues s ! i)"
  by (simp add: set_queue_mem_def nth_list_update)

lemma rx_step_qindex:
  assumes "mkring_rx_step ok dn ms v q = (v', q', calls)"
  shows "qindex q' = qindex q"
proof -
  have "qindex (fst (snd (mkring_rx_step ok dn ms v q))) = qindex q"
    by (simp add: mkring_rx_step_def mkring_rx_enqueue_local_def Let_def split_def)
  with assms show ?thesis by simp
qed

lemma process_rx_qindex:
  "process_rx_loop oks dn ms v q p = (v', q', calls, p') \<Longrightarrow> qindex q' = qindex q"
proof (induction oks dn ms v q p arbitrary: calls rule: process_rx_loop.induct)
  case (1 oks dn ms v q p)
  show ?case
  proof (cases "last_avail_idx q = avail_idx v")
    case True
    with "1.prems" show ?thesis by (simp add: process_rx_loop.simps [of oks dn ms v q])
  next
    case False
    obtain v1 q1 c1 where step: "mkring_rx_step (oks p) dn ms v q = (v1, q1, c1)" by (metis prod_cases3)
    obtain c2 where rest: "process_rx_loop oks dn ms v1 q1 (Suc p) = (v', q', c2, p')"
      using "1.prems" False step by (auto simp: process_rx_loop.simps [of oks dn ms v q] split: prod.splits)
    from "1.IH" [OF False step [symmetric] refl rest] rx_step_qindex [OF step] show ?thesis by simp
  qed
qed

text \<open>
  The interrupt handler runs the receive loop of every remote queue once, on memory blocks that
  are pairwise different, and touches nothing else.
\<close>

lemma handle_ipi_loop_spec:
  assumes "has_queues c" "\<forall>k\<in>set ks. \<not> bad_peer c k" "distinct ks"
    "inj_on (\<lambda>k. unat (qindex (rx_of c k))) (set ks)"
    "\<forall>k\<in>set ks. unat (qindex (rx_of c k)) < length (shm_queues s)"
    "handle_ipi_loop oks ks s c = (s', c', calls)"
  shows "same_params c c' \<and> has_queues c' \<and> txq c' = txq c \<and> shm_hdr s' = shm_hdr s \<and>
    length (shm_queues s') = length (shm_queues s) \<and>
    (\<forall>k. k \<notin> set ks \<longrightarrow> rx_of c' k = rx_of c k) \<and>
    (\<forall>i. i \<notin> (\<lambda>k. unat (qindex (rx_of c k))) ` set ks \<longrightarrow> shm_queues s' ! i = shm_queues s ! i) \<and>
    (\<forall>k\<in>set ks. qindex (rx_of c' k) = qindex (rx_of c k) \<and>
       (\<exists>calls n. mkring_process_rx_queue (oks k) (desc_num c) (msg_size c) (queue_mem s (rx_of c k)) (rx_of c k)
          = (queue_mem s' (rx_of c k), rx_of c' k, calls, n)))"
  using assms
proof (induction ks arbitrary: c s calls)
  case Nil
  then show ?case by simp
next
  case (Cons k ks)
  define q where "q = rx_of c k"
  obtain v1 q1 cl1 n1 where pr:
    "mkring_process_rx_queue (oks k) (desc_num c) (msg_size c) (queue_mem s q) q = (v1, q1, cl1, n1)"
    by (metis prod_cases4)
  define c1 where "c1 = set_rx k q1 c"
  define s1 where "s1 = set_queue_mem q v1 s"
  obtain cl2 where rest: "handle_ipi_loop oks ks s1 c1 = (s', c', cl2)"
    using Cons.prems(6) pr by (auto simp: Let_def q_def s1_def c1_def split: prod.splits)
  have k: "k < kernels c" using Cons.prems(2) by (auto simp: bad_peer_def)
  have q1: "qindex q1 = qindex q"
    using pr process_rx_qindex unfolding mkring_process_rx_queue_def by blast
  have rx1: "rx_of c1 j = (if j = k then q1 else rx_of c j)" for j
    unfolding c1_def by (rule rx_of_set [OF Cons.prems(1) k])
  have qi: "unat (qindex (rx_of c1 j)) = unat (qindex (rx_of c j))" for j
    using rx1 q1 by (simp add: q_def)
  have mem1: "shm_queues s1 ! i = (if i = unat (qindex q) then v1 else shm_queues s ! i)" for i
    using Cons.prems(5) unfolding s1_def q_def by (intro set_queue_mem_nth) simp
  have same: "same_params c c1" "has_queues c1" "txq c1 = txq c" "shm_hdr s1 = shm_hdr s"
    "length (shm_queues s1) = length (shm_queues s)" "desc_num c1 = desc_num c" "msg_size c1 = msg_size c"
    using Cons.prems(1) by (simp_all add: c1_def s1_def)
  have bad: "bad_peer c1 j = bad_peer c j" for j by (simp add: bad_peer_def c1_def)
  have ne: "unat (qindex (rx_of c j)) \<noteq> unat (qindex q)" if "j \<in> set ks" for j
    using that Cons.prems(3,4) by (auto simp: q_def inj_on_def)
  have IH: "same_params c1 c' \<and> has_queues c' \<and> txq c' = txq c1 \<and> shm_hdr s' = shm_hdr s1 \<and>
    length (shm_queues s') = length (shm_queues s1) \<and>
    (\<forall>j. j \<notin> set ks \<longrightarrow> rx_of c' j = rx_of c1 j) \<and>
    (\<forall>i. i \<notin> (\<lambda>j. unat (qindex (rx_of c1 j))) ` set ks \<longrightarrow> shm_queues s' ! i = shm_queues s1 ! i) \<and>
    (\<forall>j\<in>set ks. qindex (rx_of c' j) = qindex (rx_of c1 j) \<and>
       (\<exists>calls n. mkring_process_rx_queue (oks j) (desc_num c1) (msg_size c1) (queue_mem s1 (rx_of c1 j)) (rx_of c1 j)
          = (queue_mem s' (rx_of c1 j), rx_of c' j, calls, n)))"
  proof (rule Cons.IH [OF same(2) _ _ _ _ rest])
    show "inj_on (\<lambda>j. unat (qindex (rx_of c1 j))) (set ks)"
      unfolding qi using Cons.prems(4) by (rule inj_on_subset) auto
    show "\<forall>j\<in>set ks. unat (qindex (rx_of c1 j)) < length (shm_queues s1)"
      unfolding qi same(5) using Cons.prems(5) by simp
  qed (use Cons.prems(2,3) bad in simp_all)
  then have ih: "same_params c1 c'" "has_queues c'" "txq c' = txq c1" "shm_hdr s' = shm_hdr s1"
    "length (shm_queues s') = length (shm_queues s1)" "\<And>j. j \<notin> set ks \<Longrightarrow> rx_of c' j = rx_of c1 j"
    by blast+
  have other: "j \<noteq> k" "rx_of c1 j = rx_of c j" "queue_mem s1 (rx_of c j) = queue_mem s (rx_of c j)"
    if "j \<in> set ks" for j
    using that Cons.prems(3) rx1 mem1 ne by (auto simp: queue_mem_def)
  have keep: "shm_queues s' ! i = shm_queues s1 ! i"
    if "i \<notin> (\<lambda>j. unat (qindex (rx_of c j))) ` set ks" for i
    using that IH unfolding qi by blast
  have mine: "queue_mem s' q = v1" "rx_of c' k = q1"
  proof -
    have "unat (qindex q) \<notin> (\<lambda>j. unat (qindex (rx_of c j))) ` set ks" using ne by fastforce
    then show "queue_mem s' q = v1" using keep mem1 by (simp add: queue_mem_def)
    have "rx_of c' k = rx_of c1 k" using ih(6) Cons.prems(3) by simp
    then show "rx_of c' k = q1" using rx1 by simp
  qed
  have processed: "qindex (rx_of c' j) = qindex (rx_of c j) \<and>
      (\<exists>calls n. mkring_process_rx_queue (oks j) (desc_num c) (msg_size c) (queue_mem s (rx_of c j)) (rx_of c j)
         = (queue_mem s' (rx_of c j), rx_of c' j, calls, n))" if "j \<in> set (k # ks)" for j
  proof (cases "j = k")
    case True
    with pr mine q1 show ?thesis by (simp add: q_def)
  next
    case False
    with that have "j \<in> set ks" by simp
    with IH have "qindex (rx_of c' j) = qindex (rx_of c1 j) \<and>
       (\<exists>calls n. mkring_process_rx_queue (oks j) (desc_num c1) (msg_size c1) (queue_mem s1 (rx_of c1 j)) (rx_of c1 j)
          = (queue_mem s' (rx_of c1 j), rx_of c' j, calls, n))"
      by blast
    then show ?thesis unfolding other(2,3) [OF \<open>j \<in> set ks\<close>] same(6,7) .
  qed
  have "rx_of c' j = rx_of c j" if "j \<notin> set (k # ks)" for j
    using that ih(6) [of j] rx1 [of j] by simp
  moreover have "shm_queues s' ! i = shm_queues s ! i"
    if "i \<notin> (\<lambda>j. unat (qindex (rx_of c j))) ` set (k # ks)" for i
  proof -
    have "i \<noteq> unat (qindex q)" "i \<notin> (\<lambda>j. unat (qindex (rx_of c j))) ` set ks"
      using that by (simp_all add: q_def)
    with keep mem1 show ?thesis by simp
  qed
  moreover have "same_params c c'" using same_params_trans [OF same(1) ih(1)] .
  moreover have "has_queues c'" "txq c' = txq c" "shm_hdr s' = shm_hdr s"
    "length (shm_queues s') = length (shm_queues s)"
    using ih(2-5) same(3-5) by simp_all
  moreover note processed
  ultimately show ?case by (intro conjI allI impI ballI; blast)
qed

section \<open>Properties of one kernel's operations\<close>

lemma cmpxchg_loop_linear:
  "\<exists>n \<le> length gs. cmpxchg_loop f gs w = f (fold (\<lambda>g. g) (take n gs) w)"
proof (induction gs arbitrary: w)
  case Nil
  then show ?case by simp
next
  case (Cons g gs)
  show ?case
  proof (cases "g w = w")
    case True
    then show ?thesis by (intro exI [of _ 0]) simp
  next
    case False
    obtain n where "n \<le> length gs" "cmpxchg_loop f gs (g w) = f (fold (\<lambda>g. g) (take n gs) (g w))"
      using Cons.IH by blast
    with False show ?thesis by (intro exI [of _ "Suc n"]) simp
  qed
qed

text \<open>
  Setting and clearing a kernel's bit in the shared ready bitmap loses no update: whatever
  the other kernels do to the word between the reads and the exchanges of the retry loop, the
  result is the word as some number of their updates left it, with exactly this kernel's bit
  changed.
\<close>

theorem ready_bit_no_lost_update:
  assumes "unat k < 32"
  shows "(\<exists>n \<le> length gs. \<forall>i. bit (hdr_ready_bitmap (shm_hdr (set_ready_bit gs k s))) i \<longleftrightarrow>
      i = unat k \<or> bit (fold (\<lambda>g. g) (take n gs) (hdr_ready_bitmap (shm_hdr s))) i) \<and>
    (\<exists>n \<le> length gs. \<forall>i. bit (hdr_ready_bitmap (shm_hdr (clear_ready_bit gs k s))) i \<longleftrightarrow>
      i \<noteq> unat k \<and> bit (fold (\<lambda>g. g) (take n gs) (hdr_ready_bitmap (shm_hdr s))) i)"
proof -
  let ?w = "hdr_ready_bitmap (shm_hdr s)"
  have BIT: "bit (BIT k) i \<longleftrightarrow> i = unat k" for i
    using assms by (auto simp: BIT_def bit_simps)
  have notBIT: "bit (not (BIT k)) i \<longleftrightarrow> i < 32 \<and> i \<noteq> unat k" for i
    by (auto simp: bit_not_iff BIT)
  obtain n where "n \<le> length gs" "cmpxchg_loop (\<lambda>old. or old (BIT k)) gs ?w = or (fold (\<lambda>g. g) (take n gs) ?w) (BIT k)"
    using cmpxchg_loop_linear [where f = "\<lambda>old. or old (BIT k)"] by blast
  then have "\<exists>n \<le> length gs. \<forall>i. bit (hdr_ready_bitmap (shm_hdr (set_ready_bit gs k s))) i \<longleftrightarrow>
      i = unat k \<or> bit (fold (\<lambda>g. g) (take n gs) ?w) i"
    by (intro exI [of _ n]) (auto simp: set_ready_bit_def bit_or_iff BIT)
  moreover obtain m where "m \<le> length gs"
    "cmpxchg_loop (\<lambda>old. and old (not (BIT k))) gs ?w = and (fold (\<lambda>g. g) (take m gs) ?w) (not (BIT k))"
    using cmpxchg_loop_linear [where f = "\<lambda>old. and old (not (BIT k))"] by blast
  then have "\<exists>n \<le> length gs. \<forall>i. bit (hdr_ready_bitmap (shm_hdr (clear_ready_bit gs k s))) i \<longleftrightarrow>
      i \<noteq> unat k \<and> bit (fold (\<lambda>g. g) (take n gs) ?w) i"
    by (intro exI [of _ m]) (auto simp: clear_ready_bit_def bit_and_iff notBIT dest: bit_imp_le_length)
  ultimately show ?thesis by blast
qed

theorem ready_bit_no_lost_update_witness:
  "\<exists>n \<le> 1. \<forall>i. bit (hdr_ready_bitmap (shm_hdr (set_ready_bit [\<lambda>w. or w 1] 3 \<lparr>shm_hdr = zero_hdr, shm_queues = []\<rparr>))) i
     \<longleftrightarrow> i = 3 \<or> bit (fold (\<lambda>g. g) (take n [\<lambda>w :: u32. or w 1]) 0) i"
  using ready_bit_no_lost_update [of 3 "[\<lambda>w. or w 1]" "\<lparr>shm_hdr = zero_hdr, shm_queues = []\<rparr>"]
  by (simp add: zero_hdr_def)

text \<open>
  C31. A failing \<^verbatim>\<open>mkring_init\<close> that returns leaves nothing behind: the global context and the claim
  on the memory region are what they were before the call.
\<close>

theorem init_failure_releases:
  assumes "mkring_init e params w = Some (rc, w')" "rc \<noteq> 0"
  shows "w_mkring w' = w_mkring w \<and> w_region w' = w_region w"
proof -
  have release: "w_mkring v = w_mkring u \<and> w_region v = (if shm_res c then False else w_region u)"
    if "mkring_release_ctx gs (Some c) u = Some v" for gs c u v
    using that by (auto simp: mkring_release_ctx_def Let_def split: if_splits)
  have res: "shm_res c' = shm_res c" if "setup_loop bm ks s c = (rc, c')" for bm ks s c rc c'
    using that
  proof (induction ks arbitrary: c)
    case (Cons k ks)
    then show ?case
      by (auto simp: Let_def set_tx_def set_rx_def split: prod.splits if_splits)
  qed simp
  show ?thesis
    using assms
    unfolding mkring_init_def
    by (auto simp: Let_def new_ctx_def alloc_queues_def split: option.splits if_splits sum.splits prod.splits
        dest!: release res)
qed

theorem init_failure_releases_witness:
  "\<exists>rc w'. mkring_init
      \<lparr>ctx_ok = True, remap_ok = False, txq_ok = True, rxq_ok = True, bitmap_ok = (\<lambda>_. True), polls = [],
       waited = \<lparr>shm_hdr = zero_hdr, shm_queues = []\<rparr>, set_interf = [], clear_interf = []\<rparr>
      (Some \<lparr>bp_shm_phys = 0x40000000, bp_shm_size = 0x100000, bp_kernel_id = 0, bp_kernels = 2,
         bp_desc_num = 4, bp_msg_size = 8, bp_force_init = False, bp_notify = Some 0\<rparr>)
      \<lparr>w_shm = \<lparr>shm_hdr = zero_hdr, shm_queues = []\<rparr>, w_region = False, w_mkring = None\<rparr> = Some (rc, w') \<and>
    rc = - ENOMEM \<and> w_mkring w' = None \<and> \<not> w_region w'"
  (is "\<exists>rc w'. ?init = Some (rc, w') \<and> _")
proof -
  have "\<exists>w'. ?init = Some (- ENOMEM, w')"
    by (simp add: mkring_init_def bad_params_def mkring_calc_layout_def check_mul_overflow_def
        check_add_overflow_def ALIGN_def Let_def new_ctx_def mkring_release_ctx_def)
  then obtain w' where w': "?init = Some (- ENOMEM, w')" by blast
  with init_failure_releases [OF w'] show ?thesis by simp
qed

end
