(* ===== verification/InitRace.thy ===== *)
theory InitRace
  imports Mkring
begin

text \<open>
  \<^verbatim>\<open>mkring_prepare_shared\<close> of \<^verbatim>\<open>mkring/mkring.c\<close> in small steps, so that two kernels can interleave. A
  step is one access to the shared region: the check, the compare-and-exchange, the clearing of
  the region, the writing of header and queues, the publication, one poll, and the setting of
  the ready bit (whose retry loop is atomic, see Mkring). Theory Mkring models the same function
  as one call; the two agree when a kernel runs alone.
\<close>

datatype prep_pc = PStart | PCheck | PCas | PClear | PFill | PPublish | PWait nat | PReread | PCompat
  | PSetReady | PRet int

definition fill_shm :: "mkring_ctx \<Rightarrow> u64 \<Rightarrow> mkring_shm \<Rightarrow> mkring_shm" where
  "fill_shm c required s =
    \<lparr>shm_hdr = (shm_hdr s)\<lparr>hdr_magic := MKRING_MAGIC, hdr_version := MKRING_VERSION,
               hdr_hdr_len := ucast (hdr_len c), hdr_kernels := kernels c, hdr_desc_num := desc_num c,
               hdr_msg_size := msg_size c, hdr_queue_size := queue_size (layout c),
               hdr_total_size := ucast required\<rparr>,
     shm_queues = init_all_queues c (shm_queues s)\<rparr>"

definition set_init_state :: "u32 \<Rightarrow> mkring_shm \<Rightarrow> mkring_shm" where
  "set_init_state x s = s\<lparr>shm_hdr := (shm_hdr s)\<lparr>hdr_init_state := x\<rparr>\<rparr>"

text \<open>\<open>n\<close> bounds the number of polls before the deadline.\<close>

fun prep_step :: "nat \<Rightarrow> mkring_ctx \<Rightarrow> u64 \<Rightarrow> prep_pc \<Rightarrow> mkring_shm \<Rightarrow> prep_pc \<times> mkring_shm" where
  "prep_step n c r PStart s = (PCheck, if force_init c \<and> local_id c = 0 then zero_shm c else s)"
| "prep_step n c r PCheck s =
    (if hdr_init_state (shm_hdr s) = MKRING_SHM_READY \<and> mkring_hdr_compatible c (shm_hdr s)
     then (PSetReady, s) else (PCas, s))"
| "prep_step n c r PCas s =
    (if hdr_init_state (shm_hdr s) = MKRING_SHM_UNINIT then (PClear, set_init_state MKRING_SHM_INITING s)
     else if hdr_init_state (shm_hdr s) = MKRING_SHM_INITING then (PWait n, s)
     else (PReread, s))"
| "prep_step n c r PClear s = (PFill, zero_shm c)"
| "prep_step n c r PFill s = (PPublish, fill_shm c r s)"
| "prep_step n c r PPublish s = (PCompat, set_init_state MKRING_SHM_READY s)"
| "prep_step n c r (PWait 0) s = (PRet (- ETIMEDOUT), s)"
| "prep_step n c r (PWait (Suc i)) s =
    (if hdr_init_state (shm_hdr s) = MKRING_SHM_READY then (PReread, s) else (PWait i, s))"
| "prep_step n c r PReread s =
    (if hdr_init_state (shm_hdr s) \<noteq> MKRING_SHM_READY then (PRet (- EAGAIN), s) else (PCompat, s))"
| "prep_step n c r PCompat s =
    (if \<not> mkring_hdr_compatible c (shm_hdr s) then (PRet (- EPROTO), s) else (PSetReady, s))"
| "prep_step n c r PSetReady s = (PRet 0, set_ready_bit [] (local_id c) s)"
| "prep_step n c r (PRet rc) s = (PRet rc, s)"

text \<open>Several kernels: a schedule says whose turn it is. \<open>cs\<close> gives the kernels' contexts.\<close>

fun prep_run :: "nat \<Rightarrow> (u16 \<Rightarrow> mkring_ctx) \<Rightarrow> u64 \<Rightarrow> u16 list \<Rightarrow> (u16 \<Rightarrow> prep_pc) \<Rightarrow> mkring_shm \<Rightarrow>
    (u16 \<Rightarrow> prep_pc) \<times> mkring_shm" where
  "prep_run n cs r [] pcs s = (pcs, s)"
| "prep_run n cs r (k # ks) pcs s =
    (case prep_step n (cs k) r (pcs k) s of (pc', s') \<Rightarrow> prep_run n cs r ks (pcs(k := pc')) s')"

fun prep_solo :: "nat \<Rightarrow> nat \<Rightarrow> mkring_ctx \<Rightarrow> u64 \<Rightarrow> prep_pc \<Rightarrow> mkring_shm \<Rightarrow> prep_pc \<times> mkring_shm" where
  "prep_solo 0 n c r pc s = (pc, s)"
| "prep_solo (Suc i) n c r pc s = (case prep_step n c r pc s of (pc', s') \<Rightarrow> prep_solo i n c r pc' s')"

lemma publish_fill: "set_init_state MKRING_SHM_READY (fill_shm c r (zero_shm c)) = init_shared c r"
  by (simp add: set_init_state_def fill_shm_def init_shared_def Let_def)

lemma init_shared_compatible: "mkring_hdr_compatible c (shm_hdr (init_shared c r))"
  by (simp add: init_shared_def Let_def mkring_hdr_compatible_def)

lemma solo_ret: "prep_solo i n c r (PRet rc) s = (PRet rc, s)"
  by (induction i) simp_all

lemma solo_wait:
  assumes "hdr_init_state (shm_hdr s) = MKRING_SHM_INITING" "i < m"
  shows "prep_solo m n c r (PWait i) s = (PRet (- ETIMEDOUT), s)"
  using assms
proof (induction i arbitrary: m)
  case 0
  then show ?case by (cases m) (simp_all add: solo_ret)
next
  case (Suc i)
  then show ?case by (cases m) simp_all
qed



text \<open>
  C29. Initialisation of the shared region is not mutually exclusive. The kernel that wins the
  compare-and-exchange clears the whole region, its own \<^verbatim>\<open>INITING\<close> mark included, so a second
  kernel can win as well. In the schedule below both calls return 0, but the second kernel
  clears the region after the first has set its ready bit: kernel 0 is up and is not marked
  ready, so every later send to it fails with ENOLINK.
\<close>

theorem init_race_loses_ready_bit:
  "case prep_run n (\<lambda>k. c\<lparr>local_id := k, force_init := False\<rparr>) r [0, 0, 0, 0, 1, 1, 1, 0, 0, 0, 0, 1, 1, 1, 1, 1]
     (\<lambda>_. PStart) (zero_shm c) of
   (pcs, s) \<Rightarrow> pcs 0 = PRet 0 \<and> pcs 1 = PRet 0 \<and> hdr_init_state (shm_hdr s) = MKRING_SHM_READY \<and>
     and (hdr_ready_bitmap (shm_hdr s)) (BIT 0) = 0 \<and> and (hdr_ready_bitmap (shm_hdr s)) (BIT 1) \<noteq> 0"
  by (simp add: zero_shm_def zero_hdr_def set_init_state_def fill_shm_def mkring_hdr_compatible_def
      set_ready_bit_def BIT_def)

end
