(* ===== verification/InitMk.thy ===== *)
theory InitMk
  imports Mkring
begin

text \<open>
  \<^verbatim>\<open>mkring/init_mk.c\<close>: the boot parameters, the interrupt back end and the entry point that calls
  \<^verbatim>\<open>mkring_init\<close>. The number parsers of the kernel are the parameter \<open>kstr\<close>, which gives the value of
  a well-formed unsigned number; the width checks of \<^verbatim>\<open>kstrtou16\<close>, \<^verbatim>\<open>kstrtou32\<close> and \<^verbatim>\<open>kstrtou64\<close> are
  written out. \<open>kbool\<close> stands for \<^verbatim>\<open>kstrtobool\<close>. The configuration symbol \<^verbatim>\<open>CONFIG_X86_LOCAL_APIC\<close>
  is a flag.
\<close>

section \<open>State\<close>

record mk_ipi_notify_ctx =
  n_vector :: u8
  n_kernels :: u16
  n_apic_id :: "u32 list"
  n_valid :: "bool list"

record mk_boot =
  mk_params :: mkring_boot_params
  mk_has_shm_phys :: bool
  mk_has_shm_size :: bool
  mk_has_kernel_id :: bool
  mk_has_ipi_dests :: bool
  mk_ipi_dests_nr :: u16
  mk_ipi_vector :: u32
  mk_ipi_dests :: "u32 list"
  mk_notify_ctx :: mk_ipi_notify_ctx

definition zero_notify_ctx :: mk_ipi_notify_ctx where
  "zero_notify_ctx = \<lparr>n_vector = 0, n_kernels = 0, n_apic_id = replicate 32 0, n_valid = replicate 32 False\<rparr>"

definition mk_boot_start :: mk_boot where
  "mk_boot_start = \<lparr>mk_params = \<lparr>bp_shm_phys = 0, bp_shm_size = 0, bp_kernel_id = 0, bp_kernels = 2,
       bp_desc_num = 256, bp_msg_size = 1024, bp_force_init = False, bp_notify = None\<rparr>,
     mk_has_shm_phys = False, mk_has_shm_size = False, mk_has_kernel_id = False, mk_has_ipi_dests = False,
     mk_ipi_dests_nr = 0, mk_ipi_vector = 0xF2, mk_ipi_dests = replicate 32 0, mk_notify_ctx = zero_notify_ctx\<rparr>"

section \<open>Interrupt back end\<close>

text \<open>
  Besides the return value the model gives the write to the interrupt command register: the low
  word, in which fixed delivery and physical destination are zero bits, and the destination.
\<close>

definition mk_ipi_notify ::
    "bool \<Rightarrow> mk_ipi_notify_ctx option \<Rightarrow> u16 \<Rightarrow> u16 \<Rightarrow> int \<times> (u32 \<times> u32) list" where
  "mk_ipi_notify x86 n src_kid dst_kid =
    (case n of
       None \<Rightarrow> (- EINVAL, [])
     | Some ctx \<Rightarrow>
         if n_kernels ctx \<le> src_kid \<or> n_kernels ctx \<le> dst_kid then (- EINVAL, [])
         else if \<not> n_valid ctx ! unat dst_kid then (- ENODEV, [])
         else if x86 then (0, [(ucast (n_vector ctx), n_apic_id ctx ! unat dst_kid)])
         else (- EOPNOTSUPP, []))"

fun fill_dests :: "nat list \<Rightarrow> u32 list \<Rightarrow> mk_ipi_notify_ctx \<Rightarrow> mk_ipi_notify_ctx" where
  "fill_dests [] dests ctx = ctx"
| "fill_dests (kid # kids) dests ctx =
    fill_dests kids dests (ctx\<lparr>n_apic_id := (n_apic_id ctx)[kid := dests ! kid], n_valid := (n_valid ctx)[kid := True]\<rparr>)"

text \<open>The default implementation; the result says whether there is a notify function.\<close>

definition init_mk_get_notify :: "bool \<Rightarrow> mk_boot \<Rightarrow> bool \<times> mk_boot" where
  "init_mk_get_notify x86 b =
    (if \<not> x86 then (False, b)
     else if \<not> mk_has_ipi_dests b then (False, b)
     else if MKRING_MAX_KERNELS < bp_kernels (mk_params b) then (False, b)
     else
       let ctx = zero_notify_ctx\<lparr>n_vector := ucast (mk_ipi_vector b), n_kernels := bp_kernels (mk_params b)\<rparr>;
           kids = [0..<min (unat (bp_kernels (mk_params b))) (unat (mk_ipi_dests_nr b))]
       in (True, b\<lparr>mk_notify_ctx := fill_dests kids (mk_ipi_dests b) ctx\<rparr>))"

section \<open>Boot parameters\<close>

definition kstrtou :: "(string \<Rightarrow> nat option) \<Rightarrow> string \<Rightarrow> 'a::len word option" where
  "kstrtou kstr s = (case kstr s of None \<Rightarrow> None | Some v \<Rightarrow> if v < 2 ^ LENGTH('a) then Some (of_nat v) else None)"

definition mk_parse_shm_phys :: "(string \<Rightarrow> nat option) \<Rightarrow> string \<Rightarrow> mk_boot \<Rightarrow> mk_boot" where
  "mk_parse_shm_phys kstr str b =
    (case kstrtou kstr str of
       None \<Rightarrow> b
     | Some v \<Rightarrow> b\<lparr>mk_params := (mk_params b)\<lparr>bp_shm_phys := v\<rparr>, mk_has_shm_phys := True\<rparr>)"

definition mk_parse_shm_size :: "(string \<Rightarrow> nat option) \<Rightarrow> string \<Rightarrow> mk_boot \<Rightarrow> mk_boot" where
  "mk_parse_shm_size kstr str b =
    (case kstrtou kstr str of
       None \<Rightarrow> b
     | Some v \<Rightarrow> if v = 0 then b
                else b\<lparr>mk_params := (mk_params b)\<lparr>bp_shm_size := v\<rparr>, mk_has_shm_size := True\<rparr>)"

definition mk_parse_kernel_id :: "(string \<Rightarrow> nat option) \<Rightarrow> string \<Rightarrow> mk_boot \<Rightarrow> mk_boot" where
  "mk_parse_kernel_id kstr str b =
    (case kstrtou kstr str of
       None \<Rightarrow> b
     | Some v \<Rightarrow> b\<lparr>mk_params := (mk_params b)\<lparr>bp_kernel_id := v\<rparr>, mk_has_kernel_id := True\<rparr>)"

definition mk_parse_kernels :: "(string \<Rightarrow> nat option) \<Rightarrow> string \<Rightarrow> mk_boot \<Rightarrow> mk_boot" where
  "mk_parse_kernels kstr str b =
    (case kstrtou kstr str of
       None \<Rightarrow> b
     | Some v \<Rightarrow> if v = 0 then b else b\<lparr>mk_params := (mk_params b)\<lparr>bp_kernels := v\<rparr>\<rparr>)"

definition mk_parse_desc_num :: "(string \<Rightarrow> nat option) \<Rightarrow> string \<Rightarrow> mk_boot \<Rightarrow> mk_boot" where
  "mk_parse_desc_num kstr str b =
    (case kstrtou kstr str of
       None \<Rightarrow> b
     | Some v \<Rightarrow> if v = 0 then b else b\<lparr>mk_params := (mk_params b)\<lparr>bp_desc_num := v\<rparr>\<rparr>)"

definition mk_parse_msg_size :: "(string \<Rightarrow> nat option) \<Rightarrow> string \<Rightarrow> mk_boot \<Rightarrow> mk_boot" where
  "mk_parse_msg_size kstr str b =
    (case kstrtou kstr str of
       None \<Rightarrow> b
     | Some v \<Rightarrow> if v = 0 then b else b\<lparr>mk_params := (mk_params b)\<lparr>bp_msg_size := v\<rparr>\<rparr>)"

definition mk_parse_ipi_vector :: "(string \<Rightarrow> nat option) \<Rightarrow> string \<Rightarrow> mk_boot \<Rightarrow> mk_boot" where
  "mk_parse_ipi_vector kstr str b =
    (case kstrtou kstr str of
       None \<Rightarrow> b
     | Some v \<Rightarrow> if v < 0x20 \<or> 0xFE < v then b else b\<lparr>mk_ipi_vector := v\<rparr>)"

text \<open>The tokens \<^verbatim>\<open>strsep(&cursor, ",")\<close> yields one after the other.\<close>

fun strsep_tokens :: "string \<Rightarrow> string list" where
  "strsep_tokens [] = [[]]"
| "strsep_tokens (c # cs) =
    (if c = CHR '','' then [] # strsep_tokens cs
     else case strsep_tokens cs of [] \<Rightarrow> [[c]] | t # ts \<Rightarrow> (c # t) # ts)"

fun dests_loop :: "(string \<Rightarrow> nat option) \<Rightarrow> string list \<Rightarrow> u16 \<Rightarrow> u32 list \<Rightarrow> u16 option \<times> u32 list" where
  "dests_loop kstr [] idx dests = (Some idx, dests)"
| "dests_loop kstr (tok # toks) idx dests =
    (if tok = [] then dests_loop kstr toks idx dests
     else if MKRING_MAX_KERNELS \<le> idx then (None, dests)
     else case kstrtou kstr tok of
       None \<Rightarrow> (None, dests)
     | Some apic \<Rightarrow> dests_loop kstr toks (idx + 1) (dests[unat idx := apic]))"

definition mk_parse_ipi_dests :: "(string \<Rightarrow> nat option) \<Rightarrow> string \<Rightarrow> mk_boot \<Rightarrow> mk_boot" where
  "mk_parse_ipi_dests kstr str b =
    (case dests_loop kstr (strsep_tokens str) 0 (mk_ipi_dests b) of
       (None, dests) \<Rightarrow> b\<lparr>mk_ipi_dests := dests\<rparr>
     | (Some idx, dests) \<Rightarrow>
         if idx = 0 then b\<lparr>mk_ipi_dests := dests\<rparr>
         else b\<lparr>mk_ipi_dests := dests, mk_ipi_dests_nr := idx, mk_has_ipi_dests := True\<rparr>)"

definition mk_parse_force_init :: "(string \<Rightarrow> bool option) \<Rightarrow> string \<Rightarrow> mk_boot \<Rightarrow> mk_boot" where
  "mk_parse_force_init kbool str b =
    (case kbool str of None \<Rightarrow> b | Some v \<Rightarrow> b\<lparr>mk_params := (mk_params b)\<lparr>bp_force_init := v\<rparr>\<rparr>)"

section \<open>Entry point\<close>

text \<open>The number that stands for \<^verbatim>\<open>mk_ipi_notify\<close> with its context.\<close>

abbreviation (input) IPI_NOTIFY :: nat where "IPI_NOTIFY \<equiv> 0"

definition init_mk :: "bool \<Rightarrow> init_env \<Rightarrow> mk_boot \<Rightarrow> mk_world \<Rightarrow> (int \<times> mk_boot \<times> mk_world) option" where
  "init_mk x86 e b w =
    (if \<not> mk_has_shm_phys b \<or> \<not> mk_has_shm_size b \<or> \<not> mk_has_kernel_id b then Some (- EINVAL, b, w)
     else if MKRING_MAX_KERNELS < bp_kernels (mk_params b) then Some (- EINVAL, b, w)
     else
       let (have_notify, b1) = init_mk_get_notify x86 b;
           b2 = b1\<lparr>mk_params := (mk_params b1)\<lparr>bp_notify := (if have_notify then Some IPI_NOTIFY else None)\<rparr>\<rparr>
       in case mkring_init e (Some (mk_params b2)) w of
            None \<Rightarrow> None
          | Some (ret, w') \<Rightarrow> Some (ret, b2, w'))"

section \<open>Any command line\<close>

text \<open>The handlers run in the order in which the options stand on the command line.\<close>

datatype boot_opt = ShmPhys string | ShmSize string | KernelId string | Kernels string | DescNum string
  | MsgSize string | IpiVector string | IpiDests string | ForceInit string

fun parse_opt :: "(string \<Rightarrow> nat option) \<Rightarrow> (string \<Rightarrow> bool option) \<Rightarrow> boot_opt \<Rightarrow> mk_boot \<Rightarrow> mk_boot" where
  "parse_opt kstr kbool (ShmPhys s) = mk_parse_shm_phys kstr s"
| "parse_opt kstr kbool (ShmSize s) = mk_parse_shm_size kstr s"
| "parse_opt kstr kbool (KernelId s) = mk_parse_kernel_id kstr s"
| "parse_opt kstr kbool (Kernels s) = mk_parse_kernels kstr s"
| "parse_opt kstr kbool (DescNum s) = mk_parse_desc_num kstr s"
| "parse_opt kstr kbool (MsgSize s) = mk_parse_msg_size kstr s"
| "parse_opt kstr kbool (IpiVector s) = mk_parse_ipi_vector kstr s"
| "parse_opt kstr kbool (IpiDests s) = mk_parse_ipi_dests kstr s"
| "parse_opt kstr kbool (ForceInit s) = mk_parse_force_init kbool s"

definition boot_sane :: "mk_boot \<Rightarrow> bool" where
  "boot_sane b \<longleftrightarrow> bp_kernels (mk_params b) \<noteq> 0 \<and> bp_desc_num (mk_params b) \<noteq> 0 \<and> bp_msg_size (mk_params b) \<noteq> 0 \<and>
     (mk_has_shm_size b \<longrightarrow> bp_shm_size (mk_params b) \<noteq> 0) \<and>
     0x20 \<le> mk_ipi_vector b \<and> mk_ipi_vector b \<le> 0xFE \<and>
     length (mk_ipi_dests b) = 32 \<and> unat (mk_ipi_dests_nr b) \<le> 32 \<and>
     (mk_has_ipi_dests b \<longrightarrow> mk_ipi_dests_nr b \<noteq> 0)"

lemma dests_loop_bounds:
  assumes "dests_loop kstr toks idx dests = (r, dests')" "unat idx \<le> 32" "length dests = 32"
  shows "length dests' = 32 \<and> (\<forall>n. r = Some n \<longrightarrow> unat n \<le> 32)"
  using assms
proof (induction kstr toks idx dests rule: dests_loop.induct)
  case (2 kstr tok toks idx dests)
  have "unat (idx + 1) \<le> 32" if "\<not> MKRING_MAX_KERNELS \<le> idx"
    using that by (simp add: word_le_nat_alt unat_word_ariths)
  with 2 show ?case by (auto split: if_splits option.splits)
qed auto

lemma parse_opt_sane:
  assumes "boot_sane b"
  shows "boot_sane (parse_opt kstr kbool opt b)"
proof (cases opt)
  case (IpiDests s)
  obtain r dests where d: "dests_loop kstr (strsep_tokens s) 0 (mk_ipi_dests b) = (r, dests)" by fastforce
  with dests_loop_bounds [OF d] assms IpiDests show ?thesis
    by (auto simp: mk_parse_ipi_dests_def boot_sane_def split: option.splits)
qed (use assms in \<open>auto simp: boot_sane_def mk_parse_shm_phys_def mk_parse_shm_size_def mk_parse_kernel_id_def
      mk_parse_kernels_def mk_parse_desc_num_def mk_parse_msg_size_def mk_parse_ipi_vector_def
      mk_parse_force_init_def not_less split: option.splits\<close>)

lemma fold_sane: "boot_sane b \<Longrightarrow> boot_sane (fold (parse_opt kstr kbool) opts b)"
  by (induction opts arbitrary: b) (simp_all add: parse_opt_sane)

text \<open>
  No command line, however malformed, gets values past the parsers that \<^verbatim>\<open>mkring_init\<close> or the
  interrupt back end cannot take: the numbers of kernels and descriptors, the message size and a
  given region size are not zero, the interrupt vector lies between 0x20 and 0xFE, and the list
  of destinations stays within its array.
\<close>

theorem boot_params_sane: "boot_sane (fold (parse_opt kstr kbool) opts mk_boot_start)"
  by (rule fold_sane) (simp add: boot_sane_def mk_boot_start_def)

section \<open>Interrupt destinations\<close>

lemma strsep_comma_free: "CHR '','' \<notin> set t \<Longrightarrow> strsep_tokens t = [t]"
  by (induction t) auto

lemma strsep_append: "CHR '','' \<notin> set t \<Longrightarrow> strsep_tokens (t @ CHR '','' # u) = t # strsep_tokens u"
  by (induction t) auto

fun join_comma :: "string list \<Rightarrow> string" where
  "join_comma [] = []"
| "join_comma [t] = t"
| "join_comma (t # ts) = t @ CHR '','' # join_comma ts"

lemma strsep_join: "ts \<noteq> [] \<Longrightarrow> \<forall>t\<in>set ts. CHR '','' \<notin> set t \<Longrightarrow> strsep_tokens (join_comma ts) = ts"
  by (induction ts rule: join_comma.induct) (simp_all add: strsep_comma_free strsep_append)

lemma dests_loop_ok:
  assumes "\<forall>t\<in>set ts. t \<noteq> [] \<and> kstrtou kstr t = Some (val t)" "unat idx + length ts \<le> 32" "length dests = 32"
  shows "\<exists>dests'. dests_loop kstr ts idx dests = (Some (idx + of_nat (length ts)), dests') \<and> length dests' = 32 \<and>
    (\<forall>i < length ts. dests' ! (unat idx + i) = val (ts ! i)) \<and> (\<forall>i < unat idx. dests' ! i = dests ! i)"
  using assms
proof (induction ts arbitrary: idx dests)
  case Nil
  then show ?case by simp
next
  case (Cons t ts)
  have idx: "\<not> MKRING_MAX_KERNELS \<le> idx" "unat (idx + 1) = Suc (unat idx)"
    using Cons.prems(2) by (simp_all add: word_le_nat_alt unat_word_ariths)
  obtain dests' where d: "dests_loop kstr ts (idx + 1) (dests[unat idx := val t]) =
      (Some (idx + 1 + of_nat (length ts)), dests')" "length dests' = 32"
    "\<forall>i < length ts. dests' ! (Suc (unat idx) + i) = val (ts ! i)"
    "\<forall>i < Suc (unat idx). dests' ! i = dests[unat idx := val t] ! i"
    using Cons.IH [of "idx + 1" "dests[unat idx := val t]"] Cons.prems idx by auto
  have "dests' ! (unat idx + i) = val ((t # ts) ! i)" if "i < length (t # ts)" for i
    using that d(3,4) Cons.prems(2,3) by (cases i) auto
  with d idx(1) Cons.prems(1) show ?case by (auto simp: add.assoc)
qed

lemma fill_dests_spec:
  assumes "length (n_apic_id ctx) = 32" "length (n_valid ctx) = 32" "\<forall>k\<in>set kids. k < 32"
  shows "n_vector (fill_dests kids dests ctx) = n_vector ctx \<and> n_kernels (fill_dests kids dests ctx) = n_kernels ctx \<and>
    (\<forall>i < 32. n_valid (fill_dests kids dests ctx) ! i = (i \<in> set kids \<or> n_valid ctx ! i) \<and>
       n_apic_id (fill_dests kids dests ctx) ! i = (if i \<in> set kids then dests ! i else n_apic_id ctx ! i))"
  using assms
  by (induction kids dests ctx rule: fill_dests.induct) (auto simp: nth_list_update)

text \<open>
  C36. From the boot option to the interrupt: after parsing a list of at most 32 destinations and
  setting up the back end on x86, notifying kernel \<open>dst\<close> writes exactly one interrupt command,
  with the configured vector and the \<open>dst\<close>-th destination of the list, and returns 0; a kernel for
  which the list has no entry gets no interrupt and the call returns ENODEV.
\<close>

theorem ipi_reaches_destination:
  assumes "\<forall>t\<in>set ts. CHR '','' \<notin> set t \<and> t \<noteq> [] \<and> kstrtou kstr t = Some (val t)" "ts \<noteq> []" "length ts \<le> 32"
    and "boot_sane b" "unat (bp_kernels (mk_params b)) \<le> 32"
    and "init_mk_get_notify True (mk_parse_ipi_dests kstr (join_comma ts) b) = (r, b')"
    and "src < bp_kernels (mk_params b)" "dst < bp_kernels (mk_params b)"
  shows "r \<and> mk_ipi_notify True (Some (mk_notify_ctx b')) src dst =
    (if unat dst < length ts then (0, [(mk_ipi_vector b, val (ts ! unat dst))]) else (- ENODEV, []))"
proof -
  have "length (mk_ipi_dests b) = 32" using assms(4) by (simp add: boot_sane_def)
  then obtain dests where d: "dests_loop kstr ts 0 (mk_ipi_dests b) = (Some (of_nat (length ts)), dests)"
    "\<forall>i < length ts. dests ! i = val (ts ! i)"
    using dests_loop_ok [of ts kstr val 0 "mk_ipi_dests b"] assms(1,3) by auto
  have n: "unat (of_nat (length ts) :: u16) = length ts" using assms(3) by (simp add: unat_of_nat)
  then have "of_nat (length ts) \<noteq> (0 :: u16)" using assms(2) by (metis length_0_conv unat_0)
  then have p: "mk_parse_ipi_dests kstr (join_comma ts) b =
      b\<lparr>mk_ipi_dests := dests, mk_ipi_dests_nr := of_nat (length ts), mk_has_ipi_dests := True\<rparr>"
    using d(1) strsep_join [OF assms(2)] assms(1) by (simp add: mk_parse_ipi_dests_def)
  define ctx where "ctx = zero_notify_ctx\<lparr>n_vector := ucast (mk_ipi_vector b), n_kernels := bp_kernels (mk_params b)\<rparr>"
  define kids where "kids = [0..<min (unat (bp_kernels (mk_params b))) (length ts)]"
  have "\<not> MKRING_MAX_KERNELS < bp_kernels (mk_params b)" using assms(5) by (simp add: word_less_nat_alt)
  then have r: "r" and b': "mk_notify_ctx b' = fill_dests kids dests ctx"
    using assms(6) unfolding p init_mk_get_notify_def by (auto simp: Let_def ctx_def kids_def n)
  have dst: "unat dst < unat (bp_kernels (mk_params b))" "unat dst < 32"
    using assms(5,8) by (simp_all add: word_less_nat_alt)
  have "n_vector (fill_dests kids dests ctx) = n_vector ctx \<and> n_kernels (fill_dests kids dests ctx) = n_kernels ctx \<and>
    (\<forall>i < 32. n_valid (fill_dests kids dests ctx) ! i = (i \<in> set kids \<or> n_valid ctx ! i) \<and>
       n_apic_id (fill_dests kids dests ctx) ! i = (if i \<in> set kids then dests ! i else n_apic_id ctx ! i))"
    using assms(3) by (intro fill_dests_spec) (auto simp: ctx_def zero_notify_ctx_def kids_def)
  moreover have "ucast (n_vector ctx) = mk_ipi_vector b"
  proof -
    have "unat (mk_ipi_vector b) \<le> 254" using assms(4) by (simp add: boot_sane_def word_le_nat_alt)
    then show ?thesis by (simp add: ctx_def word_unat_eq_iff unsigned_ucast_eq take_bit_eq_mod unat_mod_distrib)
  qed
  ultimately show ?thesis
    using r b' dst assms(7,8) d(2)
    by (auto simp: mk_ipi_notify_def ctx_def zero_notify_ctx_def kids_def not_le)
qed

theorem ipi_reaches_destination_witness:
  "\<exists>r b'. init_mk_get_notify True (mk_parse_ipi_dests (\<lambda>t. if t = ''8'' then Some 8 else None) (join_comma [''8'', ''8''])
      mk_boot_start) = (r, b') \<and> r \<and> mk_ipi_notify True (Some (mk_notify_ctx b')) 0 1 = (0, [(0xF2, 8)])"
proof -
  let ?kstr = "\<lambda>t. if t = ''8'' then Some 8 else None"
  obtain r b' where rb: "init_mk_get_notify True (mk_parse_ipi_dests ?kstr (join_comma [''8'', ''8'']) mk_boot_start) = (r, b')"
    by fastforce
  have "boot_sane mk_boot_start" by (simp add: boot_sane_def mk_boot_start_def)
  then have "r \<and> mk_ipi_notify True (Some (mk_notify_ctx b')) 0 1 =
    (if unat (1 :: u16) < length [''8'', ''8''] then (0, [(mk_ipi_vector mk_boot_start, 8)]) else (- ENODEV, []))"
    by (intro ipi_reaches_destination [OF _ _ _ _ _ rb, where val = "\<lambda>_. 8"])
      (simp_all add: kstrtou_def mk_boot_start_def)
  moreover have "mk_ipi_vector mk_boot_start = 0xF2" by (simp add: mk_boot_start_def)
  ultimately show ?thesis using rb by (intro exI [of _ r] exI [of _ b']) simp
qed

end
