(* ===== verification/Wire.thy ===== *)
theory Wire
  imports Prelude
begin

text \<open>
  Packed little-endian structures as byte lists: encoding and decoding of integers of a given
  number of bytes, and fixed-size fields inside a buffer. The protocol headers of
  \<^verbatim>\<open>mkring_proto.h\<close>, \<^verbatim>\<open>mkring_container.h\<close> and \<^verbatim>\<open>mkring_stream.h\<close> are read and written through them.
\<close>

definition enc_le :: "nat \<Rightarrow> 'a::len word \<Rightarrow> bytes" where
  "enc_le n w = map (\<lambda>i. ucast (drop_bit (8 * i) w)) [0..<n]"

fun dec_le :: "bytes \<Rightarrow> 'a::len word" where
  "dec_le [] = 0"
| "dec_le (b # bs) = or (ucast b) (push_bit 8 (dec_le bs))"

lemma length_enc_le [simp]: "length (enc_le n w) = n"
  by (simp add: enc_le_def)

lemma bit_dec_le:
  "bit (dec_le bs :: 'a::len word) i \<longleftrightarrow>
     i < LENGTH('a) \<and> i div 8 < length bs \<and> bit (bs ! (i div 8)) (i mod 8)"
proof (induction bs arbitrary: i)
  case Nil
  then show ?case by simp
next
  case (Cons b bs)
  show ?case
  proof (cases "i < 8")
    case True
    then show ?thesis by (auto simp: bit_simps)
  next
    case False
    then obtain j where j: "i = j + 8" by (metis add.commute le_Suc_ex not_less)
    have "\<not> bit b (j + 8)" using bit_imp_le_length [of b "j + 8"] by auto
    moreover have "(j + 8) div 8 = Suc (j div 8)" by simp
    ultimately show ?thesis using Cons.IH [of j] by (auto simp: j bit_simps)
  qed
qed

text \<open>Decoding inverts encoding, at every width that is a whole number of bytes.\<close>

lemma dec_enc_le: "LENGTH('a) = 8 * n \<Longrightarrow> dec_le (enc_le n w) = w" for w :: "'a::len word"
proof (rule bit_word_eqI)
  fix i assume n: "LENGTH('a) = 8 * n" and i: "i < LENGTH('a)"
  have "8 * (i div 8) + i mod 8 = i" by simp
  moreover have "i div 8 < n" using n i by (simp add: less_mult_imp_div_less mult.commute)
  ultimately show "bit (dec_le (enc_le n w) :: 'a word) i \<longleftrightarrow> bit w i"
    using i by (simp add: bit_dec_le enc_le_def bit_simps)
qed

lemma dec_enc_u8 [simp]: "dec_le (enc_le 1 w) = w" for w :: u8
  by (rule dec_enc_le) simp

lemma dec_enc_u16 [simp]: "dec_le (enc_le 2 w) = w" for w :: u16
  by (rule dec_enc_le) simp

lemma dec_enc_u32 [simp]: "dec_le (enc_le 4 w) = w" for w :: u32
  by (rule dec_enc_le) simp

lemma dec_enc_u64 [simp]: "dec_le (enc_le 8 w) = w" for w :: u64
  by (rule dec_enc_le) simp

text \<open>A field of \<open>n\<close> bytes at offset \<open>off\<close> of a buffer.\<close>

definition field :: "nat \<Rightarrow> nat \<Rightarrow> bytes \<Rightarrow> bytes" where
  "field off n bs = take n (drop off bs)"

definition put :: "nat \<Rightarrow> bytes \<Rightarrow> bytes \<Rightarrow> bytes" where
  "put off new bs = take off bs @ new @ drop (off + length new) bs"

lemma length_put [simp]: "off + length new \<le> length bs \<Longrightarrow> length (put off new bs) = length bs"
  by (simp add: put_def)

lemma length_field [simp]: "length (field off n bs) = min n (length bs - off)"
  by (simp add: field_def)

lemma field_put_same:
  "off + length new \<le> length bs \<Longrightarrow> n = length new \<Longrightarrow> field off n (put off new bs) = new"
  by (simp add: field_def put_def)

lemma field_put_other:
  assumes "off + length new \<le> length bs" "o2 + n \<le> off \<or> off + length new \<le> o2"
  shows "field o2 n (put off new bs) = field o2 n bs"
proof -
  have "field o2 n (put off new bs) ! i = field o2 n bs ! i" if "i < min n (length bs - o2)" for i
    using that assms by (auto simp: field_def put_def nth_append)
  then show ?thesis using assms(1) by (intro nth_equalityI) simp_all
qed

text \<open>Fields of a buffer built by appending.\<close>

lemma field_append1: "off + n \<le> length xs \<Longrightarrow> field off n (xs @ ys) = field off n xs"
  by (simp add: field_def)

lemma field_append2: "length xs \<le> off \<Longrightarrow> field off n (xs @ ys) = field (off - length xs) n ys"
  by (simp add: field_def)

lemma field_self: "n = length xs \<Longrightarrow> field 0 n xs = xs"
  by (simp add: field_def)

lemmas field_append = field_append1 field_append2 field_self

section \<open>C strings in fixed-size fields\<close>

text \<open>
  A C string is a byte list without NUL. A fixed-size character field holds the string, a NUL
  and then arbitrary bytes; \<open>cstr\<close> reads it up to the NUL (or the whole field, as \<^verbatim>\<open>strnlen\<close> does),
  \<open>strz n\<close> is the field a string is stored in after clearing the memory.
\<close>

definition cstr :: "bytes \<Rightarrow> bytes" where
  "cstr bs = takeWhile (\<lambda>b. b \<noteq> 0) bs"

definition strz :: "nat \<Rightarrow> bytes \<Rightarrow> bytes" where
  "strz n s = s @ replicate (n - length s) 0"

definition is_cstr :: "bytes \<Rightarrow> bool" where
  "is_cstr s \<longleftrightarrow> 0 \<notin> set s"

definition cs :: "string \<Rightarrow> bytes" where
  "cs s = map of_char s"

lemma is_cstr_cstr [simp]: "is_cstr (cstr bs)"
  unfolding is_cstr_def cstr_def using set_takeWhileD by fastforce

lemma length_strz [simp]: "length s \<le> n \<Longrightarrow> length (strz n s) = n"
  by (simp add: strz_def)

lemma cstr_append_zero: "is_cstr s \<Longrightarrow> cstr (s @ 0 # t) = s"
  unfolding cstr_def is_cstr_def by (subst takeWhile_append2) auto

lemma cstr_id: "is_cstr s \<Longrightarrow> cstr s = s"
  by (auto simp: cstr_def is_cstr_def)

lemma cstr_strz: "is_cstr s \<Longrightarrow> length s \<le> n \<Longrightarrow> cstr (strz n s) = s"
proof -
  assume s: "is_cstr s" "length s \<le> n"
  have "cstr (s @ replicate k 0) = s" for k
    using s(1) by (cases k) (simp_all add: cstr_append_zero cstr_id)
  then show ?thesis by (simp add: strz_def)
qed

lemma length_cstr: "length (cstr bs) \<le> length bs"
  by (simp add: cstr_def length_takeWhile_le)

lemma cstr_short: "length (cstr bs) < length bs \<longleftrightarrow> 0 \<in> set bs"
proof
  assume "length (cstr bs) < length bs"
  then have "bs ! length (cstr bs) = 0" unfolding cstr_def using nth_length_takeWhile by blast
  with \<open>length (cstr bs) < length bs\<close> show "0 \<in> set bs" by (metis nth_mem)
next
  assume "0 \<in> set bs"
  then obtain xs ys where bs: "bs = xs @ 0 # ys" "0 \<notin> set xs" using split_list_first [of 0 bs] by blast
  then have "cstr bs = xs" using cstr_append_zero [of xs ys] by (simp add: is_cstr_def)
  with bs(1) show "length (cstr bs) < length bs" by simp
qed

end
