(* ===== verification/Packed.thy ===== *)
theory Packed
  imports Wire
begin

text \<open>
  Packed C structures: a structure is the list of its members with their sizes in bytes, in the
  order of the declaration. A member is read and written at the sum of the sizes before it.
\<close>

type_synonym packed = "(string \<times> nat) list"

definition sizeof :: "packed \<Rightarrow> nat" where
  "sizeof fs = sum_list (map snd fs)"

fun offset_of :: "packed \<Rightarrow> string \<Rightarrow> nat" where
  "offset_of [] n = 0"
| "offset_of ((m, k) # fs) n = (if m = n then 0 else k + offset_of fs n)"

fun member_size :: "packed \<Rightarrow> string \<Rightarrow> nat" where
  "member_size [] n = 0"
| "member_size ((m, k) # fs) n = (if m = n then k else member_size fs n)"

definition get :: "packed \<Rightarrow> string \<Rightarrow> bytes \<Rightarrow> bytes" where
  "get fs n bs = field (offset_of fs n) (member_size fs n) bs"

definition set_member :: "packed \<Rightarrow> string \<Rightarrow> bytes \<Rightarrow> bytes \<Rightarrow> bytes" where
  "set_member fs n v bs = put (offset_of fs n) v bs"

text \<open>Element \<open>i\<close> of an array member whose elements have \<open>k\<close> bytes.\<close>

definition elem :: "nat \<Rightarrow> nat \<Rightarrow> bytes \<Rightarrow> bytes" where
  "elem k i bs = field (k * i) k bs"

lemma sizeof_Cons [simp]: "sizeof ((m, k) # fs) = k + sizeof fs"
  by (simp add: sizeof_def)

lemma sizeof_Nil [simp]: "sizeof [] = 0"
  by (simp add: sizeof_def)

lemma member_fits: "n \<in> fst ` set fs \<Longrightarrow> offset_of fs n + member_size fs n \<le> sizeof fs"
proof (induction fs)
  case (Cons f fs)
  obtain m k where "f = (m, k)" by fastforce
  then show ?case using Cons by (cases "m = n") simp_all
qed simp

lemma members_apart:
  "n \<in> fst ` set fs \<Longrightarrow> n' \<in> fst ` set fs \<Longrightarrow> n \<noteq> n' \<Longrightarrow>
   offset_of fs n + member_size fs n \<le> offset_of fs n' \<or> offset_of fs n' + member_size fs n' \<le> offset_of fs n"
proof (induction fs)
  case (Cons f fs)
  obtain m k where f: "f = (m, k)" by fastforce
  show ?case using Cons by (cases "m = n"; cases "m = n'") (auto simp: f)
qed simp

lemma length_set_member:
  "n \<in> fst ` set fs \<Longrightarrow> length v = member_size fs n \<Longrightarrow> sizeof fs \<le> length bs \<Longrightarrow>
   length (set_member fs n v bs) = length bs"
  using member_fits [of n fs] by (simp add: set_member_def)

text \<open>Reading back: a member holds what was written to it last; writing one member leaves the others.\<close>

lemma get_set_same:
  "n \<in> fst ` set fs \<Longrightarrow> length v = member_size fs n \<Longrightarrow> sizeof fs \<le> length bs \<Longrightarrow> get fs n (set_member fs n v bs) = v"
  using member_fits [of n fs] by (simp add: get_def set_member_def field_put_same)

lemma get_set_other:
  assumes "n \<in> fst ` set fs" "n' \<in> fst ` set fs" "n \<noteq> n'" "length v = member_size fs n" "sizeof fs \<le> length bs"
  shows "get fs n' (set_member fs n v bs) = get fs n' bs"
  using members_apart [OF assms(1-3)] member_fits [OF assms(1)] assms(4,5)
  by (auto simp: get_def set_member_def intro!: field_put_other)

text \<open>A structure laid out from its members.\<close>

lemma get_concat:
  assumes "list_all2 (\<lambda>f v. length v = snd f) fs vs" "distinct (map fst fs)" "i < length fs"
  shows "get fs (fst (fs ! i)) (concat vs @ rest) = vs ! i"
  using assms
proof (induction fs arbitrary: vs i)
  case (Cons f fs)
  obtain m k where f: "f = (m, k)" by fastforce
  obtain v vs' where vs: "vs = v # vs'" "length v = k" "list_all2 (\<lambda>f v. length v = snd f) fs vs'"
    using Cons.prems(1) f by (auto simp: list_all2_Cons1)
  show ?case
  proof (cases i)
    case 0
    then show ?thesis using vs f by (simp add: get_def field_def)
  next
    case (Suc j)
    then have j: "j < length fs" using Cons.prems(3) by simp
    then have "m \<noteq> fst (fs ! j)" using Cons.prems(2) f by auto
    then have "get (f # fs) (fst ((f # fs) ! i)) (concat vs @ rest) = get fs (fst (fs ! j)) (concat vs' @ rest)"
      using vs f Suc by (simp add: get_def field_def)
    with Cons.IH [OF vs(3) _ j] Cons.prems(2) vs Suc show ?thesis by simp
  qed
qed simp

lemma elem_concat:
  assumes "\<forall>v\<in>set vs. length v = k" "i < length vs"
  shows "elem k i (concat vs) = vs ! i"
  using assms
proof (induction vs arbitrary: i)
  case (Cons v vs)
  show ?case
  proof (cases i)
    case 0
    then show ?thesis using Cons.prems by (simp add: elem_def field_def)
  next
    case (Suc j)
    then show ?thesis using Cons by (simp add: elem_def field_def drop_append)
  qed
qed simp

end
