(* ===== verification/Demux.thy ===== *)
theory Demux
  imports Mkring Wire
begin

text \<open>
  The message prefix of \<^verbatim>\<open>mkring/mkring_proto.h\<close> and the channel demultiplexer of
  \<^verbatim>\<open>mkring/mkring_demux.c\<close>. The demultiplexer registers one receive callback per remote kernel and
  hands each message to the handler of the channel its prefix names. Function pointers and
  private pointers are opaque numbers; a call through one is returned to the caller.
\<close>

section \<open>Protocol header\<close>

abbreviation (input) MKRING_PROTO_MAGIC :: u32 where "MKRING_PROTO_MAGIC \<equiv> 0x4d4b434e"
abbreviation (input) MKRING_PROTO_VERSION :: u8 where "MKRING_PROTO_VERSION \<equiv> 1"
abbreviation (input) MKRING_CHANNEL_CONTAINER :: u8 where "MKRING_CHANNEL_CONTAINER \<equiv> 1"
abbreviation (input) MKRING_CHANNEL_STREAM :: u8 where "MKRING_CHANNEL_STREAM \<equiv> 3"
abbreviation (input) MKRING_CHANNEL_NET :: u8 where "MKRING_CHANNEL_NET \<equiv> 4"

record mkring_proto_header =
  ph_magic :: u32
  ph_version :: u8
  ph_channel :: u8
  ph_kind :: u8
  ph_operation :: u8
  ph_flags :: u16
  ph_reserved0 :: u16
  ph_request_id :: u64
  ph_status :: u32
  ph_payload_len :: u32

abbreviation (input) sizeof_proto_header :: nat where "sizeof_proto_header \<equiv> 28"

definition enc_proto_header :: "mkring_proto_header \<Rightarrow> bytes" where
  "enc_proto_header h = enc_le 4 (ph_magic h) @ enc_le 1 (ph_version h) @ enc_le 1 (ph_channel h) @
     enc_le 1 (ph_kind h) @ enc_le 1 (ph_operation h) @ enc_le 2 (ph_flags h) @ enc_le 2 (ph_reserved0 h) @
     enc_le 8 (ph_request_id h) @ enc_le 4 (ph_status h) @ enc_le 4 (ph_payload_len h)"

definition dec_proto_header :: "bytes \<Rightarrow> mkring_proto_header" where
  "dec_proto_header bs =
    \<lparr>ph_magic = dec_le (field 0 4 bs), ph_version = dec_le (field 4 1 bs), ph_channel = dec_le (field 5 1 bs),
     ph_kind = dec_le (field 6 1 bs), ph_operation = dec_le (field 7 1 bs), ph_flags = dec_le (field 8 2 bs),
     ph_reserved0 = dec_le (field 10 2 bs), ph_request_id = dec_le (field 12 8 bs),
     ph_status = dec_le (field 20 4 bs), ph_payload_len = dec_le (field 24 4 bs)\<rparr>"

definition mkring_proto_header_valid :: "bytes option \<Rightarrow> u32 \<Rightarrow> bool" where
  "mkring_proto_header_valid data len =
    (case data of
       None \<Rightarrow> False
     | Some bs \<Rightarrow>
         if len < 28 then False
         else let hdr = dec_proto_header bs in
           if ph_magic hdr \<noteq> MKRING_PROTO_MAGIC then False
           else if ph_version hdr \<noteq> MKRING_PROTO_VERSION then False
           else if ph_channel hdr = 0 then False
           else if len - 28 < ph_payload_len hdr then False
           else True)"

lemma length_enc_proto_header [simp]: "length (enc_proto_header h) = 28"
  by (simp add: enc_proto_header_def)

lemma dec_enc_proto_header: "dec_proto_header (enc_proto_header h @ rest) = h"
  by (simp add: dec_proto_header_def enc_proto_header_def field_append
      del: append_assoc One_nat_def)

section \<open>Demultiplexer\<close>

record mkring_demux_ops =
  ops_validate :: "nat option"
  ops_rx :: "nat option"

record mkring_demux_handler =
  registered :: bool
  ops :: mkring_demux_ops
  priv :: nat

record mkring_demux_ctx =
  d_info :: mkring_info
  d_started :: bool
  rx_registered :: "bool list"
  handlers :: "mkring_demux_handler list"

definition zero_handler :: mkring_demux_handler where
  "zero_handler = \<lparr>registered = False, ops = \<lparr>ops_validate = None, ops_rx = None\<rparr>, priv = 0\<rparr>"

definition zero_info :: mkring_info where
  "zero_info = \<lparr>info_local_id = 0, info_kernels = 0, info_desc_num = 0, info_msg_size = 0, info_ready_bitmap = 0\<rparr>"

definition zero_demux :: mkring_demux_ctx where
  "zero_demux = \<lparr>d_info = zero_info, d_started = False, rx_registered = replicate 32 False,
     handlers = replicate 256 zero_handler\<rparr>"

definition mkring_demux_valid_peer :: "mkring_demux_ctx \<Rightarrow> u16 \<Rightarrow> bool" where
  "mkring_demux_valid_peer d peer \<longleftrightarrow> peer < info_kernels (d_info d) \<and> peer \<noteq> info_local_id (d_info d)"

text \<open>
  The packed prefix is six bytes. \<open>validate\<close> interprets the function pointers of the handlers;
  the result is the call of the handler's \<^verbatim>\<open>rx\<close>, if one is made.
\<close>

definition prefix_magic :: "bytes \<Rightarrow> u32" where "prefix_magic bs = dec_le (field 0 4 bs)"
definition prefix_version :: "bytes \<Rightarrow> u8" where "prefix_version bs = dec_le (field 4 1 bs)"
definition prefix_channel :: "bytes \<Rightarrow> u8" where "prefix_channel bs = dec_le (field 5 1 bs)"

definition mkring_demux_rx_cb ::
    "(nat \<Rightarrow> nat \<Rightarrow> bytes \<Rightarrow> u32 \<Rightarrow> bool) \<Rightarrow> mkring_demux_ctx \<Rightarrow> u16 \<Rightarrow> bytes option \<Rightarrow> u32 \<Rightarrow>
     (nat \<times> u16 \<times> bytes \<times> u32 \<times> nat) option" where
  "mkring_demux_rx_cb validate d src_kid data len =
    (case data of
       None \<Rightarrow> None
     | Some bs \<Rightarrow>
         if len < 6 then None
         else if prefix_magic bs \<noteq> MKRING_PROTO_MAGIC then None
         else if prefix_version bs \<noteq> MKRING_PROTO_VERSION then None
         else if prefix_channel bs = 0 then None
         else if \<not> mkring_demux_valid_peer d src_kid then None
         else
           let handler = handlers d ! unat (prefix_channel bs) in
           case ops_rx (ops handler) of
             None \<Rightarrow> None
           | Some rx \<Rightarrow>
               if \<not> registered handler then None
               else case ops_validate (ops handler) of
                 Some f \<Rightarrow> if validate f (priv handler) bs len then Some (rx, src_kid, bs, len, priv handler) else None
               | None \<Rightarrow> Some (rx, src_kid, bs, len, priv handler))"

text \<open>The number that stands for \<^verbatim>\<open>mkring_demux_rx_cb\<close> with a NULL private pointer.\<close>

abbreviation (input) DEMUX_CB :: nat where "DEMUX_CB \<equiv> 1"

fun demux_register_loop ::
    "u16 list \<Rightarrow> mkring_ctx option \<Rightarrow> mkring_demux_ctx \<Rightarrow> int \<times> mkring_ctx option \<times> mkring_demux_ctx" where
  "demux_register_loop [] g d = (0, g, d)"
| "demux_register_loop (peer # peers) g d =
    (if peer = info_local_id (d_info d) then demux_register_loop peers g d
     else case mkring_register_rx_cb peer (Some DEMUX_CB) g of
       (ret, g') \<Rightarrow>
         if ret \<noteq> 0 then (ret, g', d)
         else demux_register_loop peers g' (d\<lparr>rx_registered := (rx_registered d)[unat peer := True]\<rparr>))"

fun demux_unregister_loop ::
    "u16 list \<Rightarrow> mkring_ctx option \<Rightarrow> mkring_demux_ctx \<Rightarrow> mkring_ctx option \<times> mkring_demux_ctx" where
  "demux_unregister_loop [] g d = (g, d)"
| "demux_unregister_loop (peer # peers) g d =
    (if \<not> rx_registered d ! unat peer then demux_unregister_loop peers g d
     else demux_unregister_loop peers (mkring_unregister_rx_cb peer g)
            (d\<lparr>rx_registered := (rx_registered d)[unat peer := False]\<rparr>))"

definition demux_peers :: "mkring_demux_ctx \<Rightarrow> u16 list" where
  "demux_peers d = map of_nat [0..<unat (info_kernels (d_info d))]"

definition mkring_demux_init ::
    "mkring_shm \<Rightarrow> mkring_ctx option \<Rightarrow> mkring_demux_ctx \<Rightarrow> int \<times> mkring_ctx option \<times> mkring_demux_ctx" where
  "mkring_demux_init s g d =
    (if d_started d then (0, g, d)
     else case mkring_get_info True s g of
       Inl ret \<Rightarrow> (ret, g, zero_demux)
     | Inr info \<Rightarrow>
         let d1 = zero_demux\<lparr>d_info := info\<rparr> in
         if MKRING_MAX_KERNELS < info_kernels info then (- EINVAL, g, d1)
         else case demux_register_loop (demux_peers d1) g d1 of
           (ret, g', d2) \<Rightarrow>
             if ret \<noteq> 0
             then (case demux_unregister_loop (demux_peers d2) g' d2 of (g'', d3) \<Rightarrow> (ret, g'', d3))
             else (0, g', d2\<lparr>d_started := True\<rparr>))"

definition mkring_demux_exit ::
    "mkring_ctx option \<Rightarrow> mkring_demux_ctx \<Rightarrow> mkring_ctx option \<times> mkring_demux_ctx" where
  "mkring_demux_exit g d =
    (if \<not> d_started d then (g, d)
     else case demux_unregister_loop (demux_peers d) g d of
       (g', d') \<Rightarrow> (g', d'\<lparr>handlers := replicate 256 zero_handler, d_started := False\<rparr>))"

definition mkring_demux_register_channel ::
    "u8 \<Rightarrow> mkring_demux_ops option \<Rightarrow> nat \<Rightarrow> mkring_shm \<Rightarrow> mkring_ctx option \<Rightarrow> mkring_demux_ctx \<Rightarrow>
     int \<times> mkring_ctx option \<times> mkring_demux_ctx" where
  "mkring_demux_register_channel channel op pr s g d =
    (case op of
       None \<Rightarrow> (- EINVAL, g, d)
     | Some o' \<Rightarrow>
         if channel = 0 \<or> ops_rx o' = None then (- EINVAL, g, d)
         else case mkring_demux_init s g d of
           (ret, g', d') \<Rightarrow>
             if ret \<noteq> 0 then (ret, g', d')
             else if registered (handlers d' ! unat channel) then (- EBUSY, g', d')
             else (0, g', d'\<lparr>handlers := (handlers d')[unat channel :=
                      \<lparr>registered = True, ops = o', priv = pr\<rparr>]\<rparr>))"

definition mkring_demux_unregister_channel :: "u8 \<Rightarrow> mkring_demux_ctx \<Rightarrow> mkring_demux_ctx" where
  "mkring_demux_unregister_channel channel d =
    (if channel = 0 then d else d\<lparr>handlers := (handlers d)[unat channel := zero_handler]\<rparr>)"

section \<open>Properties of the demultiplexer\<close>

lemma register_rx_cb_ok:
  assumes "ready c" "\<not> bad_peer c k"
  shows "mkring_register_rx_cb k cb (Some c) = (0, Some (set_rx k ((rx_of c k)\<lparr>rx_cb := cb\<rparr>) c))"
  using assms by (simp add: mkring_register_rx_cb_def)

lemma demux_register_loop_spec:
  assumes "ready c" "has_queues c" "length (rx_registered d) = 32" "unat (kernels c) \<le> 32"
    "info_local_id (d_info d) = local_id c" "\<forall>k\<in>set ks. k < kernels c" "distinct ks"
  shows "\<exists>c' d'. demux_register_loop ks (Some c) d = (0, Some c', d') \<and> same_params c c' \<and> has_queues c' \<and>
    txq c' = txq c \<and> rx_registered d' = map (\<lambda>i. rx_registered d ! i \<or>
       (\<exists>k\<in>set ks. k \<noteq> local_id c \<and> i = unat k)) [0..<32] \<and>
    d_info d' = d_info d \<and> handlers d' = handlers d \<and> d_started d' = d_started d \<and>
    (\<forall>k. rx_of c' k = (if k \<in> set ks \<and> k \<noteq> local_id c then (rx_of c k)\<lparr>rx_cb := Some DEMUX_CB\<rparr> else rx_of c k))"
  using assms
proof (induction ks arbitrary: c d)
  case Nil
  then have "map (\<lambda>i. rx_registered d ! i) [0..<32] = rx_registered d" using map_nth [of "rx_registered d"] by simp
  with Nil show ?case by simp
next
  case (Cons k ks)
  show ?case
  proof (cases "k = local_id c")
    case True
    then have "demux_register_loop (k # ks) (Some c) d = demux_register_loop ks (Some c) d"
      using Cons.prems(5) by simp
    with Cons.IH [OF Cons.prems(1-5)] Cons.prems(6,7) True show ?thesis by auto
  next
    case False
    have k: "k < kernels c" "\<not> bad_peer c k" using Cons.prems(6) False by (simp_all add: bad_peer_def not_le)
    have k32: "unat k < 32" using k(1) Cons.prems(4) by (simp add: word_less_nat_alt)
    define c1 where "c1 = set_rx k ((rx_of c k)\<lparr>rx_cb := Some DEMUX_CB\<rparr>) c"
    define d1 where "d1 = d\<lparr>rx_registered := (rx_registered d)[unat k := True]\<rparr>"
    have loop: "demux_register_loop (k # ks) (Some c) d = demux_register_loop ks (Some c1) d1"
      using False Cons.prems(5) register_rx_cb_ok [OF Cons.prems(1) k(2)] by (simp add: c1_def d1_def)
    have "ready c1" "has_queues c1" "length (rx_registered d1) = 32" "unat (kernels c1) \<le> 32"
      "info_local_id (d_info d1) = local_id c1" "\<forall>k\<in>set ks. k < kernels c1" "distinct ks"
      using Cons.prems by (simp_all add: c1_def d1_def)
    from Cons.IH [OF this] obtain c' d' where c': "demux_register_loop ks (Some c1) d1 = (0, Some c', d')"
      "same_params c1 c'" "has_queues c'" "txq c' = txq c1"
      "rx_registered d' = map (\<lambda>i. rx_registered d1 ! i \<or> (\<exists>k\<in>set ks. k \<noteq> local_id c1 \<and> i = unat k)) [0..<32]"
      "d_info d' = d_info d1" "handlers d' = handlers d1" "d_started d' = d_started d1"
      "\<And>j. rx_of c' j = (if j \<in> set ks \<and> j \<noteq> local_id c1 then (rx_of c1 j)\<lparr>rx_cb := Some DEMUX_CB\<rparr> else rx_of c1 j)"
      by blast
    have rx1: "rx_of c1 j = (if j = k then (rx_of c k)\<lparr>rx_cb := Some DEMUX_CB\<rparr> else rx_of c j)" for j
      unfolding c1_def by (rule rx_of_set [OF Cons.prems(2) k(1)])
    have l1: "local_id c1 = local_id c" by (simp add: c1_def)
    have "rx_of c' j = (if j \<in> set (k # ks) \<and> j \<noteq> local_id c then (rx_of c j)\<lparr>rx_cb := Some DEMUX_CB\<rparr> else rx_of c j)" for j
      using c'(9) [of j] rx1 [of j] False Cons.prems(7) unfolding l1 by auto
    moreover have "rx_registered d' = map (\<lambda>i. rx_registered d ! i \<or>
       (\<exists>k\<in>set (k # ks). k \<noteq> local_id c \<and> i = unat k)) [0..<32]"
      unfolding c'(5) l1 using False k32 Cons.prems(3)
      by (intro map_cong refl) (auto simp: d1_def nth_list_update)
    moreover have "same_params c c'" using c'(2) by (rule same_params_trans [rotated]) (simp add: c1_def)
    ultimately show ?thesis
      using c' loop by (intro exI [of _ c'] exI [of _ d']) (simp add: c1_def d1_def)
  qed
qed

lemma set_demux_peers:
  "set (demux_peers d) = {k. k < info_kernels (d_info d)}" "distinct (demux_peers d)"
proof -
  let ?n = "unat (info_kernels (d_info d))"
  have "k \<in> of_nat ` {0..<?n}" if "k < info_kernels (d_info d)" for k :: u16
    using that by (intro image_eqI [of _ _ "unat k"]) (simp_all add: word_less_nat_alt)
  moreover have "of_nat i < info_kernels (d_info d)" if "i < ?n" for i
    using that unat_u16_less [of "info_kernels (d_info d)"] by (simp add: word_less_nat_alt unat_of_nat)
  ultimately show "set (demux_peers d) = {k. k < info_kernels (d_info d)}" by (auto simp: demux_peers_def)
  have "inj_on (of_nat :: nat \<Rightarrow> u16) {0..<?n}"
    using unat_u16_less [of "info_kernels (d_info d)"]
    by (intro inj_onI) (drule arg_cong [where f = unat], simp add: unat_of_nat)
  then show "distinct (demux_peers d)" by (simp add: demux_peers_def distinct_map)
qed

lemma demux_init_spec:
  assumes "\<not> d_started d" "ready c" "has_queues c" "unat (kernels c) \<le> 32"
  shows "\<exists>c' d'. mkring_demux_init s (Some c) d = (0, Some c', d') \<and> d_started d' \<and>
    same_params c c' \<and> has_queues c' \<and> txq c' = txq c \<and> handlers d' = replicate 256 zero_handler \<and>
    info_local_id (d_info d') = local_id c \<and> info_kernels (d_info d') = kernels c \<and>
    (\<forall>k. rx_of c' k = (if \<not> bad_peer c k then (rx_of c k)\<lparr>rx_cb := Some DEMUX_CB\<rparr> else rx_of c k))"
proof -
  define info where "info = \<lparr>info_local_id = local_id c, info_kernels = kernels c, info_desc_num = desc_num c,
                   info_msg_size = msg_size c, info_ready_bitmap = hdr_ready_bitmap (shm_hdr s)\<rparr>"
  define d1 where "d1 = zero_demux\<lparr>d_info := info\<rparr>"
  have flds: "info_local_id (d_info d1) = local_id c" "info_kernels (d_info d1) = kernels c"
    "length (rx_registered d1) = 32" "handlers d1 = replicate 256 zero_handler"
    by (simp_all add: d1_def info_def zero_demux_def)
  obtain c' d' where r: "demux_register_loop (demux_peers d1) (Some c) d1 = (0, Some c', d')" "same_params c c'"
    "has_queues c'" "txq c' = txq c" "d_info d' = d_info d1" "handlers d' = handlers d1"
    "\<forall>k. rx_of c' k = (if k \<in> set (demux_peers d1) \<and> k \<noteq> local_id c then (rx_of c k)\<lparr>rx_cb := Some DEMUX_CB\<rparr> else rx_of c k)"
    using demux_register_loop_spec [OF assms(2,3) flds(3) assms(4) flds(1), of "demux_peers d1"]
      set_demux_peers [of d1] flds(2) by auto
  have "\<not> MKRING_MAX_KERNELS < kernels c" using assms(4) by (simp add: word_less_nat_alt)
  then have "mkring_demux_init s (Some c) d = (0, Some c', d'\<lparr>d_started := True\<rparr>)"
    using assms(1,2) r(1) by (simp add: mkring_demux_init_def mkring_get_info_def info_def d1_def Let_def)
  then show ?thesis
    using r flds by (intro exI [of _ c'] exI [of _ "d'\<lparr>d_started := True\<rparr>"])
      (auto simp: set_demux_peers bad_peer_def not_le)
qed

text \<open>
  Starting the demultiplexer on a kernel that is up succeeds and hooks it into every remote
  receive queue, and only there: each such queue gets the demultiplexer as its callback and is
  otherwise unchanged, as are the send queues.
\<close>

theorem demux_init_hooks_every_peer:
  assumes "\<not> d_started d" "ready c" "has_queues c" "unat (kernels c) \<le> 32"
  shows "\<exists>c' d'. mkring_demux_init s (Some c) d = (0, Some c', d') \<and> d_started d' \<and> txq c' = txq c \<and>
    (\<forall>k. rx_of c' k = (if bad_peer c k then rx_of c k else (rx_of c k)\<lparr>rx_cb := Some DEMUX_CB\<rparr>)) \<and>
    (\<forall>k. mkring_demux_valid_peer d' k \<longleftrightarrow> \<not> bad_peer c k)"
  using demux_init_spec [OF assms, of s]
  by (auto simp: mkring_demux_valid_peer_def bad_peer_def not_le)

definition ctx3 :: mkring_ctx where
  "ctx3 = \<lparr>shm_phys = 0x40000000, shm_size = 0x100000, shm_res = True, shm_base = True,
     hdr_set = True, hdr_len = 64, local_id = 0, kernels = 3, desc_num = 4, msg_size = 1024,
     layout = \<lparr>desc_off = 0, avail_off = 64, avail_ring_off = 68, avail_event_off = 76, used_off = 80,
       used_ring_off = 84, used_event_off = 116, data_off = 128, queue_size = 8192\<rparr>,
     txq = Some (replicate 3 zero_queue), rxq = Some (replicate 3 zero_queue), rxq_lists = [False, True, True],
     notify = Some 0, force_init = False, ready = True\<rparr>"

lemma ctx3_ok: "ready ctx3" "has_queues ctx3" "unat (kernels ctx3) \<le> 32"
  by (simp_all add: ctx3_def has_queues_def)

theorem demux_init_hooks_every_peer_witness:
  "\<exists>c' d'. mkring_demux_init \<lparr>shm_hdr = zero_hdr, shm_queues = []\<rparr> (Some ctx3) zero_demux = (0, Some c', d') \<and>
     rx_cb (rx_of c' 1) = Some DEMUX_CB \<and> rx_cb (rx_of c' 2) = Some DEMUX_CB"
proof -
  have "\<not> bad_peer ctx3 1" "\<not> bad_peer ctx3 2" by (simp_all add: bad_peer_def ctx3_def word_le_nat_alt)
  moreover have "\<not> d_started zero_demux" by (simp add: zero_demux_def)
  then obtain c' d' where
    "mkring_demux_init \<lparr>shm_hdr = zero_hdr, shm_queues = []\<rparr> (Some ctx3) zero_demux = (0, Some c', d')"
    "\<And>k. rx_of c' k = (if bad_peer ctx3 k then rx_of ctx3 k else (rx_of ctx3 k)\<lparr>rx_cb := Some DEMUX_CB\<rparr>)"
    using demux_init_hooks_every_peer [OF _ ctx3_ok] by blast
  ultimately show ?thesis
    by (metis mkring_queue.select_convs(9) mkring_queue.surjective mkring_queue.update_convs(9))
qed

text \<open>When a message reaches a handler, and what the handler is given.\<close>

definition prefix_ok :: "bytes \<Rightarrow> u32 \<Rightarrow> bool" where
  "prefix_ok bs len \<longleftrightarrow> 6 \<le> len \<and> prefix_magic bs = MKRING_PROTO_MAGIC \<and>
     prefix_version bs = MKRING_PROTO_VERSION \<and> prefix_channel bs \<noteq> 0"

lemma demux_rx_cb_eq:
  "mkring_demux_rx_cb validate d src (Some bs) len =
    (let h = handlers d ! unat (prefix_channel bs) in
     if prefix_ok bs len \<and> mkring_demux_valid_peer d src \<and> registered h \<and> ops_rx (ops h) \<noteq> None \<and>
        (\<forall>f. ops_validate (ops h) = Some f \<longrightarrow> validate f (priv h) bs len)
     then Some (the (ops_rx (ops h)), src, bs, len, priv h) else None)"
  by (auto simp: mkring_demux_rx_cb_def prefix_ok_def Let_def not_less split: option.split)

text \<open>
  Registering a channel is an update of the routing table at that channel. On a started
  demultiplexer it returns EBUSY and changes no routing when the channel has a handler; otherwise
  it returns 0, every well-formed message of the channel from a valid peer goes to the new
  handler exactly when its validator accepts, and messages of all other channels are routed as
  before. After unregistering, no message of the channel is handed to anyone and the others are
  routed as before.
\<close>

theorem demux_register_routes:
  assumes "d_started d" "length (handlers d) = 256" "ch \<noteq> 0" "ops_rx o' = Some rx"
  shows "(case mkring_demux_register_channel ch (Some o') pr s g d of (rc, g', d') \<Rightarrow>
     rc = (if registered (handlers d ! unat ch) then - EBUSY else 0) \<and> g' = g \<and>
     (\<forall>bs len src. mkring_demux_rx_cb validate d' src (Some bs) len =
       (if rc = 0 \<and> prefix_channel bs = ch
        then (if prefix_ok bs len \<and> mkring_demux_valid_peer d src \<and>
                 (\<forall>f. ops_validate o' = Some f \<longrightarrow> validate f pr bs len)
              then Some (rx, src, bs, len, pr) else None)
        else mkring_demux_rx_cb validate d src (Some bs) len))) \<and>
    (\<forall>bs len src. mkring_demux_rx_cb validate (mkring_demux_unregister_channel ch d) src (Some bs) len =
       (if prefix_channel bs = ch then None else mkring_demux_rx_cb validate d src (Some bs) len))"
proof (intro conjI allI)
  have ch: "unat ch < 256" using unsigned_less [of ch, where 'a = nat] by simp
  have nth: "(handlers d)[unat ch := h] ! unat (prefix_channel bs) =
      (if prefix_channel bs = ch then h else handlers d ! unat (prefix_channel bs))" for h bs
    using ch assms(2) by (auto simp: nth_list_update word_unat_eq_iff)
  show "mkring_demux_rx_cb validate (mkring_demux_unregister_channel ch d) src (Some bs) len =
       (if prefix_channel bs = ch then None else mkring_demux_rx_cb validate d src (Some bs) len)" for bs len src
    using assms(3) nth
    by (auto simp: demux_rx_cb_eq mkring_demux_unregister_channel_def mkring_demux_valid_peer_def
        zero_handler_def Let_def)
  show "case mkring_demux_register_channel ch (Some o') pr s g d of (rc, g', d') \<Rightarrow>
     rc = (if registered (handlers d ! unat ch) then - EBUSY else 0) \<and> g' = g \<and>
     (\<forall>bs len src. mkring_demux_rx_cb validate d' src (Some bs) len =
       (if rc = 0 \<and> prefix_channel bs = ch
        then (if prefix_ok bs len \<and> mkring_demux_valid_peer d src \<and>
                 (\<forall>f. ops_validate o' = Some f \<longrightarrow> validate f pr bs len)
              then Some (rx, src, bs, len, pr) else None)
        else mkring_demux_rx_cb validate d src (Some bs) len))"
  proof (cases "registered (handlers d ! unat ch)")
    case True
    then show ?thesis
      using assms by (simp add: mkring_demux_register_channel_def mkring_demux_init_def)
  next
    case False
    then show ?thesis
      using assms nth
      by (auto simp: mkring_demux_register_channel_def mkring_demux_init_def demux_rx_cb_eq
          mkring_demux_valid_peer_def Let_def)
  qed
qed

theorem demux_register_routes_witness:
  "case mkring_demux_register_channel 3 (Some \<lparr>ops_validate = None, ops_rx = Some 5\<rparr>) 9
      \<lparr>shm_hdr = zero_hdr, shm_queues = []\<rparr> None (zero_demux\<lparr>d_started := True\<rparr>) of
    (rc, g', d') \<Rightarrow> rc = 0"
  using demux_register_routes [where d = "zero_demux\<lparr>d_started := True\<rparr>" and ch = 3
      and o' = "\<lparr>ops_validate = None, ops_rx = Some 5\<rparr>" and rx = 5 and pr = 9 and g = None
      and s = "\<lparr>shm_hdr = zero_hdr, shm_queues = []\<rparr>"]
  by (auto simp: zero_demux_def zero_handler_def split: prod.splits)

end
