(* ===== verification/GuestProtocol.thy ===== *)
theory GuestProtocol
  imports Wire
begin

text \<open>
  The envelopes of the guest agent (\<^verbatim>\<open>mk-guest-agent/include/mkga_protocol.h\<close>, \<^verbatim>\<open>src/protocol.c\<close>).
  A character array is represented by the C string it holds: the code only writes such arrays
  through routines that terminate them, which is what the lemmas on the copy routine show.
\<close>

section \<open>Data\<close>

type_synonym i32 = "32 word"
type_synonym i64 = "64 word"

abbreviation (input) MKGA_VERSION :: i32 where "MKGA_VERSION \<equiv> 1"
abbreviation (input) MKGA_MAX_ID_LEN :: nat where "MKGA_MAX_ID_LEN \<equiv> 64"
abbreviation (input) MKGA_MAX_CODE_LEN :: nat where "MKGA_MAX_CODE_LEN \<equiv> 64"
abbreviation (input) MKGA_MAX_MESSAGE_LEN :: nat where "MKGA_MAX_MESSAGE_LEN \<equiv> 256"
abbreviation (input) MKGA_MAX_KERNEL_ID_LEN :: nat where "MKGA_MAX_KERNEL_ID_LEN \<equiv> 64"
abbreviation (input) MKGA_MAX_POD_ID_LEN :: nat where "MKGA_MAX_POD_ID_LEN \<equiv> 64"
abbreviation (input) MKGA_MAX_NAME_LEN :: nat where "MKGA_MAX_NAME_LEN \<equiv> 64"
abbreviation (input) MKGA_MAX_IMAGE_LEN :: nat where "MKGA_MAX_IMAGE_LEN \<equiv> 256"
abbreviation (input) MKGA_MAX_LOG_PATH_LEN :: nat where "MKGA_MAX_LOG_PATH_LEN \<equiv> 256"
abbreviation (input) MKGA_MAX_ARGV :: nat where "MKGA_MAX_ARGV \<equiv> 4"
abbreviation (input) MKGA_MAX_ARG_LEN :: nat where "MKGA_MAX_ARG_LEN \<equiv> 64"
abbreviation (input) MKGA_MAX_SESSION_ID_LEN :: nat where "MKGA_MAX_SESSION_ID_LEN \<equiv> 64"
abbreviation (input) MKGA_MAX_KV_PAIRS :: nat where "MKGA_MAX_KV_PAIRS \<equiv> 8"
abbreviation (input) MKGA_MAX_IP_LEN :: nat where "MKGA_MAX_IP_LEN \<equiv> 16"
abbreviation (input) MKGA_MAX_CIDR_LEN :: nat where "MKGA_MAX_CIDR_LEN \<equiv> 24"
abbreviation (input) MKGA_MAX_MODE_LEN :: nat where "MKGA_MAX_MODE_LEN \<equiv> 16"
abbreviation (input) MKGA_MAX_ENDPOINTS :: nat where "MKGA_MAX_ENDPOINTS \<equiv> 16"
abbreviation (input) MKGA_MAX_PORTS :: nat where "MKGA_MAX_PORTS \<equiv> 32"
abbreviation (input) MKGA_MAX_ENV_KEY_LEN :: nat where "MKGA_MAX_ENV_KEY_LEN \<equiv> 64"
abbreviation (input) MKGA_MAX_ENV_VALUE_LEN :: nat where "MKGA_MAX_ENV_VALUE_LEN \<equiv> 256"
abbreviation (input) MKGA_MAX_LOG_CHUNK :: nat where "MKGA_MAX_LOG_CHUNK \<equiv> 384"

datatype mkga_message_kind = MKGA_MESSAGE_INVALID | MKGA_MESSAGE_REQUEST | MKGA_MESSAGE_RESPONSE

datatype mkga_operation = MKGA_OP_INVALID | MKGA_OP_CREATE_CONTAINER | MKGA_OP_START_CONTAINER
  | MKGA_OP_STOP_CONTAINER | MKGA_OP_REMOVE_CONTAINER | MKGA_OP_STATUS_CONTAINER | MKGA_OP_READ_LOG
  | MKGA_OP_EXEC_TTY_PREPARE | MKGA_OP_EXEC_TTY_START | MKGA_OP_EXEC_TTY_RESIZE | MKGA_OP_EXEC_TTY_CLOSE
  | MKGA_OP_CONFIGURE_NETWORK | MKGA_OP_CONFIGURE_ENV

datatype mkga_container_state = MKGA_CONTAINER_STATE_UNKNOWN | MKGA_CONTAINER_STATE_CREATED
  | MKGA_CONTAINER_STATE_RUNNING | MKGA_CONTAINER_STATE_EXITED

fun state_code :: "mkga_container_state \<Rightarrow> u32" where
  "state_code MKGA_CONTAINER_STATE_UNKNOWN = 0"
| "state_code MKGA_CONTAINER_STATE_CREATED = 1"
| "state_code MKGA_CONTAINER_STATE_RUNNING = 2"
| "state_code MKGA_CONTAINER_STATE_EXITED = 3"

record mkga_kv_pair =
  kv_key :: bytes
  kv_value :: bytes

record mkga_error =
  err_present :: bool
  err_code :: bytes
  err_message :: bytes

record mkga_create_container_req =
  cc_kernel_id :: bytes
  cc_pod_id :: bytes
  cc_name :: bytes
  cc_image :: bytes
  cc_log_path :: bytes
  cc_argv_count :: u32
  cc_argv :: "bytes list"
  cc_label_count :: u64
  cc_labels :: "mkga_kv_pair list"
  cc_annotation_count :: u64
  cc_annotations :: "mkga_kv_pair list"

record mkga_create_container_resp =
  cr_container_id :: bytes
  cr_image_ref :: bytes

record mkga_container_control_req =
  ct_kernel_id :: bytes
  ct_container_id :: bytes
  ct_timeout_millis :: i64

record mkga_stop_container_resp =
  sp_exit_code :: i32

record mkga_container_status_resp =
  st_state :: u32
  st_exit_code :: i32
  st_pid :: i32
  st_started_at_unix_nano :: u64
  st_finished_at_unix_nano :: u64
  st_message :: bytes

record mkga_read_log_req =
  rl_kernel_id :: bytes
  rl_container_id :: bytes
  rl_offset :: u64
  rl_max_bytes :: u32

record mkga_read_log_resp =
  rr_next_offset :: u64
  rr_data_len :: u32
  rr_eof :: bool
  rr_data :: bytes

record mkga_exec_tty_prepare_req =
  ep_kernel_id :: bytes
  ep_container_id :: bytes
  ep_argv_count :: u32
  ep_tty :: u8
  ep_stdin_enabled :: u8
  ep_stdout_enabled :: u8
  ep_stderr_enabled :: u8
  ep_argv :: "bytes list"

record mkga_exec_tty_prepare_resp =
  er_session_id :: bytes

record mkga_exec_session_control_req =
  es_kernel_id :: bytes
  es_session_id :: bytes

record mkga_exec_tty_resize_req =
  ez_kernel_id :: bytes
  ez_session_id :: bytes
  ez_width :: u32
  ez_height :: u32

record mkga_network_endpoint =
  en_ip :: bytes
  en_peer_kernel_id :: u16
  en_reserved0 :: u16

record mkga_configure_network_req =
  nw_kernel_id :: bytes
  nw_pod_id :: bytes
  nw_pod_ip :: bytes
  nw_pod_cidr :: bytes
  nw_mode :: bytes
  nw_endpoint_count :: u32
  nw_port_count :: u32
  nw_endpoints :: "mkga_network_endpoint list"
  nw_ports :: "u16 list"

record mkga_configure_env_req =
  ev_kernel_id :: bytes
  ev_pod_id :: bytes
  ev_name :: bytes
  ev_key :: bytes
  ev_value :: bytes

text \<open>
  The payload union: which member was written last, or none since the memory was cleared. Reading
  a member of cleared memory gives its zero value. The agent reads the member that belongs to the
  operation, and the decoder writes that member, so a member is never read as another one; the
  model gives the zero value there.
\<close>

datatype mkga_payload = PZero
  | PCreateReq mkga_create_container_req
  | PCreateResp mkga_create_container_resp
  | PControlReq mkga_container_control_req
  | PStopResp mkga_stop_container_resp
  | PStatusResp mkga_container_status_resp
  | PReadLogReq mkga_read_log_req
  | PReadLogResp mkga_read_log_resp
  | PPrepareReq mkga_exec_tty_prepare_req
  | PPrepareResp mkga_exec_tty_prepare_resp
  | PSessionReq mkga_exec_session_control_req
  | PResizeReq mkga_exec_tty_resize_req
  | PNetworkReq mkga_configure_network_req
  | PEnvReq mkga_configure_env_req

record mkga_envelope =
  e_version :: i32
  e_id :: bytes
  e_kind :: mkga_message_kind
  e_operation :: mkga_operation
  e_peer_kernel_id :: u16
  e_transport_request_id :: u64
  e_kernel_id :: bytes
  e_sent_at_millis :: i64
  e_payload :: mkga_payload
  e_error :: mkga_error

section \<open>Zero values\<close>

definition zero_create_req :: mkga_create_container_req where
  "zero_create_req = \<lparr>cc_kernel_id = [], cc_pod_id = [], cc_name = [], cc_image = [], cc_log_path = [],
     cc_argv_count = 0, cc_argv = replicate MKGA_MAX_ARGV [],
     cc_label_count = 0, cc_labels = replicate MKGA_MAX_KV_PAIRS \<lparr>kv_key = [], kv_value = []\<rparr>,
     cc_annotation_count = 0, cc_annotations = replicate MKGA_MAX_KV_PAIRS \<lparr>kv_key = [], kv_value = []\<rparr>\<rparr>"

definition zero_create_resp :: mkga_create_container_resp where
  "zero_create_resp = \<lparr>cr_container_id = [], cr_image_ref = []\<rparr>"

definition zero_control_req :: mkga_container_control_req where
  "zero_control_req = \<lparr>ct_kernel_id = [], ct_container_id = [], ct_timeout_millis = 0\<rparr>"

definition zero_stop_resp :: mkga_stop_container_resp where
  "zero_stop_resp = \<lparr>sp_exit_code = 0\<rparr>"

definition zero_status_resp :: mkga_container_status_resp where
  "zero_status_resp = \<lparr>st_state = 0, st_exit_code = 0, st_pid = 0, st_started_at_unix_nano = 0,
     st_finished_at_unix_nano = 0, st_message = []\<rparr>"

definition zero_read_log_req :: mkga_read_log_req where
  "zero_read_log_req = \<lparr>rl_kernel_id = [], rl_container_id = [], rl_offset = 0, rl_max_bytes = 0\<rparr>"

definition zero_read_log_resp :: mkga_read_log_resp where
  "zero_read_log_resp = \<lparr>rr_next_offset = 0, rr_data_len = 0, rr_eof = False, rr_data = replicate MKGA_MAX_LOG_CHUNK 0\<rparr>"

definition zero_prepare_req :: mkga_exec_tty_prepare_req where
  "zero_prepare_req = \<lparr>ep_kernel_id = [], ep_container_id = [], ep_argv_count = 0, ep_tty = 0,
     ep_stdin_enabled = 0, ep_stdout_enabled = 0, ep_stderr_enabled = 0, ep_argv = replicate MKGA_MAX_ARGV []\<rparr>"

definition zero_prepare_resp :: mkga_exec_tty_prepare_resp where
  "zero_prepare_resp = \<lparr>er_session_id = []\<rparr>"

definition zero_session_req :: mkga_exec_session_control_req where
  "zero_session_req = \<lparr>es_kernel_id = [], es_session_id = []\<rparr>"

definition zero_resize_req :: mkga_exec_tty_resize_req where
  "zero_resize_req = \<lparr>ez_kernel_id = [], ez_session_id = [], ez_width = 0, ez_height = 0\<rparr>"

definition zero_endpoint :: mkga_network_endpoint where
  "zero_endpoint = \<lparr>en_ip = [], en_peer_kernel_id = 0, en_reserved0 = 0\<rparr>"

definition zero_network_req :: mkga_configure_network_req where
  "zero_network_req = \<lparr>nw_kernel_id = [], nw_pod_id = [], nw_pod_ip = [], nw_pod_cidr = [], nw_mode = [],
     nw_endpoint_count = 0, nw_port_count = 0, nw_endpoints = replicate MKGA_MAX_ENDPOINTS zero_endpoint,
     nw_ports = replicate MKGA_MAX_PORTS 0\<rparr>"

definition zero_env_req :: mkga_configure_env_req where
  "zero_env_req = \<lparr>ev_kernel_id = [], ev_pod_id = [], ev_name = [], ev_key = [], ev_value = []\<rparr>"

definition zero_error :: mkga_error where
  "zero_error = \<lparr>err_present = False, err_code = [], err_message = []\<rparr>"

definition zero_envelope :: mkga_envelope where
  "zero_envelope = \<lparr>e_version = 0, e_id = [], e_kind = MKGA_MESSAGE_INVALID, e_operation = MKGA_OP_INVALID,
     e_peer_kernel_id = 0, e_transport_request_id = 0, e_kernel_id = [], e_sent_at_millis = 0,
     e_payload = PZero, e_error = zero_error\<rparr>"

section \<open>Reading the payload\<close>

definition create_container_req :: "mkga_payload \<Rightarrow> mkga_create_container_req" where
  "create_container_req p = (case p of PCreateReq r \<Rightarrow> r | _ \<Rightarrow> zero_create_req)"

definition create_container_resp :: "mkga_payload \<Rightarrow> mkga_create_container_resp" where
  "create_container_resp p = (case p of PCreateResp r \<Rightarrow> r | _ \<Rightarrow> zero_create_resp)"

definition container_control_req :: "mkga_payload \<Rightarrow> mkga_container_control_req" where
  "container_control_req p = (case p of PControlReq r \<Rightarrow> r | _ \<Rightarrow> zero_control_req)"

definition stop_container_resp :: "mkga_payload \<Rightarrow> mkga_stop_container_resp" where
  "stop_container_resp p = (case p of PStopResp r \<Rightarrow> r | _ \<Rightarrow> zero_stop_resp)"

definition container_status_resp :: "mkga_payload \<Rightarrow> mkga_container_status_resp" where
  "container_status_resp p = (case p of PStatusResp r \<Rightarrow> r | _ \<Rightarrow> zero_status_resp)"

definition read_log_req :: "mkga_payload \<Rightarrow> mkga_read_log_req" where
  "read_log_req p = (case p of PReadLogReq r \<Rightarrow> r | _ \<Rightarrow> zero_read_log_req)"

definition read_log_resp :: "mkga_payload \<Rightarrow> mkga_read_log_resp" where
  "read_log_resp p = (case p of PReadLogResp r \<Rightarrow> r | _ \<Rightarrow> zero_read_log_resp)"

definition exec_tty_prepare_req :: "mkga_payload \<Rightarrow> mkga_exec_tty_prepare_req" where
  "exec_tty_prepare_req p = (case p of PPrepareReq r \<Rightarrow> r | _ \<Rightarrow> zero_prepare_req)"

definition exec_tty_prepare_resp :: "mkga_payload \<Rightarrow> mkga_exec_tty_prepare_resp" where
  "exec_tty_prepare_resp p = (case p of PPrepareResp r \<Rightarrow> r | _ \<Rightarrow> zero_prepare_resp)"

definition exec_session_control_req :: "mkga_payload \<Rightarrow> mkga_exec_session_control_req" where
  "exec_session_control_req p = (case p of PSessionReq r \<Rightarrow> r | _ \<Rightarrow> zero_session_req)"

definition exec_tty_resize_req :: "mkga_payload \<Rightarrow> mkga_exec_tty_resize_req" where
  "exec_tty_resize_req p = (case p of PResizeReq r \<Rightarrow> r | _ \<Rightarrow> zero_resize_req)"

definition configure_network_req :: "mkga_payload \<Rightarrow> mkga_configure_network_req" where
  "configure_network_req p = (case p of PNetworkReq r \<Rightarrow> r | _ \<Rightarrow> zero_network_req)"

definition configure_env_req :: "mkga_payload \<Rightarrow> mkga_configure_env_req" where
  "configure_env_req p = (case p of PEnvReq r \<Rightarrow> r | _ \<Rightarrow> zero_env_req)"

lemmas payload_reads = create_container_req_def create_container_resp_def container_control_req_def
  stop_container_resp_def container_status_resp_def read_log_req_def read_log_resp_def
  exec_tty_prepare_req_def exec_tty_prepare_resp_def exec_session_control_req_def
  exec_tty_resize_req_def configure_network_req_def configure_env_req_def

section \<open>Strings\<close>

text \<open>
  \<open>mkga_copy_string dst src\<close> is the buffer after the call; \<open>dst = None\<close> and \<open>src = None\<close> stand for NULL.
  \<open>copied n s\<close> is the string that a buffer of \<open>n\<close> bytes holds afterwards.
\<close>

definition mkga_copy_string :: "bytes option \<Rightarrow> bytes option \<Rightarrow> bytes option" where
  "mkga_copy_string dst src =
    (case dst of
       None \<Rightarrow> None
     | Some d \<Rightarrow>
         if length d = 0 then Some d
         else case src of
           None \<Rightarrow> Some (d[0 := 0])
         | Some s \<Rightarrow>
             let len = length (cstr s);
                 copy_len = (if length d \<le> len then length d - 1 else len)
             in Some (put copy_len [0] (put 0 (take copy_len s) d)))"

definition copied :: "nat \<Rightarrow> bytes \<Rightarrow> bytes" where
  "copied n s = take (n - 1) s"

lemma is_cstr_take [simp]: "is_cstr s \<Longrightarrow> is_cstr (take n s)"
  unfolding is_cstr_def by (meson in_set_takeD)

lemma is_cstr_Nil [simp]: "is_cstr []"
  by (simp add: is_cstr_def)

lemma is_cstr_copied [simp]: "is_cstr s \<Longrightarrow> is_cstr (copied n s)"
  by (simp add: copied_def)

lemma length_copied: "0 < n \<Longrightarrow> length (copied n s) < n"
  by (simp add: copied_def min_def) linarith

lemma copied_short [simp]: "length s < n \<Longrightarrow> copied n s = s"
  by (simp add: copied_def)

lemma copied_Nil [simp]: "copied n [] = []"
  by (simp add: copied_def)

lemma copied_copied [simp]: "copied n (copied n s) = copied n s"
  by (simp add: copied_def)

text \<open>The buffer is terminated and holds the longest prefix that fits.\<close>

lemma take_cstr: "k \<le> length (cstr s) \<Longrightarrow> take k s = take k (cstr s)"
proof -
  assume "k \<le> length (cstr s)"
  moreover have "cstr s = take (length (cstr s)) s" by (simp add: cstr_def takeWhile_eq_take [symmetric])
  ultimately show ?thesis by (metis min.absorb1 take_take)
qed

lemma copy_string_content:
  assumes "0 < length d" "0 \<in> set s"
  shows "\<exists>d'. mkga_copy_string (Some d) (Some s) = Some d' \<and> length d' = length d \<and>
           cstr d' = copied (length d) (cstr s)"
proof -
  define k where "k = (if length d \<le> length (cstr s) then length d - 1 else length (cstr s))"
  have k: "k \<le> length (cstr s)" "k < length d" using assms(1) by (auto simp: k_def)
  have len: "length (take k s) = k" using k(1) length_cstr [of s] by simp
  have t: "take k s = copied (length d) (cstr s)"
    using take_cstr [OF k(1)] assms(1) by (auto simp: copied_def k_def)
  let ?d = "put k [0] (put 0 (take k s) d)"
  have "?d = take k s @ 0 # drop (Suc k) d"
    using k(2) len by (simp add: put_def)
  then have "cstr ?d = copied (length d) (cstr s)"
    using cstr_append_zero [of "take k s" "drop (Suc k) d"] by (simp add: t)
  moreover have "length ?d = length d" using k(2) len by simp
  moreover have "mkga_copy_string (Some d) (Some s) = Some ?d"
    using assms(1) by (simp add: mkga_copy_string_def k_def Let_def)
  ultimately show ?thesis by blast
qed

section \<open>Envelopes\<close>

text \<open>\<open>now\<close> is the result of \<^verbatim>\<open>mkga_now_millis\<close>, computed from the seconds and microseconds of the clock.\<close>

definition mkga_now_millis :: "i64 \<Rightarrow> i64 \<Rightarrow> i64" where
  "mkga_now_millis tv_sec tv_usec = tv_sec * 1000 + of_int (sint tv_usec div 1000)"

definition mkga_envelope_init :: "i64 \<Rightarrow> mkga_envelope" where
  "mkga_envelope_init now = zero_envelope\<lparr>e_version := MKGA_VERSION, e_sent_at_millis := now\<rparr>"

definition mkga_envelope_make_response :: "i64 \<Rightarrow> mkga_envelope \<Rightarrow> mkga_envelope" where
  "mkga_envelope_make_response now req =
    (mkga_envelope_init now)\<lparr>e_id := copied MKGA_MAX_ID_LEN (e_id req),
       e_kernel_id := copied MKGA_MAX_KERNEL_ID_LEN (e_kernel_id req),
       e_kind := MKGA_MESSAGE_RESPONSE, e_operation := e_operation req,
       e_peer_kernel_id := e_peer_kernel_id req,
       e_transport_request_id := e_transport_request_id req\<rparr>"

definition mkga_envelope_set_error :: "i64 \<Rightarrow> mkga_envelope \<Rightarrow> bytes \<Rightarrow> bytes \<Rightarrow> mkga_envelope" where
  "mkga_envelope_set_error now req code message =
    (mkga_envelope_make_response now req)\<lparr>e_error :=
       \<lparr>err_present = True, err_code = copied MKGA_MAX_CODE_LEN code,
        err_message = copied MKGA_MAX_MESSAGE_LEN message\<rparr>\<rparr>"

fun mkga_operation_name :: "mkga_operation \<Rightarrow> bytes" where
  "mkga_operation_name MKGA_OP_CREATE_CONTAINER = cs ''create_container''"
| "mkga_operation_name MKGA_OP_START_CONTAINER = cs ''start_container''"
| "mkga_operation_name MKGA_OP_STOP_CONTAINER = cs ''stop_container''"
| "mkga_operation_name MKGA_OP_REMOVE_CONTAINER = cs ''remove_container''"
| "mkga_operation_name MKGA_OP_STATUS_CONTAINER = cs ''status_container''"
| "mkga_operation_name MKGA_OP_READ_LOG = cs ''read_log''"
| "mkga_operation_name MKGA_OP_EXEC_TTY_PREPARE = cs ''exec_tty_prepare''"
| "mkga_operation_name MKGA_OP_EXEC_TTY_START = cs ''exec_tty_start''"
| "mkga_operation_name MKGA_OP_EXEC_TTY_RESIZE = cs ''exec_tty_resize''"
| "mkga_operation_name MKGA_OP_EXEC_TTY_CLOSE = cs ''exec_tty_close''"
| "mkga_operation_name MKGA_OP_CONFIGURE_NETWORK = cs ''configure_network''"
| "mkga_operation_name MKGA_OP_CONFIGURE_ENV = cs ''configure_env''"
| "mkga_operation_name MKGA_OP_INVALID = cs ''invalid''"

section \<open>Resources\<close>

text \<open>
  What a constructor of the agent acquires and its destructor releases: the interface structure, the
  private structure, their synchronisation objects and the arrays of the queues. Constructors and
  destructors are functions on the set of what is held. \<open>free\<close> of a NULL pointer releases nothing.
\<close>

datatype resource = RHandle | RImpl | RMutex | RCond | RInbound | ROutbound

definition got :: "bool \<Rightarrow> resource \<Rightarrow> resource set" where
  "got ok r = (if ok then {r} else {})"

text \<open>The correlation fields of a response: who asked, what, and under which number.\<close>

definition answers :: "mkga_envelope \<Rightarrow> mkga_envelope \<Rightarrow> bool" where
  "answers req resp \<longleftrightarrow> e_version resp = MKGA_VERSION \<and> e_kind resp = MKGA_MESSAGE_RESPONSE \<and>
     e_operation resp = e_operation req \<and> e_peer_kernel_id resp = e_peer_kernel_id req \<and>
     e_transport_request_id resp = e_transport_request_id req \<and>
     e_id resp = copied MKGA_MAX_ID_LEN (e_id req) \<and> e_kernel_id resp = copied MKGA_MAX_KERNEL_ID_LEN (e_kernel_id req)"

lemma answers_make_response [simp]: "answers req (mkga_envelope_make_response t req)"
  by (simp add: answers_def mkga_envelope_make_response_def mkga_envelope_init_def)

lemma answers_set_error [simp]: "answers req (mkga_envelope_set_error t req c m)"
  using answers_make_response [of req t] by (simp add: answers_def mkga_envelope_set_error_def)

lemma answers_payload [simp]: "answers req (r\<lparr>e_payload := p\<rparr>) = answers req r"
  by (simp add: answers_def)

lemma no_error_make_response [simp]: "e_error (mkga_envelope_make_response t req) = zero_error"
  by (simp add: mkga_envelope_make_response_def mkga_envelope_init_def zero_envelope_def)

lemma payload_make_response [simp]: "e_payload (mkga_envelope_make_response t req) = PZero"
  by (simp add: mkga_envelope_make_response_def mkga_envelope_init_def zero_envelope_def)

lemma payload_set_error [simp]: "e_payload (mkga_envelope_set_error t req c m) = PZero"
  by (simp add: mkga_envelope_set_error_def)

end
