(* ===== verification/Decimal.thy ===== *)
theory Decimal
  imports Wire
begin

text \<open>
  Decimal numbers as the C library prints them (\<^verbatim>\<open>%u\<close>, \<^verbatim>\<open>%llu\<close>) and as \<^verbatim>\<open>strtoul(s, &end, 10)\<close> and its
  relatives read them, on strings of bytes.
\<close>

fun fmt_u :: "nat \<Rightarrow> bytes" where
  "fmt_u n = (if n < 10 then [48 + of_nat n] else fmt_u (n div 10) @ [48 + of_nat (n mod 10)])"

declare fmt_u.simps [simp del]

definition is_digit :: "u8 \<Rightarrow> bool" where
  "is_digit b \<longleftrightarrow> 48 \<le> b \<and> b \<le> 57"

definition dec_val :: "bytes \<Rightarrow> nat" where
  "dec_val ds = foldl (\<lambda>v d. 10 * v + unat (d - 48)) 0 ds"

lemma digit_byte: "k < 10 \<Longrightarrow> is_digit (48 + of_nat k) \<and> unat ((48 + of_nat k :: u8) - 48) = k"
  by (simp add: is_digit_def word_le_nat_alt unat_word_ariths unat_of_nat)

lemma dec_val_snoc: "dec_val (ds @ [d]) = 10 * dec_val ds + unat (d - 48)"
  by (simp add: dec_val_def)

lemma fmt_u_digits: "\<forall>b\<in>set (fmt_u n). is_digit b"
proof (induction n rule: fmt_u.induct)
  case (1 n)
  then show ?case using digit_byte [of n] digit_byte [of "n mod 10"] by (subst fmt_u.simps) auto
qed

lemma fmt_u_nonempty: "fmt_u n \<noteq> []"
  by (subst fmt_u.simps) simp

text \<open>Reading back what was printed; so two numbers never print alike.\<close>

lemma dec_val_fmt_u: "dec_val (fmt_u n) = n"
proof (induction n rule: fmt_u.induct)
  case (1 n)
  show ?case
  proof (cases "n < 10")
    case True
    then show ?thesis using digit_byte [of n] by (subst fmt_u.simps) (simp add: dec_val_def)
  next
    case False
    then show ?thesis
      using 1 digit_byte [of "n mod 10"] by (subst fmt_u.simps) (simp add: dec_val_snoc)
  qed
qed

lemma fmt_u_inj: "fmt_u m = fmt_u n \<longleftrightarrow> m = n"
  using dec_val_fmt_u by metis

lemma is_cstr_fmt_u [simp]: "is_cstr (fmt_u n)"
  using fmt_u_digits [of n] by (auto simp: is_cstr_def is_digit_def)

text \<open>A number of \<open>k\<close> digits at most.\<close>

lemma length_fmt_u: "n < 10 ^ k \<Longrightarrow> 0 < k \<Longrightarrow> length (fmt_u n) \<le> k"
proof (induction k arbitrary: n)
  case (Suc k)
  show ?case
  proof (cases "n < 10")
    case True
    then show ?thesis by (subst fmt_u.simps) simp
  next
    case False
    with Suc.prems have "n div 10 < 10 ^ k" "0 < k"
      by (auto simp: less_mult_imp_div_less mult.commute intro: Nat.gr0I)
    then show ?thesis using Suc.IH [of "n div 10"] False by (subst fmt_u.simps) simp
  qed
qed simp

lemma length_fmt_u32: "length (fmt_u (unat w)) \<le> 10" for w :: u32
proof -
  have "unat w < 2 ^ 32" using unsigned_less [of w] by simp
  then show ?thesis by (intro length_fmt_u) simp_all
qed

lemma length_fmt_u64: "length (fmt_u (unat w)) \<le> 20" for w :: u64
proof -
  have "unat w < 2 ^ 64" using unsigned_less [of w] by simp
  then show ?thesis by (intro length_fmt_u) simp_all
qed

section \<open>Signed numbers and reading\<close>

text \<open>\<^verbatim>\<open>%d\<close> and \<^verbatim>\<open>%lld\<close>.\<close>

definition fmt_d :: "int \<Rightarrow> bytes" where
  "fmt_d v = (if v < 0 then 45 # fmt_u (nat (- v)) else fmt_u (nat v))"

lemma fmt_d_cstr [simp]: "is_cstr (fmt_d v)"
  using is_cstr_fmt_u [of "nat v"] is_cstr_fmt_u [of "nat (- v)"] by (simp add: fmt_d_def is_cstr_def)

lemma hd_fmt_u: "is_digit (hd (fmt_u n))"
  using fmt_u_digits [of n] fmt_u_nonempty [of n] by auto

lemma fmt_d_inj: "fmt_d v = fmt_d w \<longleftrightarrow> v = w"
proof -
  have "\<not> is_digit 45" by (simp add: is_digit_def word_le_nat_alt)
  then have "45 # fmt_u m \<noteq> fmt_u n" "fmt_u n \<noteq> 45 # fmt_u m" for m n using hd_fmt_u [of n] by (metis list.sel(1))+
  then show ?thesis using fmt_u_inj by (auto simp: fmt_d_def)
qed

text \<open>
  The subject sequence of \<^verbatim>\<open>strtol\<close> with base 10: white space, a sign, digits. \<open>None\<close> means that there
  is no digit; then nothing is consumed. Values out of range are clamped.
\<close>

definition is_space :: "u8 \<Rightarrow> bool" where
  "is_space b \<longleftrightarrow> b = 32 \<or> 9 \<le> b \<and> b \<le> 13"

definition scan_sign :: "bytes \<Rightarrow> bool \<times> bytes" where
  "scan_sign s = (case s of [] \<Rightarrow> (False, []) | c # r \<Rightarrow> if c = 45 then (True, r) else if c = 43 then (False, r) else (False, s))"

definition scan_int :: "bytes \<Rightarrow> (int \<times> bytes) option" where
  "scan_int s =
    (case scan_sign (dropWhile is_space s) of (neg, u) \<Rightarrow>
       let ds = takeWhile is_digit u; v = int (dec_val ds)
       in if ds = [] then None else Some (if neg then - v else v, dropWhile is_digit u))"

definition strtol :: "bytes \<Rightarrow> int \<times> bytes" where
  "strtol s = (case scan_int s of None \<Rightarrow> (0, s) | Some (v, rest) \<Rightarrow> (max (- (2 ^ 63)) (min v (2 ^ 63 - 1)), rest))"

definition strtoul :: "bytes \<Rightarrow> int \<times> bytes" where
  "strtoul s = (case scan_int s of None \<Rightarrow> (0, s) | Some (v, rest) \<Rightarrow> (if 2 ^ 64 \<le> \<bar>v\<bar> then 2 ^ 64 - 1 else v mod 2 ^ 64, rest))"

text \<open>Reading back what was printed, up to the first byte that is not a digit.\<close>

lemma digit_not_space: "is_digit b \<Longrightarrow> \<not> is_space b \<and> b \<noteq> 45 \<and> b \<noteq> 43"
  by (auto simp: is_digit_def is_space_def word_le_nat_alt word_unat_eq_iff)

lemma scan_digits:
  assumes "rest = [] \<or> \<not> is_digit (hd rest)"
  shows "takeWhile is_digit (fmt_u n @ rest) = fmt_u n" "dropWhile is_digit (fmt_u n @ rest) = rest"
proof -
  have r: "takeWhile is_digit rest = []" "dropWhile is_digit rest = rest" using assms by (cases rest; simp)+
  show "takeWhile is_digit (fmt_u n @ rest) = fmt_u n" "dropWhile is_digit (fmt_u n @ rest) = rest"
    using fmt_u_digits [of n] by (simp_all add: takeWhile_append2 dropWhile_append2 r)
qed

lemma scan_fmt_d:
  assumes "rest = [] \<or> \<not> is_digit (hd rest)"
  shows "scan_int (fmt_d v @ rest) = Some (v, rest)"
proof -
  have minus: "\<not> is_space 45" by (simp add: is_space_def word_le_nat_alt)
  obtain c r where n: "fmt_u (nat v) = c # r" "is_digit c" using hd_fmt_u [of "nat v"] fmt_u_nonempty [of "nat v"]
    by (cases "fmt_u (nat v)") auto
  show ?thesis
    using scan_digits [OF assms, of "nat v"] scan_digits [OF assms, of "nat (- v)"] digit_not_space [OF n(2)] minus n(1)
      fmt_u_nonempty [of "nat (- v)"] dec_val_fmt_u [of "nat v"] dec_val_fmt_u [of "nat (- v)"]
    by (auto simp: scan_int_def fmt_d_def scan_sign_def Let_def)
qed

lemma strtol_fmt_d:
  assumes "rest = [] \<or> \<not> is_digit (hd rest)" "- (2 ^ 63) \<le> v" "v < 2 ^ 63"
  shows "strtol (fmt_d v @ rest) = (v, rest)"
  using assms by (simp add: strtol_def scan_fmt_d)

end
