(* ===== verification/ContainerWire.thy ===== *)
theory ContainerWire
  imports Packed Demux GuestProtocol Decimal
begin

text \<open>
  The container messages on the wire (\<^verbatim>\<open>mk-guest-agent/include/mkring_container.h\<close>): the packed
  structures with the sizes the header gives them, the operation codes, and the translation of
  codes and error names in \<^verbatim>\<open>src/transport_mkring.c\<close>.
\<close>

section \<open>Structures\<close>

abbreviation (input) MAX_RUNTIME_NAME :: nat where "MAX_RUNTIME_NAME \<equiv> 16"
abbreviation (input) MAX_KERNEL_ID :: nat where "MAX_KERNEL_ID \<equiv> 64"
abbreviation (input) MAX_POD_ID :: nat where "MAX_POD_ID \<equiv> 64"
abbreviation (input) MAX_NAME :: nat where "MAX_NAME \<equiv> 64"
abbreviation (input) MAX_IMAGE :: nat where "MAX_IMAGE \<equiv> 256"
abbreviation (input) MAX_LOG_PATH :: nat where "MAX_LOG_PATH \<equiv> 256"
abbreviation (input) MAX_ARGV :: nat where "MAX_ARGV \<equiv> 4"
abbreviation (input) MAX_ARG_LEN :: nat where "MAX_ARG_LEN \<equiv> 64"
abbreviation (input) MAX_CONTAINER_ID :: nat where "MAX_CONTAINER_ID \<equiv> 64"
abbreviation (input) MAX_IMAGE_REF :: nat where "MAX_IMAGE_REF \<equiv> 256"
abbreviation (input) MAX_ERROR_MSG :: nat where "MAX_ERROR_MSG \<equiv> 128"
abbreviation (input) MAX_LOG_CHUNK :: nat where "MAX_LOG_CHUNK \<equiv> 384"
abbreviation (input) MAX_IP :: nat where "MAX_IP \<equiv> 16"
abbreviation (input) MAX_CIDR :: nat where "MAX_CIDR \<equiv> 24"
abbreviation (input) MAX_MODE :: nat where "MAX_MODE \<equiv> 16"
abbreviation (input) MAX_ENDPOINTS :: nat where "MAX_ENDPOINTS \<equiv> 16"
abbreviation (input) MAX_PORTS :: nat where "MAX_PORTS \<equiv> 32"
abbreviation (input) MAX_ENV_KEY :: nat where "MAX_ENV_KEY \<equiv> 64"
abbreviation (input) MAX_ENV_VALUE :: nat where "MAX_ENV_VALUE \<equiv> 256"

abbreviation (input) MKRING_CONTAINER_OP_NONE :: u8 where "MKRING_CONTAINER_OP_NONE \<equiv> 0"
abbreviation (input) MKRING_CONTAINER_OP_CREATE :: u8 where "MKRING_CONTAINER_OP_CREATE \<equiv> 1"
abbreviation (input) MKRING_CONTAINER_OP_START :: u8 where "MKRING_CONTAINER_OP_START \<equiv> 2"
abbreviation (input) MKRING_CONTAINER_OP_STOP :: u8 where "MKRING_CONTAINER_OP_STOP \<equiv> 3"
abbreviation (input) MKRING_CONTAINER_OP_REMOVE :: u8 where "MKRING_CONTAINER_OP_REMOVE \<equiv> 4"
abbreviation (input) MKRING_CONTAINER_OP_STATUS :: u8 where "MKRING_CONTAINER_OP_STATUS \<equiv> 5"
abbreviation (input) MKRING_CONTAINER_OP_READ_LOG :: u8 where "MKRING_CONTAINER_OP_READ_LOG \<equiv> 6"
abbreviation (input) MKRING_CONTAINER_OP_EXEC_TTY_PREPARE :: u8 where "MKRING_CONTAINER_OP_EXEC_TTY_PREPARE \<equiv> 7"
abbreviation (input) MKRING_CONTAINER_OP_EXEC_TTY_START :: u8 where "MKRING_CONTAINER_OP_EXEC_TTY_START \<equiv> 8"
abbreviation (input) MKRING_CONTAINER_OP_EXEC_TTY_RESIZE :: u8 where "MKRING_CONTAINER_OP_EXEC_TTY_RESIZE \<equiv> 9"
abbreviation (input) MKRING_CONTAINER_OP_EXEC_TTY_CLOSE :: u8 where "MKRING_CONTAINER_OP_EXEC_TTY_CLOSE \<equiv> 10"
abbreviation (input) MKRING_CONTAINER_OP_CONFIGURE_NETWORK :: u8 where "MKRING_CONTAINER_OP_CONFIGURE_NETWORK \<equiv> 11"
abbreviation (input) MKRING_CONTAINER_OP_CONFIGURE_ENV :: u8 where "MKRING_CONTAINER_OP_CONFIGURE_ENV \<equiv> 12"

abbreviation (input) MKRING_CONTAINER_KIND_READY :: u8 where "MKRING_CONTAINER_KIND_READY \<equiv> 1"
abbreviation (input) MKRING_CONTAINER_KIND_REQUEST :: u8 where "MKRING_CONTAINER_KIND_REQUEST \<equiv> 2"
abbreviation (input) MKRING_CONTAINER_KIND_RESPONSE :: u8 where "MKRING_CONTAINER_KIND_RESPONSE \<equiv> 3"

definition mkring_container_header :: packed where
  "mkring_container_header =
    [(''magic'', 4), (''version'', 1), (''channel'', 1), (''kind'', 1), (''operation'', 1),
     (''flags'', 2), (''reserved0'', 2), (''request_id'', 8), (''status'', 4), (''payload_len'', 4)]"

definition mkring_container_ready_payload :: packed where
  "mkring_container_ready_payload =
    [(''features'', 4), (''runtime_name'', MAX_RUNTIME_NAME)]"

definition mkring_container_create_request :: packed where
  "mkring_container_create_request =
    [(''kernel_id'', MAX_KERNEL_ID), (''pod_id'', MAX_POD_ID), (''name'', MAX_NAME),
     (''image'', MAX_IMAGE), (''log_path'', MAX_LOG_PATH), (''argv_count'', 4), (''reserved0'', 4),
     (''argv'', MAX_ARGV * MAX_ARG_LEN)]"

definition mkring_container_control_request :: packed where
  "mkring_container_control_request =
    [(''kernel_id'', MAX_KERNEL_ID), (''container_id'', MAX_CONTAINER_ID), (''timeout_millis'', 8)]"

definition mkring_container_create_response :: packed where
  "mkring_container_create_response =
    [(''container_id'', MAX_CONTAINER_ID), (''image_ref'', MAX_IMAGE_REF)]"

definition mkring_container_stop_response :: packed where
  "mkring_container_stop_response =
    [(''exit_code'', 4)]"

definition mkring_container_status_response :: packed where
  "mkring_container_status_response =
    [(''state'', 4), (''exit_code'', 4), (''pid'', 4), (''started_at_unix_nano'', 8),
     (''finished_at_unix_nano'', 8), (''message'', MAX_ERROR_MSG)]"

definition mkring_container_read_log_request :: packed where
  "mkring_container_read_log_request =
    [(''kernel_id'', MAX_KERNEL_ID), (''container_id'', MAX_CONTAINER_ID), (''offset'', 8),
     (''max_bytes'', 4)]"

definition mkring_container_read_log_response :: packed where
  "mkring_container_read_log_response =
    [(''next_offset'', 8), (''data_len'', 4), (''eof'', 1), (''reserved0'', 3), (''data'', MAX_LOG_CHUNK)]"

definition mkring_container_exec_tty_prepare_request :: packed where
  "mkring_container_exec_tty_prepare_request =
    [(''kernel_id'', MAX_KERNEL_ID), (''container_id'', MAX_CONTAINER_ID), (''argv_count'', 4),
     (''tty'', 1), (''stdin_enabled'', 1), (''stdout_enabled'', 1), (''stderr_enabled'', 1),
     (''argv'', MAX_ARGV * MAX_ARG_LEN)]"

definition mkring_container_exec_tty_prepare_response :: packed where
  "mkring_container_exec_tty_prepare_response =
    [(''session_id'', MAX_CONTAINER_ID)]"

definition mkring_container_exec_tty_start_request :: packed where
  "mkring_container_exec_tty_start_request =
    [(''kernel_id'', MAX_KERNEL_ID), (''session_id'', MAX_CONTAINER_ID)]"

definition mkring_container_exec_tty_resize_request :: packed where
  "mkring_container_exec_tty_resize_request =
    [(''kernel_id'', MAX_KERNEL_ID), (''session_id'', MAX_CONTAINER_ID), (''width'', 4), (''height'', 4)]"

definition mkring_container_exec_tty_close_request :: packed where
  "mkring_container_exec_tty_close_request =
    [(''kernel_id'', MAX_KERNEL_ID), (''session_id'', MAX_CONTAINER_ID)]"

definition mkring_container_network_endpoint :: packed where
  "mkring_container_network_endpoint =
    [(''ip'', MAX_IP), (''peer_kernel_id'', 2), (''reserved0'', 2)]"

definition mkring_container_configure_network_request :: packed where
  "mkring_container_configure_network_request =
    [(''kernel_id'', MAX_KERNEL_ID), (''pod_id'', MAX_POD_ID), (''pod_ip'', MAX_IP),
     (''pod_cidr'', MAX_CIDR), (''mode'', MAX_MODE), (''endpoint_count'', 4), (''port_count'', 4),
     (''endpoints'', MAX_ENDPOINTS * sizeof mkring_container_network_endpoint),
     (''ports'', MAX_PORTS * 2)]"

definition mkring_container_configure_env_request :: packed where
  "mkring_container_configure_env_request =
    [(''kernel_id'', MAX_KERNEL_ID), (''pod_id'', MAX_POD_ID), (''name'', MAX_NAME),
     (''key'', MAX_ENV_KEY), (''value'', MAX_ENV_VALUE)]"

definition mkring_container_error_payload :: packed where
  "mkring_container_error_payload =
    [(''errno_value'', 4), (''message'', MAX_ERROR_MSG)]"

text \<open>The payload union is as large as its largest member.\<close>

definition mkring_container_payload :: "(string \<times> packed) list" where
  "mkring_container_payload =
    [(''ready'', mkring_container_ready_payload),
     (''create_req'', mkring_container_create_request),
     (''control_req'', mkring_container_control_request),
     (''create_resp'', mkring_container_create_response),
     (''stop_resp'', mkring_container_stop_response),
     (''status_resp'', mkring_container_status_response),
     (''read_log_req'', mkring_container_read_log_request),
     (''read_log_resp'', mkring_container_read_log_response),
     (''exec_tty_prepare_req'', mkring_container_exec_tty_prepare_request),
     (''exec_tty_prepare_resp'', mkring_container_exec_tty_prepare_response),
     (''exec_tty_start_req'', mkring_container_exec_tty_start_request),
     (''exec_tty_resize_req'', mkring_container_exec_tty_resize_request),
     (''exec_tty_close_req'', mkring_container_exec_tty_close_request),
     (''configure_network_req'', mkring_container_configure_network_request),
     (''configure_env_req'', mkring_container_configure_env_request),
     (''error'', mkring_container_error_payload)]"

definition sizeof_payload :: nat where
  "sizeof_payload = Max (set (map (sizeof \<circ> snd) mkring_container_payload))"

definition mkring_container_message :: packed where
  "mkring_container_message = [(''hdr'', sizeof mkring_container_header), (''payload'', sizeof_payload)]"

lemmas container_structs = mkring_container_header_def mkring_container_ready_payload_def mkring_container_create_request_def mkring_container_control_request_def mkring_container_create_response_def mkring_container_stop_response_def mkring_container_status_response_def mkring_container_read_log_request_def mkring_container_read_log_response_def mkring_container_exec_tty_prepare_request_def mkring_container_exec_tty_prepare_response_def mkring_container_exec_tty_start_request_def mkring_container_exec_tty_resize_request_def mkring_container_exec_tty_close_request_def mkring_container_network_endpoint_def mkring_container_configure_network_request_def mkring_container_configure_env_request_def mkring_container_error_payload_def

lemma container_sizes [simp]:
  "sizeof mkring_container_header = 28"
  "sizeof mkring_container_ready_payload = 20"
  "sizeof mkring_container_create_request = 968"
  "sizeof mkring_container_control_request = 136"
  "sizeof mkring_container_create_response = 320"
  "sizeof mkring_container_stop_response = 4"
  "sizeof mkring_container_status_response = 156"
  "sizeof mkring_container_read_log_request = 140"
  "sizeof mkring_container_read_log_response = 400"
  "sizeof mkring_container_exec_tty_prepare_request = 392"
  "sizeof mkring_container_exec_tty_prepare_response = 64"
  "sizeof mkring_container_exec_tty_start_request = 128"
  "sizeof mkring_container_exec_tty_resize_request = 136"
  "sizeof mkring_container_exec_tty_close_request = 128"
  "sizeof mkring_container_network_endpoint = 20"
  "sizeof mkring_container_configure_network_request = 576"
  "sizeof mkring_container_configure_env_request = 512"
  "sizeof mkring_container_error_payload = 132"
  by (simp_all add: container_structs)

lemma sizeof_payload [simp]: "sizeof_payload = 968"
  by (simp add: sizeof_payload_def mkring_container_payload_def)

lemma sizeof_message [simp]: "sizeof mkring_container_message = 996"
  by (simp add: mkring_container_message_def)

end
