(* ===== verification/Runtime.thy ===== *)
theory Runtime
  imports GuestProtocol
begin

text \<open>
  The runtime interface of the guest agent (\<^verbatim>\<open>mk-guest-agent/include/mkga_runtime.h\<close> and the dispatchers
  in \<^verbatim>\<open>src/runtime_memory.c\<close>): a table of optional operations over a private state \<open>'s\<close>. An
  operation returns its code, the response it leaves in the caller's buffer, and the new state.
  NULL pointers are \<open>None\<close>.
\<close>

record 's mkga_runtime_ops =
  op_create_container :: "('s \<Rightarrow> mkga_create_container_req \<Rightarrow> mkga_create_container_resp \<Rightarrow> int \<times> mkga_create_container_resp \<times> 's) option"
  op_start_container :: "('s \<Rightarrow> mkga_container_control_req \<Rightarrow> int \<times> 's) option"
  op_stop_container :: "('s \<Rightarrow> mkga_container_control_req \<Rightarrow> mkga_stop_container_resp \<Rightarrow> int \<times> mkga_stop_container_resp \<times> 's) option"
  op_remove_container :: "('s \<Rightarrow> mkga_container_control_req \<Rightarrow> int \<times> 's) option"
  op_status_container :: "('s \<Rightarrow> mkga_container_control_req \<Rightarrow> mkga_container_status_resp \<Rightarrow> int \<times> mkga_container_status_resp \<times> 's) option"
  op_read_log :: "('s \<Rightarrow> mkga_read_log_req \<Rightarrow> mkga_read_log_resp \<Rightarrow> int \<times> mkga_read_log_resp \<times> 's) option"
  op_configure_network :: "('s \<Rightarrow> mkga_configure_network_req \<Rightarrow> int \<times> 's) option"
  op_configure_env :: "('s \<Rightarrow> mkga_configure_env_req \<Rightarrow> int \<times> 's) option"
  op_exec_tty_prepare :: "('s \<Rightarrow> mkga_exec_tty_prepare_req \<Rightarrow> mkga_exec_tty_prepare_resp \<Rightarrow> int \<times> mkga_exec_tty_prepare_resp \<times> 's) option"
  op_exec_tty_start :: "('s \<Rightarrow> mkga_exec_session_control_req \<Rightarrow> int \<times> 's) option"
  op_exec_tty_resize :: "('s \<Rightarrow> mkga_exec_tty_resize_req \<Rightarrow> int \<times> 's) option"
  op_exec_tty_close :: "('s \<Rightarrow> mkga_exec_session_control_req \<Rightarrow> int \<times> 's) option"
  op_destroy :: "('s option option \<Rightarrow> resource set \<Rightarrow> resource set) option"

record 's mkga_runtime =
  rt_ops :: "'s mkga_runtime_ops option"
  rt_impl :: "'s option"

text \<open>
  All dispatchers have the same shape: \<open>-EINVAL\<close> when the runtime, its table, the operation, an
  argument or the private state is missing, otherwise the operation.
\<close>

definition runtime_call ::
    "('s mkga_runtime_ops \<Rightarrow> ('s \<Rightarrow> 'q \<Rightarrow> int \<times> 's) option) \<Rightarrow>
     's mkga_runtime option \<Rightarrow> 'q option \<Rightarrow> int \<times> 's mkga_runtime option" where
  "runtime_call sel runtime req =
    (case runtime of
       None \<Rightarrow> (- EINVAL, runtime)
     | Some rt \<Rightarrow>
         (case Option.bind (rt_ops rt) sel of
            None \<Rightarrow> (- EINVAL, runtime)
          | Some f \<Rightarrow>
              (case req of
                 None \<Rightarrow> (- EINVAL, runtime)
               | Some q \<Rightarrow>
                   (case rt_impl rt of
                      None \<Rightarrow> (- EINVAL, runtime)
                    | Some s \<Rightarrow> (case f s q of (rc, s') \<Rightarrow> (rc, Some (rt\<lparr>rt_impl := Some s'\<rparr>)))))))"

definition runtime_call_resp ::
    "('s mkga_runtime_ops \<Rightarrow> ('s \<Rightarrow> 'q \<Rightarrow> 'r \<Rightarrow> int \<times> 'r \<times> 's) option) \<Rightarrow>
     's mkga_runtime option \<Rightarrow> 'q option \<Rightarrow> 'r option \<Rightarrow> int \<times> 'r option \<times> 's mkga_runtime option" where
  "runtime_call_resp sel runtime req resp =
    (case runtime of
       None \<Rightarrow> (- EINVAL, resp, runtime)
     | Some rt \<Rightarrow>
         (case Option.bind (rt_ops rt) sel of
            None \<Rightarrow> (- EINVAL, resp, runtime)
          | Some f \<Rightarrow>
              (case (req, resp) of
                 (Some q, Some r) \<Rightarrow>
                   (case rt_impl rt of
                      None \<Rightarrow> (- EINVAL, resp, runtime)
                    | Some s \<Rightarrow> (case f s q r of (rc, r', s') \<Rightarrow> (rc, Some r', Some (rt\<lparr>rt_impl := Some s'\<rparr>))))
               | _ \<Rightarrow> (- EINVAL, resp, runtime))))"

definition mkga_runtime_create_container ::
    "'s mkga_runtime option \<Rightarrow> mkga_create_container_req option \<Rightarrow> mkga_create_container_resp option \<Rightarrow>
     int \<times> mkga_create_container_resp option \<times> 's mkga_runtime option" where
  "mkga_runtime_create_container = runtime_call_resp op_create_container"

definition mkga_runtime_start_container ::
    "'s mkga_runtime option \<Rightarrow> mkga_container_control_req option \<Rightarrow> int \<times> 's mkga_runtime option" where
  "mkga_runtime_start_container = runtime_call op_start_container"

definition mkga_runtime_stop_container ::
    "'s mkga_runtime option \<Rightarrow> mkga_container_control_req option \<Rightarrow> mkga_stop_container_resp option \<Rightarrow>
     int \<times> mkga_stop_container_resp option \<times> 's mkga_runtime option" where
  "mkga_runtime_stop_container = runtime_call_resp op_stop_container"

definition mkga_runtime_remove_container ::
    "'s mkga_runtime option \<Rightarrow> mkga_container_control_req option \<Rightarrow> int \<times> 's mkga_runtime option" where
  "mkga_runtime_remove_container = runtime_call op_remove_container"

definition mkga_runtime_status_container ::
    "'s mkga_runtime option \<Rightarrow> mkga_container_control_req option \<Rightarrow> mkga_container_status_resp option \<Rightarrow>
     int \<times> mkga_container_status_resp option \<times> 's mkga_runtime option" where
  "mkga_runtime_status_container = runtime_call_resp op_status_container"

definition mkga_runtime_read_log ::
    "'s mkga_runtime option \<Rightarrow> mkga_read_log_req option \<Rightarrow> mkga_read_log_resp option \<Rightarrow>
     int \<times> mkga_read_log_resp option \<times> 's mkga_runtime option" where
  "mkga_runtime_read_log = runtime_call_resp op_read_log"

definition mkga_runtime_configure_network ::
    "'s mkga_runtime option \<Rightarrow> mkga_configure_network_req option \<Rightarrow> int \<times> 's mkga_runtime option" where
  "mkga_runtime_configure_network = runtime_call op_configure_network"

definition mkga_runtime_configure_env ::
    "'s mkga_runtime option \<Rightarrow> mkga_configure_env_req option \<Rightarrow> int \<times> 's mkga_runtime option" where
  "mkga_runtime_configure_env = runtime_call op_configure_env"

definition mkga_runtime_exec_tty_prepare ::
    "'s mkga_runtime option \<Rightarrow> mkga_exec_tty_prepare_req option \<Rightarrow> mkga_exec_tty_prepare_resp option \<Rightarrow>
     int \<times> mkga_exec_tty_prepare_resp option \<times> 's mkga_runtime option" where
  "mkga_runtime_exec_tty_prepare = runtime_call_resp op_exec_tty_prepare"

definition mkga_runtime_exec_tty_start ::
    "'s mkga_runtime option \<Rightarrow> mkga_exec_session_control_req option \<Rightarrow> int \<times> 's mkga_runtime option" where
  "mkga_runtime_exec_tty_start = runtime_call op_exec_tty_start"

definition mkga_runtime_exec_tty_resize ::
    "'s mkga_runtime option \<Rightarrow> mkga_exec_tty_resize_req option \<Rightarrow> int \<times> 's mkga_runtime option" where
  "mkga_runtime_exec_tty_resize = runtime_call op_exec_tty_resize"

definition mkga_runtime_exec_tty_close ::
    "'s mkga_runtime option \<Rightarrow> mkga_exec_session_control_req option \<Rightarrow> int \<times> 's mkga_runtime option" where
  "mkga_runtime_exec_tty_close = runtime_call op_exec_tty_close"

text \<open>A destructor gets the runtime (\<open>None\<close> for NULL) and the private pointer in it.\<close>

definition mkga_runtime_destroy :: "'s mkga_runtime option \<Rightarrow> resource set \<Rightarrow> resource set" where
  "mkga_runtime_destroy runtime held =
    (case runtime of
       None \<Rightarrow> held
     | Some rt \<Rightarrow> (case Option.bind (rt_ops rt) op_destroy of None \<Rightarrow> held | Some d \<Rightarrow> d (Some (rt_impl rt)) held))"

lemmas runtime_dispatch = mkga_runtime_create_container_def mkga_runtime_start_container_def
  mkga_runtime_stop_container_def mkga_runtime_remove_container_def mkga_runtime_status_container_def
  mkga_runtime_read_log_def mkga_runtime_configure_network_def mkga_runtime_configure_env_def
  mkga_runtime_exec_tty_prepare_def mkga_runtime_exec_tty_start_def mkga_runtime_exec_tty_resize_def
  mkga_runtime_exec_tty_close_def

lemma runtime_call_simps [simp]:
  "runtime_call sel None q = (- EINVAL, None)"
  "rt_ops rt = Some ops \<Longrightarrow> sel ops = Some f \<Longrightarrow> rt_impl rt = Some s \<Longrightarrow>
     runtime_call sel (Some rt) (Some x) = (fst (f s x), Some (rt\<lparr>rt_impl := Some (snd (f s x))\<rparr>))"
  by (simp_all add: runtime_call_def split: prod.split)

lemma runtime_call_resp_simps [simp]:
  "runtime_call_resp sel None qo ro = (- EINVAL, ro, None)"
  "rt_ops rt = Some ops \<Longrightarrow> sel ops = Some f \<Longrightarrow> rt_impl rt = Some s \<Longrightarrow>
     runtime_call_resp sel (Some rt) (Some x) (Some r) =
       (fst (f s x r), Some (fst (snd (f s x r))), Some (rt\<lparr>rt_impl := Some (snd (snd (f s x r)))\<rparr>))"
  by (simp_all add: runtime_call_resp_def split: prod.split)

text \<open>A runtime stays usable: a dispatcher neither adds nor removes its table or its state.\<close>

lemma runtime_call_keeps:
  "\<exists>rt'. snd (runtime_call sel (Some rt) q) = Some rt' \<and> rt_ops rt' = rt_ops rt \<and> (rt_impl rt' = None) = (rt_impl rt = None)"
  by (simp add: runtime_call_def split: option.split prod.split)

lemma runtime_call_resp_keeps:
  "\<exists>rt'. snd (snd (runtime_call_resp sel (Some rt) q r)) = Some rt' \<and> rt_ops rt' = rt_ops rt \<and>
     (rt_impl rt' = None) = (rt_impl rt = None)"
  by (auto simp: runtime_call_resp_def split: option.split prod.split)

section \<open>What a container runtime promises\<close>

text \<open>
  The contract the agent relies on. \<open>view\<close> is the set of containers as a client can observe it,
  \<open>issued\<close> the identifiers handed out so far, \<open>cap\<close> the number of containers the runtime can hold and
  \<open>budget\<close> the number of further containers whose identifiers are guaranteed to be new.
\<close>

record container_view =
  cv_image :: bytes
  cv_running :: bool

definition rt_of :: "'s mkga_runtime_ops \<Rightarrow> 's \<Rightarrow> 's mkga_runtime option" where
  "rt_of ops s = Some \<lparr>rt_ops = Some ops, rt_impl = Some s\<rparr>"

lemma rt_of_eq [simp]: "rt_of ops s = rt_of ops t \<longleftrightarrow> s = t"
  by (simp add: rt_of_def)

lemma rt_of_calls:
  "sel ops = Some f \<Longrightarrow> runtime_call sel (rt_of ops s) (Some x) = (fst (f s x), rt_of ops (snd (f s x)))"
  "sel' ops = Some g \<Longrightarrow> runtime_call_resp sel' (rt_of ops s) (Some y) (Some r) =
     (fst (g s y r), Some (fst (snd (g s y r))), rt_of ops (snd (snd (g s y r))))"
  by (simp_all add: rt_of_def)

definition set_running :: "bool \<Rightarrow> bytes \<Rightarrow> (bytes \<rightharpoonup> container_view) \<Rightarrow> bytes \<rightharpoonup> container_view" where
  "set_running b k m = m(k := map_option (\<lambda>c. c\<lparr>cv_running := b\<rparr>) (m k))"

definition found :: "(bytes \<rightharpoonup> container_view) \<Rightarrow> bytes \<Rightarrow> int" where
  "found m k = (if m k = None then - ENOENT else 0)"

locale container_runtime =
  fixes ops :: "'s mkga_runtime_ops"
    and invar :: "'s \<Rightarrow> bool"
    and view :: "'s \<Rightarrow> bytes \<Rightarrow> container_view option"
    and issued :: "'s \<Rightarrow> bytes set"
    and budget :: "'s \<Rightarrow> nat"
    and cap :: nat
  assumes view_issued: "invar s \<Longrightarrow> dom (view s) \<subseteq> issued s"
    and create_ok: "invar s \<Longrightarrow> 0 < budget s \<Longrightarrow> card (dom (view s)) < cap \<Longrightarrow>
      \<exists>res s'. mkga_runtime_create_container (rt_of ops s) (Some q) (Some r) = (0, Some res, rt_of ops s') \<and>
        cr_container_id res \<notin> issued s \<and> cr_image_ref res = copied MKGA_MAX_IMAGE_LEN (cc_image q) \<and>
        invar s' \<and> issued s' = insert (cr_container_id res) (issued s) \<and> budget s = Suc (budget s') \<and>
        view s' = (view s)(cr_container_id res \<mapsto>
          \<lparr>cv_image = copied MKGA_MAX_IMAGE_LEN (cc_image q), cv_running = False\<rparr>)"
    and create_full: "invar s \<Longrightarrow> cap \<le> card (dom (view s)) \<Longrightarrow>
      mkga_runtime_create_container (rt_of ops s) (Some q) (Some r) = (- ENOSPC, Some r, rt_of ops s)"
    and start_law: "invar s \<Longrightarrow>
      \<exists>s'. mkga_runtime_start_container (rt_of ops s) (Some k) = (found (view s) (ct_container_id k), rt_of ops s') \<and>
        invar s' \<and> issued s' = issued s \<and> budget s' = budget s \<and>
        view s' = set_running True (ct_container_id k) (view s)"
    and stop_law: "invar s \<Longrightarrow>
      \<exists>s' res. mkga_runtime_stop_container (rt_of ops s) (Some k) (Some sr) =
          (found (view s) (ct_container_id k), Some res, rt_of ops s') \<and>
        invar s' \<and> issued s' = issued s \<and> budget s' = budget s \<and>
        view s' = set_running False (ct_container_id k) (view s)"
    and remove_law: "invar s \<Longrightarrow>
      \<exists>s'. mkga_runtime_remove_container (rt_of ops s) (Some k) = (found (view s) (ct_container_id k), rt_of ops s') \<and>
        invar s' \<and> issued s' = issued s \<and> budget s' = budget s \<and> view s' = (view s)(ct_container_id k := None)"
    and status_law: "invar s \<Longrightarrow>
      \<exists>res. mkga_runtime_status_container (rt_of ops s) (Some k) (Some tr) =
          (found (view s) (ct_container_id k), Some res, rt_of ops s) \<and>
        (\<forall>c. view s (ct_container_id k) = Some c \<longrightarrow>
           (st_state res = state_code MKGA_CONTAINER_STATE_RUNNING \<longleftrightarrow> cv_running c))"
    and read_log_law: "invar s \<Longrightarrow> snd (snd (mkga_runtime_read_log (rt_of ops s) (Some lq) (Some lr))) = rt_of ops s"
    and network_law: "invar s \<Longrightarrow> snd (mkga_runtime_configure_network (rt_of ops s) (Some nq)) = rt_of ops s"
    and env_law: "invar s \<Longrightarrow> snd (mkga_runtime_configure_env (rt_of ops s) (Some eq)) = rt_of ops s"
    and prepare_law: "invar s \<Longrightarrow> snd (snd (mkga_runtime_exec_tty_prepare (rt_of ops s) (Some pq) (Some pr))) = rt_of ops s"
    and exec_start_law: "invar s \<Longrightarrow> snd (mkga_runtime_exec_tty_start (rt_of ops s) (Some sq)) = rt_of ops s"
    and resize_law: "invar s \<Longrightarrow> snd (mkga_runtime_exec_tty_resize (rt_of ops s) (Some zq)) = rt_of ops s"
    and close_law: "invar s \<Longrightarrow> snd (mkga_runtime_exec_tty_close (rt_of ops s) (Some sq)) = rt_of ops s"
begin
end

end
