(* ===== verification/MemoryRuntime.thy ===== *)
theory MemoryRuntime
  imports Runtime Decimal
begin

text \<open>
  The in-memory runtime of \<^verbatim>\<open>mk-guest-agent/src/runtime_memory.c\<close>: 64 slots and a counter for
  identifiers. Theory Runtime holds the dispatchers of the same file. Every operation runs under
  the mutex and is one step. The theory ends with the interpretation of the runtime contract.
\<close>

section \<open>State and operations\<close>

abbreviation (input) MAX_CONTAINERS :: nat where "MAX_CONTAINERS \<equiv> 64"

record mkga_memory_container =
  mc_in_use :: bool
  mc_running :: bool
  mc_id :: bytes
  mc_kernel_id :: bytes
  mc_image :: bytes
  mc_exit_code :: i32

record mkga_memory_runtime =
  mr_next_id :: u32
  mr_containers :: "mkga_memory_container list"

definition zero_container :: mkga_memory_container where
  "zero_container = \<lparr>mc_in_use = False, mc_running = False, mc_id = [], mc_kernel_id = [], mc_image = [], mc_exit_code = 0\<rparr>"

definition mkga_memory_find_container :: "mkga_memory_runtime \<Rightarrow> bytes \<Rightarrow> nat option" where
  "mkga_memory_find_container impl container_id =
    find (\<lambda>i. mc_in_use (mr_containers impl ! i) \<and> mc_id (mr_containers impl ! i) = container_id) [0..<MAX_CONTAINERS]"

definition mkga_memory_alloc_container :: "mkga_memory_runtime \<Rightarrow> nat option" where
  "mkga_memory_alloc_container impl = find (\<lambda>i. \<not> mc_in_use (mr_containers impl ! i)) [0..<MAX_CONTAINERS]"

definition update_slot :: "nat \<Rightarrow> mkga_memory_container \<Rightarrow> mkga_memory_runtime \<Rightarrow> mkga_memory_runtime" where
  "update_slot i c impl = impl\<lparr>mr_containers := (mr_containers impl)[i := c]\<rparr>"

text \<open>\<^verbatim>\<open>snprintf\<close> into a field of \<open>n\<close> bytes truncates like \<open>copied n\<close>.\<close>

definition container_name :: "u32 \<Rightarrow> bytes" where
  "container_name n = copied MKGA_MAX_ID_LEN (cs ''ctr-'' @ fmt_u (unat n))"

definition mkga_memory_create_container ::
    "mkga_memory_runtime \<Rightarrow> mkga_create_container_req \<Rightarrow> mkga_create_container_resp \<Rightarrow>
     int \<times> mkga_create_container_resp \<times> mkga_memory_runtime" where
  "mkga_memory_create_container impl req resp =
    (case mkga_memory_alloc_container impl of
       None \<Rightarrow> (- ENOSPC, resp, impl)
     | Some i \<Rightarrow>
         let next = mr_next_id impl + 1;
             c = zero_container\<lparr>mc_in_use := True, mc_id := container_name next,
                   mc_kernel_id := copied MKGA_MAX_KERNEL_ID_LEN (cc_kernel_id req),
                   mc_image := copied MKGA_MAX_IMAGE_LEN (cc_image req)\<rparr>;
             impl' = (update_slot i c impl)\<lparr>mr_next_id := next\<rparr>;
             resp' = zero_create_resp\<lparr>cr_container_id := copied MKGA_MAX_ID_LEN (mc_id c),
                       cr_image_ref := copied MKGA_MAX_IMAGE_LEN (cc_image req)\<rparr>
         in (0, resp', impl'))"

definition mkga_memory_start_container ::
    "mkga_memory_runtime \<Rightarrow> mkga_container_control_req \<Rightarrow> int \<times> mkga_memory_runtime" where
  "mkga_memory_start_container impl req =
    (case mkga_memory_find_container impl (ct_container_id req) of
       None \<Rightarrow> (- ENOENT, impl)
     | Some i \<Rightarrow> (0, update_slot i ((mr_containers impl ! i)\<lparr>mc_running := True, mc_exit_code := 0\<rparr>) impl))"

definition mkga_memory_stop_container ::
    "mkga_memory_runtime \<Rightarrow> mkga_container_control_req \<Rightarrow> mkga_stop_container_resp \<Rightarrow>
     int \<times> mkga_stop_container_resp \<times> mkga_memory_runtime" where
  "mkga_memory_stop_container impl req resp =
    (case mkga_memory_find_container impl (ct_container_id req) of
       None \<Rightarrow> (- ENOENT, resp, impl)
     | Some i \<Rightarrow> (0, resp\<lparr>sp_exit_code := 0\<rparr>,
                  update_slot i ((mr_containers impl ! i)\<lparr>mc_running := False, mc_exit_code := 0\<rparr>) impl))"

definition mkga_memory_status_container ::
    "mkga_memory_runtime \<Rightarrow> mkga_container_control_req \<Rightarrow> mkga_container_status_resp \<Rightarrow>
     int \<times> mkga_container_status_resp \<times> mkga_memory_runtime" where
  "mkga_memory_status_container impl req resp =
    (case mkga_memory_find_container impl (ct_container_id req) of
       None \<Rightarrow> (- ENOENT, resp, impl)
     | Some i \<Rightarrow>
         let c = mr_containers impl ! i
         in (0, zero_status_resp\<lparr>st_state := (if mc_running c then state_code MKGA_CONTAINER_STATE_RUNNING
                                              else state_code MKGA_CONTAINER_STATE_CREATED),
                                 st_exit_code := mc_exit_code c\<rparr>, impl))"

definition mkga_memory_read_log ::
    "mkga_memory_runtime \<Rightarrow> mkga_read_log_req \<Rightarrow> mkga_read_log_resp \<Rightarrow>
     int \<times> mkga_read_log_resp \<times> mkga_memory_runtime" where
  "mkga_memory_read_log impl req resp =
    (case mkga_memory_find_container impl (rl_container_id req) of
       None \<Rightarrow> (- ENOENT, resp, impl)
     | Some i \<Rightarrow> (0, zero_read_log_resp\<lparr>rr_next_offset := rl_offset req,
                                        rr_eof := \<not> mc_running (mr_containers impl ! i)\<rparr>, impl))"

definition mkga_memory_configure_network ::
    "mkga_memory_runtime \<Rightarrow> mkga_configure_network_req \<Rightarrow> int \<times> mkga_memory_runtime" where
  "mkga_memory_configure_network impl req = (0, impl)"

definition mkga_memory_configure_env ::
    "mkga_memory_runtime \<Rightarrow> mkga_configure_env_req \<Rightarrow> int \<times> mkga_memory_runtime" where
  "mkga_memory_configure_env impl req = (0, impl)"

definition mkga_memory_exec_tty_prepare ::
    "mkga_memory_runtime \<Rightarrow> mkga_exec_tty_prepare_req \<Rightarrow> mkga_exec_tty_prepare_resp \<Rightarrow>
     int \<times> mkga_exec_tty_prepare_resp \<times> mkga_memory_runtime" where
  "mkga_memory_exec_tty_prepare impl req resp = (- ENOSYS, resp, impl)"

definition mkga_memory_exec_tty_start ::
    "mkga_memory_runtime \<Rightarrow> mkga_exec_session_control_req \<Rightarrow> int \<times> mkga_memory_runtime" where
  "mkga_memory_exec_tty_start impl req = (- ENOSYS, impl)"

definition mkga_memory_exec_tty_resize ::
    "mkga_memory_runtime \<Rightarrow> mkga_exec_tty_resize_req \<Rightarrow> int \<times> mkga_memory_runtime" where
  "mkga_memory_exec_tty_resize impl req = (- ENOSYS, impl)"

definition mkga_memory_exec_tty_close ::
    "mkga_memory_runtime \<Rightarrow> mkga_exec_session_control_req \<Rightarrow> int \<times> mkga_memory_runtime" where
  "mkga_memory_exec_tty_close impl req = (- ENOSYS, impl)"

definition mkga_memory_remove_container ::
    "mkga_memory_runtime \<Rightarrow> mkga_container_control_req \<Rightarrow> int \<times> mkga_memory_runtime" where
  "mkga_memory_remove_container impl req =
    (case mkga_memory_find_container impl (ct_container_id req) of
       None \<Rightarrow> (- ENOENT, impl)
     | Some i \<Rightarrow> (0, update_slot i zero_container impl))"

definition mkga_memory_destroy :: "mkga_memory_runtime option option \<Rightarrow> resource set \<Rightarrow> resource set" where
  "mkga_memory_destroy runtime held =
    (case runtime of
       None \<Rightarrow> held
     | Some impl \<Rightarrow> held - (if impl \<noteq> None then {RMutex, RImpl} else {}) - {RHandle})"

definition mkga_memory_ops :: "mkga_memory_runtime mkga_runtime_ops" where
  "mkga_memory_ops =
    \<lparr>op_create_container = Some mkga_memory_create_container,
     op_start_container = Some mkga_memory_start_container,
     op_stop_container = Some mkga_memory_stop_container,
     op_remove_container = Some mkga_memory_remove_container,
     op_status_container = Some mkga_memory_status_container,
     op_read_log = Some mkga_memory_read_log,
     op_configure_network = Some mkga_memory_configure_network,
     op_configure_env = Some mkga_memory_configure_env,
     op_exec_tty_prepare = Some mkga_memory_exec_tty_prepare,
     op_exec_tty_start = Some mkga_memory_exec_tty_start,
     op_exec_tty_resize = Some mkga_memory_exec_tty_resize,
     op_exec_tty_close = Some mkga_memory_exec_tty_close,
     op_destroy = Some mkga_memory_destroy\<rparr>"

text \<open>
  The arguments say which allocation and whether the mutex initialisation succeeds; the second
  component of the result is what is held on return.
\<close>

definition mkga_memory_runtime_create :: "bool \<Rightarrow> bool \<Rightarrow> bool \<Rightarrow> mkga_memory_runtime mkga_runtime option \<times> resource set" where
  "mkga_memory_runtime_create runtime_ok impl_ok mu_ok =
    (let held = got runtime_ok RHandle \<union> got impl_ok RImpl in
     if \<not> runtime_ok \<or> \<not> impl_ok then (None, held - {RHandle} - {RImpl})
     else if \<not> mu_ok then (None, held - {RHandle} - {RImpl})
     else (rt_of mkga_memory_ops \<lparr>mr_next_id = 0, mr_containers = replicate MAX_CONTAINERS zero_container\<rparr>,
           insert RMutex held))"

section \<open>Invariant and abstraction\<close>

definition mem_inv :: "mkga_memory_runtime \<Rightarrow> bool" where
  "mem_inv impl \<longleftrightarrow> length (mr_containers impl) = MAX_CONTAINERS \<and>
     (\<forall>i<MAX_CONTAINERS. mc_in_use (mr_containers impl ! i) \<longrightarrow>
        (\<exists>n. 0 < n \<and> n \<le> unat (mr_next_id impl) \<and> mc_id (mr_containers impl ! i) = container_name (of_nat n)) \<and>
        length (mc_kernel_id (mr_containers impl ! i)) < MKGA_MAX_KERNEL_ID_LEN \<and>
        length (mc_image (mr_containers impl ! i)) < MKGA_MAX_IMAGE_LEN) \<and>
     (\<forall>i<MAX_CONTAINERS. \<forall>j<MAX_CONTAINERS. mc_in_use (mr_containers impl ! i) \<longrightarrow> mc_in_use (mr_containers impl ! j) \<longrightarrow>
        mc_id (mr_containers impl ! i) = mc_id (mr_containers impl ! j) \<longrightarrow> i = j)"

definition view_of :: "mkga_memory_container \<Rightarrow> container_view" where
  "view_of c = \<lparr>cv_image = mc_image c, cv_running = mc_running c\<rparr>"

definition mem_view :: "mkga_memory_runtime \<Rightarrow> bytes \<Rightarrow> container_view option" where
  "mem_view impl k = map_option (\<lambda>i. view_of (mr_containers impl ! i)) (mkga_memory_find_container impl k)"

definition mem_issued :: "mkga_memory_runtime \<Rightarrow> bytes set" where
  "mem_issued impl = {container_name (of_nat n) |n. 0 < n \<and> n \<le> unat (mr_next_id impl)}"

definition mem_budget :: "mkga_memory_runtime \<Rightarrow> nat" where
  "mem_budget impl = 2 ^ 32 - 1 - unat (mr_next_id impl)"

section \<open>Slots\<close>

abbreviation slot :: "mkga_memory_runtime \<Rightarrow> nat \<Rightarrow> mkga_memory_container" where
  "slot impl i \<equiv> mr_containers impl ! i"

lemma mem_invD:
  assumes "mem_inv impl"
  shows "length (mr_containers impl) = 64"
    and "i < 64 \<Longrightarrow> mc_in_use (slot impl i) \<Longrightarrow>
      \<exists>n. 0 < n \<and> n \<le> unat (mr_next_id impl) \<and> mc_id (slot impl i) = container_name (of_nat n)"
    and "i < 64 \<Longrightarrow> j < 64 \<Longrightarrow> mc_in_use (slot impl i) \<Longrightarrow> mc_in_use (slot impl j) \<Longrightarrow>
      mc_id (slot impl i) = mc_id (slot impl j) \<Longrightarrow> i = j"
  using assms by (auto simp: mem_inv_def)

lemma memory_find_Some:
  assumes "mem_inv impl"
  shows "mkga_memory_find_container impl k = Some i \<longleftrightarrow> i < 64 \<and> mc_in_use (slot impl i) \<and> mc_id (slot impl i) = k"
proof -
  have "j = i" if "j < i" "i < 64" "mc_in_use (slot impl j)" "mc_in_use (slot impl i)" "mc_id (slot impl j) = mc_id (slot impl i)" for j
    using that mem_invD(3) [OF assms, of j i] by simp
  then show ?thesis unfolding mkga_memory_find_container_def find_upt_Some by fastforce
qed

lemma memory_find_None:
  "mkga_memory_find_container impl k = None \<longleftrightarrow> (\<forall>i<64. mc_in_use (slot impl i) \<longrightarrow> mc_id (slot impl i) \<noteq> k)"
  unfolding mkga_memory_find_container_def find_upt_None by blast

lemma mem_view_Some:
  assumes "mem_inv impl"
  shows "mem_view impl k = Some v \<longleftrightarrow>
    (\<exists>i<64. mc_in_use (slot impl i) \<and> mc_id (slot impl i) = k \<and> v = view_of (slot impl i))"
  unfolding mem_view_def using memory_find_Some [OF assms] by auto

lemma mem_view_None: "mem_view impl k = None \<longleftrightarrow> mkga_memory_find_container impl k = None"
  by (simp add: mem_view_def)

lemma slot_update: "length (mr_containers impl) = 64 \<Longrightarrow> i < 64 \<Longrightarrow> j < 64 \<Longrightarrow>
    slot (update_slot i c impl) j = (if j = i then c else slot impl j)"
  by (simp add: update_slot_def)

lemma update_slot_next [simp]: "mr_next_id (update_slot i c impl) = mr_next_id impl"
  by (simp add: update_slot_def)

lemma length_update_slot [simp]: "length (mr_containers (update_slot i c impl)) = length (mr_containers impl)"
  by (simp add: update_slot_def)

text \<open>Identifiers: the counter is visible in the name, so names of different numbers differ.\<close>

lemma container_name_eq: "container_name n = cs ''ctr-'' @ fmt_u (unat n)"
  unfolding container_name_def using length_fmt_u32 [of n] by (intro copied_short) (simp add: cs_def)

lemma container_name_inj: "container_name m = container_name n \<longleftrightarrow> m = n"
  by (simp add: container_name_eq fmt_u_inj unsigned_word_eqI word_unat_eq_iff)

lemma length_container_name: "length (container_name n) < MKGA_MAX_ID_LEN"
  by (simp add: container_name_def length_copied)

lemma mem_view_issued: "mem_inv impl \<Longrightarrow> dom (mem_view impl) \<subseteq> mem_issued impl"
  using mem_invD(2) by (fastforce simp: mem_issued_def mem_view_Some)

text \<open>There is a free slot exactly when fewer than 64 containers are visible.\<close>

lemma card_dom_view:
  assumes "mem_inv impl"
  shows "card (dom (mem_view impl)) = card {i. i < 64 \<and> mc_in_use (slot impl i)}"
proof -
  let ?I = "{i. i < 64 \<and> mc_in_use (slot impl i)}"
  have "dom (mem_view impl) = (\<lambda>i. mc_id (slot impl i)) ` ?I"
    by (auto simp: dom_def mem_view_Some [OF assms])
  moreover have "inj_on (\<lambda>i. mc_id (slot impl i)) ?I"
    by (intro inj_onI) (auto dest: mem_invD(3) [OF assms])
  ultimately show ?thesis by (simp add: card_image)
qed

lemma all_below_card: "(\<forall>i<n. P i) \<longleftrightarrow> n \<le> card {i. i < n \<and> P i}" for n :: nat
proof
  assume "\<forall>i<n. P i"
  then have "{i. i < n \<and> P i} = {..<n}" by auto
  then show "n \<le> card {i. i < n \<and> P i}" by simp
next
  assume "n \<le> card {i. i < n \<and> P i}"
  then have "{i. i < n \<and> P i} = {..<n}" by (intro card_seteq) auto
  then show "\<forall>i<n. P i" by auto
qed

lemma memory_alloc_None:
  assumes "mem_inv impl"
  shows "mkga_memory_alloc_container impl = None \<longleftrightarrow> 64 \<le> card (dom (mem_view impl))"
  unfolding card_dom_view [OF assms] mkga_memory_alloc_container_def find_upt_None all_below_card [symmetric] not_not ..

lemma memory_alloc_Some:
  "mkga_memory_alloc_container impl = Some i \<Longrightarrow> i < 64 \<and> \<not> mc_in_use (slot impl i)"
  by (simp add: mkga_memory_alloc_container_def find_upt_Some)

text \<open>What a client sees after one slot has been rewritten.\<close>

lemma mem_view_update:
  assumes "mem_inv impl" "mem_inv impl'" "i < 64"
    and "mr_containers impl' = (mr_containers impl)[i := c]"
  shows "mem_view impl' k =
    (if mc_in_use c \<and> mc_id c = k then Some (view_of c)
     else if mc_in_use (slot impl i) \<and> mc_id (slot impl i) = k then None
     else mem_view impl k)"
proof -
  have sl: "slot impl' j = (if j = i then c else slot impl j)" if "j < 64" for j
    using that assms(3,4) mem_invD(1) [OF assms(1)] by simp
  show ?thesis
  proof (cases "mc_in_use c \<and> mc_id c = k")
    case True
    then have "mem_view impl' k = Some (view_of c)"
      unfolding mem_view_Some [OF assms(2)] using sl [OF assms(3)] assms(3) by (intro exI [of _ i]) simp
    with True show ?thesis by simp
  next
    case no: False
    show ?thesis
    proof (cases "mc_in_use (slot impl i) \<and> mc_id (slot impl i) = k")
      case True
      have "mc_id (slot impl' j) \<noteq> k" if j: "j < 64" "mc_in_use (slot impl' j)" for j
      proof (cases "j = i")
        case True
        then show ?thesis using no j sl [OF j(1)] by simp
      next
        case ne: False
        then have "slot impl' j = slot impl j" using sl [OF j(1)] by simp
        with ne j True show ?thesis using mem_invD(3) [OF assms(1) j(1) assms(3)] by metis
      qed
      then have "mem_view impl' k = None" unfolding mem_view_None memory_find_None by blast
      with True no show ?thesis by simp
    next
      case False
      have "mem_view impl' k = Some v \<longleftrightarrow> mem_view impl k = Some v" for v
        unfolding mem_view_Some [OF assms(1)] mem_view_Some [OF assms(2)]
        by (rule ex_cong1) (use sl no False in \<open>auto split: if_splits\<close>)
      then have "mem_view impl' k = mem_view impl k" by (metis option.exhaust)
      with no False show ?thesis by argo
    qed
  qed
qed

section \<open>The operations keep the invariant\<close>

lemma mem_invI:
  assumes "length (mr_containers m) = 64"
    and "\<And>j. j < 64 \<Longrightarrow> mc_in_use (slot m j) \<Longrightarrow>
      (\<exists>n. 0 < n \<and> n \<le> unat (mr_next_id m) \<and> mc_id (slot m j) = container_name (of_nat n)) \<and>
      length (mc_kernel_id (slot m j)) < 64 \<and> length (mc_image (slot m j)) < 256"
    and "\<And>j k. j < 64 \<Longrightarrow> k < 64 \<Longrightarrow> mc_in_use (slot m j) \<Longrightarrow> mc_in_use (slot m k) \<Longrightarrow>
      mc_id (slot m j) = mc_id (slot m k) \<Longrightarrow> j = k"
  shows "mem_inv m"
  unfolding mem_inv_def using assms by blast

lemma mem_inv_same_id:
  assumes inv: "mem_inv impl" and i: "i < 64" "mc_in_use (slot impl i)"
    and c: "mc_in_use c" "mc_id c = mc_id (slot impl i)" "mc_kernel_id c = mc_kernel_id (slot impl i)"
      "mc_image c = mc_image (slot impl i)"
  shows "mem_inv (update_slot i c impl)"
proof -
  let ?m = "update_slot i c impl"
  have same: "mc_in_use (slot ?m j) = mc_in_use (slot impl j)" "mc_id (slot ?m j) = mc_id (slot impl j)"
      "mc_kernel_id (slot ?m j) = mc_kernel_id (slot impl j)" "mc_image (slot ?m j) = mc_image (slot impl j)" if "j < 64" for j
    using slot_update [OF mem_invD(1) [OF inv] i(1) that] i(2) c by simp_all
  show ?thesis using inv unfolding mem_inv_def length_update_slot update_slot_next by (simp add: same)
qed

lemma mem_inv_clear:
  assumes inv: "mem_inv impl" and i: "i < 64"
  shows "mem_inv (update_slot i zero_container impl)"
proof -
  let ?m = "update_slot i zero_container impl"
  have same: "mc_in_use (slot ?m j) \<Longrightarrow> mc_in_use (slot impl j) \<and> slot ?m j = slot impl j" if "j < 64" for j
    using slot_update [OF mem_invD(1) [OF inv] i that] by (simp add: zero_container_def split: if_splits)
  show ?thesis
  proof (rule mem_invI)
    show "length (mr_containers ?m) = 64" using mem_invD(1) [OF inv] by simp
  next
    fix j assume j: "j < 64" "mc_in_use (slot ?m j)"
    show "(\<exists>n. 0 < n \<and> n \<le> unat (mr_next_id ?m) \<and> mc_id (slot ?m j) = container_name (of_nat n)) \<and>
      length (mc_kernel_id (slot ?m j)) < 64 \<and> length (mc_image (slot ?m j)) < 256"
      using same [OF j] inv j(1) unfolding mem_inv_def update_slot_next by metis
  next
    fix j k assume "j < 64" "k < 64" "mc_in_use (slot ?m j)" "mc_in_use (slot ?m k)" "mc_id (slot ?m j) = mc_id (slot ?m k)"
    then show "j = k" using same mem_invD(3) [OF inv] by metis
  qed
qed

lemma mem_inv_create:
  assumes inv: "mem_inv impl" and i: "i < 64" "\<not> mc_in_use (slot impl i)"
    and nxt: "unat (mr_next_id impl) < 2 ^ 32 - 1"
    and c: "mc_id c = container_name (mr_next_id impl + 1)" "length (mc_kernel_id c) < MKGA_MAX_KERNEL_ID_LEN"
      "length (mc_image c) < MKGA_MAX_IMAGE_LEN"
  shows "mem_inv ((update_slot i c impl)\<lparr>mr_next_id := mr_next_id impl + 1\<rparr>)" (is "mem_inv ?m")
proof -
  let ?n = "mr_next_id impl"
  have suc: "unat (?n + 1) = Suc (unat ?n)" using nxt by (simp add: unat_word_ariths)
  have "of_nat (unat (?n + 1)) = ?n + 1" by simp
  then have new: "container_name (?n + 1) = container_name (of_nat (Suc (unat ?n)))" by (simp only: suc)
  have fresh: "mc_id (slot impl j) \<noteq> mc_id c" if j: "j < 64" "mc_in_use (slot impl j)" for j
  proof -
    obtain m where m: "0 < m" "m \<le> unat ?n" "mc_id (slot impl j) = container_name (of_nat m)"
      using mem_invD(2) [OF inv j] by blast
    have "unat (of_nat m :: u32) = m" using m(2) nxt by (simp add: unsigned_of_nat take_bit_nat_eq_self)
    then have "of_nat m \<noteq> ?n + 1" using m(2) suc by (metis Suc_n_not_le_n)
    then show ?thesis by (simp add: m(3) c(1) container_name_inj)
  qed
  have sl: "slot ?m j = (if j = i then c else slot impl j)" if "j < 64" for j
    using slot_update [OF mem_invD(1) [OF inv] i(1) that] by simp
  have len: "length (mr_containers ?m) = 64" using mem_invD(1) [OF inv] by simp
  have ids: "(\<exists>n. 0 < n \<and> n \<le> unat (mr_next_id ?m) \<and> mc_id (slot ?m j) = container_name (of_nat n)) \<and>
      length (mc_kernel_id (slot ?m j)) < 64 \<and> length (mc_image (slot ?m j)) < 256"
    if j: "j < 64" "mc_in_use (slot ?m j)" for j
  proof (cases "j = i")
    case True
    have "0 < Suc (unat ?n) \<and> Suc (unat ?n) \<le> unat (mr_next_id ?m) \<and> mc_id c = container_name (of_nat (Suc (unat ?n)))"
      using suc new c(1) by simp
    moreover have "slot ?m j = c" using sl [OF j(1)] True by argo
    ultimately show ?thesis using c(2,3) by metis
  next
    case False
    then have eq: "slot ?m j = slot impl j" using sl [OF j(1)] by argo
    with j have "mc_in_use (slot impl j)" by simp
    with inv j(1) have "(\<exists>n. 0 < n \<and> n \<le> unat ?n \<and> mc_id (slot impl j) = container_name (of_nat n)) \<and>
        length (mc_kernel_id (slot impl j)) < 64 \<and> length (mc_image (slot impl j)) < 256"
      unfolding mem_inv_def by blast
    moreover have "unat ?n \<le> unat (mr_next_id ?m)" using suc by simp
    ultimately show ?thesis unfolding eq by (meson le_trans)
  qed
  have uniq: "j = k" if "j < 64" "k < 64" "mc_in_use (slot ?m j)" "mc_in_use (slot ?m k)"
      "mc_id (slot ?m j) = mc_id (slot ?m k)" for j k
  proof -
    have e: "slot ?m j = (if j = i then c else slot impl j)" "slot ?m k = (if k = i then c else slot impl k)"
      using sl that(1,2) by blast+
    show ?thesis
    proof (cases "j = i \<or> k = i")
      case True
      then show ?thesis using that e fresh [of j] fresh [of k] by (auto split: if_splits)
    next
      case False
      then have "slot ?m j = slot impl j" "slot ?m k = slot impl k" using e by simp_all
      then show ?thesis using that mem_invD(3) [OF inv, of j k] by simp
    qed
  qed
  show ?thesis by (rule mem_invI) (fact len, fact ids, fact uniq)
qed

section \<open>The runtime contract\<close>

lemma memory_dispatch:
  "mkga_runtime_create_container (rt_of mkga_memory_ops m) (Some q) (Some r) =
     (case mkga_memory_create_container m q r of (rc, r', m') \<Rightarrow> (rc, Some r', rt_of mkga_memory_ops m'))"
  "mkga_runtime_start_container (rt_of mkga_memory_ops m) (Some k) =
     (case mkga_memory_start_container m k of (rc, m') \<Rightarrow> (rc, rt_of mkga_memory_ops m'))"
  "mkga_runtime_stop_container (rt_of mkga_memory_ops m) (Some k) (Some sr) =
     (case mkga_memory_stop_container m k sr of (rc, r', m') \<Rightarrow> (rc, Some r', rt_of mkga_memory_ops m'))"
  "mkga_runtime_remove_container (rt_of mkga_memory_ops m) (Some k) =
     (case mkga_memory_remove_container m k of (rc, m') \<Rightarrow> (rc, rt_of mkga_memory_ops m'))"
  "mkga_runtime_status_container (rt_of mkga_memory_ops m) (Some k) (Some tr) =
     (case mkga_memory_status_container m k tr of (rc, r', m') \<Rightarrow> (rc, Some r', rt_of mkga_memory_ops m'))"
  "mkga_runtime_read_log (rt_of mkga_memory_ops m) (Some lq) (Some lr) =
     (case mkga_memory_read_log m lq lr of (rc, r', m') \<Rightarrow> (rc, Some r', rt_of mkga_memory_ops m'))"
  "mkga_runtime_configure_network (rt_of mkga_memory_ops m) (Some nq) = (0, rt_of mkga_memory_ops m)"
  "mkga_runtime_configure_env (rt_of mkga_memory_ops m) (Some eq) = (0, rt_of mkga_memory_ops m)"
  "mkga_runtime_exec_tty_prepare (rt_of mkga_memory_ops m) (Some pq) (Some pr) = (- ENOSYS, Some pr, rt_of mkga_memory_ops m)"
  "mkga_runtime_exec_tty_start (rt_of mkga_memory_ops m) (Some sq) = (- ENOSYS, rt_of mkga_memory_ops m)"
  "mkga_runtime_exec_tty_resize (rt_of mkga_memory_ops m) (Some zq) = (- ENOSYS, rt_of mkga_memory_ops m)"
  "mkga_runtime_exec_tty_close (rt_of mkga_memory_ops m) (Some sq) = (- ENOSYS, rt_of mkga_memory_ops m)"
  by (simp_all add: runtime_dispatch rt_of_calls mkga_memory_ops_def split_def
      mkga_memory_configure_network_def mkga_memory_configure_env_def mkga_memory_exec_tty_prepare_def
      mkga_memory_exec_tty_start_def mkga_memory_exec_tty_resize_def mkga_memory_exec_tty_close_def)

lemma mem_found: "found (mem_view m) k = (if mkga_memory_find_container m k = None then - ENOENT else 0)"
  by (simp add: found_def mem_view_None)

lemma mem_frame [simp]:
  "mem_issued (update_slot i c m) = mem_issued m" "mem_budget (update_slot i c m) = mem_budget m"
  by (simp_all add: mem_issued_def mem_budget_def)

text \<open>Starting and stopping rewrite the slot that was found and change nothing but the flags.\<close>

lemma memory_set_running:
  assumes inv: "mem_inv m" and f: "mkga_memory_find_container m k = Some i"
    and c_def: "c = (slot m i)\<lparr>mc_running := b, mc_exit_code := 0\<rparr>"
  shows "mem_inv (update_slot i c m) \<and> mem_view (update_slot i c m) = set_running b k (mem_view m)"
proof -
  have i: "i < 64" "mc_in_use (slot m i)" "mc_id (slot m i) = k"
    using f memory_find_Some [OF inv] by blast+
  have inv': "mem_inv (update_slot i c m)"
    using mem_inv_same_id [OF inv i(1,2), of c] i(2) by (simp add: c_def)
  moreover have "mem_view (update_slot i c m) = set_running b k (mem_view m)"
  proof
    fix j
    have v: "mem_view m k = Some (view_of (slot m i))" by (simp add: mem_view_def f)
    show "mem_view (update_slot i c m) j = set_running b k (mem_view m) j"
      using mem_view_update [OF inv inv' i(1), of c j] i(2,3) v
      by (simp add: update_slot_def set_running_def c_def view_of_def)
  qed
  ultimately show ?thesis by blast
qed

lemma set_running_absent: "m k = None \<Longrightarrow> set_running b k m = m"
  by (auto simp: set_running_def)

lemma memory_start_law:
  assumes "mem_inv m"
  shows "\<exists>m'. mkga_memory_start_container m q = (found (mem_view m) (ct_container_id q), m') \<and>
    mem_inv m' \<and> mem_issued m' = mem_issued m \<and> mem_budget m' = mem_budget m \<and>
    mem_view m' = set_running True (ct_container_id q) (mem_view m)"
proof (cases "mkga_memory_find_container m (ct_container_id q)")
  case None
  then show ?thesis
    using assms by (simp add: mkga_memory_start_container_def mem_found mem_view_None set_running_absent)
next
  case (Some i)
  then show ?thesis
    using memory_set_running [OF assms Some refl, of True]
    by (simp add: mkga_memory_start_container_def mem_found)
qed

lemma memory_stop_law:
  assumes "mem_inv m"
  shows "\<exists>m' res. mkga_memory_stop_container m q r = (found (mem_view m) (ct_container_id q), res, m') \<and>
    mem_inv m' \<and> mem_issued m' = mem_issued m \<and> mem_budget m' = mem_budget m \<and>
    mem_view m' = set_running False (ct_container_id q) (mem_view m)"
proof (cases "mkga_memory_find_container m (ct_container_id q)")
  case None
  then show ?thesis
    using assms by (simp add: mkga_memory_stop_container_def mem_found mem_view_None set_running_absent)
next
  case (Some i)
  then show ?thesis
    using memory_set_running [OF assms Some refl, of False]
    by (simp add: mkga_memory_stop_container_def mem_found)
qed

lemma memory_remove_law:
  assumes inv: "mem_inv m"
  shows "\<exists>m'. mkga_memory_remove_container m q = (found (mem_view m) (ct_container_id q), m') \<and>
    mem_inv m' \<and> mem_issued m' = mem_issued m \<and> mem_budget m' = mem_budget m \<and>
    mem_view m' = (mem_view m)(ct_container_id q := None)"
proof (cases "mkga_memory_find_container m (ct_container_id q)")
  case None
  then have "(mem_view m)(ct_container_id q := None) = mem_view m"
    using mem_view_None [of m "ct_container_id q"] by (metis fun_upd_triv)
  with None inv show ?thesis by (simp add: mkga_memory_remove_container_def mem_found)
next
  case (Some i)
  then have i: "i < 64" "mc_in_use (slot m i)" "mc_id (slot m i) = ct_container_id q"
    using memory_find_Some [OF inv] by blast+
  have inv': "mem_inv (update_slot i zero_container m)" by (rule mem_inv_clear [OF inv i(1)])
  have "mem_view (update_slot i zero_container m) = (mem_view m)(ct_container_id q := None)"
    using mem_view_update [OF inv inv' i(1), of zero_container] i(2,3)
    by (auto simp: update_slot_def zero_container_def)
  with Some inv' show ?thesis by (simp add: mkga_memory_remove_container_def mem_found)
qed

lemma memory_status_law:
  assumes "mem_inv m"
  shows "\<exists>res. mkga_memory_status_container m q r = (found (mem_view m) (ct_container_id q), res, m) \<and>
    (\<forall>c. mem_view m (ct_container_id q) = Some c \<longrightarrow>
       (st_state res = state_code MKGA_CONTAINER_STATE_RUNNING \<longleftrightarrow> cv_running c))"
  by (cases "mkga_memory_find_container m (ct_container_id q)")
    (simp_all add: mkga_memory_status_container_def mem_found mem_view_def view_of_def Let_def)

lemma memory_create_full:
  assumes "mem_inv m" "64 \<le> card (dom (mem_view m))"
  shows "mkga_memory_create_container m q r = (- ENOSPC, r, m)"
  using memory_alloc_None [OF assms(1)] assms(2) by (simp add: mkga_memory_create_container_def)

lemma issued_Suc: "{f k |k. 0 < k \<and> k \<le> Suc n} = insert (f (Suc n)) {f k |k. 0 < k \<and> k \<le> n}"
  by (auto simp: le_Suc_eq)

lemma memory_create_ok:
  assumes inv: "mem_inv m" and bud: "0 < mem_budget m" and room: "card (dom (mem_view m)) < 64"
  shows "\<exists>res m'. mkga_memory_create_container m q r = (0, res, m') \<and>
    cr_container_id res \<notin> mem_issued m \<and> cr_image_ref res = copied MKGA_MAX_IMAGE_LEN (cc_image q) \<and>
    mem_inv m' \<and> mem_issued m' = insert (cr_container_id res) (mem_issued m) \<and> mem_budget m = Suc (mem_budget m') \<and>
    mem_view m' = (mem_view m)(cr_container_id res \<mapsto>
      \<lparr>cv_image = copied MKGA_MAX_IMAGE_LEN (cc_image q), cv_running = False\<rparr>)"
proof -
  let ?n = "mr_next_id m"
  obtain i where al: "mkga_memory_alloc_container m = Some i"
    using memory_alloc_None [OF inv] room by fastforce
  note i = memory_alloc_Some [OF al]
  define c where "c = zero_container\<lparr>mc_in_use := True, mc_id := container_name (?n + 1),
      mc_kernel_id := copied MKGA_MAX_KERNEL_ID_LEN (cc_kernel_id q), mc_image := copied MKGA_MAX_IMAGE_LEN (cc_image q)\<rparr>"
  define m' where "m' = (update_slot i c m)\<lparr>mr_next_id := ?n + 1\<rparr>"
  define res where "res = \<lparr>cr_container_id = container_name (?n + 1), cr_image_ref = copied MKGA_MAX_IMAGE_LEN (cc_image q)\<rparr>"
  have nxt: "unat ?n < 2 ^ 32 - 1" using bud by (simp add: mem_budget_def)
  then have suc: "unat (?n + 1) = Suc (unat ?n)" by (simp add: unat_word_ariths)
  have call: "mkga_memory_create_container m q r = (0, res, m')"
    using length_container_name [of "?n + 1"]
    by (simp add: mkga_memory_create_container_def al Let_def res_def m'_def c_def zero_create_resp_def)
  have inv': "mem_inv m'"
    unfolding m'_def using mem_inv_create [OF inv _ _ nxt, of i c] i by (simp add: c_def length_copied)
  have new: "container_name (?n + 1) \<notin> mem_issued m"
  proof
    assume "container_name (?n + 1) \<in> mem_issued m"
    then obtain k where k: "k \<le> unat ?n" "?n + 1 = of_nat k" by (auto simp: mem_issued_def container_name_inj)
    then have "unat (?n + 1) = k" using nxt by (simp add: unsigned_of_nat take_bit_nat_eq_self)
    with k(1) suc show False by simp
  qed
  have "mem_view m' = (mem_view m)(container_name (?n + 1) \<mapsto> view_of c)"
    using mem_view_update [OF inv inv', of i c] i by (auto simp: m'_def update_slot_def c_def zero_container_def)
  moreover have "mem_issued m' = insert (container_name (?n + 1)) (mem_issued m)"
    using issued_Suc [of "\<lambda>k. container_name (of_nat k)" "unat ?n"] suc
    by (simp add: mem_issued_def m'_def add.commute)
  moreover have "mem_budget m = Suc (mem_budget m')" using nxt suc by (simp add: mem_budget_def m'_def)
  ultimately show ?thesis using call inv' new by (simp add: res_def view_of_def c_def zero_container_def)
qed

interpretation mem: container_runtime mkga_memory_ops mem_inv mem_view mem_issued mem_budget MAX_CONTAINERS
proof (unfold_locales, goal_cases)
  case (1 s)
  then show ?case by (rule mem_view_issued)
next
  case (2 s q r)
  then show ?case using memory_create_ok [of s q r] unfolding memory_dispatch by fastforce
next
  case (3 s q r)
  then show ?case unfolding memory_dispatch by (simp add: memory_create_full)
next
  case (4 s k)
  then show ?case using memory_start_law [of s k] unfolding memory_dispatch by fastforce
next
  case (5 s k sr)
  then show ?case using memory_stop_law [of s k sr] unfolding memory_dispatch by fastforce
next
  case (6 s k)
  then show ?case using memory_remove_law [of s k] unfolding memory_dispatch by fastforce
next
  case (7 s k tr)
  then show ?case using memory_status_law [of s k tr] unfolding memory_dispatch by fastforce
next
  case (8 s lq lr)
  then show ?case
    unfolding memory_dispatch by (simp add: mkga_memory_read_log_def split: option.split)
qed (simp_all add: memory_dispatch)

end
