(* ===== verification/StubTransport.thy ===== *)
theory StubTransport
  imports GuestProtocol Fifo
begin

text \<open>
  The transport interface of the guest agent (\<^verbatim>\<open>mk-guest-agent/include/mkga_transport.h\<close>) and the
  in-process transport of \<^verbatim>\<open>src/transport_stub.c\<close>: two bounded circular queues of envelopes under
  one mutex. An operation that may block forever returns \<open>None\<close> when it does.
\<close>

section \<open>Transport interface\<close>

record 't mkga_transport_ops =
  tr_receive :: "('t \<Rightarrow> mkga_envelope \<Rightarrow> int \<Rightarrow> (int \<times> mkga_envelope \<times> 't) option) option"
  tr_send :: "('t \<Rightarrow> mkga_envelope \<Rightarrow> int \<times> 't) option"
  tr_destroy :: "('t option option \<Rightarrow> resource set \<Rightarrow> resource set) option"

record 't mkga_transport =
  tr_ops :: "'t mkga_transport_ops option"
  tr_impl :: "'t option"

definition mkga_transport_receive ::
    "'t mkga_transport option \<Rightarrow> mkga_envelope option \<Rightarrow> int \<Rightarrow> (int \<times> mkga_envelope option \<times> 't mkga_transport option) option" where
  "mkga_transport_receive transport req timeout_ms =
    (case transport of
       None \<Rightarrow> Some (- EINVAL, req, transport)
     | Some tr \<Rightarrow>
         (case (Option.bind (tr_ops tr) tr_receive, req, tr_impl tr) of
            (Some f, Some r, Some t) \<Rightarrow>
              map_option (\<lambda>(rc, r', t'). (rc, Some r', Some (tr\<lparr>tr_impl := Some t'\<rparr>))) (f t r timeout_ms)
          | _ \<Rightarrow> Some (- EINVAL, req, transport)))"

definition mkga_transport_send ::
    "'t mkga_transport option \<Rightarrow> mkga_envelope option \<Rightarrow> int \<times> 't mkga_transport option" where
  "mkga_transport_send transport resp =
    (case transport of
       None \<Rightarrow> (- EINVAL, transport)
     | Some tr \<Rightarrow>
         (case (Option.bind (tr_ops tr) tr_send, resp, tr_impl tr) of
            (Some f, Some r, Some t) \<Rightarrow> (case f t r of (rc, t') \<Rightarrow> (rc, Some (tr\<lparr>tr_impl := Some t'\<rparr>)))
          | _ \<Rightarrow> (- EINVAL, transport)))"

definition mkga_transport_destroy :: "'t mkga_transport option \<Rightarrow> resource set \<Rightarrow> resource set" where
  "mkga_transport_destroy transport held =
    (case transport of
       None \<Rightarrow> held
     | Some tr \<Rightarrow> (case Option.bind (tr_ops tr) tr_destroy of None \<Rightarrow> held | Some d \<Rightarrow> d (Some (tr_impl tr)) held))"

definition tr_of :: "'t mkga_transport_ops \<Rightarrow> 't \<Rightarrow> 't mkga_transport option" where
  "tr_of ops t = Some \<lparr>tr_ops = Some ops, tr_impl = Some t\<rparr>"

lemma tr_of_calls:
  "tr_receive ops = Some f \<Longrightarrow> mkga_transport_receive (tr_of ops t) (Some r) ms =
     map_option (\<lambda>(rc, r', t'). (rc, Some r', tr_of ops t')) (f t r ms)"
  "tr_send ops = Some g \<Longrightarrow> mkga_transport_send (tr_of ops t) (Some r) = (case g t r of (rc, t') \<Rightarrow> (rc, tr_of ops t'))"
  by (simp_all add: tr_of_def mkga_transport_receive_def mkga_transport_send_def)

section \<open>Queues\<close>

record mkga_ring_queue =
  rq_items :: "mkga_envelope list"
  rq_capacity :: nat
  rq_head :: nat
  rq_tail :: nat
  rq_count :: nat

definition zero_queue_q :: mkga_ring_queue where
  "zero_queue_q = \<lparr>rq_items = [], rq_capacity = 0, rq_head = 0, rq_tail = 0, rq_count = 0\<rparr>"

text \<open>\<open>alloc_ok\<close> says whether \<^verbatim>\<open>calloc\<close> succeeds.\<close>

definition mkga_queue_init :: "bool \<Rightarrow> mkga_ring_queue \<Rightarrow> nat \<Rightarrow> int \<times> mkga_ring_queue" where
  "mkga_queue_init alloc_ok queue capacity =
    (if \<not> alloc_ok then (- ENOMEM, queue\<lparr>rq_items := []\<rparr>)
     else (0, \<lparr>rq_items = replicate capacity zero_envelope, rq_capacity = capacity, rq_head = 0, rq_tail = 0, rq_count = 0\<rparr>))"

definition mkga_queue_destroy :: "mkga_ring_queue \<Rightarrow> mkga_ring_queue" where
  "mkga_queue_destroy queue = zero_queue_q"

definition mkga_queue_push :: "mkga_ring_queue \<Rightarrow> mkga_envelope \<Rightarrow> int \<times> mkga_ring_queue" where
  "mkga_queue_push queue item =
    (if rq_count queue = rq_capacity queue then (- ENOSPC, queue)
     else (0, queue\<lparr>rq_items := (rq_items queue)[rq_tail queue := item],
                   rq_tail := (rq_tail queue + 1) mod rq_capacity queue,
                   rq_count := rq_count queue + 1\<rparr>))"

definition mkga_queue_pop :: "mkga_ring_queue \<Rightarrow> mkga_envelope \<Rightarrow> int \<times> mkga_envelope \<times> mkga_ring_queue" where
  "mkga_queue_pop queue item =
    (if rq_count queue = 0 then (- ENOENT, item, queue)
     else (0, rq_items queue ! rq_head queue,
           queue\<lparr>rq_head := (rq_head queue + 1) mod rq_capacity queue, rq_count := rq_count queue - 1\<rparr>))"

definition queue_inv :: "mkga_ring_queue \<Rightarrow> bool" where
  "queue_inv q \<longleftrightarrow> 0 < rq_capacity q \<and> length (rq_items q) = rq_capacity q \<and> rq_head q < rq_capacity q \<and>
     rq_count q \<le> rq_capacity q \<and> rq_tail q = (rq_head q + rq_count q) mod rq_capacity q"

definition queue_list :: "mkga_ring_queue \<Rightarrow> mkga_envelope list" where
  "queue_list q = ring_slice (rq_capacity q) (rq_head q) (rq_count q) (rq_items q)"

lemma length_queue_list [simp]: "length (queue_list q) = rq_count q"
  by (simp add: queue_list_def)

lemma queue_init_ok:
  "0 < n \<Longrightarrow> \<exists>q'. mkga_queue_init True q n = (0, q') \<and> queue_inv q' \<and> queue_list q' = [] \<and> rq_capacity q' = n"
  by (simp add: queue_inv_def queue_list_def mkga_queue_init_def)

lemma queue_push_law:
  assumes "queue_inv q" "rq_count q < rq_capacity q"
  shows "\<exists>q'. mkga_queue_push q x = (0, q') \<and> queue_inv q' \<and> rq_capacity q' = rq_capacity q \<and> queue_list q' = queue_list q @ [x]"
  using assms ring_slice_push [of "rq_count q" "rq_capacity q" "rq_items q" "rq_head q" x]
  by (auto simp: mkga_queue_push_def queue_inv_def queue_list_def mod_Suc_eq)

lemma queue_push_full: "rq_count q = rq_capacity q \<Longrightarrow> mkga_queue_push q x = (- ENOSPC, q)"
  by (simp add: mkga_queue_push_def)

lemma queue_pop_law:
  assumes "queue_inv q" "queue_list q = x # xs"
  shows "\<exists>q'. mkga_queue_pop q y = (0, x, q') \<and> queue_inv q' \<and> rq_capacity q' = rq_capacity q \<and> queue_list q' = xs"
proof -
  let ?n = "rq_capacity q"
  have n: "0 < ?n" "rq_head q < ?n" "rq_tail q = (rq_head q + rq_count q) mod ?n" "rq_count q \<le> ?n"
    using assms(1) by (simp_all add: queue_inv_def)
  obtain k where k: "rq_count q = Suc k" using assms(2) length_queue_list [of q] by (metis length_Cons)
  have "x # xs = rq_items q ! rq_head q # ring_slice ?n (Suc (rq_head q)) k (rq_items q)"
    using assms(2) n(2) by (simp add: queue_list_def k ring_slice_pop)
  moreover have "ring_slice ?n (Suc (rq_head q)) k (rq_items q) = ring_slice ?n (Suc (rq_head q) mod ?n) k (rq_items q)"
    by (rule ring_slice_cong_base) simp
  ultimately show ?thesis
    using assms(1) k by (simp add: mkga_queue_pop_def queue_inv_def queue_list_def mod_add_left_eq)
qed

lemma queue_pop_empty: "queue_list q = [] \<Longrightarrow> mkga_queue_pop q y = (- ENOENT, y, q)"
  using length_queue_list [of q] by (simp add: mkga_queue_pop_def)

text \<open>The queue as a channel; the caller's buffer keeps its content when nothing is popped.\<close>

definition stub_pop :: "mkga_ring_queue \<Rightarrow> mkga_envelope option \<times> mkga_ring_queue" where
  "stub_pop q = (case mkga_queue_pop q zero_envelope of (rc, x, q') \<Rightarrow> (if rc = 0 then Some x else None, q'))"

interpretation stubq: fifo_chan queue_inv queue_list "\<lambda>m. m" "\<lambda>m q. mkga_queue_push q m" stub_pop
proof unfold_locales
  fix q m q' assume "queue_inv q" "mkga_queue_push q m = (0, q')"
  then show "queue_inv q' \<and> queue_list q' = queue_list q @ [m]"
    using queue_push_law [of q m] by (cases "rq_count q = rq_capacity q") (auto simp: queue_push_full queue_inv_def)
next
  fix q m rc q' assume "queue_inv q" "mkga_queue_push q m = (rc, q')" "rc \<noteq> 0"
  then show "queue_inv q' \<and> queue_list q' = queue_list q"
    by (auto simp: mkga_queue_push_def split: if_splits)
next
  fix q r q' assume q: "queue_inv q" "stub_pop q = (r, q')"
  show "queue_inv q' \<and> (case r of None \<Rightarrow> queue_list q = [] \<and> queue_list q' = [] | Some w \<Rightarrow> queue_list q = w # queue_list q')"
  proof (cases "queue_list q")
    case Nil
    then show ?thesis using q queue_pop_empty [OF Nil] by (auto simp: stub_pop_def)
  next
    case (Cons x xs)
    then show ?thesis using q queue_pop_law [OF q(1) Cons, of zero_envelope] by (auto simp: stub_pop_def)
  qed
qed

section \<open>The stub transport\<close>

record mkga_stub_transport =
  sb_closed :: bool
  sb_inbound :: mkga_ring_queue
  sb_outbound :: mkga_ring_queue

text \<open>
  A wait on the condition variable: the time of day (seconds and microseconds) when it starts, and a
  function of the deadline, \<open>None\<close> for a wait without one, that gives the code the wait returns
  and what the other threads did to the transport while the mutex was released.
\<close>

type_synonym stub_wait = "(int \<times> int) \<times> ((int \<times> int) option \<Rightarrow> int \<times> (mkga_stub_transport \<Rightarrow> mkga_stub_transport))"

definition wait_deadline :: "int \<Rightarrow> int \<Rightarrow> int \<Rightarrow> int \<times> int" where
  "wait_deadline tv_sec tv_usec timeout_ms =
    (let sec = tv_sec + timeout_ms div 1000;
         nsec = tv_usec * 1000 + timeout_ms mod 1000 * 1000000
     in if 1000000000 \<le> nsec then (sec + 1, nsec - 1000000000) else (sec, nsec))"

fun mkga_wait_for_item ::
    "stub_wait list \<Rightarrow> (mkga_stub_transport \<Rightarrow> mkga_ring_queue) \<Rightarrow> mkga_stub_transport \<Rightarrow> int \<Rightarrow>
     (int \<times> mkga_stub_transport \<times> stub_wait list) option" where
  "mkga_wait_for_item ws queue stub timeout_ms =
    (if \<not> sb_closed stub \<and> rq_count (queue stub) = 0
     then case ws of
            [] \<Rightarrow> None
          | ((sec, usec), wait) # ws' \<Rightarrow>
              (case wait (if timeout_ms < 0 then None else Some (wait_deadline sec usec timeout_ms)) of
                 (rc, others) \<Rightarrow>
                   if rc \<noteq> 0 then Some (- rc, others stub, ws')
                   else mkga_wait_for_item ws' queue (others stub) timeout_ms)
     else if sb_closed stub \<and> rq_count (queue stub) = 0 then Some (- ESHUTDOWN, stub, ws)
     else Some (0, stub, ws))"

declare mkga_wait_for_item.simps [simp del]

type_synonym stub_impl = "mkga_stub_transport \<times> stub_wait list"

definition mkga_stub_receive :: "stub_impl \<Rightarrow> mkga_envelope \<Rightarrow> int \<Rightarrow> (int \<times> mkga_envelope \<times> stub_impl) option" where
  "mkga_stub_receive impl req timeout_ms =
    (case mkga_wait_for_item (snd impl) sb_inbound (fst impl) timeout_ms of
       None \<Rightarrow> None
     | Some (rc, stub, ws) \<Rightarrow>
         if rc = 0
         then (case mkga_queue_pop (sb_inbound stub) req of
                 (rc', req', q) \<Rightarrow> Some (rc', req', stub\<lparr>sb_inbound := q\<rparr>, ws))
         else Some (rc, req, stub, ws))"

definition mkga_stub_send :: "stub_impl \<Rightarrow> mkga_envelope \<Rightarrow> int \<times> stub_impl" where
  "mkga_stub_send impl resp =
    (case impl of (stub, ws) \<Rightarrow>
       if sb_closed stub then (- ESHUTDOWN, impl)
       else case mkga_queue_push (sb_outbound stub) resp of
              (rc, q) \<Rightarrow> (rc, stub\<lparr>sb_outbound := q\<rparr>, ws))"

definition mkga_stub_destroy :: "stub_impl option option \<Rightarrow> resource set \<Rightarrow> resource set" where
  "mkga_stub_destroy transport held =
    (case transport of
       None \<Rightarrow> held
     | Some impl \<Rightarrow> held - (if impl \<noteq> None then {RMutex, RCond, RInbound, ROutbound, RImpl} else {}) - {RHandle})"

definition mkga_stub_ops :: "stub_impl mkga_transport_ops" where
  "mkga_stub_ops = \<lparr>tr_receive = Some mkga_stub_receive, tr_send = Some mkga_stub_send, tr_destroy = Some mkga_stub_destroy\<rparr>"

text \<open>
  Construction. The arguments say which of the six resources can be had: the two structures, the
  mutex, the condition variable and the two item arrays. The result is the transport or \<^verbatim>\<open>errno\<close>, and
  what is held on return. \<open>stub_create_fail\<close> is the code at the label \<^verbatim>\<open>fail\<close> with its four flags.
\<close>

definition stub_create_fail :: "bool \<Rightarrow> bool \<Rightarrow> bool \<Rightarrow> bool \<Rightarrow> resource set \<Rightarrow> (int + stub_impl mkga_transport) \<times> resource set" where
  "stub_create_fail mu_ready cv_ready inbound_ready outbound_ready held =
    (Inl ENOMEM, held - got outbound_ready ROutbound - got inbound_ready RInbound - got cv_ready RCond - got mu_ready RMutex
       - {RHandle} - {RImpl})"

definition mkga_stub_transport_create ::
    "bool \<Rightarrow> bool \<Rightarrow> bool \<Rightarrow> bool \<Rightarrow> bool \<Rightarrow> bool \<Rightarrow> stub_wait list \<Rightarrow> nat \<Rightarrow>
     (int + stub_impl mkga_transport) \<times> resource set" where
  "mkga_stub_transport_create tr_ok stub_ok mu_ok cv_ok in_ok out_ok ws capacity =
    (if capacity = 0 then (Inl EINVAL, {})
     else
       let held = got tr_ok RHandle \<union> got stub_ok RImpl in
       if \<not> tr_ok \<or> \<not> stub_ok then (Inl ENOMEM, held - {RHandle} - {RImpl})
       else if \<not> mu_ok then stub_create_fail False False False False held
       else if \<not> cv_ok then stub_create_fail True False False False (insert RMutex held)
       else case mkga_queue_init in_ok zero_queue_q capacity of
         (rc, inb) \<Rightarrow>
           if rc \<noteq> 0 then stub_create_fail True True False False (insert RCond (insert RMutex held))
           else case mkga_queue_init out_ok zero_queue_q capacity of
             (rc', outb) \<Rightarrow>
               if rc' \<noteq> 0 then stub_create_fail True True True False (insert RInbound (insert RCond (insert RMutex held)))
               else (Inr \<lparr>tr_ops = Some mkga_stub_ops,
                          tr_impl = Some (\<lparr>sb_closed = False, sb_inbound = inb, sb_outbound = outb\<rparr>, ws)\<rparr>,
                     insert ROutbound (insert RInbound (insert RCond (insert RMutex held)))))"

definition mkga_stub_transport_push_request ::
    "stub_impl mkga_transport option \<Rightarrow> mkga_envelope option \<Rightarrow> int \<times> stub_impl mkga_transport option" where
  "mkga_stub_transport_push_request transport req =
    (case (transport, req) of
       (Some tr, Some r) \<Rightarrow>
         (case tr_impl tr of
            None \<Rightarrow> (- EINVAL, transport)
          | Some (stub, ws) \<Rightarrow>
              if sb_closed stub then (- ESHUTDOWN, transport)
              else case mkga_queue_push (sb_inbound stub) r of
                     (rc, q) \<Rightarrow> (rc, Some (tr\<lparr>tr_impl := Some (stub\<lparr>sb_inbound := q\<rparr>, ws)\<rparr>)))
     | _ \<Rightarrow> (- EINVAL, transport))"

definition mkga_stub_transport_pop_response ::
    "stub_impl mkga_transport option \<Rightarrow> mkga_envelope option \<Rightarrow> int \<Rightarrow>
     (int \<times> mkga_envelope option \<times> stub_impl mkga_transport option) option" where
  "mkga_stub_transport_pop_response transport resp timeout_ms =
    (case (transport, resp) of
       (Some tr, Some r) \<Rightarrow>
         (case tr_impl tr of
            None \<Rightarrow> Some (- EINVAL, resp, transport)
          | Some (stub, ws) \<Rightarrow>
              (case mkga_wait_for_item ws sb_outbound stub timeout_ms of
                 None \<Rightarrow> None
               | Some (rc, stub', ws') \<Rightarrow>
                   if rc = 0
                   then (case mkga_queue_pop (sb_outbound stub') r of
                           (rc', r', q) \<Rightarrow>
                             Some (rc', Some r', Some (tr\<lparr>tr_impl := Some (stub'\<lparr>sb_outbound := q\<rparr>, ws')\<rparr>)))
                   else Some (rc, resp, Some (tr\<lparr>tr_impl := Some (stub', ws')\<rparr>))))
     | _ \<Rightarrow> Some (- EINVAL, resp, transport))"

definition mkga_stub_transport_shutdown :: "stub_impl mkga_transport option \<Rightarrow> stub_impl mkga_transport option" where
  "mkga_stub_transport_shutdown transport =
    (case transport of
       None \<Rightarrow> transport
     | Some tr \<Rightarrow>
         (case tr_impl tr of
            None \<Rightarrow> transport
          | Some (stub, ws) \<Rightarrow> Some (tr\<lparr>tr_impl := Some (stub\<lparr>sb_closed := True\<rparr>, ws)\<rparr>)))"

section \<open>Behaviour of one call\<close>

lemma deadline_normal:
  assumes "0 \<le> us" "us < 1000000" "0 \<le> ms"
  shows "0 \<le> snd (wait_deadline s us ms) \<and> snd (wait_deadline s us ms) < 1000000000"
proof -
  define m where "m = ms mod 1000"
  then have m: "ms mod 1000 = m" "0 \<le> m" "m < 1000" by simp_all
  then have "m * 1000000 \<le> 999000000" by linarith
  with m assms show ?thesis unfolding wait_deadline_def Let_def m(1) by (simp add: not_le)
qed

lemma wait_ready: "rq_count (sel stub) \<noteq> 0 \<Longrightarrow> mkga_wait_for_item ws sel stub ms = Some (0, stub, ws)"
  by (subst mkga_wait_for_item.simps) simp

lemma wait_closed: "sb_closed stub \<Longrightarrow> rq_count (sel stub) = 0 \<Longrightarrow> mkga_wait_for_item ws sel stub ms = Some (- ESHUTDOWN, stub, ws)"
  by (subst mkga_wait_for_item.simps) simp

lemma stub_receive_next:
  assumes "queue_inv (sb_inbound stub)" "queue_list (sb_inbound stub) = x # xs"
  shows "\<exists>q. mkga_stub_receive (stub, ws) req ms = Some (0, x, stub\<lparr>sb_inbound := q\<rparr>, ws) \<and>
    queue_inv q \<and> rq_capacity q = rq_capacity (sb_inbound stub) \<and> queue_list q = xs"
proof -
  have "rq_count (sb_inbound stub) \<noteq> 0" using assms(2) length_queue_list [of "sb_inbound stub"] by auto
  then show ?thesis
    using queue_pop_law [OF assms, of req] by (auto simp: mkga_stub_receive_def wait_ready)
qed

lemma stub_send_room:
  assumes "\<not> sb_closed stub" "queue_inv (sb_outbound stub)" "rq_count (sb_outbound stub) < rq_capacity (sb_outbound stub)"
  shows "\<exists>q. mkga_stub_send (stub, ws) x = (0, stub\<lparr>sb_outbound := q\<rparr>, ws) \<and> queue_inv q \<and>
    rq_capacity q = rq_capacity (sb_outbound stub) \<and> queue_list q = queue_list (sb_outbound stub) @ [x]"
  using queue_push_law [OF assms(2,3), of x] assms(1) by (auto simp: mkga_stub_send_def)

section \<open>Construction and destruction\<close>

text \<open>
  The stub transport neither leaks nor fails half built. Whichever of the allocations and
  initialisations fails, the constructor returns with nothing held; when it succeeds, both queues
  are empty with the requested capacity, the transport is open, and destroying the transport
  releases everything that was acquired.
\<close>

theorem stub_transport_lifecycle:
  "case mkga_stub_transport_create tr_ok stub_ok mu_ok cv_ok in_ok out_ok ws capacity of
     (Inl e, held) \<Rightarrow> held = {} \<and> e = (if capacity = 0 then EINVAL else ENOMEM)
   | (Inr tr, held) \<Rightarrow>
       (\<exists>stub. tr_impl tr = Some (stub, ws) \<and> \<not> sb_closed stub \<and>
          queue_inv (sb_inbound stub) \<and> queue_list (sb_inbound stub) = [] \<and> rq_capacity (sb_inbound stub) = capacity \<and>
          queue_inv (sb_outbound stub) \<and> queue_list (sb_outbound stub) = [] \<and> rq_capacity (sb_outbound stub) = capacity) \<and>
       mkga_transport_destroy (Some tr) held = {}"
  by (auto simp: mkga_stub_transport_create_def stub_create_fail_def got_def Let_def mkga_queue_init_def mkga_transport_destroy_def
      mkga_stub_ops_def mkga_stub_destroy_def queue_inv_def queue_list_def)

end
