(* ===== verification/Agent.thy ===== *)
theory Agent
  imports MemoryRuntime StubTransport
begin

text \<open>
  The request loop of the guest agent (\<^verbatim>\<open>mk-guest-agent/src/agent.c\<close>), for any runtime and any
  transport. \<open>mkga_agent_handle\<close> answers one request; \<open>mkga_agent_serve\<close> receives, handles and
  answers until it is stopped. The clock and the stop flag, which a signal handler sets, are
  functions of the iteration and of the read within it.
\<close>

section \<open>Handling one request\<close>

fun mkga_strerror_name :: "int \<Rightarrow> bytes" where
  "mkga_strerror_name err =
    (if - err = EINVAL then cs ''invalid_argument''
     else if - err = ENOENT then cs ''not_found''
     else if - err = ENOSPC then cs ''resource_exhausted''
     else if - err = ENOSYS then cs ''not_implemented''
     else cs ''runtime_error'')"

declare mkga_strerror_name.simps [simp del]

record ('t, 's) mkga_agent =
  ag_transport :: "'t mkga_transport option"
  ag_runtime :: "'s mkga_runtime option"
  ag_receive_timeout_ms :: int

definition mkga_agent_init :: "'t mkga_transport option \<Rightarrow> 's mkga_runtime option \<Rightarrow> int \<Rightarrow> ('t, 's) mkga_agent" where
  "mkga_agent_init transport runtime receive_timeout_ms =
    \<lparr>ag_transport = transport, ag_runtime = runtime, ag_receive_timeout_ms = receive_timeout_ms\<rparr>"

text \<open>
  The two shapes of a case of the switch: an operation without a response structure, and one that
  writes a member of the response's payload, which starts as zeros. \<open>t1\<close> and \<open>t2\<close> are the readings
  of the clock by the first and the second \<^verbatim>\<open>mkga_envelope_make_response\<close>.
\<close>

definition finish_plain :: "i64 \<Rightarrow> i64 \<Rightarrow> mkga_envelope \<Rightarrow> bytes \<Rightarrow> int \<times> 's mkga_runtime option \<Rightarrow> mkga_envelope \<times> 's mkga_runtime option" where
  "finish_plain t1 t2 req failed res =
    (case res of (rc, rt) \<Rightarrow>
       (if rc \<noteq> 0 then mkga_envelope_set_error t2 req (mkga_strerror_name rc) failed
        else mkga_envelope_make_response t1 req, rt))"

definition finish_resp ::
    "i64 \<Rightarrow> i64 \<Rightarrow> mkga_envelope \<Rightarrow> bytes \<Rightarrow> ('r \<Rightarrow> mkga_payload) \<Rightarrow> int \<times> 'r option \<times> 's mkga_runtime option \<Rightarrow>
     mkga_envelope \<times> 's mkga_runtime option" where
  "finish_resp t1 t2 req failed member res =
    (case res of (rc, r, rt) \<Rightarrow>
       (if rc \<noteq> 0 then mkga_envelope_set_error t2 req (mkga_strerror_name rc) failed
        else (mkga_envelope_make_response t1 req)\<lparr>e_payload := (case r of None \<Rightarrow> PZero | Some x \<Rightarrow> member x)\<rparr>, rt))"

fun dispatch :: "i64 \<Rightarrow> i64 \<Rightarrow> mkga_operation \<Rightarrow> mkga_envelope \<Rightarrow> 's mkga_runtime option \<Rightarrow> mkga_envelope \<times> 's mkga_runtime option" where
  "dispatch t1 t2 MKGA_OP_CREATE_CONTAINER req rt =
    finish_resp t1 t2 req (cs ''create_container failed'') PCreateResp
      (mkga_runtime_create_container rt (Some (create_container_req (e_payload req))) (Some zero_create_resp))"
| "dispatch t1 t2 MKGA_OP_START_CONTAINER req rt =
    finish_plain t1 t2 req (cs ''start_container failed'')
      (mkga_runtime_start_container rt (Some (container_control_req (e_payload req))))"
| "dispatch t1 t2 MKGA_OP_STOP_CONTAINER req rt =
    finish_resp t1 t2 req (cs ''stop_container failed'') PStopResp
      (mkga_runtime_stop_container rt (Some (container_control_req (e_payload req))) (Some zero_stop_resp))"
| "dispatch t1 t2 MKGA_OP_REMOVE_CONTAINER req rt =
    finish_plain t1 t2 req (cs ''remove_container failed'')
      (mkga_runtime_remove_container rt (Some (container_control_req (e_payload req))))"
| "dispatch t1 t2 MKGA_OP_STATUS_CONTAINER req rt =
    finish_resp t1 t2 req (cs ''status_container failed'') PStatusResp
      (mkga_runtime_status_container rt (Some (container_control_req (e_payload req))) (Some zero_status_resp))"
| "dispatch t1 t2 MKGA_OP_READ_LOG req rt =
    finish_resp t1 t2 req (cs ''read_log failed'') PReadLogResp
      (mkga_runtime_read_log rt (Some (read_log_req (e_payload req))) (Some zero_read_log_resp))"
| "dispatch t1 t2 MKGA_OP_CONFIGURE_NETWORK req rt =
    finish_plain t1 t2 req (cs ''configure_network failed'')
      (mkga_runtime_configure_network rt (Some (configure_network_req (e_payload req))))"
| "dispatch t1 t2 MKGA_OP_CONFIGURE_ENV req rt =
    finish_plain t1 t2 req (cs ''configure_env failed'')
      (mkga_runtime_configure_env rt (Some (configure_env_req (e_payload req))))"
| "dispatch t1 t2 MKGA_OP_EXEC_TTY_PREPARE req rt =
    finish_resp t1 t2 req (cs ''exec_tty_prepare failed'') PPrepareResp
      (mkga_runtime_exec_tty_prepare rt (Some (exec_tty_prepare_req (e_payload req))) (Some zero_prepare_resp))"
| "dispatch t1 t2 MKGA_OP_EXEC_TTY_START req rt =
    finish_plain t1 t2 req (cs ''exec_tty_start failed'')
      (mkga_runtime_exec_tty_start rt (Some (exec_session_control_req (e_payload req))))"
| "dispatch t1 t2 MKGA_OP_EXEC_TTY_RESIZE req rt =
    finish_plain t1 t2 req (cs ''exec_tty_resize failed'')
      (mkga_runtime_exec_tty_resize rt (Some (exec_tty_resize_req (e_payload req))))"
| "dispatch t1 t2 MKGA_OP_EXEC_TTY_CLOSE req rt =
    finish_plain t1 t2 req (cs ''exec_tty_close failed'')
      (mkga_runtime_exec_tty_close rt (Some (exec_session_control_req (e_payload req))))"
| "dispatch t1 t2 MKGA_OP_INVALID req rt =
    (mkga_envelope_set_error t2 req (cs ''unsupported_operation'')
       (copied MKGA_MAX_MESSAGE_LEN (cs ''unsupported operation: '' @ mkga_operation_name MKGA_OP_INVALID)), rt)"

definition mkga_agent_handle ::
    "i64 \<Rightarrow> i64 \<Rightarrow> ('t, 's) mkga_agent option \<Rightarrow> mkga_envelope option \<Rightarrow> mkga_envelope option \<Rightarrow>
     int \<times> mkga_envelope option \<times> ('t, 's) mkga_agent option" where
  "mkga_agent_handle t1 t2 agent req resp =
    (case (agent, req, resp) of
       (Some a, Some q, Some r) \<Rightarrow>
         if ag_runtime a = None then (- EINVAL, resp, agent)
         else if e_kind q \<noteq> MKGA_MESSAGE_REQUEST
         then (0, Some (mkga_envelope_set_error t2 q (cs ''invalid_kind'')
                          (cs ''guest agent only accepts request messages'')), agent)
         else (case dispatch t1 t2 (e_operation q) q (ag_runtime a) of
                 (r', rt') \<Rightarrow> (0, Some r', Some (a\<lparr>ag_runtime := rt'\<rparr>)))
     | _ \<Rightarrow> (- EINVAL, resp, agent))"

section \<open>The loop\<close>

text \<open>
  \<open>flag\<close> is \<open>None\<close> when there is no stop flag; \<open>flag i j\<close> is its value at read \<open>j\<close> of iteration \<open>i\<close>.
  \<open>None\<close> as a result means that the loop is still running when the fuel is used up.
\<close>

definition stopped :: "(nat \<Rightarrow> nat \<Rightarrow> bool) option \<Rightarrow> nat \<Rightarrow> nat \<Rightarrow> bool" where
  "stopped flag i j = (case flag of None \<Rightarrow> False | Some f \<Rightarrow> f i j)"

definition quiet_stop :: "(nat \<Rightarrow> nat \<Rightarrow> bool) option \<Rightarrow> nat \<Rightarrow> nat \<Rightarrow> int \<Rightarrow> bool" where
  "quiet_stop flag i j rc \<longleftrightarrow> rc = - EINTR \<and> stopped flag i j \<or> rc = - ESHUTDOWN \<and> stopped flag i (j + 1)"

fun serve_loop ::
    "nat \<Rightarrow> (nat \<Rightarrow> nat \<Rightarrow> i64) \<Rightarrow> (nat \<Rightarrow> nat \<Rightarrow> bool) option \<Rightarrow> nat \<Rightarrow> ('t, 's) mkga_agent \<Rightarrow> (int \<times> ('t, 's) mkga_agent) option" where
  "serve_loop 0 clk flag i a = None"
| "serve_loop (Suc fuel) clk flag i a =
    (if stopped flag i 0 then Some (0, a)
     else case mkga_transport_receive (ag_transport a) (Some (mkga_envelope_init (clk i 0))) (ag_receive_timeout_ms a) of
       None \<Rightarrow> None
     | Some (rc, req, tr) \<Rightarrow>
         let a1 = a\<lparr>ag_transport := tr\<rparr> in
         if rc = - ETIMEDOUT then serve_loop fuel clk flag (Suc i) a1
         else if quiet_stop flag i 1 rc then Some (0, a1)
         else if rc \<noteq> 0 then Some (rc, a1)
         else case mkga_agent_handle (clk i 2) (clk i 3) (Some a1) req (Some (mkga_envelope_init (clk i 1))) of
           (rc, resp, a2) \<Rightarrow>
             if rc \<noteq> 0 then Some (rc, the a2)
             else case mkga_transport_send (ag_transport (the a2)) resp of
               (rc, tr) \<Rightarrow>
                 let a3 = (the a2)\<lparr>ag_transport := tr\<rparr> in
                 if quiet_stop flag i 3 rc then Some (0, a3)
                 else if rc \<noteq> 0 then Some (rc, a3)
                 else serve_loop fuel clk flag (Suc i) a3)"

definition mkga_agent_serve ::
    "nat \<Rightarrow> (nat \<Rightarrow> nat \<Rightarrow> i64) \<Rightarrow> (nat \<Rightarrow> nat \<Rightarrow> bool) option \<Rightarrow> ('t, 's) mkga_agent option \<Rightarrow>
     (int \<times> ('t, 's) mkga_agent option) option" where
  "mkga_agent_serve fuel clk flag agent =
    (case agent of
       None \<Rightarrow> Some (- EINVAL, None)
     | Some a \<Rightarrow>
         if ag_transport a = None \<or> ag_runtime a = None then Some (- EINVAL, agent)
         else map_option (\<lambda>(rc, a'). (rc, Some a')) (serve_loop fuel clk flag 0 a))"

section \<open>Every request gets one answer\<close>

text \<open>The payload of an answer without error: the member that belongs to the operation.\<close>

definition resp_member :: "mkga_operation \<Rightarrow> mkga_payload \<Rightarrow> bool" where
  "resp_member op p =
    (case op of
       MKGA_OP_CREATE_CONTAINER \<Rightarrow> (\<exists>x. p = PCreateResp x)
     | MKGA_OP_STOP_CONTAINER \<Rightarrow> (\<exists>x. p = PStopResp x)
     | MKGA_OP_STATUS_CONTAINER \<Rightarrow> (\<exists>x. p = PStatusResp x)
     | MKGA_OP_READ_LOG \<Rightarrow> (\<exists>x. p = PReadLogResp x)
     | MKGA_OP_EXEC_TTY_PREPARE \<Rightarrow> (\<exists>x. p = PPrepareResp x)
     | _ \<Rightarrow> p = PZero)"

definition answer_ok :: "mkga_envelope \<Rightarrow> mkga_envelope \<Rightarrow> bool" where
  "answer_ok req resp \<longleftrightarrow> answers req resp \<and>
     (if err_present (e_error resp) then e_payload resp = PZero \<and> err_code (e_error resp) \<noteq> []
      else e_error resp = zero_error \<and> e_kind req = MKGA_MESSAGE_REQUEST \<and> e_operation req \<noteq> MKGA_OP_INVALID \<and>
           resp_member (e_operation req) (e_payload resp))"

lemma strerror_name_short: "0 < length (mkga_strerror_name e) \<and> length (mkga_strerror_name e) < MKGA_MAX_CODE_LEN"
  by (simp add: mkga_strerror_name.simps cs_def)

lemma answer_ok_error:
  "c \<noteq> [] \<Longrightarrow> answer_ok req (mkga_envelope_set_error t req c m)"
  by (simp add: answer_ok_def) (simp add: mkga_envelope_set_error_def copied_def)

lemma answer_ok_strerror: "answer_ok req (mkga_envelope_set_error t req (mkga_strerror_name rc) m)"
  using strerror_name_short [of rc] by (intro answer_ok_error) auto

lemma not_present_zero [simp]: "\<not> err_present zero_error"
  by (simp add: zero_error_def)

lemma answer_ok_success:
  assumes "e_kind req = MKGA_MESSAGE_REQUEST" "e_operation req \<noteq> MKGA_OP_INVALID" "resp_member (e_operation req) p"
  shows "answer_ok req ((mkga_envelope_make_response t req)\<lparr>e_payload := p\<rparr>)"
  using assms by (simp add: answer_ok_def)

lemma answer_ok_plain:
  assumes "e_kind req = MKGA_MESSAGE_REQUEST" "e_operation req \<noteq> MKGA_OP_INVALID" "resp_member (e_operation req) PZero"
  shows "answer_ok req (fst (finish_plain t1 t2 req f res))"
proof -
  have "(mkga_envelope_make_response t1 req)\<lparr>e_payload := PZero\<rparr> = mkga_envelope_make_response t1 req"
    using payload_make_response [of t1 req] by simp
  with answer_ok_success [OF assms, of t1] show ?thesis
    by (simp add: finish_plain_def answer_ok_strerror split: prod.split)
qed

lemma answer_ok_resp:
  assumes "e_kind req = MKGA_MESSAGE_REQUEST" "e_operation req \<noteq> MKGA_OP_INVALID"
    and "\<And>x. resp_member (e_operation req) (mem x)" "fst (snd res) \<noteq> None"
  shows "answer_ok req (fst (finish_resp t1 t2 req f mem res))"
  using assms(4) answer_ok_success [OF assms(1,2,3), of _ t1]
  by (auto simp: finish_resp_def answer_ok_strerror split: prod.split)

lemma runtime_call_resp_Some: "\<exists>y. fst (snd (runtime_call_resp sel rt q (Some r))) = Some y"
  by (simp add: runtime_call_resp_def split: option.split prod.split)

lemma snd_finish [simp]:
  "snd (finish_plain t1 t2 req f res) = snd res" "snd (finish_resp t1 t2 req f mem res') = snd (snd res')"
  by (simp_all add: finish_plain_def finish_resp_def split: prod.split)

lemma dispatch_answer_ok:
  assumes "e_kind req = MKGA_MESSAGE_REQUEST"
  shows "answer_ok req (fst (dispatch t1 t2 (e_operation req) req rt))"
  using assms
  by (cases "e_operation req")
    (auto simp: runtime_dispatch runtime_call_resp_Some resp_member_def cs_def
      intro!: answer_ok_plain answer_ok_resp answer_ok_error)

lemma runtime_call_live: "\<exists>rt'. snd (runtime_call sel (Some rt) q) = Some rt'"
  using runtime_call_keeps [of sel rt q] by blast

lemma runtime_call_resp_live: "\<exists>rt'. snd (snd (runtime_call_resp sel (Some rt) q r)) = Some rt'"
  using runtime_call_resp_keeps [of sel rt q r] by blast

lemma dispatch_keeps_runtime: "\<exists>rt'. snd (dispatch t1 t2 op req (Some rt)) = Some rt'"
  by (cases op) (simp_all add: runtime_dispatch runtime_call_live runtime_call_resp_live)

lemma handle_total:
  assumes "ag_runtime a = Some rt"
  shows "\<exists>resp rt'. mkga_agent_handle t1 t2 (Some a) (Some q) (Some r) = (0, Some resp, Some (a\<lparr>ag_runtime := Some rt'\<rparr>)) \<and>
    answer_ok q resp \<and> (e_kind q \<noteq> MKGA_MESSAGE_REQUEST \<longrightarrow> rt' = rt)"
proof (cases "e_kind q = MKGA_MESSAGE_REQUEST")
  case True
  obtain rt' where "snd (dispatch t1 t2 (e_operation q) q (Some rt)) = Some rt'"
    using dispatch_keeps_runtime by blast
  then show ?thesis
    using True assms dispatch_answer_ok [OF True, of t1 t2 "Some rt"]
    by (auto simp: mkga_agent_handle_def split: prod.split)
next
  case False
  have "a\<lparr>ag_runtime := Some rt\<rparr> = a" using assms by simp
  then show ?thesis
    using False assms answer_ok_error [of "cs ''invalid_kind''" q] by (auto simp: mkga_agent_handle_def cs_def)
qed

section \<open>A sequence of requests\<close>

text \<open>The answer to one request and to a list of them, as functions of the runtime.\<close>

definition answer :: "i64 \<Rightarrow> i64 \<Rightarrow> 's mkga_runtime option \<Rightarrow> mkga_envelope \<Rightarrow> mkga_envelope \<times> 's mkga_runtime option" where
  "answer t1 t2 rt q =
    (if e_kind q \<noteq> MKGA_MESSAGE_REQUEST
     then (mkga_envelope_set_error t2 q (cs ''invalid_kind'') (cs ''guest agent only accepts request messages''), rt)
     else dispatch t1 t2 (e_operation q) q rt)"

fun answer_all :: "(nat \<Rightarrow> nat \<Rightarrow> i64) \<Rightarrow> nat \<Rightarrow> 's mkga_runtime option \<Rightarrow> mkga_envelope list \<Rightarrow> mkga_envelope list \<times> 's mkga_runtime option" where
  "answer_all clk i rt [] = ([], rt)"
| "answer_all clk i rt (q # qs) =
    (case answer (clk i 2) (clk i 3) rt q of
       (r, rt') \<Rightarrow> (case answer_all clk (Suc i) rt' qs of (rs, rt'') \<Rightarrow> (r # rs, rt'')))"

lemma handle_answer:
  "ag_runtime a = Some rt \<Longrightarrow> mkga_agent_handle t1 t2 (Some a) (Some q) (Some r) =
     (0, Some (fst (answer t1 t2 (Some rt) q)), Some (a\<lparr>ag_runtime := snd (answer t1 t2 (Some rt) q)\<rparr>))"
  by (cases a) (simp add: mkga_agent_handle_def answer_def split: prod.split)

lemma answer_live: "\<exists>rt'. snd (answer t1 t2 (Some rt) q) = Some rt'"
  by (simp add: answer_def dispatch_keeps_runtime)

text \<open>
  One round of the loop over the stub transport, and then the whole loop: it empties the inbound
  queue, appends one answer per request to the outbound queue, and stops when the flag says so.
\<close>

lemma agent_update_swap: "a\<lparr>ag_runtime := r, ag_transport := t\<rparr> = a\<lparr>ag_transport := t, ag_runtime := r\<rparr>"
  for a :: "('t, 's) mkga_agent"
  by (cases a) simp

lemma serve_round:
  assumes a: "ag_transport a = tr_of mkga_stub_ops (stub, ws)" "ag_runtime a = Some rt"
    and q: "\<not> sb_closed stub" "queue_inv (sb_inbound stub)" "queue_inv (sb_outbound stub)"
      "queue_list (sb_inbound stub) = x # xs" "rq_count (sb_outbound stub) < rq_capacity (sb_outbound stub)"
    and f: "\<not> stopped flag i 0"
  shows "\<exists>inb outb. serve_loop (Suc fuel) clk flag i a =
      serve_loop fuel clk flag (Suc i) (a\<lparr>ag_transport := tr_of mkga_stub_ops (stub\<lparr>sb_inbound := inb, sb_outbound := outb\<rparr>, ws),
        ag_runtime := snd (answer (clk i 2) (clk i 3) (Some rt) x)\<rparr>) \<and>
    queue_inv inb \<and> queue_inv outb \<and> queue_list inb = xs \<and> rq_capacity outb = rq_capacity (sb_outbound stub) \<and>
    queue_list outb = queue_list (sb_outbound stub) @ [fst (answer (clk i 2) (clk i 3) (Some rt) x)]"
proof -
  let ?env = "mkga_envelope_init (clk i 0)"
  let ?r = "fst (answer (clk i 2) (clk i 3) (Some rt) x)"
  obtain inb where inb: "mkga_stub_receive (stub, ws) ?env (ag_receive_timeout_ms a) = Some (0, x, stub\<lparr>sb_inbound := inb\<rparr>, ws)"
      "queue_inv inb" "queue_list inb = xs"
    using stub_receive_next [OF q(2,4), of ws ?env "ag_receive_timeout_ms a"] by blast
  obtain outb where outb: "mkga_stub_send (stub\<lparr>sb_inbound := inb\<rparr>, ws) ?r = (0, stub\<lparr>sb_inbound := inb, sb_outbound := outb\<rparr>, ws)"
      "queue_inv outb" "rq_capacity outb = rq_capacity (sb_outbound stub)"
      "queue_list outb = queue_list (sb_outbound stub) @ [?r]"
    using stub_send_room [of "stub\<lparr>sb_inbound := inb\<rparr>" ws ?r] q by auto
  have rcv: "mkga_transport_receive (ag_transport a) (Some ?env) (ag_receive_timeout_ms a) =
      Some (0, Some x, tr_of mkga_stub_ops (stub\<lparr>sb_inbound := inb\<rparr>, ws))"
    by (simp add: a(1) mkga_stub_ops_def tr_of_calls inb(1))
  have snd: "mkga_transport_send (tr_of mkga_stub_ops (stub\<lparr>sb_inbound := inb\<rparr>, ws)) (Some ?r) =
      (0, tr_of mkga_stub_ops (stub\<lparr>sb_inbound := inb, sb_outbound := outb\<rparr>, ws))"
    by (simp add: mkga_stub_ops_def tr_of_calls outb(1))
  have "serve_loop (Suc fuel) clk flag i a =
      serve_loop fuel clk flag (Suc i) (a\<lparr>ag_transport := tr_of mkga_stub_ops (stub\<lparr>sb_inbound := inb, sb_outbound := outb\<rparr>, ws),
        ag_runtime := snd (answer (clk i 2) (clk i 3) (Some rt) x)\<rparr>)"
    by (simp add: f rcv quiet_stop_def handle_answer [where rt = rt] a(2) snd agent_update_swap)
  with inb outb show ?thesis by blast
qed

lemma serve_drains:
  assumes "ag_transport a = tr_of mkga_stub_ops (stub, ws)" "ag_runtime a = Some rt"
    and "\<not> sb_closed stub" "queue_inv (sb_inbound stub)" "queue_inv (sb_outbound stub)"
    and "queue_list (sb_inbound stub) = qs" "rq_count (sb_outbound stub) + length qs \<le> rq_capacity (sb_outbound stub)"
    and "\<forall>j<length qs. \<not> stopped flag (i + j) 0" "stopped flag (i + length qs) 0" "length qs < fuel"
  shows "\<exists>inb outb. serve_loop fuel clk flag i a =
      Some (0, a\<lparr>ag_transport := tr_of mkga_stub_ops (stub\<lparr>sb_inbound := inb, sb_outbound := outb\<rparr>, ws),
                  ag_runtime := snd (answer_all clk i (Some rt) qs)\<rparr>) \<and>
    queue_list inb = [] \<and> queue_list outb = queue_list (sb_outbound stub) @ fst (answer_all clk i (Some rt) qs)"
  using assms
proof (induction qs arbitrary: fuel i a stub rt)
  case Nil
  then obtain n where "fuel = Suc n" by (cases fuel) auto
  with Nil have "serve_loop fuel clk flag i a = Some (0, a)" by simp
  moreover have "a = a\<lparr>ag_transport := tr_of mkga_stub_ops (stub, ws), ag_runtime := Some rt\<rparr>" using Nil(1,2) by (cases a) simp
  ultimately show ?case using Nil(6) by (intro exI [of _ "sb_inbound stub"] exI [of _ "sb_outbound stub"]) simp
next
  case (Cons x xs)
  obtain n where n: "fuel = Suc n" "length xs < n" using Cons.prems(10) by (cases fuel) auto
  have "rq_count (sb_outbound stub) < rq_capacity (sb_outbound stub)" "\<not> stopped flag i 0"
    using Cons.prems(7,8) by auto
  from serve_round [OF Cons.prems(1-6) this, of n clk] n(1)
  obtain inb outb where r: "serve_loop fuel clk flag i a =
        serve_loop n clk flag (Suc i) (a\<lparr>ag_transport := tr_of mkga_stub_ops (stub\<lparr>sb_inbound := inb, sb_outbound := outb\<rparr>, ws),
          ag_runtime := snd (answer (clk i 2) (clk i 3) (Some rt) x)\<rparr>)"
      "queue_inv inb" "queue_inv outb" "queue_list inb = xs" "rq_capacity outb = rq_capacity (sb_outbound stub)"
      "queue_list outb = queue_list (sb_outbound stub) @ [fst (answer (clk i 2) (clk i 3) (Some rt) x)]"
    by blast
  let ?a = "a\<lparr>ag_transport := tr_of mkga_stub_ops (stub\<lparr>sb_inbound := inb, sb_outbound := outb\<rparr>, ws),
          ag_runtime := snd (answer (clk i 2) (clk i 3) (Some rt) x)\<rparr>"
  obtain rt' where rt': "snd (answer (clk i 2) (clk i 3) (Some rt) x) = Some rt'" using answer_live by blast
  have room: "rq_count outb + length xs \<le> rq_capacity outb"
    using Cons.prems(7) r(5,6) length_queue_list [of outb] by simp
  have "\<not> stopped flag (Suc i + j) 0" if "j < length xs" for j
    using Cons.prems(8) that by (metis add_Suc_right add_Suc Suc_less_eq length_Cons)
  then have flags: "\<forall>j<length xs. \<not> stopped flag (Suc i + j) 0" "stopped flag (Suc i + length xs) 0"
    using Cons.prems(9) by simp_all
  have "\<exists>inb' outb'. serve_loop n clk flag (Suc i) ?a =
        Some (0, a\<lparr>ag_transport := tr_of mkga_stub_ops (stub\<lparr>sb_inbound := inb', sb_outbound := outb'\<rparr>, ws),
                    ag_runtime := snd (answer_all clk (Suc i) (Some rt') xs)\<rparr>) \<and>
      queue_list inb' = [] \<and> queue_list outb' = queue_list outb @ fst (answer_all clk (Suc i) (Some rt') xs)"
    using Cons.IH [of ?a "stub\<lparr>sb_inbound := inb, sb_outbound := outb\<rparr>" rt', OF _ _ _ _ _ _ _ flags n(2)]
      Cons.prems(3) r(2-4) rt' room by simp
  then obtain inb' outb' where ih: "serve_loop n clk flag (Suc i) ?a =
        Some (0, a\<lparr>ag_transport := tr_of mkga_stub_ops (stub\<lparr>sb_inbound := inb', sb_outbound := outb'\<rparr>, ws),
                    ag_runtime := snd (answer_all clk (Suc i) (Some rt') xs)\<rparr>)"
      "queue_list inb' = []" "queue_list outb' = queue_list outb @ fst (answer_all clk (Suc i) (Some rt') xs)"
    by blast
  have "answer_all clk i (Some rt) (x # xs) =
      (fst (answer (clk i 2) (clk i 3) (Some rt) x) # fst (answer_all clk (Suc i) (Some rt') xs),
       snd (answer_all clk (Suc i) (Some rt') xs))"
    by (simp add: split_def rt')
  then show ?case
    using trans [OF r(1) ih(1)] ih(2,3) r(6) by (intro exI [of _ inb'] exI [of _ outb']) simp
qed

section \<open>The service seen by a client\<close>

text \<open>
  What one answer says about the containers, for any runtime that keeps the contract: \<open>m\<close> and \<open>iss\<close>
  are the containers and the identifiers issued before, \<open>m'\<close> and \<open>iss'\<close> after.
\<close>

definition refused :: "string \<Rightarrow> mkga_envelope \<Rightarrow> bool" where
  "refused code resp \<longleftrightarrow> err_present (e_error resp) \<and> err_code (e_error resp) = cs code"

definition found_then ::
    "(bytes \<rightharpoonup> container_view) \<Rightarrow> bytes \<Rightarrow> mkga_envelope \<Rightarrow> (bytes \<rightharpoonup> container_view) \<Rightarrow>
     (container_view \<Rightarrow> (bytes \<rightharpoonup> container_view) \<Rightarrow> bool) \<Rightarrow> bool" where
  "found_then m k resp m' P =
    (case m k of
       None \<Rightarrow> refused ''not_found'' resp \<and> m' = m
     | Some c \<Rightarrow> \<not> err_present (e_error resp) \<and> P c m')"

definition served ::
    "nat \<Rightarrow> (bytes \<rightharpoonup> container_view) \<Rightarrow> bytes set \<Rightarrow> mkga_envelope \<Rightarrow> mkga_envelope \<Rightarrow>
     (bytes \<rightharpoonup> container_view) \<Rightarrow> bytes set \<Rightarrow> bool" where
  "served cap m iss req resp m' iss' =
    (let k = ct_container_id (container_control_req (e_payload req)) in
     case e_operation req of
       MKGA_OP_CREATE_CONTAINER \<Rightarrow>
         (let image = copied MKGA_MAX_IMAGE_LEN (cc_image (create_container_req (e_payload req))) in
          if card (dom m) < cap
          then \<not> err_present (e_error resp) \<and>
               (\<exists>res. e_payload resp = PCreateResp res \<and> cr_container_id res \<notin> iss \<and> cr_image_ref res = image \<and>
                  m' = m(cr_container_id res \<mapsto> \<lparr>cv_image = image, cv_running = False\<rparr>) \<and>
                  iss' = insert (cr_container_id res) iss)
          else refused ''resource_exhausted'' resp \<and> m' = m \<and> iss' = iss)
     | MKGA_OP_START_CONTAINER \<Rightarrow> iss' = iss \<and> found_then m k resp m' (\<lambda>c m'. m' = m(k \<mapsto> c\<lparr>cv_running := True\<rparr>))
     | MKGA_OP_STOP_CONTAINER \<Rightarrow> iss' = iss \<and> found_then m k resp m' (\<lambda>c m'. m' = m(k \<mapsto> c\<lparr>cv_running := False\<rparr>))
     | MKGA_OP_REMOVE_CONTAINER \<Rightarrow> iss' = iss \<and> found_then m k resp m' (\<lambda>c m'. m' = m(k := None))
     | MKGA_OP_STATUS_CONTAINER \<Rightarrow> iss' = iss \<and>
         found_then m k resp m' (\<lambda>c m'. m' = m \<and>
           (\<exists>x. e_payload resp = PStatusResp x \<and> (st_state x = state_code MKGA_CONTAINER_STATE_RUNNING \<longleftrightarrow> cv_running c)))
     | _ \<Rightarrow> m' = m \<and> iss' = iss)"

lemma refused_strerror:
  "refused code (mkga_envelope_set_error t req (mkga_strerror_name rc) m)" if "mkga_strerror_name rc = cs code"
  using that strerror_name_short [of rc] by (simp add: refused_def mkga_envelope_set_error_def)

lemma strerror_names [simp]:
  "mkga_strerror_name (- ENOENT) = cs ''not_found''" "mkga_strerror_name (- ENOSPC) = cs ''resource_exhausted''"
  by (simp_all add: mkga_strerror_name.simps)

lemma found_then_plain:
  assumes "\<And>c. m k = Some c \<Longrightarrow> P c m'" "m k = None \<Longrightarrow> m' = m"
  shows "found_then m k (fst (finish_plain t1 t2 req f (found m k, rt))) m' P"
  using assms refused_strerror [of "- ENOENT" "''not_found''" t2 req f]
  by (simp add: found_then_def found_def finish_plain_def split: option.split)

lemma found_then_resp:
  assumes "\<And>c. m k = Some c \<Longrightarrow> P c m'" "m k = None \<Longrightarrow> m' = m"
  shows "found_then m k (fst (finish_resp t1 t2 req f mem (found m k, Some res, rt))) m' P"
  using assms refused_strerror [of "- ENOENT" "''not_found''" t2 req f]
  by (simp add: found_then_def found_def finish_resp_def split: option.split)

lemma set_running_Some: "m k = Some c \<Longrightarrow> set_running b k m = m(k \<mapsto> c\<lparr>cv_running := b\<rparr>)"
  by (simp add: set_running_def)

lemma set_running_None: "m k = None \<Longrightarrow> set_running b k m = m"
  by (auto simp: set_running_def)

text \<open>The container identifiers in a list of answers.\<close>

definition created_ids :: "mkga_envelope list \<Rightarrow> bytes list" where
  "created_ids rs = concat (map (\<lambda>r. case e_payload r of PCreateResp res \<Rightarrow> [cr_container_id res] | _ \<Rightarrow> []) rs)"

context container_runtime
begin

definition good :: "'s \<Rightarrow> mkga_envelope \<Rightarrow> mkga_envelope \<Rightarrow> 's \<Rightarrow> bool" where
  "good s req resp s' \<longleftrightarrow> invar s' \<and> budget s \<le> Suc (budget s') \<and> served cap (view s) (issued s) req resp (view s') (issued s')"

lemma good_plain:
  assumes "call = (rc, rt_of ops s')" "good s req (fst (finish_plain t1 t2 req f (rc, rt_of ops s'))) s'"
  shows "\<exists>resp s'. finish_plain t1 t2 req f call = (resp, rt_of ops s') \<and> good s req resp s'"
  unfolding assms(1) using assms(2) by (metis prod.collapse snd_conv snd_finish)

lemma good_resp:
  assumes "call = (rc, Some res, rt_of ops s')" "good s req (fst (finish_resp t1 t2 req f mem (rc, Some res, rt_of ops s'))) s'"
  shows "\<exists>resp s'. finish_resp t1 t2 req f mem call = (resp, rt_of ops s') \<and> good s req resp s'"
  unfolding assms(1) using assms(2) by (metis prod.collapse snd_conv snd_finish)

lemma good_same:
  assumes "invar s" "snd p = rt_of ops s" "e_operation req \<in> {MKGA_OP_READ_LOG, MKGA_OP_EXEC_TTY_PREPARE,
    MKGA_OP_EXEC_TTY_START, MKGA_OP_EXEC_TTY_RESIZE, MKGA_OP_EXEC_TTY_CLOSE, MKGA_OP_CONFIGURE_NETWORK,
    MKGA_OP_CONFIGURE_ENV, MKGA_OP_INVALID}"
  shows "\<exists>resp s'. p = (resp, rt_of ops s') \<and> good s req resp s'"
  using assms by (intro exI [of _ "fst p"] exI [of _ s]) (auto simp: prod_eq_iff good_def served_def)

lemma create_served:
  assumes inv: "invar s" "0 < budget s" and op: "e_operation req = MKGA_OP_CREATE_CONTAINER"
  shows "\<exists>resp s'. dispatch t1 t2 MKGA_OP_CREATE_CONTAINER req (rt_of ops s) = (resp, rt_of ops s') \<and> good s req resp s'"
proof (cases "card (dom (view s)) < cap")
  case True
  let ?q = "create_container_req (e_payload req)"
  obtain res s' where c: "mkga_runtime_create_container (rt_of ops s) (Some ?q) (Some zero_create_resp) = (0, Some res, rt_of ops s')"
      "cr_container_id res \<notin> issued s" "cr_image_ref res = copied MKGA_MAX_IMAGE_LEN (cc_image ?q)" "invar s'"
      "issued s' = insert (cr_container_id res) (issued s)" "budget s = Suc (budget s')"
      "view s' = (view s)(cr_container_id res \<mapsto> \<lparr>cv_image = copied MKGA_MAX_IMAGE_LEN (cc_image ?q), cv_running = False\<rparr>)"
    using create_ok [OF inv True, of ?q zero_create_resp] by blast
  then show ?thesis
    unfolding dispatch.simps using op True
    by (intro good_resp) (auto simp: finish_resp_def good_def served_def Let_def)
next
  case False
  then show ?thesis
    unfolding dispatch.simps using op inv refused_strerror [of "- ENOSPC" "''resource_exhausted''" t2 req]
      create_full [OF inv(1), of "create_container_req (e_payload req)" zero_create_resp]
    by (intro good_resp) (auto simp: finish_resp_def good_def served_def Let_def)
qed

lemma start_served:
  assumes inv: "invar s" and op: "e_operation req = MKGA_OP_START_CONTAINER"
  shows "\<exists>resp s'. dispatch t1 t2 MKGA_OP_START_CONTAINER req (rt_of ops s) = (resp, rt_of ops s') \<and> good s req resp s'"
proof -
  let ?k = "container_control_req (e_payload req)"
  obtain s' where c: "mkga_runtime_start_container (rt_of ops s) (Some ?k) = (found (view s) (ct_container_id ?k), rt_of ops s')"
      and r: "invar s'" "issued s' = issued s" "budget s' = budget s" "view s' = set_running True (ct_container_id ?k) (view s)"
    using start_law [OF inv, of ?k] by blast
  show ?thesis
    unfolding dispatch.simps
    by (rule good_plain [OF c])
      (simp add: good_def served_def op r Let_def found_then_plain set_running_Some set_running_None)
qed

lemma stop_served:
  assumes inv: "invar s" and op: "e_operation req = MKGA_OP_STOP_CONTAINER"
  shows "\<exists>resp s'. dispatch t1 t2 MKGA_OP_STOP_CONTAINER req (rt_of ops s) = (resp, rt_of ops s') \<and> good s req resp s'"
proof -
  let ?k = "container_control_req (e_payload req)"
  obtain s' res where c: "mkga_runtime_stop_container (rt_of ops s) (Some ?k) (Some zero_stop_resp) =
        (found (view s) (ct_container_id ?k), Some res, rt_of ops s')"
      and r: "invar s'" "issued s' = issued s" "budget s' = budget s" "view s' = set_running False (ct_container_id ?k) (view s)"
    using stop_law [OF inv, of ?k zero_stop_resp] by blast
  show ?thesis
    unfolding dispatch.simps
    by (rule good_resp [OF c])
      (simp add: good_def served_def op r Let_def found_then_resp set_running_Some set_running_None)
qed

lemma remove_served:
  assumes inv: "invar s" and op: "e_operation req = MKGA_OP_REMOVE_CONTAINER"
  shows "\<exists>resp s'. dispatch t1 t2 MKGA_OP_REMOVE_CONTAINER req (rt_of ops s) = (resp, rt_of ops s') \<and> good s req resp s'"
proof -
  let ?k = "container_control_req (e_payload req)"
  obtain s' where c: "mkga_runtime_remove_container (rt_of ops s) (Some ?k) = (found (view s) (ct_container_id ?k), rt_of ops s')"
      and r: "invar s'" "issued s' = issued s" "budget s' = budget s" "view s' = (view s)(ct_container_id ?k := None)"
    using remove_law [OF inv, of ?k] by blast
  show ?thesis
    unfolding dispatch.simps
    by (rule good_plain [OF c])
      (simp add: good_def served_def op r Let_def found_then_plain fun_upd_idem)
qed

lemma status_served:
  assumes inv: "invar s" and op: "e_operation req = MKGA_OP_STATUS_CONTAINER"
  shows "\<exists>resp s'. dispatch t1 t2 MKGA_OP_STATUS_CONTAINER req (rt_of ops s) = (resp, rt_of ops s') \<and> good s req resp s'"
proof -
  let ?k = "container_control_req (e_payload req)"
  obtain res where c: "mkga_runtime_status_container (rt_of ops s) (Some ?k) (Some zero_status_resp) =
        (found (view s) (ct_container_id ?k), Some res, rt_of ops s)"
      and r: "\<And>c. view s (ct_container_id ?k) = Some c \<Longrightarrow>
        (st_state res = state_code MKGA_CONTAINER_STATE_RUNNING \<longleftrightarrow> cv_running c)"
    using status_law [OF inv, of ?k zero_status_resp] by blast
  show ?thesis
    unfolding dispatch.simps
    by (rule good_resp [OF c], unfold good_def served_def op Let_def, simp add: inv, rule found_then_resp)
      (simp_all add: r [simplified] finish_resp_def found_def)
qed

lemma dispatch_served:
  assumes inv: "invar s" "0 < budget s"
  shows "\<exists>resp s'. dispatch t1 t2 (e_operation req) req (rt_of ops s) = (resp, rt_of ops s') \<and> good s req resp s'"
proof (cases "e_operation req")
  case MKGA_OP_CREATE_CONTAINER
  then show ?thesis using create_served [OF inv] by metis
next
  case MKGA_OP_START_CONTAINER
  then show ?thesis using start_served [OF inv(1)] by metis
next
  case MKGA_OP_STOP_CONTAINER
  then show ?thesis using stop_served [OF inv(1)] by metis
next
  case MKGA_OP_REMOVE_CONTAINER
  then show ?thesis using remove_served [OF inv(1)] by metis
next
  case MKGA_OP_STATUS_CONTAINER
  then show ?thesis using status_served [OF inv(1)] by metis
qed (rule good_same [OF inv(1)],
    simp_all add: read_log_law network_law env_law prepare_law exec_start_law resize_law close_law inv)+

lemma answer_served:
  assumes inv: "invar s" "0 < budget s"
  shows "\<exists>resp s'. answer t1 t2 (rt_of ops s) req = (resp, rt_of ops s') \<and>
    (if e_kind req = MKGA_MESSAGE_REQUEST then good s req resp s' else s' = s \<and> e_payload resp = PZero)"
  using dispatch_served [OF inv, of t1 t2 req] inv by (auto simp: answer_def)

text \<open>The identifiers handed out while a list of requests is answered are all different and all new.\<close>

lemma created_fresh:
  assumes "good s req resp s'" "e_payload resp = PCreateResp res" "answer_ok req resp"
  shows "cr_container_id res \<notin> issued s \<and> issued s' = insert (cr_container_id res) (issued s)"
proof -
  have "e_operation req = MKGA_OP_CREATE_CONTAINER"
    using assms(2,3) by (auto simp: answer_ok_def resp_member_def split: if_splits mkga_operation.splits)
  then show ?thesis
    using assms by (auto simp: good_def served_def answer_ok_def refused_def Let_def split: if_splits)
qed

lemma good_mono: "good s req resp s' \<Longrightarrow> issued s \<subseteq> issued s'"
  by (auto simp: good_def served_def Let_def split: mkga_operation.splits if_splits)

lemma answers_distinct:
  assumes "invar s" "length qs \<le> budget s" "answer_all clk i (rt_of ops s) qs = (rs, rt)"
  shows "\<exists>s'. rt = rt_of ops s' \<and> invar s' \<and> issued s \<union> set (created_ids rs) \<subseteq> issued s' \<and>
    distinct (created_ids rs) \<and> set (created_ids rs) \<inter> issued s = {}"
  using assms
proof (induction qs arbitrary: s i rs rt)
  case Nil
  then show ?case by (auto simp: created_ids_def)
next
  case (Cons q qs)
  have b: "0 < budget s" using Cons.prems(2) by simp
  obtain r s1 where r: "answer (clk i 2) (clk i 3) (rt_of ops s) q = (r, rt_of ops s1)"
      "if e_kind q = MKGA_MESSAGE_REQUEST then good s q r s1 else s1 = s \<and> e_payload r = PZero"
    using answer_served [OF Cons.prems(1) b] by blast
  have ok: "e_kind q = MKGA_MESSAGE_REQUEST \<Longrightarrow> answer_ok q r"
    using dispatch_answer_ok [of q "clk i 2" "clk i 3" "rt_of ops s"] r(1) by (simp add: answer_def)
  have s1: "invar s1" "length qs \<le> budget s1" "issued s \<subseteq> issued s1"
    using r(2) Cons.prems(1,2) good_mono [of s q r s1] by (auto simp: good_def split: if_splits)
  obtain rs' where rs': "answer_all clk (Suc i) (rt_of ops s1) qs = (rs', rt)" "rs = r # rs'"
    using Cons.prems(3) r(1) by (auto split: prod.splits)
  obtain s' where s': "rt = rt_of ops s'" "invar s'" "issued s1 \<union> set (created_ids rs') \<subseteq> issued s'"
      "distinct (created_ids rs')" "set (created_ids rs') \<inter> issued s1 = {}"
    using Cons.IH [OF s1(1,2) rs'(1)] by blast
  show ?case
  proof (cases "\<exists>res. e_payload r = PCreateResp res")
    case True
    then obtain res where res: "e_payload r = PCreateResp res" by blast
    then have k: "e_kind q = MKGA_MESSAGE_REQUEST" using r(2) by (auto split: if_splits)
    have "cr_container_id res \<notin> issued s \<and> issued s1 = insert (cr_container_id res) (issued s)"
      using created_fresh [OF _ res ok [OF k]] r(2) k by simp
    then show ?thesis using s' res rs'(2) by (auto simp: created_ids_def)
  next
    case False
    then have "created_ids rs = created_ids rs'" using rs'(2) by (auto simp: created_ids_def split: mkga_payload.splits)
    then show ?thesis using s' s1(3) by auto
  qed
qed

end

end
