(* ===== verification/MkSystem.thy ===== *)
theory MkSystem
  imports Mkring
begin

text \<open>
  All kernels of a machine on one shared region. Theory Mkring models what one kernel does; here
  the kernels take turns: each step is one call of an exported operation of \<^verbatim>\<open>mkring/mkring.c\<close> by
  one kernel. Ghost fields record, for each ordered pair of kernels, the messages the ring has
  accepted and those \<^verbatim>\<open>mkring_recv\<close> has returned.
\<close>

section \<open>Configurations\<close>

text \<open>
  The boot parameters under which the region can be set up: valid for \<^verbatim>\<open>mkring_init\<close>, with a ring
  size that divides 65536 and a region that holds the header and all queues.
\<close>

definition good_config :: "mkring_boot_params \<Rightarrow> bool" where
  "good_config p \<longleftrightarrow> \<not> bad_params p \<and> unat (bp_desc_num p) dvd 65536 \<and>
    (case mkring_calc_layout (bp_desc_num p) (bp_msg_size p) of
       Inl _ \<Rightarrow> False
     | Inr L \<Rightarrow> let required = 64 + unat (bp_kernels p) * unat (bp_kernels p) * unat (queue_size L)
                in required < 2 ^ 32 \<and> required \<le> unat (bp_shm_size p))"

definition cfg_layout :: "mkring_boot_params \<Rightarrow> mkring_layout" where
  "cfg_layout p = projr (mkring_calc_layout (bp_desc_num p) (bp_msg_size p))"

lemma good_config_layout:
  assumes "good_config p"
  shows "mkring_calc_layout (bp_desc_num p) (bp_msg_size p) = Inr (cfg_layout p)"
    "64 + unat (bp_kernels p) * unat (bp_kernels p) * unat (queue_size (cfg_layout p)) < 2 ^ 32"
    "64 + unat (bp_kernels p) * unat (bp_kernels p) * unat (queue_size (cfg_layout p)) \<le> unat (bp_shm_size p)"
    "unat (bp_kernels p) \<le> 32" "bp_desc_num p \<noteq> 0" "unat (bp_desc_num p) dvd 65536" "\<not> bad_params p"
  using assms
  by (auto simp: good_config_def cfg_layout_def Let_def bad_params_def word_le_nat_alt word_less_nat_alt
      split: sum.splits)

definition ctx_of :: "mkring_boot_params \<Rightarrow> mkring_ctx" where
  "ctx_of p = (new_ctx p (cfg_layout p))\<lparr>hdr_len := 64, shm_res := True, shm_base := True, hdr_set := True\<rparr>"

lemma hdr_len_64: "ALIGN sizeof_mkring_shm_hdr 64 = 64"
  by (simp add: ALIGN_def)

lemma unat_queue_off:
  assumes "good_config p" "a < bp_kernels p" "b < bp_kernels p"
  shows "unat (queue_off (ctx_of p) (mkring_qindex (bp_kernels p) a b)) =
      64 + unat (mkring_qindex (bp_kernels p) a b) * unat (queue_size (cfg_layout p))"
    and "unat (queue_off (ctx_of p) (mkring_qindex (bp_kernels p) a b)) + unat (queue_size (cfg_layout p))
      \<le> 64 + unat (bp_kernels p) * unat (bp_kernels p) * unat (queue_size (cfg_layout p))"
proof -
  let ?K = "unat (bp_kernels p)" and ?Q = "unat (queue_size (cfg_layout p))"
  let ?i = "unat (mkring_qindex (bp_kernels p) a b)"
  note c = good_config_layout [OF assms(1)]
  have "Suc ?i * ?Q \<le> ?K * ?K * ?Q"
    using qindex_bound [OF c(4) assms(2,3)] by (intro mult_le_mono1) simp
  then have i: "64 + (?i * ?Q + ?Q) \<le> 64 + ?K * ?K * ?Q" by simp
  then show off: "unat (queue_off (ctx_of p) (mkring_qindex (bp_kernels p) a b)) = 64 + ?i * ?Q"
    using c(2) by (simp add: queue_off_def ctx_of_def new_ctx_def wordnat)
  show "unat (queue_off (ctx_of p) (mkring_qindex (bp_kernels p) a b)) + ?Q \<le> 64 + ?K * ?K * ?Q"
    unfolding off using i by simp
qed

lemma required_size_config:
  assumes "good_config p"
  shows "\<exists>r. required_size (ctx_of p) = Some r \<and>
    unat r = 64 + unat (bp_kernels p) * unat (bp_kernels p) * unat (queue_size (cfg_layout p))"
proof -
  note c = good_config_layout [OF assms]
  have "unat (bp_kernels p) * unat (bp_kernels p) \<le> 32 * 32"
    using c(4) by (intro mult_le_mono)
  then show ?thesis
    using c(2)
    by (simp add: required_size_def ctx_of_def new_ctx_def check_mul_overflow_def check_add_overflow_def wordnat)
qed

section \<open>Setting up a kernel\<close>

definition env_ok :: "init_env \<Rightarrow> bool" where
  "env_ok e \<longleftrightarrow> ctx_ok e \<and> remap_ok e \<and> txq_ok e \<and> rxq_ok e \<and> (\<forall>k. bitmap_ok e k) \<and> set_interf e = []"

text \<open>What a context looks like once its kernel is up.\<close>

definition wf_ctx :: "mkring_boot_params \<Rightarrow> u16 \<Rightarrow> mkring_ctx \<Rightarrow> bool" where
  "wf_ctx p k c \<longleftrightarrow> ready c \<and> local_id c = k \<and> kernels c = bp_kernels p \<and> desc_num c = bp_desc_num p \<and>
     msg_size c = bp_msg_size p \<and> has_queues c \<and>
     (\<forall>j. j < bp_kernels p \<and> j \<noteq> k \<longrightarrow>
        qindex (tx_of c j) = mkring_qindex (bp_kernels p) k j \<and>
        qindex (rx_of c j) = mkring_qindex (bp_kernels p) j k)"

text \<open>The memory in which \<^verbatim>\<open>mkring_init\<close> finds or creates the queues.\<close>

definition prepared :: "mkring_boot_params \<Rightarrow> mkring_shm \<Rightarrow> mkring_shm" where
  "prepared p s = (if hdr_init_state (shm_hdr s) = MKRING_SHM_UNINIT
     then init_shared (ctx_of p) (the (required_size (ctx_of p))) else s)"

lemma prepare_shared_ok:
  assumes p: "good_config p" and force: "\<not> bp_force_init p"
    and s: "hdr_init_state (shm_hdr s) = MKRING_SHM_UNINIT \<or>
      hdr_init_state (shm_hdr s) = MKRING_SHM_READY \<and> mkring_hdr_compatible (ctx_of p) (shm_hdr s)"
  shows "mkring_prepare_shared pl wt [] (ctx_of p) s =
    (0, set_ready_bit [] (bp_kernel_id p) (prepared p s))"
proof -
  obtain r where r: "required_size (ctx_of p) = Some r"
    "unat r = 64 + unat (bp_kernels p) * unat (bp_kernels p) * unat (queue_size (cfg_layout p))"
    using required_size_config [OF p] by blast
  have small: "\<not> shm_size (ctx_of p) < r" "\<not> 0xFFFFFFFF < r"
    using r(2) good_config_layout(2,3) [OF p]
    by (simp_all add: word_less_nat_alt ctx_of_def new_ctx_def)
  have flds: "\<not> force_init (ctx_of p)" "local_id (ctx_of p) = bp_kernel_id p"
    using force by (simp_all add: ctx_of_def new_ctx_def)
  have "mkring_hdr_compatible (ctx_of p) (shm_hdr (init_shared (ctx_of p) r))"
    by (simp add: mkring_hdr_compatible_def init_shared_def Let_def)
  with s show ?thesis
    unfolding mkring_prepare_shared_def r(1)
    by (auto simp: small flds prepared_def r(1) Let_def)
qed

lemma setup_ok:
  assumes p: "good_config p" and ab: "src < bp_kernels p" "dst < bp_kernels p"
    and c: "same_params (ctx_of p) c"
  shows "mkring_queue_setup True c s r src dst nb =
    (0, queue_view r (mkring_qindex (bp_kernels p) src dst) (bp_desc_num p)
          (shm_queues s ! unat (mkring_qindex (bp_kernels p) src dst)) nb)"
proof -
  let ?off = "queue_off (ctx_of p) (mkring_qindex (bp_kernels p) src dst)"
  note lay = good_config_layout [OF p]
  have "unat (?off + ucast (queue_size (cfg_layout p))) = unat ?off + unat (queue_size (cfg_layout p))"
    using unat_queue_off(2) [OF p ab] lay(2) by (simp add: wordnat)
  then have "\<not> bp_shm_size p < ?off + ucast (queue_size (cfg_layout p))"
    using unat_queue_off(2) [OF p ab] lay(3) by (simp add: word_less_nat_alt)
  moreover have "queue_off c qi = queue_off (ctx_of p) qi" for qi
    using c by (simp add: queue_off_def same_params_def)
  ultimately show ?thesis
    using c by (simp add: mkring_queue_setup_def Let_def same_params_def ctx_of_def new_ctx_def)
qed

definition fresh_tx :: "mkring_boot_params \<Rightarrow> mkring_shm \<Rightarrow> u16 \<Rightarrow> u16 \<Rightarrow> mkring_queue" where
  "fresh_tx p s a b = queue_view b (mkring_qindex (bp_kernels p) a b) (bp_desc_num p)
     (shm_queues s ! unat (mkring_qindex (bp_kernels p) a b)) True"

definition fresh_rx :: "mkring_boot_params \<Rightarrow> mkring_shm \<Rightarrow> u16 \<Rightarrow> u16 \<Rightarrow> mkring_queue" where
  "fresh_rx p s a b = queue_view a (mkring_qindex (bp_kernels p) a b) (bp_desc_num p)
     (shm_queues s ! unat (mkring_qindex (bp_kernels p) a b)) False"

lemma queues_set_ready_bit [simp]: "shm_queues (set_ready_bit gs k s) = shm_queues s"
  by (simp add: set_ready_bit_def)

text \<open>
  \<^verbatim>\<open>mkring_init\<close> succeeds on a region that is uninitialised or was initialised with the same
  parameters, when the kernel grants the allocations.
\<close>

lemma mkring_init_ok:
  assumes p: "good_config p" and force: "\<not> bp_force_init p" and e: "env_ok e"
    and ntf: "bp_notify p = Some n"
    and s: "hdr_init_state (shm_hdr s) = MKRING_SHM_UNINIT \<or>
      hdr_init_state (shm_hdr s) = MKRING_SHM_READY \<and> mkring_hdr_compatible (ctx_of p) (shm_hdr s)"
  defines "k \<equiv> bp_kernel_id p"
  shows "\<exists>c. mkring_init e (Some p) \<lparr>w_shm = s, w_region = False, w_mkring = None\<rparr> =
      Some (0, \<lparr>w_shm = set_ready_bit [] k (prepared p s), w_region = True, w_mkring = Some c\<rparr>) \<and>
    wf_ctx p k c \<and> notify c = Some n \<and>
    (\<forall>j. j < bp_kernels p \<and> j \<noteq> k \<longrightarrow> tx_of c j = fresh_tx p (prepared p s) k j \<and>
       rx_of c j = fresh_rx p (prepared p s) j k)"
proof -
  let ?s = "set_ready_bit [] k (prepared p s)"
  define c3 where "c3 = alloc_queues e (ctx_of p)"
  have k: "k < bp_kernels p" using good_config_layout(7) [OF p] by (simp add: k_def bad_params_def not_le)
  have same: "same_params (ctx_of p) c3"
    by (simp add: c3_def alloc_queues_def same_params_def Let_def)
  have flds: "local_id c3 = k" "kernels c3 = bp_kernels p" "desc_num c3 = bp_desc_num p"
    "msg_size c3 = bp_msg_size p" "notify c3 = None" "txq c3 \<noteq> None" "rxq c3 \<noteq> None"
    using e by (simp_all add: c3_def alloc_queues_def ctx_of_def new_ctx_def k_def Let_def env_ok_def)
  have hq: "has_queues c3"
    using e by (simp add: has_queues_def c3_def alloc_queues_def Let_def env_ok_def)
  have kids: "set (remote_kids c3) = {j. j < bp_kernels p \<and> j \<noteq> k}"
    by (auto simp: bad_peer_def flds)
  have bm: "bitmap_ok e j" for j using e by (simp add: env_ok_def)
  have "\<exists>c4. setup_loop (bitmap_ok e) (remote_kids c3) ?s c3 = (0, c4) \<and> same_params c3 c4 \<and> has_queues c4 \<and>
    shm_res c4 = shm_res c3 \<and> hdr_set c4 = hdr_set c3 \<and>
    (\<forall>j. tx_of c4 j = (if j \<in> set (remote_kids c3) then fresh_tx p (prepared p s) k j else tx_of c3 j)) \<and>
    (\<forall>j. rx_of c4 j = (if j \<in> set (remote_kids c3) then fresh_rx p (prepared p s) j k else rx_of c3 j))"
    by (rule setup_loop_spec [OF hq])
      (simp_all add: bad_peer_def flds bm k not_le setup_ok [OF p _ _ same] fresh_tx_def fresh_rx_def)
  then obtain c4 where c4: "setup_loop (bitmap_ok e) (remote_kids c3) ?s c3 = (0, c4)" "same_params c3 c4"
    "has_queues c4"
    "\<And>j. j < bp_kernels p \<and> j \<noteq> k \<Longrightarrow> tx_of c4 j = fresh_tx p (prepared p s) k j"
    "\<And>j. j < bp_kernels p \<and> j \<noteq> k \<Longrightarrow> rx_of c4 j = fresh_rx p (prepared p s) j k"
    unfolding kids by auto
  define c where "c = c4\<lparr>ready := True, notify := Some n\<rparr>"
  have cp: "ctx_of p = (new_ctx p (cfg_layout p))\<lparr>hdr_len := ALIGN sizeof_mkring_shm_hdr 64, shm_res := True, shm_base := True, hdr_set := True\<rparr>"
    by (simp add: ctx_of_def hdr_len_64)
  have "mkring_init e (Some p) \<lparr>w_shm = s, w_region = False, w_mkring = None\<rparr> =
      Some (0, \<lparr>w_shm = ?s, w_region = True, w_mkring = Some c\<rparr>)"
    using good_config_layout(1,7) [OF p] e prepare_shared_ok [OF p force s, folded k_def]
      c4(1,2) flds(5-7) ntf
    unfolding mkring_init_def cp [symmetric] c3_def
    by (simp add: env_ok_def Let_def mkring_register_ipi_notify_def same_params_def c_def flip: cp c3_def)
  moreover have "wf_ctx p k c"
    using c4(2-5) flds unfolding wf_ctx_def c_def
    by (simp add: same_params_def has_queues_def fresh_tx_def fresh_rx_def queue_view_def)
  ultimately show ?thesis
    using c4(4,5) by (intro exI [of _ c]) (simp add: c_def)
qed

section \<open>The machine\<close>

record mk_sys =
  y_shm :: mkring_shm
  y_ctx :: "u16 \<Rightarrow> mkring_ctx option"
  y_sent :: "u16 \<Rightarrow> u16 \<Rightarrow> bytes list"
  y_got :: "u16 \<Rightarrow> u16 \<Rightarrow> bytes list"

definition upd2 :: "('a \<Rightarrow> 'b \<Rightarrow> 'c) \<Rightarrow> 'a \<Rightarrow> 'b \<Rightarrow> 'c \<Rightarrow> 'a \<Rightarrow> 'b \<Rightarrow> 'c" where
  "upd2 f a b x = (\<lambda>a' b'. if a' = a \<and> b' = b then x else f a' b')"

text \<open>
  A step: kernel \<open>k\<close> initialises, kernel \<open>a\<close> sends to \<open>b\<close> (whatever the outcome), kernel \<open>k\<close> takes
  the interrupt with its allocations granted, or kernel \<open>b\<close> receives from \<open>a\<close> into a buffer that
  is large enough for any message, whether or not one is there.
\<close>

inductive sys_step :: "mkring_boot_params \<Rightarrow> (nat \<Rightarrow> u16 \<Rightarrow> u16 \<Rightarrow> int) \<Rightarrow> mk_sys \<Rightarrow> mk_sys \<Rightarrow> bool"
  for p nf where
  step_init: "k < bp_kernels p \<Longrightarrow> y_ctx s k = None \<Longrightarrow> env_ok e \<Longrightarrow>
     mkring_init e (Some (p\<lparr>bp_kernel_id := k\<rparr>)) \<lparr>w_shm = y_shm s, w_region = False, w_mkring = None\<rparr> = Some (0, w) \<Longrightarrow>
     sys_step p nf s (s\<lparr>y_shm := w_shm w, y_ctx := (y_ctx s)(k := w_mkring w)\<rparr>)"
| step_send: "a < bp_kernels p \<Longrightarrow> length m < 2 ^ 32 \<Longrightarrow>
     mkring_send nf b (Some m) (of_nat (length m)) (y_shm s) (y_ctx s a) = (rc, shm', g, ipis) \<Longrightarrow>
     sys_step p nf s (s\<lparr>y_shm := shm', y_ctx := (y_ctx s)(a := g),
       y_sent := (if ipis = [] then y_sent s else upd2 (y_sent s) a b (y_sent s a b @ [m]))\<rparr>)"
| step_ipi: "k < bp_kernels p \<Longrightarrow>
     mkring_handle_ipi_all (\<lambda>_ _. True) (y_shm s) (y_ctx s k) = (shm', g, calls) \<Longrightarrow>
     sys_step p nf s (s\<lparr>y_shm := shm', y_ctx := (y_ctx s)(k := g)\<rparr>)"
| step_recv: "b < bp_kernels p \<Longrightarrow> bp_msg_size p \<le> buf_len \<Longrightarrow> length buf = unat buf_len \<Longrightarrow>
     mkring_recv blocked a (Some buf) buf_len True timeout (y_ctx s b) = (rc, out, buf', g) \<Longrightarrow>
     sys_step p nf s (s\<lparr>y_ctx := (y_ctx s)(b := g),
       y_got := (if rc = 0 then upd2 (y_got s) b a (y_got s b a @ [take (unat (the out)) (the buf')])
                 else y_got s)\<rparr>)"

definition sys_start :: mk_sys where
  "sys_start = \<lparr>y_shm = \<lparr>shm_hdr = zero_hdr, shm_queues = []\<rparr>, y_ctx = (\<lambda>_. None),
     y_sent = (\<lambda>_ _. []), y_got = (\<lambda>_ _. [])\<rparr>"

text \<open>The two local views of the queue from \<open>a\<close> to \<open>b\<close>; a kernel that is down will build a fresh one.\<close>

definition tx_view :: "mkring_boot_params \<Rightarrow> mk_sys \<Rightarrow> u16 \<Rightarrow> u16 \<Rightarrow> mkring_queue" where
  "tx_view p s a b = (case y_ctx s a of None \<Rightarrow> fresh_tx p (y_shm s) a b | Some c \<Rightarrow> tx_of c b)"

definition rx_view :: "mkring_boot_params \<Rightarrow> mk_sys \<Rightarrow> u16 \<Rightarrow> u16 \<Rightarrow> mkring_queue" where
  "rx_view p s a b = (case y_ctx s b of None \<Rightarrow> fresh_rx p (y_shm s) a b | Some c \<Rightarrow> rx_of c a)"

definition link_mem :: "mkring_boot_params \<Rightarrow> mk_sys \<Rightarrow> u16 \<Rightarrow> u16 \<Rightarrow> mkring_vring" where
  "link_mem p s a b = shm_queues (y_shm s) ! unat (mkring_qindex (bp_kernels p) a b)"

definition link_state :: "mkring_boot_params \<Rightarrow> mkring_vring \<Rightarrow> mkring_queue \<Rightarrow> mkring_queue \<Rightarrow>
    bytes list \<Rightarrow> bytes list \<Rightarrow> bool" where
  "link_state p v tx rx sent got \<longleftrightarrow> ring_inv (bp_desc_num p) (bp_msg_size p) v tx rx \<and>
     sent = got @ rx_msgs rx @ ring_contents (bp_desc_num p) v rx \<and>
     rx_pending rx = int (length (rx_msgs rx)) \<and>
     (\<forall>m\<in>set (rx_msgs rx). length m \<le> unat (bp_msg_size p))"

definition link_ok :: "mkring_boot_params \<Rightarrow> mk_sys \<Rightarrow> u16 \<Rightarrow> u16 \<Rightarrow> bool" where
  "link_ok p s a b \<longleftrightarrow> link_state p (link_mem p s a b) (tx_view p s a b) (rx_view p s a b)
     (y_sent s a b) (y_got s b a)"

definition hdr_ok :: "mkring_boot_params \<Rightarrow> mk_sys \<Rightarrow> bool" where
  "hdr_ok p s \<longleftrightarrow> hdr_init_state (shm_hdr (y_shm s)) = MKRING_SHM_READY \<and>
     mkring_hdr_compatible (ctx_of p) (shm_hdr (y_shm s)) \<and>
     length (shm_queues (y_shm s)) = unat (bp_kernels p) * unat (bp_kernels p) \<and>
     (\<forall>k < bp_kernels p. bit (hdr_ready_bitmap (shm_hdr (y_shm s))) (unat k) \<longleftrightarrow> y_ctx s k \<noteq> None)"

definition sys_inv :: "mkring_boot_params \<Rightarrow> mk_sys \<Rightarrow> bool" where
  "sys_inv p s \<longleftrightarrow>
     (\<forall>k c. y_ctx s k = Some c \<longrightarrow> k < bp_kernels p \<and> wf_ctx p k c) \<and>
     (if hdr_init_state (shm_hdr (y_shm s)) = MKRING_SHM_UNINIT
      then (\<forall>k. y_ctx s k = None) \<and> (\<forall>a b. y_sent s a b = [] \<and> y_got s b a = [])
      else hdr_ok p s \<and> (\<forall>a b. a < bp_kernels p \<and> b < bp_kernels p \<and> a \<noteq> b \<longrightarrow> link_ok p s a b))"

lemma sys_start_inv: "sys_inv p sys_start"
  by (simp add: sys_inv_def sys_start_def zero_hdr_def)

lemma bit_BIT: "unat k < 32 \<Longrightarrow> bit (BIT k) i \<longleftrightarrow> i = unat k"
  by (auto simp: BIT_def bit_simps)

lemma and_BIT_eq_0: "unat k < 32 \<Longrightarrow> and w (BIT k) = 0 \<longleftrightarrow> \<not> bit w (unat k)"
  by (auto simp: bit_eq_iff [where a = "and w (BIT k)" and b = 0] bit_and_iff bit_BIT)

lemma bit_set_ready:
  "unat k < 32 \<Longrightarrow> bit (hdr_ready_bitmap (shm_hdr (set_ready_bit [] k s))) i \<longleftrightarrow>
     bit (hdr_ready_bitmap (shm_hdr s)) i \<or> i = unat k"
  by (simp add: set_ready_bit_def bit_or_iff bit_BIT)

lemma set_ready_hdr [simp]:
  "hdr_init_state (shm_hdr (set_ready_bit gs k s)) = hdr_init_state (shm_hdr s)"
  "mkring_hdr_compatible c (shm_hdr (set_ready_bit gs k s)) = mkring_hdr_compatible c (shm_hdr s)"
  by (simp_all add: set_ready_bit_def mkring_hdr_compatible_def)

section \<open>Every step keeps the invariant\<close>

lemma config_kid [simp]:
  "cfg_layout (p\<lparr>bp_kernel_id := k\<rparr>) = cfg_layout p"
  "mkring_hdr_compatible (ctx_of (p\<lparr>bp_kernel_id := k\<rparr>)) h = mkring_hdr_compatible (ctx_of p) h"
  "fresh_tx (p\<lparr>bp_kernel_id := k\<rparr>) = fresh_tx p" "fresh_rx (p\<lparr>bp_kernel_id := k\<rparr>) = fresh_rx p"
  "wf_ctx (p\<lparr>bp_kernel_id := k\<rparr>) = wf_ctx p"
  by (auto simp: cfg_layout_def ctx_of_def new_ctx_def mkring_hdr_compatible_def fresh_tx_def fresh_rx_def
      wf_ctx_def fun_eq_iff)

lemma good_config_kid:
  "good_config p \<Longrightarrow> k < bp_kernels p \<Longrightarrow> good_config (p\<lparr>bp_kernel_id := k\<rparr>)"
  by (auto simp: good_config_def bad_params_def Let_def not_le split: sum.splits)

text \<open>The memory the first kernel creates: every queue is fresh, nobody is ready.\<close>

lemma init_shared_fresh:
  assumes p: "good_config p" and s: "s = init_shared (ctx_of p) r"
  shows "hdr_init_state (shm_hdr s) = MKRING_SHM_READY" "mkring_hdr_compatible (ctx_of p) (shm_hdr s)"
    "length (shm_queues s) = unat (bp_kernels p) * unat (bp_kernels p)" "hdr_ready_bitmap (shm_hdr s) = 0"
    and "a < bp_kernels p \<Longrightarrow> b < bp_kernels p \<Longrightarrow>
      link_state p (shm_queues s ! unat (mkring_qindex (bp_kernels p) a b)) (fresh_tx p s a b) (fresh_rx p s a b) [] []"
proof -
  have flds: "kernels (ctx_of p) = bp_kernels p" "desc_num (ctx_of p) = bp_desc_num p"
    "msg_size (ctx_of p) = bp_msg_size p"
    by (simp_all add: ctx_of_def new_ctx_def)
  show "hdr_init_state (shm_hdr s) = MKRING_SHM_READY" "mkring_hdr_compatible (ctx_of p) (shm_hdr s)"
    "length (shm_queues s) = unat (bp_kernels p) * unat (bp_kernels p)" "hdr_ready_bitmap (shm_hdr s) = 0"
    by (simp_all add: s init_shared_def Let_def zero_shm_def zero_hdr_def mkring_hdr_compatible_def flds)
  assume ab: "a < bp_kernels p" "b < bp_kernels p"
  let ?v = "shm_queues s ! unat (mkring_qindex (bp_kernels p) a b)"
  have v: "?v = mkring_init_one_queue (bp_desc_num p) (bp_msg_size p) (layout (ctx_of p))
      (shm_phys (ctx_of p) + queue_off (ctx_of p) (mkring_qindex (bp_kernels p) a b))"
    using init_all_queues_nth [of "ctx_of p" a b] ab good_config_layout(4) [OF p]
    by (simp add: s init_shared_def Let_def flds zero_shm_def)
  show "link_state p ?v (fresh_tx p s a b) (fresh_rx p s a b) [] []"
    using fresh_ring_inv [OF good_config_layout(5,6) [OF p] v]
    by (simp add: link_state_def fresh_tx_def fresh_rx_def) (simp add: queue_view_def)
qed

lemma step_init_inv:
  assumes p: "good_config p" "\<not> bp_force_init p" "bp_notify p = Some n" and inv: "sys_inv p s"
    and k: "k < bp_kernels p" "y_ctx s k = None" and e: "env_ok e"
    and init: "mkring_init e (Some (p\<lparr>bp_kernel_id := k\<rparr>))
      \<lparr>w_shm = y_shm s, w_region = False, w_mkring = None\<rparr> = Some (0, w)"
  shows "sys_inv p (s\<lparr>y_shm := w_shm w, y_ctx := (y_ctx s)(k := w_mkring w)\<rparr>)"
proof -
  let ?p = "p\<lparr>bp_kernel_id := k\<rparr>" and ?h = "shm_hdr (y_shm s)"
  define m where "m = prepared ?p (y_shm s)"
  have st: "hdr_init_state ?h = MKRING_SHM_UNINIT \<or>
      hdr_init_state ?h = MKRING_SHM_READY \<and> mkring_hdr_compatible (ctx_of ?p) ?h"
    using inv by (auto simp: sys_inv_def hdr_ok_def split: if_splits)
  obtain c where w: "w = \<lparr>w_shm = set_ready_bit [] k m, w_region = True, w_mkring = Some c\<rparr>"
    and c: "wf_ctx p k c" "\<And>j. j < bp_kernels p \<and> j \<noteq> k \<Longrightarrow>
       tx_of c j = fresh_tx p m k j \<and> rx_of c j = fresh_rx p m j k"
    using mkring_init_ok [OF good_config_kid [OF p(1) k(1)] _ e _ st] p(2,3) init by (auto simp: m_def)
  define s' where "s' = s\<lparr>y_shm := w_shm w, y_ctx := (y_ctx s)(k := w_mkring w)\<rparr>"
  have m: "hdr_init_state (shm_hdr m) = MKRING_SHM_READY \<and> mkring_hdr_compatible (ctx_of p) (shm_hdr m) \<and>
     length (shm_queues m) = unat (bp_kernels p) * unat (bp_kernels p) \<and>
     (\<forall>j < bp_kernels p. bit (hdr_ready_bitmap (shm_hdr m)) (unat j) \<longleftrightarrow> y_ctx s j \<noteq> None) \<and>
     (\<forall>a b. a < bp_kernels p \<and> b < bp_kernels p \<and> a \<noteq> b \<longrightarrow> link_ok p (s\<lparr>y_shm := m\<rparr>) a b)"
  proof (cases "hdr_init_state ?h = MKRING_SHM_UNINIT")
    case True
    then have none: "y_ctx s j = None" "y_sent s a b = []" "y_got s b a = []" for j a b
      using inv by (simp_all add: sys_inv_def)
    have "m = init_shared (ctx_of ?p) (the (required_size (ctx_of ?p)))"
      using True by (simp add: m_def prepared_def)
    from init_shared_fresh [OF good_config_kid [OF p(1) k(1)] this] show ?thesis
      by (simp add: none link_ok_def link_mem_def tx_view_def rx_view_def link_state_def)
  next
    case False
    then have "m = y_shm s" by (simp add: m_def prepared_def)
    with False inv show ?thesis by (simp add: sys_inv_def hdr_ok_def)
  qed
  have kid: "unat j < 32" if "j < bp_kernels p" for j
    using that good_config_layout(4) [OF p(1)] by (simp add: word_less_nat_alt)
  have "link_ok p s' a b" if ab: "a < bp_kernels p" "b < bp_kernels p" "a \<noteq> b" for a b
  proof -
    have "tx_view p s' a b = tx_view p (s\<lparr>y_shm := m\<rparr>) a b"
      using ab c(2) [of b] k(2) by (auto simp: tx_view_def s'_def w fresh_tx_def split: option.splits)
    moreover have "rx_view p s' a b = rx_view p (s\<lparr>y_shm := m\<rparr>) a b"
      using ab c(2) [of a] k(2) by (auto simp: rx_view_def s'_def w fresh_rx_def split: option.splits)
    moreover have "link_ok p (s\<lparr>y_shm := m\<rparr>) a b" using m ab by blast
    ultimately show ?thesis by (simp add: link_ok_def link_mem_def s'_def w)
  qed
  moreover have "hdr_ok p s'"
    using m k kid unfolding hdr_ok_def s'_def w
    by (auto simp: bit_set_ready word_unat_eq_iff [symmetric])
  moreover have "hdr_init_state (shm_hdr (y_shm s')) \<noteq> MKRING_SHM_UNINIT"
    using m by (simp add: s'_def w)
  moreover have "j < bp_kernels p \<and> wf_ctx p j d" if "y_ctx s' j = Some d" for j d
    using that inv c(1) k(1) by (auto simp: s'_def w sys_inv_def split: if_splits)
  ultimately show ?thesis unfolding sys_inv_def s'_def by simp
qed

lemma sys_invD:
  assumes "sys_inv p s" "y_ctx s k = Some c"
  shows "k < bp_kernels p" "wf_ctx p k c" "hdr_ok p s"
    "\<And>a b. a < bp_kernels p \<Longrightarrow> b < bp_kernels p \<Longrightarrow> a \<noteq> b \<Longrightarrow> link_ok p s a b"
    "hdr_init_state (shm_hdr (y_shm s)) \<noteq> MKRING_SHM_UNINIT"
  using assms by (auto simp: sys_inv_def split: if_splits)

text \<open>
  An operation of a kernel that is up keeps the header, the number of queues and the set of
  kernels that are up, so only its context and the links remain to be checked.
\<close>

lemma sys_inv_update:
  assumes "sys_inv p s" "y_ctx s k = Some c" "wf_ctx p k c'"
    "shm_hdr (y_shm s') = shm_hdr (y_shm s)"
    "length (shm_queues (y_shm s')) = length (shm_queues (y_shm s))"
    "y_ctx s' = (y_ctx s)(k := Some c')"
    "\<And>a b. a < bp_kernels p \<Longrightarrow> b < bp_kernels p \<Longrightarrow> a \<noteq> b \<Longrightarrow> link_ok p s' a b"
  shows "sys_inv p s'"
  using assms sys_invD [OF assms(1,2)]
  by (auto simp: sys_inv_def hdr_ok_def split: if_splits)

lemma link_frame:
  assumes "link_ok p s a b" "link_mem p s' a b = link_mem p s a b"
    "tx_view p s' a b = tx_view p s a b" "rx_view p s' a b = rx_view p s a b"
    "y_sent s' a b = y_sent s a b" "y_got s' b a = y_got s b a"
  shows "link_ok p s' a b"
  using assms by (simp add: link_ok_def)

lemma tx_enqueue_qindex:
  assumes "mkring_tx_enqueue dn v q data len = (rc, v', q')"
  shows "qindex q' = qindex q"
proof -
  have "qindex (mkring_tx_reclaim_locked dn v q) = qindex q"
    by (simp add: mkring_tx_reclaim_locked_def split: option.split prod.split)
  then have "qindex (snd (snd (mkring_tx_enqueue dn v q data len))) = qindex q"
    by (simp add: mkring_tx_enqueue_def Let_def split: option.split)
  with assms show ?thesis by simp
qed

text \<open>The cases of \<^verbatim>\<open>mkring_send\<close>: refused without touching anything, or one enqueue.\<close>

lemma mkring_send_cases:
  assumes "mkring_send nf b (Some m) len s g = (rc, s', g', ipis)"
  obtains "s' = s" "g' = g" "ipis = []" "rc \<noteq> 0"
  | c q rc0 v' q' where "g = Some c" "ready c" "\<not> bad_peer c b" "len \<le> msg_size c"
      "and (hdr_ready_bitmap (shm_hdr s)) (BIT b) \<noteq> 0" "q = tx_of c b"
      "mkring_tx_enqueue (desc_num c) (queue_mem s q) q m len = (rc0, v', q')"
      "s' = set_queue_mem q v' s" "g' = Some (set_tx b q' c)" "ipis = [] \<longleftrightarrow> rc0 \<noteq> 0"
proof (cases "\<exists>c n. g = Some c \<and> ready c \<and> \<not> bad_peer c b \<and> \<not> msg_size c < len \<and>
    and (hdr_ready_bitmap (shm_hdr s)) (BIT b) \<noteq> 0 \<and> notify c = Some n")
  case True
  then obtain c n where c: "g = Some c" "ready c" "\<not> bad_peer c b" "\<not> msg_size c < len"
    "and (hdr_ready_bitmap (shm_hdr s)) (BIT b) \<noteq> 0" "notify c = Some n"
    by blast
  obtain rc0 v' q' where enq:
    "mkring_tx_enqueue (desc_num c) (queue_mem s (tx_of c b)) (tx_of c b) m len = (rc0, v', q')"
    by (metis prod_cases3)
  with assms c that(2) [OF c(1-3) _ c(5) refl enq] show thesis
    by (auto simp: mkring_send_def Let_def not_less split: if_splits)
next
  case False
  with assms that(1) show thesis
    by (auto simp: mkring_send_def split: option.splits if_splits)
qed

lemma step_send_inv:
  assumes p: "good_config p" and inv: "sys_inv p s" and a: "a < bp_kernels p" and m: "length m < 2 ^ 32"
    and send: "mkring_send nf b (Some m) (of_nat (length m)) (y_shm s) (y_ctx s a) = (rc, shm', g, ipis)"
  shows "sys_inv p (s\<lparr>y_shm := shm', y_ctx := (y_ctx s)(a := g),
       y_sent := (if ipis = [] then y_sent s else upd2 (y_sent s) a b (y_sent s a b @ [m]))\<rparr>)"
  using send
proof (cases rule: mkring_send_cases)
  case 1
  with inv show ?thesis by simp
next
  case (2 c q rc0 v' q')
  let ?K = "bp_kernels p"
  define s' where "s' = s\<lparr>y_shm := shm', y_ctx := (y_ctx s)(a := g),
       y_sent := (if ipis = [] then y_sent s else upd2 (y_sent s) a b (y_sent s a b @ [m]))\<rparr>"
  note D = sys_invD [OF inv 2(1)]
  have c: "kernels c = ?K" "local_id c = a" "desc_num c = bp_desc_num p" "msg_size c = bp_msg_size p" "has_queues c"
    and qi: "\<And>j. j < ?K \<and> j \<noteq> a \<Longrightarrow> qindex (tx_of c j) = mkring_qindex ?K a j \<and> qindex (rx_of c j) = mkring_qindex ?K j a"
    using D(2) by (auto simp: wf_ctx_def)
  have b: "b < ?K" "b \<noteq> a" using 2(3) c by (simp_all add: bad_peer_def not_le)
  have K: "unat ?K \<le> 32" by (rule good_config_layout(4) [OF p])
  have q: "qindex q = mkring_qindex ?K a b" "qindex q' = mkring_qindex ?K a b"
    using qi [of b] b 2(6) tx_enqueue_qindex [OF 2(7)] by simp_all
  have len: "unat (of_nat (length m) :: u32) = length m" using m by (simp add: unat_of_nat)
  have ql: "unat (qindex q) < length (shm_queues (y_shm s))"
    using qindex_bound [OF K a b(1)] D(3) q by (simp add: hdr_ok_def)
  have mem: "link_mem p s' x y = (if x = a \<and> y = b then v' else link_mem p s x y)"
    if "x < ?K" "y < ?K" for x y
    using qindex_inj [OF K that a b(1)] set_queue_mem_nth [OF ql, of v'] q 2(8)
    by (auto simp: link_mem_def s'_def)
  have tx: "tx_of (set_tx b q' c) y = (if y = b then q' else tx_of c y)" for y
    using tx_of_set [OF c(5)] b c(1) by simp
  have txv: "tx_view p s' x y = (if x = a \<and> y = b then q' else tx_view p s x y)"
    and rxv: "rx_view p s' x y = rx_view p s x y" if "x < ?K" "y < ?K" for x y
  proof -
    have "\<not> (x = a \<and> y = b) \<Longrightarrow> shm_queues shm' ! unat (mkring_qindex ?K x y) = shm_queues (y_shm s) ! unat (mkring_qindex ?K x y)"
      using mem [OF that] by (auto simp: link_mem_def s'_def)
    moreover have "y_ctx s b \<noteq> None"
      using 2(5) D(3) b(1) K by (simp add: hdr_ok_def and_BIT_eq_0 word_less_nat_alt)
    ultimately show "tx_view p s' x y = (if x = a \<and> y = b then q' else tx_view p s x y)"
      "rx_view p s' x y = rx_view p s x y"
      using tx [of y] 2(1,9) b(2)
      by (cases "x = a \<and> y = b";
          auto simp: tx_view_def rx_view_def s'_def fresh_tx_def fresh_rx_def split: option.splits)+
  qed
  have ab: "link_ok p s' a b"
  proof -
    have old: "link_state p (link_mem p s a b) q (rx_view p s a b) (y_sent s a b) (y_got s b a)"
      using D(4) [OF a b(1)] b(2) 2(1,6) by (auto simp: link_ok_def tx_view_def)
    have "queue_mem (y_shm s) q = link_mem p s a b" by (simp add: queue_mem_def link_mem_def q)
    then have enq: "mkring_tx_enqueue (bp_desc_num p) (link_mem p s a b) q m (of_nat (length m)) = (rc0, v', q')"
      using 2(7) c by simp
    from old have "ring_inv (bp_desc_num p) (bp_msg_size p) (link_mem p s a b) q (rx_view p s a b)"
      by (simp add: link_state_def)
    from tx_enqueue_spec [OF this _ _ enq] 2(4,10) c len old show ?thesis
      unfolding link_ok_def mem [OF a b(1)] txv [OF a b(1)] rxv [OF a b(1)]
      by (auto simp: link_state_def s'_def upd2_def split: if_splits)
  qed
  have "sys_inv p s'"
  proof (rule sys_inv_update [OF inv 2(1), where c' = "set_tx b q' c"])
    show "wf_ctx p a (set_tx b q' c)"
      using D(2) tx qi q b unfolding wf_ctx_def by auto
    show "link_ok p s' x y" if "x < ?K" "y < ?K" "x \<noteq> y" for x y
    proof (cases "x = a \<and> y = b")
      case False
      with link_frame [OF D(4) [OF that]] mem [OF that(1,2)] txv [OF that(1,2)] rxv [OF that(1,2)]
      show ?thesis by (auto simp: s'_def upd2_def)
    qed (use ab in simp)
  qed (use 2(8,9) in \<open>simp_all add: s'_def\<close>)
  then show ?thesis by (simp add: s'_def)
qed

lemma contents_length:
  assumes "ring_inv dn ms v tx rx" "m \<in> set (ring_contents dn v rx)"
  shows "length m \<le> unat ms"
proof -
  obtain i where "i \<in> set (pend_ids dn v rx)" "m = slot_msg v i"
    using assms(2) by (auto simp: ring_contents_def)
  then have "desc_len (descs v ! i) \<le> ms" "length m \<le> unat (desc_len (descs v ! i))"
    using assms(1) by (auto simp: ring_inv_def slot_msg_def)
  then show ?thesis by (simp add: word_le_nat_alt)
qed

lemma idle_link:
  assumes "ring_inv dn ms v (queue_view r qi dn v b) rx"
  shows "mkring_process_rx_queue oks dn ms v rx = (v, rx, [], 0)"
proof -
  have "pend_ids dn v rx = []"
    using assms by (auto simp: ring_inv_def queue_view_def)
  then have "last_avail_idx rx = avail_idx v" by (simp add: pend_from_empty_iff)
  then show ?thesis by (simp add: mkring_process_rx_queue_def process_rx_loop.simps)
qed

lemma link_drained:
  assumes "link_state p v tx rx sent got"
    "mkring_process_rx_queue (\<lambda>_. True) (bp_desc_num p) (bp_msg_size p) v rx = (v', rx', calls, n)"
  shows "link_state p v' tx rx' sent got"
  using assms process_rx_queue_spec [OF _ assms(2), of tx] contents_length [of "bp_desc_num p" "bp_msg_size p" v tx rx]
  by (auto simp: link_state_def)

text \<open>What an interrupt does in a reachable state, in terms of the queues between kernels.\<close>

lemma handle_ipi_links:
  assumes p: "good_config p" and inv: "sys_inv p s" and up: "y_ctx s k = Some c"
    and ipi: "mkring_handle_ipi_all (\<lambda>_ _. True) (y_shm s) (y_ctx s k) = (shm', g, calls)"
  obtains c' where "g = Some c'" "same_params c c'" "has_queues c'" "txq c' = txq c"
    "shm_hdr shm' = shm_hdr (y_shm s)" "length (shm_queues shm') = length (shm_queues (y_shm s))"
    "\<And>j. j < bp_kernels p \<and> j \<noteq> k \<Longrightarrow> qindex (rx_of c' j) = qindex (rx_of c j)"
    "\<And>x y. x < bp_kernels p \<Longrightarrow> y < bp_kernels p \<Longrightarrow> y \<noteq> k \<Longrightarrow>
       shm_queues shm' ! unat (mkring_qindex (bp_kernels p) x y) = link_mem p s x y"
    "\<And>j. j < bp_kernels p \<Longrightarrow> j \<noteq> k \<Longrightarrow> \<exists>calls n.
       mkring_process_rx_queue (\<lambda>_. True) (bp_desc_num p) (bp_msg_size p) (link_mem p s j k) (rx_of c j)
       = (shm_queues shm' ! unat (mkring_qindex (bp_kernels p) j k), rx_of c' j, calls, n)"
proof -
  let ?K = "bp_kernels p" and ?s = "y_shm s"
  note D = sys_invD [OF inv up]
  have c: "kernels c = ?K" "local_id c = k" "desc_num c = bp_desc_num p" "msg_size c = bp_msg_size p"
      "has_queues c" "ready c"
    and qi: "\<And>j. j < ?K \<and> j \<noteq> k \<Longrightarrow> qindex (rx_of c j) = mkring_qindex ?K j k"
    using D(2) by (auto simp: wf_ctx_def)
  have K: "unat ?K \<le> 32" by (rule good_config_layout(4) [OF p])
  have kids: "set (remote_kids c) = {j. j < ?K \<and> j \<noteq> k}" by (auto simp: bad_peer_def c)
  obtain c' where loop: "handle_ipi_loop (\<lambda>_ _. True) (remote_kids c) ?s c = (shm', c', calls)" and g: "g = Some c'"
    using ipi up c(6) by (auto simp: mkring_handle_ipi_all_def split: prod.splits)
  have inj: "inj_on (\<lambda>j. unat (qindex (rx_of c j))) (set (remote_kids c))"
    unfolding kids using qi qindex_inj [OF K _ D(1) _ D(1)] by (intro inj_onI) auto
  have bnd: "\<forall>j\<in>set (remote_kids c). unat (qindex (rx_of c j)) < length (shm_queues ?s)"
    unfolding kids using qi qindex_bound [OF K _ D(1)] D(3) by (auto simp: hdr_ok_def)
  note H = handle_ipi_loop_spec [OF c(5) _ distinct_remote_kids inj bnd loop, simplified]
  have mem: "shm_queues shm' ! unat (mkring_qindex ?K x y) = link_mem p s x y"
    if "x < ?K" "y < ?K" "y \<noteq> k" for x y
  proof -
    have "unat (mkring_qindex ?K x y) \<notin> (\<lambda>j. unat (qindex (rx_of c j))) ` set (remote_kids c)"
      unfolding kids using that qi qindex_inj [OF K that(1,2) _ D(1)] by auto
    with H show ?thesis by (simp add: link_mem_def)
  qed
  show thesis
  proof (rule that [OF g _ _ _ _ _ _ mem])
    show "\<exists>calls n. mkring_process_rx_queue (\<lambda>_. True) (bp_desc_num p) (bp_msg_size p) (link_mem p s j k) (rx_of c j)
       = (shm_queues shm' ! unat (mkring_qindex ?K j k), rx_of c' j, calls, n)" if "j < ?K" "j \<noteq> k" for j
      using H that qi [of j] by (auto simp: bad_peer_def c not_le queue_mem_def link_mem_def)
  qed (use H in \<open>auto simp: bad_peer_def c not_le\<close>)
qed

lemma step_ipi_inv:
  assumes p: "good_config p" and inv: "sys_inv p s" and k: "k < bp_kernels p"
    and ipi: "mkring_handle_ipi_all (\<lambda>_ _. True) (y_shm s) (y_ctx s k) = (shm', g, calls)"
  shows "sys_inv p (s\<lparr>y_shm := shm', y_ctx := (y_ctx s)(k := g)\<rparr>)"
proof (cases "y_ctx s k")
  case None
  then have "shm' = y_shm s" "g = y_ctx s k" using ipi by (simp_all add: mkring_handle_ipi_all_def)
  with inv show ?thesis by simp
next
  case (Some c)
  let ?K = "bp_kernels p"
  note D = sys_invD [OF inv Some]
  define s' where "s' = s\<lparr>y_shm := shm', y_ctx := (y_ctx s)(k := g)\<rparr>"
  have mem_def: "link_mem p s' x y = shm_queues shm' ! unat (mkring_qindex ?K x y)" for x y
    by (simp add: link_mem_def s'_def)
  obtain c' where g: "g = Some c'" and same: "same_params c c'" "has_queues c'" "txq c' = txq c"
      "shm_hdr shm' = shm_hdr (y_shm s)" "length (shm_queues shm') = length (shm_queues (y_shm s))"
    and qi': "\<And>j. j < ?K \<and> j \<noteq> k \<Longrightarrow> qindex (rx_of c' j) = qindex (rx_of c j)"
    and mem: "\<And>x y. x < ?K \<Longrightarrow> y < ?K \<Longrightarrow> y \<noteq> k \<Longrightarrow> link_mem p s' x y = link_mem p s x y"
    and run: "\<And>j. j < ?K \<Longrightarrow> j \<noteq> k \<Longrightarrow> \<exists>calls n.
       mkring_process_rx_queue (\<lambda>_. True) (bp_desc_num p) (bp_msg_size p) (link_mem p s j k) (rx_of c j)
       = (link_mem p s' j k, rx_of c' j, calls, n)"
    using handle_ipi_links [OF p inv Some ipi] unfolding mem_def by blast
  have into: "link_ok p s' j k" if j: "j < ?K" "j \<noteq> k" for j
  proof -
    have old: "link_state p (link_mem p s j k) (tx_view p s j k) (rx_of c j) (y_sent s j k) (y_got s k j)"
      using D(4) [OF j(1) k j(2)] Some by (simp add: link_ok_def rx_view_def)
    obtain cl n where r: "mkring_process_rx_queue (\<lambda>_. True) (bp_desc_num p) (bp_msg_size p) (link_mem p s j k) (rx_of c j)
      = (link_mem p s' j k, rx_of c' j, cl, n)" using run [OF j] by blast
    have "tx_view p s' j k = tx_view p s j k"
    proof (cases "y_ctx s j")
      case None
      then have "ring_inv (bp_desc_num p) (bp_msg_size p) (link_mem p s j k)
          (queue_view k (mkring_qindex ?K j k) (bp_desc_num p) (link_mem p s j k) True) (rx_of c j)"
        using old by (simp add: link_state_def tx_view_def fresh_tx_def link_mem_def)
      from idle_link [OF this] r have "link_mem p s' j k = link_mem p s j k" by simp
      with None j show ?thesis by (simp add: tx_view_def fresh_tx_def link_mem_def s'_def)
    qed (use j in \<open>simp add: tx_view_def s'_def\<close>)
    with link_drained [OF old r] g show ?thesis by (simp add: link_ok_def rx_view_def s'_def)
  qed
  have "sys_inv p s'"
  proof (rule sys_inv_update [OF inv Some, where c' = c'])
    show "wf_ctx p k c'" using D(2) same qi' by (simp add: wf_ctx_def same_params_def)
    show "link_ok p s' x y" if "x < ?K" "y < ?K" "x \<noteq> y" for x y
    proof (cases "y = k")
      case False
      note m = mem [OF that(1,2) False]
      have "tx_view p s' x y = tx_view p s x y" "rx_view p s' x y = rx_view p s x y"
        using m False Some g same(3)
        by (auto simp: tx_view_def rx_view_def fresh_tx_def fresh_rx_def s'_def link_mem_def split: option.splits)
      with link_frame [OF D(4) [OF that] m] show ?thesis by (simp add: s'_def)
    qed (use into that in auto)
  qed (use g same in \<open>simp_all add: s'_def\<close>)
  then show ?thesis by (simp add: s'_def)
qed

text \<open>The cases of \<^verbatim>\<open>mkring_recv\<close>: nothing taken, or the oldest message.\<close>

lemma mkring_recv_cases:
  assumes "mkring_recv blocked a (Some buf) buf_len True timeout g = (rc, out, buf', g')"
  obtains "g' = g" "rc \<noteq> 0"
  | c m rest where "g = Some c" "\<not> bad_peer c a" "rx_msgs (rx_of c a) = m # rest"
      "g' = Some (set_rx a ((rx_of c a)\<lparr>rx_msgs := rest, rx_pending := rx_pending (rx_of c a) - 1\<rparr>) c)"
      "rc = (if buf_len < of_nat (length m) then - EMSGSIZE else 0)" "out = Some (of_nat (length m))"
      "\<not> buf_len < of_nat (length m) \<Longrightarrow> the buf' = memcpy buf m (unat (of_nat (length m) :: u32))"
proof (cases "\<exists>c m rest. g = Some c \<and> ready c \<and> \<not> bad_peer c a \<and>
    0 < wait_event (0 < rx_pending (rx_of c a)) timeout blocked \<and> rx_msgs (rx_of c a) = m # rest")
  case True
  then obtain c m rest where "g = Some c" "ready c" "\<not> bad_peer c a"
    "0 < wait_event (0 < rx_pending (rx_of c a)) timeout blocked" "rx_msgs (rx_of c a) = m # rest"
    by blast
  with assms show thesis
    by (intro that(2) [of c m rest])
      (auto simp: mkring_recv_def Let_def memcpy_def not_less unat_eq_zero split: if_splits)
next
  case False
  with assms show thesis
    by (intro that(1)) (auto simp: mkring_recv_def Let_def split: option.splits list.splits if_splits)
qed

lemma step_recv_inv:
  assumes p: "good_config p" and inv: "sys_inv p s" and b: "b < bp_kernels p"
    and buf: "bp_msg_size p \<le> buf_len" "length buf = unat buf_len"
    and recv: "mkring_recv blocked a (Some buf) buf_len True timeout (y_ctx s b) = (rc, out, buf', g)"
  shows "sys_inv p (s\<lparr>y_ctx := (y_ctx s)(b := g),
       y_got := (if rc = 0 then upd2 (y_got s) b a (y_got s b a @ [take (unat (the out)) (the buf')])
                 else y_got s)\<rparr>)"
  using recv
proof (cases rule: mkring_recv_cases)
  case 1
  with inv show ?thesis by simp
next
  case (2 c m rest)
  let ?K = "bp_kernels p"
  define q where "q = (rx_of c a)\<lparr>rx_msgs := rest, rx_pending := rx_pending (rx_of c a) - 1\<rparr>"
  note D = sys_invD [OF inv 2(1)]
  have c: "kernels c = ?K" "local_id c = b" "has_queues c" using D(2) by (auto simp: wf_ctx_def)
  have a: "a < ?K" "a \<noteq> b" using 2(2) c by (simp_all add: bad_peer_def not_le)
  have old: "link_state p (link_mem p s a b) (tx_view p s a b) (rx_of c a) (y_sent s a b) (y_got s b a)"
    using D(4) [OF a(1) b a(2)] 2(1) by (simp add: link_ok_def rx_view_def)
  have len: "length m \<le> unat (bp_msg_size p)" using old 2(3) by (simp add: link_state_def)
  then have lm: "unat (of_nat (length m) :: u32) = length m"
    using unat_u32_less [of "bp_msg_size p"] by (simp add: unat_of_nat)
  then have fits: "\<not> buf_len < of_nat (length m)"
    using len buf(1) by (simp add: word_less_nat_alt word_le_nat_alt)
  with 2(5-7) lm buf(2) have got: "rc = 0" "take (unat (the out)) (the buf') = m"
    by (simp_all add: memcpy_def)
  define s' where "s' = s\<lparr>y_ctx := (y_ctx s)(b := g), y_got := upd2 (y_got s) b a (y_got s b a @ [m])\<rparr>"
  have g: "g = Some (set_rx a q c)" using 2(4) by (simp add: q_def)
  have rx: "rx_of (set_rx a q c) y = (if y = a then q else rx_of c y)" for y
    using rx_of_set [OF c(3)] a c(1) by simp
  have "ring_inv (bp_desc_num p) (bp_msg_size p) (link_mem p s a b) (tx_view p s a b) q"
    "ring_contents (bp_desc_num p) (link_mem p s a b) q = ring_contents (bp_desc_num p) (link_mem p s a b) (rx_of c a)"
    using old by (simp_all add: link_state_def q_def ring_inv_def ring_contents_def)
  then have "link_state p (link_mem p s a b) (tx_view p s a b) q (y_sent s a b) (y_got s b a @ [m])"
    using old 2(3) by (simp add: link_state_def) (simp add: q_def)
  moreover have "tx_view p s' a b = tx_view p s a b" "link_mem p s' a b = link_mem p s a b"
    using a by (simp_all add: tx_view_def s'_def link_mem_def split: option.split)
  ultimately have ab: "link_ok p s' a b"
    using g rx by (simp add: link_ok_def rx_view_def s'_def upd2_def)
  have "sys_inv p s'"
  proof (rule sys_inv_update [OF inv 2(1), where c' = "set_rx a q c"])
    have "qindex q = qindex (rx_of c a)" by (simp add: q_def)
    then show "wf_ctx p b (set_rx a q c)" using D(2) rx by (auto simp: wf_ctx_def)
    show "link_ok p s' x y" if "x < ?K" "y < ?K" "x \<noteq> y" for x y
    proof (cases "x = a \<and> y = b")
      case False
      have "tx_view p s' x y = tx_view p s x y" "rx_view p s' x y = rx_view p s x y"
        using False g 2(1) rx [of x] by (auto simp: tx_view_def rx_view_def s'_def split: option.splits)
      with link_frame [OF D(4) [OF that], of s'] False show ?thesis
        by (auto simp: s'_def link_mem_def upd2_def)
    qed (use ab in simp)
  qed (use g in \<open>simp_all add: s'_def\<close>)
  then show ?thesis by (simp add: s'_def got)
qed

lemma sys_step_inv:
  assumes "good_config p" "\<not> bp_force_init p" "bp_notify p = Some n" "sys_step p nf s s'" "sys_inv p s"
  shows "sys_inv p s'"
  using assms(4,5)
proof (cases rule: sys_step.cases)
  case (step_init k e w)
  with step_init_inv [OF assms(1-3) assms(5)] show ?thesis by simp
next
  case (step_send a m b rc shm' g ipis)
  with step_send_inv [OF assms(1,5)] show ?thesis by simp
next
  case (step_ipi k shm' g calls)
  with step_ipi_inv [OF assms(1,5)] show ?thesis by simp
next
  case (step_recv b buf_len buf blocked a timeout rc out buf' g)
  with step_recv_inv [OF assms(1,5)] show ?thesis by simp
qed

lemma ipi_drains:
  assumes p: "good_config p" and inv: "sys_inv p s" and up: "y_ctx s b = Some c" "a < bp_kernels p" "a \<noteq> b"
    and ipi: "mkring_handle_ipi_all (\<lambda>_ _. True) (y_shm s) (y_ctx s b) = (shm', g, calls)"
  obtains c' where "g = Some c'"
    "ring_contents (bp_desc_num p) (shm_queues shm' ! unat (mkring_qindex (bp_kernels p) a b)) (rx_of c' a) = []"
proof -
  note D = sys_invD [OF inv up(1)]
  have old: "ring_inv (bp_desc_num p) (bp_msg_size p) (link_mem p s a b) (tx_view p s a b) (rx_of c a)"
    using D(4) [OF up(2) D(1) up(3)] up(1) by (simp add: link_ok_def link_state_def rx_view_def)
  obtain c' cl n where "g = Some c'" and
    "mkring_process_rx_queue (\<lambda>_. True) (bp_desc_num p) (bp_msg_size p) (link_mem p s a b) (rx_of c a)
       = (shm_queues shm' ! unat (mkring_qindex (bp_kernels p) a b), rx_of c' a, cl, n)"
    using handle_ipi_links [OF p inv up(1) ipi] up(2,3) by metis
  with process_rx_queue_spec [OF old] that show thesis by blast
qed

lemma recv_head:
  assumes "ready c" "\<not> bad_peer c a" "rx_msgs (rx_of c a) = m # rest" "0 < rx_pending (rx_of c a)"
    "length m \<le> unat ms"
  shows "case mkring_recv 0 a (Some (replicate (unat ms) 0)) ms True 0 (Some c) of
      (rc, out, buf, g') \<Rightarrow> rc = 0 \<and> out = Some (of_nat (length m)) \<and> take (length m) (the buf) = m"
proof -
  have len: "unat (of_nat (length m) :: u32) = length m"
    using assms(5) unat_u32_less [of ms] by (simp add: unat_of_nat)
  then have "\<not> ms < of_nat (length m)" using assms(5) by (simp add: word_less_nat_alt)
  with assms len show ?thesis
    by (auto simp: mkring_recv_def Let_def wait_event_def memcpy_def unat_eq_zero)
qed

section \<open>Reachable states\<close>

definition reachable :: "mkring_boot_params \<Rightarrow> (nat \<Rightarrow> u16 \<Rightarrow> u16 \<Rightarrow> int) \<Rightarrow> mk_sys \<Rightarrow> bool" where
  "reachable p nf s \<longleftrightarrow> (sys_step p nf)\<^sup>*\<^sup>* sys_start s"

definition boot_ok :: "mkring_boot_params \<Rightarrow> bool" where
  "boot_ok p \<longleftrightarrow> good_config p \<and> \<not> bp_force_init p \<and> bp_notify p \<noteq> None"

lemma reachable_inv:
  assumes "boot_ok p" "reachable p nf s"
  shows "sys_inv p s"
  using assms(2) unfolding reachable_def
proof (induction rule: rtranclp_induct)
  case base
  show ?case by (rule sys_start_inv)
next
  case (step s s')
  with assms(1) show ?case by (auto simp: boot_ok_def intro: sys_step_inv)
qed

lemma reachable_step: "reachable p nf s \<Longrightarrow> sys_step p nf s s' \<Longrightarrow> reachable p nf s'"
  by (simp add: reachable_def rtranclp.rtrancl_into_rtrancl)

lemma reachable_init:
  assumes p: "boot_ok p" and s: "reachable p nf s" and k: "k < bp_kernels p" "y_ctx s k = None"
  shows "\<exists>s' c. reachable p nf s' \<and> y_ctx s' = (y_ctx s)(k := Some c) \<and> notify c \<noteq> None \<and>
    y_sent s' = y_sent s \<and> y_got s' = y_got s \<and> (\<forall>j. j < bp_kernels p \<and> j \<noteq> k \<longrightarrow> remote_id (rx_of c j) = j)"
proof -
  obtain n where pn: "good_config p" "\<not> bp_force_init p" "bp_notify p = Some n"
    using p by (auto simp: boot_ok_def)
  let ?p = "p\<lparr>bp_kernel_id := k\<rparr>" and ?h = "shm_hdr (y_shm s)"
  let ?e = "\<lparr>ctx_ok = True, remap_ok = True, txq_ok = True, rxq_ok = True, bitmap_ok = (\<lambda>_. True), polls = [],
    waited = y_shm s, set_interf = [], clear_interf = []\<rparr>"
  have e: "env_ok ?e" by (simp add: env_ok_def)
  have st: "hdr_init_state ?h = MKRING_SHM_UNINIT \<or>
      hdr_init_state ?h = MKRING_SHM_READY \<and> mkring_hdr_compatible (ctx_of ?p) ?h"
    using reachable_inv [OF p s] by (auto simp: sys_inv_def hdr_ok_def split: if_splits)
  obtain c w where "mkring_init ?e (Some ?p) \<lparr>w_shm = y_shm s, w_region = False, w_mkring = None\<rparr> = Some (0, w)"
    "w_mkring w = Some c" "notify c = Some n" "\<forall>j. j < bp_kernels p \<and> j \<noteq> k \<longrightarrow> remote_id (rx_of c j) = j"
    using mkring_init_ok [OF good_config_kid [OF pn(1) k(1)] _ e _ st] pn(2,3) by (auto simp: fresh_rx_def queue_view_def)
  with reachable_step [OF s step_init [OF k e]] show ?thesis
    by (intro exI [of _ "s\<lparr>y_shm := w_shm w, y_ctx := (y_ctx s)(k := w_mkring w)\<rparr>"] exI [of _ c]) simp
qed

lemma send_outcome:
  assumes p: "good_config p" and inv: "sys_inv p s" and up: "y_ctx s a = Some ca" "y_ctx s b = Some cb" "a \<noteq> b"
    and n: "notify ca = Some n" and m: "length m \<le> unat (bp_msg_size p)"
  shows "case mkring_send nf b (Some m) (of_nat (length m)) (y_shm s) (Some ca) of (rc, shm', g, ipis) \<Rightarrow>
    if length (ring_contents (bp_desc_num p) (link_mem p s a b) (rx_of cb a)) = unat (bp_desc_num p)
    then rc = - EAGAIN \<and> ipis = [] else rc = nf n a b \<and> ipis = [(a, b)]"
proof -
  let ?K = "bp_kernels p" and ?q = "tx_of ca b"
  note D = sys_invD [OF inv up(1)]
  have b: "b < ?K" using sys_invD(1) [OF inv up(2)] .
  have c: "kernels ca = ?K" "local_id ca = a" "desc_num ca = bp_desc_num p" "msg_size ca = bp_msg_size p" "ready ca"
    and qi: "qindex ?q = mkring_qindex ?K a b"
    using D(2) b up(3) by (auto simp: wf_ctx_def)
  have "unat b < 32" using b good_config_layout(4) [OF p] by (simp add: word_less_nat_alt)
  then have bit: "and (hdr_ready_bitmap (shm_hdr (y_shm s))) (BIT b) \<noteq> 0"
    using D(3) b up(2) by (simp add: hdr_ok_def and_BIT_eq_0)
  have len: "unat (of_nat (length m) :: u32) = length m"
    using m unat_u32_less [of "bp_msg_size p"] by (simp add: unat_of_nat)
  have fits: "of_nat (length m) \<le> bp_msg_size p" using m len by (simp add: word_le_nat_alt)
  have old: "ring_inv (bp_desc_num p) (bp_msg_size p) (link_mem p s a b) ?q (rx_of cb a)"
    using D(4) [OF D(1) b up(3)] up by (simp add: link_ok_def link_state_def tx_view_def rx_view_def)
  obtain rc0 v' q' where enq:
    "mkring_tx_enqueue (bp_desc_num p) (link_mem p s a b) ?q m (of_nat (length m)) = (rc0, v', q')"
    by (metis prod_cases3)
  have "queue_mem (y_shm s) ?q = link_mem p s a b" by (simp add: queue_mem_def link_mem_def qi)
  then show ?thesis
    using tx_enqueue_spec [OF old fits _ enq] len enq c n bit fits b up(3)
    by (auto simp: mkring_send_def Let_def bad_peer_def not_le not_less split: if_splits)
qed

section \<open>A concrete machine\<close>

definition boot2 :: mkring_boot_params where
  "boot2 = \<lparr>bp_shm_phys = 0x40000000, bp_shm_size = 0x100000, bp_kernel_id = 0, bp_kernels = 2,
     bp_desc_num = 4, bp_msg_size = 8, bp_force_init = False, bp_notify = Some 0\<rparr>"

lemma boot2_layout: "\<exists>L. mkring_calc_layout 4 8 = Inr L \<and> queue_size L = 4096"
  by (simp add: mkring_calc_layout_def check_mul_overflow_def check_add_overflow_def ALIGN_def Let_def)

lemma boot2_ok: "boot_ok boot2"
  using boot2_layout by (auto simp: boot_ok_def good_config_def boot2_def bad_params_def)

lemma boot2_up:
  "\<exists>s c0 c1. reachable boot2 nf s \<and> y_ctx s 0 = Some c0 \<and> y_ctx s 1 = Some c1 \<and> notify c0 \<noteq> None \<and>
     y_sent s 0 1 = [] \<and> y_got s 1 0 = []"
proof -
  have "reachable boot2 nf sys_start" by (simp add: reachable_def)
  from reachable_init [OF boot2_ok this, of 0] obtain s c0 where
    s: "reachable boot2 nf s" "y_ctx s = (y_ctx sys_start)(0 := Some c0)" "notify c0 \<noteq> None"
      "y_sent s = y_sent sys_start" "y_got s = y_got sys_start"
    by (auto simp: boot2_def sys_start_def)
  from reachable_init [OF boot2_ok this(1), of 1] s(2) obtain s' c1 where
    "reachable boot2 nf s'" "y_ctx s' = (y_ctx s)(1 := Some c1)" "y_sent s' = y_sent s" "y_got s' = y_got s"
    by (auto simp: boot2_def sys_start_def)
  with s show ?thesis by (intro exI [of _ s'] exI [of _ c0] exI [of _ c1]) (simp add: sys_start_def)
qed

text \<open>Kernel 0 has sent one message to kernel 1, which has not looked yet.\<close>

lemma boot2_sent:
  "\<exists>s c1. reachable boot2 nf s \<and> y_ctx s 1 = Some c1 \<and> y_sent s 0 1 = [[42]] \<and> y_got s 1 0 = []"
proof -
  obtain s c0 c1 n where s: "reachable boot2 nf s" "y_ctx s 0 = Some c0" "y_ctx s 1 = Some c1" "notify c0 = Some n"
    "y_sent s 0 1 = []" "y_got s 1 0 = []"
    using boot2_up [of nf] by auto
  have inv: "sys_inv boot2 s" by (rule reachable_inv [OF boot2_ok s(1)])
  have good: "good_config boot2" using boot2_ok by (simp add: boot_ok_def)
  have "link_ok boot2 s 0 1" using sys_invD(4) [OF inv s(2), of 0 1] by (simp add: boot2_def)
  then have "ring_contents (bp_desc_num boot2) (link_mem boot2 s 0 1) (rx_of c1 0) = []"
    using s by (simp add: link_ok_def link_state_def rx_view_def)
  moreover obtain rc shm' g ipis where
    send: "mkring_send nf 1 (Some [42]) (of_nat (length [42 :: u8])) (y_shm s) (y_ctx s 0) = (rc, shm', g, ipis)"
    by (metis prod_cases4)
  ultimately have "ipis = [(0, 1)]"
    using send_outcome [OF good inv s(2,3) _ s(4), of "[42]" nf] s(2) by (simp add: boot2_def)
  moreover have "(0 :: u16) < bp_kernels boot2" by (simp add: boot2_def)
  ultimately have "reachable boot2 nf (s\<lparr>y_shm := shm', y_ctx := (y_ctx s)(0 := g),
       y_sent := upd2 (y_sent s) 0 1 (y_sent s 0 1 @ [[42]])\<rparr>)" (is "reachable _ _ ?s'")
    using reachable_step [OF s(1) step_send [OF _ _ send]] by simp
  moreover have "y_ctx ?s' 1 = Some c1" "y_sent ?s' 0 1 = [[42]]" "y_got ?s' 1 0 = []"
    using s(3,5,6) by (simp_all add: upd2_def)
  ultimately show ?thesis by blast
qed

section \<open>Properties of the machine\<close>







text \<open>
  The queue blocks of different ordered pairs of kernels never share a byte, and each lies
  behind the header and inside the shared region, for every accepted configuration.
\<close>

theorem queue_blocks_disjoint:
  assumes "good_config p" "a < bp_kernels p" "b < bp_kernels p" "a' < bp_kernels p" "b' < bp_kernels p"
    "(a, b) \<noteq> (a', b')"
  defines "blk \<equiv> \<lambda>x y. {unat (queue_off (ctx_of p) (mkring_qindex (bp_kernels p) x y)) ..<
      unat (queue_off (ctx_of p) (mkring_qindex (bp_kernels p) x y)) + unat (queue_size (cfg_layout p))}"
  shows "blk a b \<inter> blk a' b' = {} \<and> blk a b \<subseteq> {64 ..< unat (bp_shm_size p)}"
proof -
  let ?i = "unat (mkring_qindex (bp_kernels p) a b)" and ?j = "unat (mkring_qindex (bp_kernels p) a' b')"
  let ?Q = "unat (queue_size (cfg_layout p))"
  note lay = good_config_layout [OF assms(1)]
  have "?i \<noteq> ?j" using qindex_inj [OF lay(4) assms(2-5)] assms(6) by auto
  then have "{64 + ?i * ?Q ..< 64 + ?i * ?Q + ?Q} \<inter> {64 + ?j * ?Q ..< 64 + ?j * ?Q + ?Q} = {}"
    using stripes_disjoint [of ?i ?j 64 ?Q] by (simp add: mult.commute)
  moreover have "64 + ?i * ?Q + ?Q \<le> unat (bp_shm_size p)"
    using unat_queue_off [OF assms(1-3)] lay(3) by simp
  ultimately show ?thesis
    unfolding blk_def unat_queue_off(1) [OF assms(1-3)] unat_queue_off(1) [OF assms(1,4,5)] by auto
qed

theorem queue_blocks_disjoint_witness:
  "unat (queue_off (ctx_of boot2) (mkring_qindex 2 0 1)) = 64 + 4096 \<and>
   {4160 ..< 8256} \<inter> {8256 ..< 12352} = ({} :: nat set) \<and> {4160 ..< 8256} \<subseteq> {64 ..< 0x100000 :: nat}"
proof -
  have good: "good_config boot2" using boot2_ok by (simp add: boot_ok_def)
  have qs: "queue_size (cfg_layout boot2) = 4096"
    using boot2_layout by (auto simp: cfg_layout_def boot2_def)
  have off: "unat (queue_off (ctx_of boot2) (mkring_qindex 2 0 1)) = 4160"
    "unat (queue_off (ctx_of boot2) (mkring_qindex 2 1 0)) = 8256"
    using unat_queue_off(1) [OF good, of 0 1] unat_queue_off(1) [OF good, of 1 0] qs
    by (simp_all add: boot2_def mkring_qindex_def)
  with queue_blocks_disjoint [OF good, of 0 1 1 0] show ?thesis
    by (simp add: qs boot2_def)
qed

text \<open>
  C32. When the array of send queues cannot be allocated but the array of receive queues can, the
  error path of \<^verbatim>\<open>mkring_init\<close> walks the message lists of receive queues whose list heads are still
  zero, and dereferences NULL, for every machine of at least two kernels.
\<close>

theorem init_oom_faults:
  assumes "boot_ok p" "2 \<le> bp_kernels p" "ctx_ok e" "remap_ok e" "rxq_ok e" "\<not> txq_ok e" "set_interf e = []"
    and "hdr_init_state (shm_hdr s) = MKRING_SHM_UNINIT"
  shows "mkring_init e (Some p) \<lparr>w_shm = s, w_region = False, w_mkring = None\<rparr> = None"
proof -
  have p: "good_config p" "\<not> bp_force_init p" using assms(1) by (simp_all add: boot_ok_def)
  have "\<exists>k. k \<noteq> bp_kernel_id p \<and> k < bp_kernels p"
  proof (cases "bp_kernel_id p = 0")
    case True
    then show ?thesis using assms(2) by (intro exI [of _ 1]) (simp add: word_le_nat_alt word_less_nat_alt)
  next
    case False
    then show ?thesis using assms(2) by (intro exI [of _ 0]) (auto simp: word_le_nat_alt word_less_nat_alt)
  qed
  then obtain k where k: "k \<noteq> bp_kernel_id p" "k < bp_kernels p" by blast
  define c where "c = alloc_queues e (ctx_of p)"
  have "\<not> rxq_lists c ! unat k" "\<not> bad_peer c k" "rxq c \<noteq> None"
    using k assms(5)
    by (simp_all add: c_def alloc_queues_def ctx_of_def new_ctx_def Let_def bad_peer_def word_less_nat_alt
        word_le_nat_alt)
  then have "mkring_release_ctx gs (Some c) w = None" for gs w
    by (auto simp: mkring_release_ctx_def)
  moreover have cp: "ctx_of p = (new_ctx p (cfg_layout p))\<lparr>hdr_len := ALIGN sizeof_mkring_shm_hdr 64, shm_res := True, shm_base := True, hdr_set := True\<rparr>"
    by (simp add: ctx_of_def hdr_len_64)
  moreover have "txq c = None" using assms(6) by (simp add: c_def alloc_queues_def Let_def)
  ultimately show ?thesis
    using good_config_layout(1,7) [OF p(1)] assms(3,4,7) prepare_shared_ok [OF p, of s] assms(8)
    unfolding mkring_init_def cp [symmetric]
    by (simp add: Let_def flip: cp c_def)
qed

theorem init_oom_faults_witness:
  "mkring_init \<lparr>ctx_ok = True, remap_ok = True, txq_ok = False, rxq_ok = True, bitmap_ok = (\<lambda>_. True), polls = [],
       waited = \<lparr>shm_hdr = zero_hdr, shm_queues = []\<rparr>, set_interf = [], clear_interf = []\<rparr>
     (Some boot2) \<lparr>w_shm = \<lparr>shm_hdr = zero_hdr, shm_queues = []\<rparr>, w_region = False, w_mkring = None\<rparr> = None"
  by (rule init_oom_faults [OF boot2_ok]) (simp_all add: boot2_def zero_hdr_def)

end
