(* ===== verification/TransportSyscall.thy ===== *)
theory TransportSyscall
  imports Demux MkSystem
begin

text \<open>
  The transport system call of \<^verbatim>\<open>mkring/mkring_transport_syscall.c\<close> with the structures of
  \<^verbatim>\<open>mkring_transport_uapi.h\<close>: per-channel receive queues filled by the demultiplexer, the send and
  receive operations and their dispatch on user memory. The kernel state gathers the shared
  memory, the ring context, the demultiplexer and the transport.
\<close>

section \<open>State\<close>

abbreviation (input) MKRING_TRANSPORT_MAX_MESSAGE :: u32 where "MKRING_TRANSPORT_MAX_MESSAGE \<equiv> 1024"
abbreviation (input) MKRING_TRANSPORT_OP_SEND :: u32 where "MKRING_TRANSPORT_OP_SEND \<equiv> 1"
abbreviation (input) MKRING_TRANSPORT_OP_RECV :: u32 where "MKRING_TRANSPORT_OP_RECV \<equiv> 2"

record mkct_msg_node =
  node_peer :: u16
  node_len :: u32
  node_message :: bytes

record mkct_rx_queue =
  messages :: "mkct_msg_node list"
  pending :: int

record mkct_ctx =
  t_info :: mkring_info
  t_started :: bool
  t_stopping :: bool
  t_queues :: "mkct_rx_queue list"
  t_rx_ok :: u64
  t_rx_bad :: u64
  t_tx_ok :: u64
  t_tx_fail :: u64

record mkring_transport_send =
  snd_peer :: u16
  snd_channel :: u16
  snd_len :: u32
  snd_message :: bytes

record mkring_transport_recv =
  rcv_peer :: u16
  rcv_channel :: u16
  rcv_timeout_ms :: u32
  rcv_len :: u32
  rcv_message :: bytes

record mk_kernel =
  k_shm :: mkring_shm
  k_mkring :: "mkring_ctx option"
  k_demux :: mkring_demux_ctx
  k_mkct :: mkct_ctx

definition zero_mkct :: mkct_ctx where
  "zero_mkct = \<lparr>t_info = zero_info, t_started = False, t_stopping = False,
     t_queues = replicate 5 \<lparr>messages = [], pending = 0\<rparr>, t_rx_ok = 0, t_rx_bad = 0, t_tx_ok = 0, t_tx_fail = 0\<rparr>"

section \<open>Receive queues\<close>

definition mkct_supported_channel :: "u16 \<Rightarrow> bool" where
  "mkct_supported_channel ch \<longleftrightarrow> ch = ucast MKRING_CHANNEL_CONTAINER \<or> ch = ucast MKRING_CHANNEL_STREAM \<or>
     ch = ucast MKRING_CHANNEL_NET"

definition mkct_valid_peer :: "mkct_ctx \<Rightarrow> u16 \<Rightarrow> bool" where
  "mkct_valid_peer t peer \<longleftrightarrow> peer < info_kernels (t_info t) \<and> peer \<noteq> info_local_id (t_info t)"

definition mkct_valid_message :: "bytes option \<Rightarrow> u32 \<Rightarrow> bool" where
  "mkct_valid_message data len =
    (if MKRING_TRANSPORT_MAX_MESSAGE < len then False
     else case data of
       None \<Rightarrow> False
     | Some bs \<Rightarrow>
         if len < 6 then False
         else if prefix_magic bs \<noteq> MKRING_PROTO_MAGIC then False
         else if prefix_version bs \<noteq> MKRING_PROTO_VERSION then False
         else if \<not> mkct_supported_channel (ucast (prefix_channel bs)) then False
         else True)"

definition mkct_queue_init :: mkct_rx_queue where
  "mkct_queue_init = \<lparr>messages = [], pending = 0\<rparr>"

definition mkct_pop_message :: "mkct_rx_queue \<Rightarrow> mkct_msg_node option \<times> mkct_rx_queue" where
  "mkct_pop_message q =
    (case messages q of
       [] \<Rightarrow> (None, q)
     | n # rest \<Rightarrow> (Some n, q\<lparr>messages := rest, pending := pending q - 1\<rparr>))"

definition mkct_queue_message :: "mkct_rx_queue \<Rightarrow> mkct_msg_node \<Rightarrow> mkct_rx_queue" where
  "mkct_queue_message q n = q\<lparr>messages := messages q @ [n], pending := pending q + 1\<rparr>"

definition mkct_demux_validate :: "bool \<Rightarrow> bytes option \<Rightarrow> u32 \<Rightarrow> bool" where
  "mkct_demux_validate have_ctx data len = (if \<not> have_ctx \<or> data = None then False else mkct_valid_message data len)"

text \<open>\<open>ok\<close> tells whether the node could be allocated; the node's message array is zeroed first.\<close>

definition mkct_demux_rx :: "bool \<Rightarrow> u16 \<Rightarrow> bytes option \<Rightarrow> u32 \<Rightarrow> mkct_ctx \<Rightarrow> mkct_ctx" where
  "mkct_demux_rx ok src_kid data len t =
    (if data = None \<or> \<not> mkct_valid_peer t src_kid \<or> \<not> mkct_valid_message data len
     then t\<lparr>t_rx_bad := t_rx_bad t + 1\<rparr>
     else let ch = prefix_channel (the data) in
       if \<not> mkct_supported_channel (ucast ch) then t\<lparr>t_rx_bad := t_rx_bad t + 1\<rparr>
       else if \<not> ok then t\<lparr>t_rx_bad := t_rx_bad t + 1\<rparr>
       else
         let node = \<lparr>node_peer = src_kid, node_len = len,
                     node_message = memcpy (replicate 1024 0) (the data) (unat len)\<rparr>
         in t\<lparr>t_rx_ok := t_rx_ok t + 1,
              t_queues := (t_queues t)[unat ch := mkct_queue_message (t_queues t ! unat ch) node]\<rparr>)"

section \<open>Start\<close>

text \<open>The numbers that stand for \<^verbatim>\<open>mkct_demux_validate\<close>, \<^verbatim>\<open>mkct_demux_rx\<close> and \<^verbatim>\<open>&mkct\<close>.\<close>

abbreviation (input) MKCT_VALIDATE :: nat where "MKCT_VALIDATE \<equiv> 1"
abbreviation (input) MKCT_RX :: nat where "MKCT_RX \<equiv> 2"
abbreviation (input) MKCT_PRIV :: nat where "MKCT_PRIV \<equiv> 1"

definition mkct_demux_ops :: mkring_demux_ops where
  "mkct_demux_ops = \<lparr>ops_validate = Some MKCT_VALIDATE, ops_rx = Some MKCT_RX\<rparr>"

definition reg_channel :: "u8 \<Rightarrow> mk_kernel \<Rightarrow> int \<times> mk_kernel" where
  "reg_channel ch k =
    (case mkring_demux_register_channel ch (Some mkct_demux_ops) MKCT_PRIV (k_shm k) (k_mkring k) (k_demux k) of
       (ret, g, d) \<Rightarrow> (ret, k\<lparr>k_mkring := g, k_demux := d\<rparr>))"

definition unreg_channel :: "u8 \<Rightarrow> mk_kernel \<Rightarrow> mk_kernel" where
  "unreg_channel ch k = k\<lparr>k_demux := mkring_demux_unregister_channel ch (k_demux k)\<rparr>"

definition mkct_register_demux :: "mk_kernel \<Rightarrow> int \<times> mk_kernel" where
  "mkct_register_demux k =
    (case reg_channel MKRING_CHANNEL_CONTAINER k of
       (ret, k1) \<Rightarrow>
         if ret \<noteq> 0 then (ret, k1)
         else case reg_channel MKRING_CHANNEL_STREAM k1 of
           (ret, k2) \<Rightarrow>
             if ret \<noteq> 0 then (ret, unreg_channel MKRING_CHANNEL_CONTAINER k2)
             else case reg_channel MKRING_CHANNEL_NET k2 of
               (ret, k3) \<Rightarrow>
                 if ret \<noteq> 0
                 then (ret, unreg_channel MKRING_CHANNEL_CONTAINER (unreg_channel MKRING_CHANNEL_STREAM k3))
                 else (0, k3))"

definition mkct_ensure_started :: "mk_kernel \<Rightarrow> int \<times> mk_kernel" where
  "mkct_ensure_started k =
    (if t_started (k_mkct k) then (0, k)
     else case mkring_get_info True (k_shm k) (k_mkring k) of
       Inl ret \<Rightarrow> (ret, k\<lparr>k_mkct := zero_mkct\<rparr>)
     | Inr info \<Rightarrow>
         let t = zero_mkct\<lparr>t_info := info\<rparr> in
         if info_msg_size info < 28 then (- EMSGSIZE, k\<lparr>k_mkct := t\<rparr>)
         else
           let qs = (t_queues t)[unat MKRING_CHANNEL_CONTAINER := mkct_queue_init,
                                 unat MKRING_CHANNEL_STREAM := mkct_queue_init,
                                 unat MKRING_CHANNEL_NET := mkct_queue_init];
               t1 = t\<lparr>t_queues := qs, t_rx_ok := 0, t_rx_bad := 0, t_tx_ok := 0, t_tx_fail := 0\<rparr>
           in case mkct_register_demux (k\<lparr>k_mkct := t1\<rparr>) of
             (ret, k') \<Rightarrow>
               if ret \<noteq> 0 then (ret, k')
               else (0, k'\<lparr>k_mkct := (k_mkct k')\<lparr>t_started := True\<rparr>\<rparr>))"

section \<open>Send and receive\<close>

definition mkct_send ::
    "(nat \<Rightarrow> u16 \<Rightarrow> u16 \<Rightarrow> int) \<Rightarrow> mkring_transport_send \<Rightarrow> mk_kernel \<Rightarrow> int \<times> mk_kernel \<times> (u16 \<times> u16) list" where
  "mkct_send nf req k =
    (if \<not> mkct_valid_peer (k_mkct k) (snd_peer req) then (- EINVAL, k, [])
     else if \<not> mkct_supported_channel (snd_channel req) then (- EINVAL, k, [])
     else if snd_len req = 0 \<or> MKRING_TRANSPORT_MAX_MESSAGE < snd_len req then (- EMSGSIZE, k, [])
     else if \<not> mkct_valid_message (Some (snd_message req)) (snd_len req) then (- EPROTO, k, [])
     else if ucast (prefix_channel (snd_message req)) \<noteq> snd_channel req then (- EINVAL, k, [])
     else case mkring_send nf (snd_peer req) (Some (snd_message req)) (snd_len req) (k_shm k) (k_mkring k) of
       (ret, s, g, ipis) \<Rightarrow>
         let k1 = k\<lparr>k_shm := s, k_mkring := g\<rparr> in
         if ret \<noteq> 0 then (ret, k1\<lparr>k_mkct := (k_mkct k1)\<lparr>t_tx_fail := t_tx_fail (k_mkct k1) + 1\<rparr>\<rparr>, ipis)
         else (0, k1\<lparr>k_mkct := (k_mkct k1)\<lparr>t_tx_ok := t_tx_ok (k_mkct k1) + 1\<rparr>\<rparr>, ipis))"

text \<open>
  \<open>blocked\<close> is how the wait ends when the condition does not hold. Without a timeout a wait that is
  not interrupted returns 0.
\<close>

definition mkct_recv ::
    "int \<Rightarrow> mkring_transport_recv \<Rightarrow> mkct_ctx \<Rightarrow> int \<times> mkring_transport_recv \<times> mkct_ctx" where
  "mkct_recv blocked req t =
    (if \<not> mkct_supported_channel (rcv_channel req) then (- EINVAL, req, t)
     else
       let qi = unat (rcv_channel req);
           queue = t_queues t ! qi;
           cond = (0 < pending queue \<or> t_stopping t);
           wret = (if rcv_timeout_ms req = 0 then (if cond then 0 else blocked)
                   else wait_event cond (uint (rcv_timeout_ms req)) blocked)
       in if wret < 0 then (wret, req, t)
          else if rcv_timeout_ms req \<noteq> 0 \<and> wret = 0 then (- ETIMEDOUT, req, t)
          else if t_stopping t then (- ESHUTDOWN, req, t)
          else case mkct_pop_message queue of
            (None, q') \<Rightarrow> (- EAGAIN, req, t\<lparr>t_queues := (t_queues t)[qi := q']\<rparr>)
          | (Some node, q') \<Rightarrow>
              (0, req\<lparr>rcv_peer := node_peer node, rcv_len := node_len node,
                     rcv_message := memcpy (rcv_message req) (node_message node) (unat (node_len node))\<rparr>,
               t\<lparr>t_queues := (t_queues t)[qi := q']\<rparr>))"

section \<open>System call\<close>

text \<open>The packed user structures: 1032 bytes to send, 1036 bytes to receive.\<close>

definition dec_send :: "bytes \<Rightarrow> mkring_transport_send" where
  "dec_send bs = \<lparr>snd_peer = dec_le (field 0 2 bs), snd_channel = dec_le (field 2 2 bs),
     snd_len = dec_le (field 4 4 bs), snd_message = field 8 1024 bs\<rparr>"

definition enc_send :: "mkring_transport_send \<Rightarrow> bytes" where
  "enc_send r = enc_le 2 (snd_peer r) @ enc_le 2 (snd_channel r) @ enc_le 4 (snd_len r) @ snd_message r"

definition dec_recv :: "bytes \<Rightarrow> mkring_transport_recv" where
  "dec_recv bs = \<lparr>rcv_peer = dec_le (field 0 2 bs), rcv_channel = dec_le (field 2 2 bs),
     rcv_timeout_ms = dec_le (field 4 4 bs), rcv_len = dec_le (field 8 4 bs), rcv_message = field 12 1024 bs\<rparr>"

definition enc_recv :: "mkring_transport_recv \<Rightarrow> bytes" where
  "enc_recv r = enc_le 2 (rcv_peer r) @ enc_le 2 (rcv_channel r) @ enc_le 4 (rcv_timeout_ms r) @
     enc_le 4 (rcv_len r) @ rcv_message r"

text \<open>
  \<open>arg\<close> is the user memory the pointer names, \<open>None\<close> for NULL; \<open>rd\<close> and \<open>wr\<close> tell whether copying from
  and to it succeeds. The result has the return value, the user memory and the kernel.
\<close>

definition mkct_dispatch_user ::
    "(nat \<Rightarrow> u16 \<Rightarrow> u16 \<Rightarrow> int) \<Rightarrow> int \<Rightarrow> bool \<Rightarrow> bool \<Rightarrow> u32 \<Rightarrow> bytes option \<Rightarrow> mk_kernel \<Rightarrow>
     int \<times> bytes option \<times> mk_kernel \<times> (u16 \<times> u16) list" where
  "mkct_dispatch_user nf blocked rd wr op arg k =
    (case arg of
       None \<Rightarrow> (- EINVAL, arg, k, [])
     | Some mem \<Rightarrow>
         if op = MKRING_TRANSPORT_OP_SEND then
           (if \<not> rd then (- EFAULT, arg, k, [])
            else case mkct_send nf (dec_send mem) k of (ret, k', ipis) \<Rightarrow> (ret, arg, k', ipis))
         else if op = MKRING_TRANSPORT_OP_RECV then
           (if \<not> rd then (- EFAULT, arg, k, [])
            else case mkct_recv blocked (dec_recv mem) (k_mkct k) of
              (ret, req, t) \<Rightarrow>
                let k' = k\<lparr>k_mkct := t\<rparr> in
                if ret \<noteq> 0 then (ret, arg, k', [])
                else if \<not> wr then (- EFAULT, arg, k', [])
                else (0, Some (enc_recv req), k', []))
         else (- EINVAL, arg, k, []))"

definition sys_mkring_transport ::
    "(nat \<Rightarrow> u16 \<Rightarrow> u16 \<Rightarrow> int) \<Rightarrow> int \<Rightarrow> bool \<Rightarrow> bool \<Rightarrow> u32 \<Rightarrow> bytes option \<Rightarrow> mk_kernel \<Rightarrow>
     int \<times> bytes option \<times> mk_kernel \<times> (u16 \<times> u16) list" where
  "sys_mkring_transport nf blocked rd wr op arg k =
    (case mkct_ensure_started k of
       (ret, k1) \<Rightarrow> if ret \<noteq> 0 then (ret, arg, k1, []) else mkct_dispatch_user nf blocked rd wr op arg k1)"

text \<open>
  What the receive callback of the ring runs: the demultiplexer, and through its handler the
  receive function of the transport.
\<close>

definition mkct_validators :: "nat \<Rightarrow> nat \<Rightarrow> bytes \<Rightarrow> u32 \<Rightarrow> bool" where
  "mkct_validators f p bs len \<longleftrightarrow> f = MKCT_VALIDATE \<and> mkct_demux_validate (p = MKCT_PRIV) (Some bs) len"

definition run_rx_call :: "bool \<Rightarrow> rx_call \<Rightarrow> mk_kernel \<Rightarrow> mk_kernel" where
  "run_rx_call ok call k =
    (if call_cb call \<noteq> DEMUX_CB then k
     else case mkring_demux_rx_cb mkct_validators (k_demux k) (call_src call) (Some (call_data call))
                 (of_nat (length (call_data call))) of
       None \<Rightarrow> k
     | Some (rx, src, data, len, p) \<Rightarrow>
         if rx = MKCT_RX \<and> p = MKCT_PRIV then k\<lparr>k_mkct := mkct_demux_rx ok src (Some data) len (k_mkct k)\<rparr> else k)"

section \<open>The receive queue as a channel\<close>

definition mkct_push :: "mkct_msg_node \<Rightarrow> mkct_rx_queue \<Rightarrow> int \<times> mkct_rx_queue" where
  "mkct_push n q = (0, mkct_queue_message q n)"

definition mkct_queue_ok :: "mkct_rx_queue \<Rightarrow> bool" where
  "mkct_queue_ok q \<longleftrightarrow> pending q = int (length (messages q))"

interpretation mkctq: fifo_chan mkct_queue_ok messages "\<lambda>n. n" mkct_push mkct_pop_message
  by unfold_locales
    (auto simp: mkct_queue_ok_def mkct_push_def mkct_queue_message_def mkct_pop_message_def split: list.splits)

section \<open>Structures on user memory\<close>

lemma dec_enc_send:
  "length (snd_message r) = 1024 \<Longrightarrow> dec_send (enc_send r) = r"
  by (simp add: dec_send_def enc_send_def field_append)

lemma dec_enc_recv:
  "length (rcv_message r) = 1024 \<Longrightarrow> dec_recv (enc_recv r) = r"
  by (simp add: dec_recv_def enc_recv_def field_append)

section \<open>A started transport\<close>

definition mkct_handler :: mkring_demux_handler where
  "mkct_handler = \<lparr>registered = True, ops = mkct_demux_ops, priv = MKCT_PRIV\<rparr>"

text \<open>The transport runs and the demultiplexer routes its three channels to it.\<close>

definition mkct_hooked :: "mk_kernel \<Rightarrow> bool" where
  "mkct_hooked k \<longleftrightarrow> t_started (k_mkct k) \<and> \<not> t_stopping (k_mkct k) \<and> length (t_queues (k_mkct k)) = 5 \<and>
     (\<forall>q\<in>set (t_queues (k_mkct k)). mkct_queue_ok q) \<and>
     d_started (k_demux k) \<and> length (handlers (k_demux k)) = 256 \<and>
     (\<forall>ch :: u8. mkct_supported_channel (ucast ch) \<longrightarrow> handlers (k_demux k) ! unat ch = mkct_handler) \<and>
     (\<forall>p. mkring_demux_valid_peer (k_demux k) p = mkct_valid_peer (k_mkct k) p)"

lemma replicate_update: "(replicate n x)[i := x] = replicate n x"
  by (metis length_replicate list_update_beyond list_update_id not_less nth_replicate)

lemma unat_ucast_u8_u16: "unat (ucast (x :: u8) :: u16) = unat x"
  using unsigned_less [of x, where 'a = nat] by (simp add: unsigned_ucast_eq take_bit_eq_mod)

lemma supported_channels: "mkct_supported_channel (ucast ch) \<longleftrightarrow> ch = 1 \<or> ch = 3 \<or> ch = 4" for ch :: u8
  by (simp add: mkct_supported_channel_def word_unat_eq_iff unat_ucast_u8_u16)

lemma started_register:
  assumes "d_started (k_demux k)" "\<not> registered (handlers (k_demux k) ! unat ch)" "ch \<noteq> 0"
  shows "reg_channel ch k = (0, k\<lparr>k_demux := (k_demux k)\<lparr>handlers := (handlers (k_demux k))[unat ch := mkct_handler]\<rparr>\<rparr>)"
  using assms
  by (simp add: reg_channel_def mkring_demux_register_channel_def mkring_demux_init_def mkct_demux_ops_def
      mkct_handler_def)

text \<open>
  The first system call on a kernel that is up, with nobody else on the transport's channels,
  starts the whole receive path: the ring calls the demultiplexer for every peer, the
  demultiplexer routes the container, stream and network channels to the transport, and the
  transport's queues are empty.
\<close>

theorem ensure_started_hooks:
  assumes "\<not> t_started (k_mkct k)" "\<not> d_started (k_demux k)" "k_mkring k = Some c" "ready c" "has_queues c"
    "unat (kernels c) \<le> 32" "28 \<le> msg_size c"
  shows "case mkct_ensure_started k of (rc, k') \<Rightarrow> rc = 0 \<and> mkct_hooked k' \<and> k_shm k' = k_shm k \<and>
    (\<forall>q\<in>set (t_queues (k_mkct k')). messages q = []) \<and>
    (\<exists>c'. k_mkring k' = Some c' \<and> txq c' = txq c \<and>
       (\<forall>p. rx_of c' p = (if bad_peer c p then rx_of c p else (rx_of c p)\<lparr>rx_cb := Some DEMUX_CB\<rparr>)))"
proof -
  define info where "info = \<lparr>info_local_id = local_id c, info_kernels = kernels c, info_desc_num = desc_num c,
                   info_msg_size = msg_size c, info_ready_bitmap = hdr_ready_bitmap (shm_hdr (k_shm k))\<rparr>"
  define t where "t = zero_mkct\<lparr>t_info := info\<rparr>"
  define k0 where "k0 = k\<lparr>k_mkct := t\<rparr>"
  obtain c' d where init: "mkring_demux_init (k_shm k) (Some c) (k_demux k) = (0, Some c', d)"
    and d: "d_started d" "handlers d = replicate 256 zero_handler" "info_local_id (d_info d) = local_id c"
      "info_kernels (d_info d) = kernels c" and c': "txq c' = txq c"
    and rx: "\<And>p. rx_of c' p = (if bad_peer c p then rx_of c p else (rx_of c p)\<lparr>rx_cb := Some DEMUX_CB\<rparr>)"
    using demux_init_spec [OF assms(2,4-6), of "k_shm k"] by auto
  define k1 where "k1 = k0\<lparr>k_mkring := Some c', k_demux := d\<lparr>handlers := (handlers d)[1 := mkct_handler]\<rparr>\<rparr>"
  define k2 where "k2 = k1\<lparr>k_demux := d\<lparr>handlers := (handlers d)[1 := mkct_handler, 3 := mkct_handler]\<rparr>\<rparr>"
  define k3 where "k3 = k1\<lparr>k_demux := d\<lparr>handlers := (handlers d)[1 := mkct_handler, 3 := mkct_handler, 4 := mkct_handler]\<rparr>\<rparr>"
  have zero: "\<not> registered zero_handler" by (simp add: zero_handler_def)
  have r1: "reg_channel MKRING_CHANNEL_CONTAINER k0 = (0, k1)"
    using init assms(3) d(2) zero
    by (simp add: reg_channel_def mkring_demux_register_channel_def mkct_demux_ops_def mkct_handler_def k0_def k1_def)
  have r2: "reg_channel MKRING_CHANNEL_STREAM k1 = (0, k2)"
    using d(1,2) zero by (subst started_register) (simp_all add: k1_def k2_def)
  have r3: "reg_channel MKRING_CHANNEL_NET k2 = (0, k3)"
    using d(1,2) zero by (subst started_register) (simp_all add: k1_def k2_def k3_def)
  have reg: "mkct_register_demux k0 = (0, k3)"
    by (simp add: mkct_register_demux_def r1 r2 r3)
  have qs: "t\<lparr>t_queues := (t_queues t)[unat MKRING_CHANNEL_CONTAINER := mkct_queue_init,
      unat MKRING_CHANNEL_STREAM := mkct_queue_init, unat MKRING_CHANNEL_NET := mkct_queue_init],
      t_rx_ok := 0, t_rx_bad := 0, t_tx_ok := 0, t_tx_fail := 0\<rparr> = t"
    by (simp add: t_def zero_mkct_def mkct_queue_init_def replicate_update)
  have "\<not> info_msg_size info < 28" "k_mkct k3 = t"
    using assms(7) by (simp_all add: not_less info_def k3_def k1_def k0_def)
  then have "mkct_ensure_started k = (0, k3\<lparr>k_mkct := t\<lparr>t_started := True\<rparr>\<rparr>)"
    using assms(1,3,4) reg qs
    unfolding mkct_ensure_started_def
    by (simp add: mkring_get_info_def Let_def flip: info_def t_def k0_def)
  moreover have "mkct_hooked (k3\<lparr>k_mkct := t\<lparr>t_started := True\<rparr>\<rparr>)"
    using d by (auto simp: mkct_hooked_def k3_def k1_def t_def zero_mkct_def mkct_queue_ok_def supported_channels
        mkring_demux_valid_peer_def mkct_valid_peer_def info_def)
  moreover have "k_shm k3 = k_shm k" "k_mkring k3 = Some c'" by (simp_all add: k3_def k1_def k0_def)
  moreover have "\<forall>q\<in>set (t_queues t). messages q = []" by (simp add: t_def zero_mkct_def)
  ultimately show ?thesis using c' rx by simp
qed

definition kernel3 :: mk_kernel where
  "kernel3 = \<lparr>k_shm = \<lparr>shm_hdr = zero_hdr, shm_queues = []\<rparr>, k_mkring = Some ctx3, k_demux = zero_demux,
     k_mkct = zero_mkct\<rparr>"

theorem ensure_started_hooks_witness:
  "\<exists>k'. mkct_ensure_started kernel3 = (0, k') \<and> mkct_hooked k'"
proof -
  have "28 \<le> msg_size ctx3" by (simp add: ctx3_def)
  then have "case mkct_ensure_started kernel3 of (rc, k') \<Rightarrow> rc = 0 \<and> mkct_hooked k' \<and> k_shm k' = k_shm kernel3 \<and>
    (\<forall>q\<in>set (t_queues (k_mkct k')). messages q = []) \<and>
    (\<exists>c'. k_mkring k' = Some c' \<and> txq c' = txq ctx3 \<and>
       (\<forall>p. rx_of c' p = (if bad_peer ctx3 p then rx_of ctx3 p else (rx_of ctx3 p)\<lparr>rx_cb := Some DEMUX_CB\<rparr>)))"
    by (intro ensure_started_hooks [OF _ _ _ ctx3_ok])
      (simp_all add: kernel3_def zero_mkct_def zero_demux_def)
  then show ?thesis by (auto split: prod.splits)
qed

section \<open>From sender to receiver\<close>

text \<open>Only the first \<open>len\<close> bytes of the caller's buffer matter to a send.\<close>

lemma mkring_send_take:
  "mkring_send nf b (Some (take (unat len) d)) len s g = mkring_send nf b (Some d) len s g"
proof -
  have copy: "memcpy old (take n d) n = memcpy old d n" for old n by (simp add: memcpy_def)
  have "mkring_tx_enqueue dn v q (take (unat len) d) len = mkring_tx_enqueue dn v q d len" for dn v q
    unfolding mkring_tx_enqueue_def copy ..
  then show ?thesis by (simp add: mkring_send_def Let_def split: option.split)
qed

lemma prefix_take:
  "6 \<le> n \<Longrightarrow> prefix_magic (take n bs) = prefix_magic bs"
  "6 \<le> n \<Longrightarrow> prefix_version (take n bs) = prefix_version bs"
  "6 \<le> n \<Longrightarrow> prefix_channel (take n bs) = prefix_channel bs"
  by (simp_all add: prefix_magic_def prefix_version_def prefix_channel_def field_def drop_take min_def)

lemma valid_message_take:
  assumes "mkct_valid_message (Some bs) len"
  shows "mkct_valid_message (Some (take (unat len) bs)) len" "6 \<le> len" "len \<le> 1024"
    "mkct_supported_channel (ucast (prefix_channel bs))" "prefix_ok (take (unat len) bs) len"
    "prefix_channel (take (unat len) bs) = prefix_channel bs"
proof -
  from assms have len: "6 \<le> len" "len \<le> 1024" and ch: "mkct_supported_channel (ucast (prefix_channel bs))"
    and mv: "prefix_magic bs = MKRING_PROTO_MAGIC" "prefix_version bs = MKRING_PROTO_VERSION"
    by (auto simp: mkct_valid_message_def not_less split: if_splits)
  have "6 \<le> unat len" using len(1) by (simp add: word_le_nat_alt)
  note pt = prefix_take [OF this, of bs]
  show "mkct_valid_message (Some (take (unat len) bs)) len"
    using mv ch len pt by (simp add: mkct_valid_message_def not_less)
  show "prefix_ok (take (unat len) bs) len"
    using mv len(1) pt ch by (auto simp: prefix_ok_def supported_channels)
  show "prefix_channel (take (unat len) bs) = prefix_channel bs" by (rule pt(3))
qed (use assms in \<open>auto simp: mkct_valid_message_def not_less split: if_splits\<close>)

text \<open>What the receive path does with a message that passed the checks of a send.\<close>

lemma run_rx_call_valid:
  assumes k: "mkct_hooked k" and src: "mkct_valid_peer (k_mkct k) src"
    and m: "mkct_valid_message (Some bs) len" "unat len \<le> length bs"
  shows "run_rx_call True \<lparr>call_cb = DEMUX_CB, call_src = src, call_data = take (unat len) bs\<rparr> k =
    k\<lparr>k_mkct := mkct_demux_rx True src (Some (take (unat len) bs)) len (k_mkct k)\<rparr>"
proof -
  let ?m = "take (unat len) bs"
  note v = valid_message_take [OF m(1)]
  have len: "of_nat (length ?m) = len" using m(2) by (simp add: min_def)
  have h: "handlers (k_demux k) ! unat (prefix_channel ?m) = mkct_handler"
    using k v(4,6) by (simp add: mkct_hooked_def)
  have "mkring_demux_rx_cb mkct_validators (k_demux k) src (Some ?m) len = Some (MKCT_RX, src, ?m, len, MKCT_PRIV)"
    unfolding demux_rx_cb_eq h using k src v(1,5)
    by (simp add: mkct_handler_def mkct_demux_ops_def mkct_validators_def mkct_demux_validate_def mkct_hooked_def)
  then show ?thesis by (simp add: run_rx_call_def len del: length_take)
qed

text \<open>Delivery followed by a receive, when nothing else waits in the queue of the channel.\<close>

lemma rx_then_recv:
  assumes b: "mkct_hooked b" "mkct_valid_peer (k_mkct b) src"
    and m: "mkct_valid_message (Some bs) len" "unat len \<le> length bs" "ucast (prefix_channel bs) = ch"
    and q: "messages (t_queues (k_mkct b) ! unat ch) = []"
    and r: "rcv_channel r = ch" "length (rcv_message r) = 1024"
  shows "\<exists>t'. mkct_recv blocked r (k_mkct (run_rx_call True
      \<lparr>call_cb = DEMUX_CB, call_src = src, call_data = take (unat len) bs\<rparr> b)) =
    (0, r\<lparr>rcv_peer := src, rcv_len := len,
       rcv_message := take (unat len) bs @ drop (unat len) (rcv_message r)\<rparr>, t') \<and>
    t' = (k_mkct b)\<lparr>t_rx_ok := t_rx_ok (k_mkct b) + 1\<rparr>"
proof -
  let ?m = "take (unat len) bs" and ?ch = "prefix_channel bs" and ?t = "k_mkct b"
  note v = valid_message_take [OF m(1)]
  have len: "unat len \<le> 1024" using v(3) by (simp add: word_le_nat_alt)
  have qi: "unat ch = unat ?ch" unfolding m(3) [symmetric] by (rule unat_ucast_u8_u16)
  have sup: "mkct_supported_channel ch" using v(4) m(3) by simp
  have "unat ?ch < 5" using v(4) by (auto simp: supported_channels)
  then have q5: "unat ?ch < length (t_queues ?t)" using b(1) by (simp add: mkct_hooked_def)
  then have "mkct_queue_ok (t_queues ?t ! unat ?ch)" using b(1) by (simp add: mkct_hooked_def)
  then have pend: "pending (t_queues ?t ! unat ?ch) = 0" using q qi by (simp add: mkct_queue_ok_def)
  then have q0: "t_queues ?t ! unat ?ch = \<lparr>messages = [], pending = 0\<rparr>" using q qi
    by (cases "t_queues ?t ! unat ?ch") simp
  define node where "node = \<lparr>node_peer = src, node_len = len, node_message = memcpy (replicate 1024 0) ?m (unat len)\<rparr>"
  define t where "t = mkct_demux_rx True src (Some ?m) len ?t"
  have t: "t = ?t\<lparr>t_rx_ok := t_rx_ok ?t + 1,
      t_queues := (t_queues ?t)[unat ?ch := mkct_queue_message (t_queues ?t ! unat ?ch) node]\<rparr>"
    using b(2) v(1,4,6) by (simp add: t_def mkct_demux_rx_def node_def Let_def)
  have queue: "t_queues t ! unat ?ch = \<lparr>messages = [node], pending = 1\<rparr>"
    using q5 by (simp add: t mkct_queue_message_def q0)
  have restored: "t\<lparr>t_queues := (t_queues t)[unat ?ch := \<lparr>messages = [], pending = 0\<rparr>]\<rparr> = ?t\<lparr>t_rx_ok := t_rx_ok ?t + 1\<rparr>"
    using list_update_id [of "t_queues ?t" "unat ?ch"] unfolding q0 by (simp add: t)
  have "\<not> t_stopping t" using b(1) by (simp add: t mkct_hooked_def)
  then have "mkct_recv blocked r t = (0, r\<lparr>rcv_peer := src, rcv_len := len,
      rcv_message := memcpy (rcv_message r) (node_message node) (unat len)\<rparr>,
      t\<lparr>t_queues := (t_queues t)[unat ?ch := \<lparr>messages = [], pending = 0\<rparr>]\<rparr>)"
    using sup r(1) queue qi
    by (simp add: mkct_recv_def mkct_pop_message_def Let_def wait_event_def node_def max_def)
  moreover have "memcpy (rcv_message r) (node_message node) (unat len) = ?m @ drop (unat len) (rcv_message r)"
    using len m(2) r(2) by (simp add: node_def memcpy_def)
  moreover have "k_mkct (run_rx_call True \<lparr>call_cb = DEMUX_CB, call_src = src, call_data = ?m\<rparr> b) = t"
    using run_rx_call_valid [OF b m(1,2)] by (simp add: t_def)
  ultimately show ?thesis using restored by simp
qed

text \<open>
  C7. The transport is transparent. Whatever a sender's user space passes to the send operation,
  if \<^verbatim>\<open>mkct_send\<close> lets it through to the ring, then the message as the ring delivers it to a
  receiver with a started transport reaches the queue of the very channel the sender named, and
  a receive on that channel, when the queue was empty, returns success with the sender's id,
  the length and the same bytes.
\<close>

theorem transport_round_trip:
  assumes "mkct_send nf req k = (rc, k', ipis)" "ipis \<noteq> []" "length (snd_message req) = 1024"
    and "mkct_hooked b" "mkct_valid_peer (k_mkct b) src"
    and "messages (t_queues (k_mkct b) ! unat (snd_channel req)) = []"
    and "rcv_channel r = snd_channel req" "length (rcv_message r) = 1024"
  shows "case mkct_recv blocked r (k_mkct (run_rx_call True
      \<lparr>call_cb = DEMUX_CB, call_src = src, call_data = take (unat (snd_len req)) (snd_message req)\<rparr> b)) of
    (rc', r', t') \<Rightarrow> rc' = 0 \<and> rcv_peer r' = src \<and> rcv_len r' = snd_len req \<and>
      take (unat (rcv_len r')) (rcv_message r') = take (unat (snd_len req)) (snd_message req)"
proof -
  have m: "mkct_valid_message (Some (snd_message req)) (snd_len req)"
    and ch: "ucast (prefix_channel (snd_message req)) = snd_channel req"
    using assms(1,2) by (auto simp: mkct_send_def split: if_splits)
  have "unat (snd_len req) \<le> length (snd_message req)"
    using valid_message_take(3) [OF m] assms(3) by (simp add: word_le_nat_alt)
  from rx_then_recv [OF assms(4,5) m this ch assms(6-8), of blocked] this
  show ?thesis by auto
qed

definition info2 :: "u16 \<Rightarrow> mkring_info" where
  "info2 k = \<lparr>info_local_id = k, info_kernels = 2, info_desc_num = 4, info_msg_size = 8, info_ready_bitmap = 3\<rparr>"

definition send6 :: mkring_transport_send where
  "send6 = \<lparr>snd_peer = 1, snd_channel = 1, snd_len = 6,
     snd_message = enc_le 4 MKRING_PROTO_MAGIC @ [1, 1] @ replicate 1018 0\<rparr>"

lemma send6_valid: "mkct_valid_message (Some (snd_message send6)) 6" "prefix_channel (snd_message send6) = 1"
proof -
  have "prefix_magic (snd_message send6) = MKRING_PROTO_MAGIC" "prefix_version (snd_message send6) = 1"
    "prefix_channel (snd_message send6) = 1"
    by (simp_all add: prefix_magic_def prefix_version_def prefix_channel_def send6_def field_append)
       (simp_all add: field_def)
  then show "mkct_valid_message (Some (snd_message send6)) 6" "prefix_channel (snd_message send6) = 1"
    by (simp_all add: mkct_valid_message_def mkct_supported_channel_def)
qed

definition receiver2 :: mk_kernel where
  "receiver2 = \<lparr>k_shm = \<lparr>shm_hdr = zero_hdr, shm_queues = []\<rparr>, k_mkring = None,
     k_demux = \<lparr>d_info = info2 1, d_started = True, rx_registered = replicate 32 True, handlers = replicate 256 mkct_handler\<rparr>,
     k_mkct = zero_mkct\<lparr>t_info := info2 1, t_started := True\<rparr>\<rparr>"

lemma receiver2_hooked: "mkct_hooked receiver2"
  by (auto simp: mkct_hooked_def receiver2_def zero_mkct_def mkct_queue_ok_def mkring_demux_valid_peer_def
      mkct_valid_peer_def supported_channels)

theorem transport_round_trip_witness:
  "\<exists>k rc k' ipis. mkct_send (\<lambda>_ _ _. 0) send6 k = (rc, k', ipis) \<and> ipis = [(0, 1)] \<and>
    (case mkct_recv 0 \<lparr>rcv_peer = 0, rcv_channel = 1, rcv_timeout_ms = 0, rcv_len = 0, rcv_message = replicate 1024 0\<rparr>
        (k_mkct (run_rx_call True \<lparr>call_cb = DEMUX_CB, call_src = 0, call_data = take 6 (snd_message send6)\<rparr> receiver2)) of
      (rc', r', t') \<Rightarrow> rc' = 0 \<and> rcv_peer r' = 0 \<and> rcv_len r' = 6 \<and>
        take 6 (rcv_message r') = take 6 (snd_message send6))"
proof -
  obtain s c0 c1 n where s: "reachable boot2 (\<lambda>_ _ _. 0) s" "y_ctx s 0 = Some c0" "y_ctx s 1 = Some c1"
    "notify c0 = Some n" "y_sent s 0 1 = []"
    using boot2_up [of "\<lambda>_ _ _. 0"] by auto
  let ?m = "take 6 (snd_message send6)"
  define k where "k = \<lparr>k_shm = y_shm s, k_mkring = Some c0, k_demux = zero_demux, k_mkct = zero_mkct\<lparr>t_info := info2 0\<rparr>\<rparr>"
  have inv: "sys_inv boot2 s" by (rule reachable_inv [OF boot2_ok s(1)])
  have good: "good_config boot2" using boot2_ok by (simp add: boot_ok_def)
  have "link_ok boot2 s 0 1" using sys_invD(4) [OF inv s(2), of 0 1] by (simp add: boot2_def)
  then have empty: "ring_contents (bp_desc_num boot2) (link_mem boot2 s 0 1) (rx_of c1 0) = []"
    using s by (simp add: link_ok_def link_state_def rx_view_def)
  obtain rc shm' g ipis where send: "mkring_send (\<lambda>_ _ _. 0) 1 (Some ?m) 6 (y_shm s) (Some c0) = (rc, shm', g, ipis)"
    by (metis prod_cases4)
  have l1024: "length (snd_message send6) = 1024" by (simp add: send6_def)
  then have len: "length ?m = 6" by simp
  have "length ?m \<le> unat (bp_msg_size boot2)" by (simp add: len boot2_def)
  from send_outcome [OF good inv s(2,3) _ s(4) this, of "\<lambda>_ _ _. 0"] empty send
  have out: "rc = 0" "ipis = [(0, 1)]" by (simp_all add: l1024 boot2_def)
  have "mkring_send (\<lambda>_ _ _. 0) 1 (Some (snd_message send6)) 6 (y_shm s) (Some c0) = (rc, shm', g, ipis)"
    using send mkring_send_take [of "\<lambda>_ _ _. 0" 1 6 "snd_message send6" "y_shm s" "Some c0"] by simp
  then obtain k' where ms: "mkct_send (\<lambda>_ _ _. 0) send6 k = (0, k', ipis)"
    using send6_valid out(1)
    by (auto simp: mkct_send_def k_def mkct_valid_peer_def info2_def send6_def mkct_supported_channel_def Let_def)
  have "mkct_valid_peer (k_mkct receiver2) 0" "messages (t_queues (k_mkct receiver2) ! unat (snd_channel send6)) = []"
    by (simp_all add: receiver2_def mkct_valid_peer_def info2_def zero_mkct_def send6_def)
  from transport_round_trip [OF ms _ l1024 receiver2_hooked this,
      of "\<lparr>rcv_peer = 0, rcv_channel = 1, rcv_timeout_ms = 0, rcv_len = 0, rcv_message = replicate 1024 0\<rparr>" 0]
  show ?thesis
    using ms out(2)
    by (intro exI [of _ k] exI [of _ 0] exI [of _ k'] exI [of _ ipis])
      (auto simp: send6_def split: prod.splits)
qed

end
