(* ===== verification/MkringTransport.thy ===== *)
theory MkringTransport
  imports ContainerWire Agent TransportSyscall
begin

text \<open>
  The guest agent's transport over the mkring system call (\<^verbatim>\<open>mk-guest-agent/src/transport_mkring.c\<close>):
  decoding of request messages into envelopes, encoding of responses and of the ready message,
  and the receive, send and create operations. The system call is an argument, over a kernel
  state \<open>'k\<close>; theory TransportSyscall models the one of this repository.
\<close>

section \<open>Strings, codes and error numbers\<close>

text \<open>
  \<open>mkga_copy_bounded_string dst src\<close> is the destination buffer after the call, \<open>bounded n src\<close> the
  string it holds when the destination has \<open>n\<close> bytes.
\<close>

definition mkga_copy_bounded_string :: "bytes option \<Rightarrow> bytes option \<Rightarrow> bytes option" where
  "mkga_copy_bounded_string dst src =
    (case dst of
       None \<Rightarrow> None
     | Some d \<Rightarrow>
         if length d = 0 then Some d
         else case src of
           None \<Rightarrow> Some (d[0 := 0])
         | Some s \<Rightarrow>
             if length s = 0 then Some (d[0 := 0])
             else
               let len = length (takeWhile (\<lambda>b. b \<noteq> 0) s);
                   copy_len = (if length d \<le> len then length d - 1 else len)
               in Some (put copy_len [0] (put 0 (take copy_len s) d)))"

definition bounded :: "nat \<Rightarrow> bytes \<Rightarrow> bytes" where
  "bounded n src = copied n (cstr src)"

definition mkga_message_matches_operation :: "mkring_proto_header option \<Rightarrow> bool" where
  "mkga_message_matches_operation msg =
    (case msg of
       None \<Rightarrow> False
     | Some h \<Rightarrow>
         let op = ph_operation h; is = (\<lambda>fs. ph_payload_len h = of_nat (sizeof fs)) in
         if op = MKRING_CONTAINER_OP_CREATE then is mkring_container_create_request
         else if op = MKRING_CONTAINER_OP_READ_LOG then is mkring_container_read_log_request
         else if op = MKRING_CONTAINER_OP_EXEC_TTY_PREPARE then is mkring_container_exec_tty_prepare_request
         else if op = MKRING_CONTAINER_OP_EXEC_TTY_START then is mkring_container_exec_tty_start_request
         else if op = MKRING_CONTAINER_OP_EXEC_TTY_RESIZE then is mkring_container_exec_tty_resize_request
         else if op = MKRING_CONTAINER_OP_EXEC_TTY_CLOSE then is mkring_container_exec_tty_close_request
         else if op = MKRING_CONTAINER_OP_CONFIGURE_NETWORK then is mkring_container_configure_network_request
         else if op = MKRING_CONTAINER_OP_CONFIGURE_ENV then is mkring_container_configure_env_request
         else if op = MKRING_CONTAINER_OP_START \<or> op = MKRING_CONTAINER_OP_STOP \<or>
                 op = MKRING_CONTAINER_OP_REMOVE \<or> op = MKRING_CONTAINER_OP_STATUS
              then is mkring_container_control_request
         else False)"

definition mkga_errno_from_code :: "bytes \<Rightarrow> int" where
  "mkga_errno_from_code code =
    (if code = [] then EIO
     else if code = cs ''invalid_argument'' then EINVAL
     else if code = cs ''not_found'' then ENOENT
     else if code = cs ''resource_exhausted'' then ENOSPC
     else if code = cs ''not_implemented'' then ENOSYS
     else EIO)"

definition mkga_operation_from_mkring :: "u8 \<Rightarrow> mkga_operation" where
  "mkga_operation_from_mkring op =
    (if op = MKRING_CONTAINER_OP_CREATE then MKGA_OP_CREATE_CONTAINER
     else if op = MKRING_CONTAINER_OP_START then MKGA_OP_START_CONTAINER
     else if op = MKRING_CONTAINER_OP_STOP then MKGA_OP_STOP_CONTAINER
     else if op = MKRING_CONTAINER_OP_REMOVE then MKGA_OP_REMOVE_CONTAINER
     else if op = MKRING_CONTAINER_OP_STATUS then MKGA_OP_STATUS_CONTAINER
     else if op = MKRING_CONTAINER_OP_READ_LOG then MKGA_OP_READ_LOG
     else if op = MKRING_CONTAINER_OP_EXEC_TTY_PREPARE then MKGA_OP_EXEC_TTY_PREPARE
     else if op = MKRING_CONTAINER_OP_EXEC_TTY_START then MKGA_OP_EXEC_TTY_START
     else if op = MKRING_CONTAINER_OP_EXEC_TTY_RESIZE then MKGA_OP_EXEC_TTY_RESIZE
     else if op = MKRING_CONTAINER_OP_EXEC_TTY_CLOSE then MKGA_OP_EXEC_TTY_CLOSE
     else if op = MKRING_CONTAINER_OP_CONFIGURE_NETWORK then MKGA_OP_CONFIGURE_NETWORK
     else if op = MKRING_CONTAINER_OP_CONFIGURE_ENV then MKGA_OP_CONFIGURE_ENV
     else MKGA_OP_INVALID)"

fun mkga_operation_to_mkring :: "mkga_operation \<Rightarrow> u8" where
  "mkga_operation_to_mkring MKGA_OP_CREATE_CONTAINER = MKRING_CONTAINER_OP_CREATE"
| "mkga_operation_to_mkring MKGA_OP_START_CONTAINER = MKRING_CONTAINER_OP_START"
| "mkga_operation_to_mkring MKGA_OP_STOP_CONTAINER = MKRING_CONTAINER_OP_STOP"
| "mkga_operation_to_mkring MKGA_OP_REMOVE_CONTAINER = MKRING_CONTAINER_OP_REMOVE"
| "mkga_operation_to_mkring MKGA_OP_STATUS_CONTAINER = MKRING_CONTAINER_OP_STATUS"
| "mkga_operation_to_mkring MKGA_OP_READ_LOG = MKRING_CONTAINER_OP_READ_LOG"
| "mkga_operation_to_mkring MKGA_OP_EXEC_TTY_PREPARE = MKRING_CONTAINER_OP_EXEC_TTY_PREPARE"
| "mkga_operation_to_mkring MKGA_OP_EXEC_TTY_START = MKRING_CONTAINER_OP_EXEC_TTY_START"
| "mkga_operation_to_mkring MKGA_OP_EXEC_TTY_RESIZE = MKRING_CONTAINER_OP_EXEC_TTY_RESIZE"
| "mkga_operation_to_mkring MKGA_OP_EXEC_TTY_CLOSE = MKRING_CONTAINER_OP_EXEC_TTY_CLOSE"
| "mkga_operation_to_mkring MKGA_OP_CONFIGURE_NETWORK = MKRING_CONTAINER_OP_CONFIGURE_NETWORK"
| "mkga_operation_to_mkring MKGA_OP_CONFIGURE_ENV = MKRING_CONTAINER_OP_CONFIGURE_ENV"
| "mkga_operation_to_mkring MKGA_OP_INVALID = MKRING_CONTAINER_OP_NONE"

section \<open>Decoding requests\<close>

text \<open>
  One definition per case of the switch: the payload member written by the decoder from the payload
  bytes \<open>p\<close> of the message. \<open>None\<close> stands for \<open>-EINVAL\<close>. Array elements beyond the transmitted count
  keep the zeros of \<^verbatim>\<open>mkga_envelope_init\<close>.
\<close>

definition dec_argv :: "u32 \<Rightarrow> bytes \<Rightarrow> bytes list" where
  "dec_argv n p = map (\<lambda>i. if i < unat n then bounded MKGA_MAX_ARG_LEN (elem MAX_ARG_LEN i p) else []) [0..<MKGA_MAX_ARGV]"

definition dec_create_req :: "bytes \<Rightarrow> mkga_create_container_req option" where
  "dec_create_req p =
    (let rd = (\<lambda>n. get mkring_container_create_request n p); argv_count = dec_le (rd ''argv_count'') in
     if of_nat MKGA_MAX_ARGV < argv_count then None
     else Some (zero_create_req\<lparr>
       cc_kernel_id := bounded MKGA_MAX_KERNEL_ID_LEN (rd ''kernel_id''),
       cc_pod_id := bounded MKGA_MAX_POD_ID_LEN (rd ''pod_id''),
       cc_name := bounded MKGA_MAX_NAME_LEN (rd ''name''),
       cc_image := bounded MKGA_MAX_IMAGE_LEN (rd ''image''),
       cc_log_path := bounded MKGA_MAX_LOG_PATH_LEN (rd ''log_path''),
       cc_argv_count := argv_count,
       cc_argv := dec_argv argv_count (rd ''argv'')\<rparr>))"

definition dec_endpoint :: "bytes \<Rightarrow> mkga_network_endpoint" where
  "dec_endpoint e = zero_endpoint\<lparr>
     en_ip := bounded MKGA_MAX_IP_LEN (get mkring_container_network_endpoint ''ip'' e),
     en_peer_kernel_id := dec_le (get mkring_container_network_endpoint ''peer_kernel_id'' e)\<rparr>"

definition dec_network_req :: "bytes \<Rightarrow> mkga_configure_network_req option" where
  "dec_network_req p =
    (let rd = (\<lambda>n. get mkring_container_configure_network_request n p);
         endpoint_count = dec_le (rd ''endpoint_count''); port_count = dec_le (rd ''port_count'') in
     if of_nat MKGA_MAX_ENDPOINTS < endpoint_count \<or> of_nat MKGA_MAX_PORTS < port_count then None
     else Some \<lparr>
       nw_kernel_id = bounded MKGA_MAX_KERNEL_ID_LEN (rd ''kernel_id''),
       nw_pod_id = bounded MKGA_MAX_POD_ID_LEN (rd ''pod_id''),
       nw_pod_ip = bounded MKGA_MAX_IP_LEN (rd ''pod_ip''),
       nw_pod_cidr = bounded MKGA_MAX_CIDR_LEN (rd ''pod_cidr''),
       nw_mode = bounded MKGA_MAX_MODE_LEN (rd ''mode''),
       nw_endpoint_count = endpoint_count,
       nw_port_count = port_count,
       nw_endpoints = map (\<lambda>i. if i < unat endpoint_count
           then dec_endpoint (elem (sizeof mkring_container_network_endpoint) i (rd ''endpoints'')) else zero_endpoint)
         [0..<MKGA_MAX_ENDPOINTS],
       nw_ports = map (\<lambda>i. if i < unat port_count then dec_le (elem 2 i (rd ''ports'')) else 0) [0..<MKGA_MAX_PORTS]\<rparr>)"

definition dec_env_req :: "bytes \<Rightarrow> mkga_configure_env_req" where
  "dec_env_req p =
    (let rd = (\<lambda>n. get mkring_container_configure_env_request n p) in
     \<lparr>ev_kernel_id = bounded MKGA_MAX_KERNEL_ID_LEN (rd ''kernel_id''),
      ev_pod_id = bounded MKGA_MAX_POD_ID_LEN (rd ''pod_id''),
      ev_name = bounded MKGA_MAX_NAME_LEN (rd ''name''),
      ev_key = bounded MKGA_MAX_ENV_KEY_LEN (rd ''key''),
      ev_value = bounded MKGA_MAX_ENV_VALUE_LEN (rd ''value'')\<rparr>)"

definition dec_read_log_req :: "bytes \<Rightarrow> mkga_read_log_req" where
  "dec_read_log_req p =
    (let rd = (\<lambda>n. get mkring_container_read_log_request n p) in
     \<lparr>rl_kernel_id = bounded MKGA_MAX_KERNEL_ID_LEN (rd ''kernel_id''),
      rl_container_id = bounded MKGA_MAX_ID_LEN (rd ''container_id''),
      rl_offset = dec_le (rd ''offset''),
      rl_max_bytes = dec_le (rd ''max_bytes'')\<rparr>)"

definition dec_prepare_req :: "bytes \<Rightarrow> mkga_exec_tty_prepare_req option" where
  "dec_prepare_req p =
    (let rd = (\<lambda>n. get mkring_container_exec_tty_prepare_request n p); argv_count = dec_le (rd ''argv_count'') in
     if of_nat MKGA_MAX_ARGV < argv_count then None
     else Some \<lparr>
       ep_kernel_id = bounded MKGA_MAX_KERNEL_ID_LEN (rd ''kernel_id''),
       ep_container_id = bounded MKGA_MAX_ID_LEN (rd ''container_id''),
       ep_argv_count = argv_count,
       ep_tty = dec_le (rd ''tty''),
       ep_stdin_enabled = dec_le (rd ''stdin_enabled''),
       ep_stdout_enabled = dec_le (rd ''stdout_enabled''),
       ep_stderr_enabled = dec_le (rd ''stderr_enabled''),
       ep_argv = dec_argv argv_count (rd ''argv'')\<rparr>)"

definition dec_session_req :: "packed \<Rightarrow> bytes \<Rightarrow> mkga_exec_session_control_req" where
  "dec_session_req fs p =
     \<lparr>es_kernel_id = bounded MKGA_MAX_KERNEL_ID_LEN (get fs ''kernel_id'' p),
      es_session_id = bounded MKGA_MAX_SESSION_ID_LEN (get fs ''session_id'' p)\<rparr>"

definition dec_resize_req :: "bytes \<Rightarrow> mkga_exec_tty_resize_req" where
  "dec_resize_req p =
    (let rd = (\<lambda>n. get mkring_container_exec_tty_resize_request n p) in
     \<lparr>ez_kernel_id = bounded MKGA_MAX_KERNEL_ID_LEN (rd ''kernel_id''),
      ez_session_id = bounded MKGA_MAX_SESSION_ID_LEN (rd ''session_id''),
      ez_width = dec_le (rd ''width''),
      ez_height = dec_le (rd ''height'')\<rparr>)"

definition dec_control_req :: "bytes \<Rightarrow> mkga_container_control_req" where
  "dec_control_req p =
    (let rd = (\<lambda>n. get mkring_container_control_request n p) in
     \<lparr>ct_kernel_id = bounded MKGA_MAX_KERNEL_ID_LEN (rd ''kernel_id''),
      ct_container_id = bounded MKGA_MAX_ID_LEN (rd ''container_id''),
      ct_timeout_millis = dec_le (rd ''timeout_millis'')\<rparr>)"

fun dec_payload :: "mkga_operation \<Rightarrow> bytes \<Rightarrow> mkga_payload option" where
  "dec_payload MKGA_OP_CREATE_CONTAINER p = map_option PCreateReq (dec_create_req p)"
| "dec_payload MKGA_OP_CONFIGURE_NETWORK p = map_option PNetworkReq (dec_network_req p)"
| "dec_payload MKGA_OP_CONFIGURE_ENV p = Some (PEnvReq (dec_env_req p))"
| "dec_payload MKGA_OP_READ_LOG p = Some (PReadLogReq (dec_read_log_req p))"
| "dec_payload MKGA_OP_EXEC_TTY_PREPARE p = map_option PPrepareReq (dec_prepare_req p)"
| "dec_payload MKGA_OP_EXEC_TTY_START p = Some (PSessionReq (dec_session_req mkring_container_exec_tty_start_request p))"
| "dec_payload MKGA_OP_EXEC_TTY_RESIZE p = Some (PResizeReq (dec_resize_req p))"
| "dec_payload MKGA_OP_EXEC_TTY_CLOSE p = Some (PSessionReq (dec_session_req mkring_container_exec_tty_close_request p))"
| "dec_payload MKGA_OP_START_CONTAINER p = Some (PControlReq (dec_control_req p))"
| "dec_payload MKGA_OP_STOP_CONTAINER p = Some (PControlReq (dec_control_req p))"
| "dec_payload MKGA_OP_REMOVE_CONTAINER p = Some (PControlReq (dec_control_req p))"
| "dec_payload MKGA_OP_STATUS_CONTAINER p = Some (PControlReq (dec_control_req p))"
| "dec_payload MKGA_OP_INVALID p = None"

text \<open>
  All request structures start with the kernel identifier, which is copied to the envelope too.
  \<open>Inl\<close> is an error code; the envelope is then not used. \<open>uapi_req = None\<close> and \<open>have_req = False\<close> stand for NULL.
\<close>

definition mkga_decode_request_message ::
    "i64 \<Rightarrow> mkring_transport_recv option \<Rightarrow> bool \<Rightarrow> int + mkga_envelope" where
  "mkga_decode_request_message now uapi_req have_req =
    (case uapi_req of
       None \<Rightarrow> Inl (- EINVAL)
     | Some u \<Rightarrow>
         if \<not> have_req then Inl (- EINVAL)
         else if rcv_len u \<noteq> of_nat (sizeof mkring_container_message) then Inl (- EINVAL)
         else
           let msg = take (sizeof mkring_container_message) (rcv_message u);
               hdr = dec_proto_header (get mkring_container_message ''hdr'' msg);
               p = get mkring_container_message ''payload'' msg
           in if \<not> mkring_proto_header_valid (Some msg) (of_nat (sizeof mkring_container_message)) then Inl (- EINVAL)
              else if ph_channel hdr \<noteq> MKRING_CHANNEL_CONTAINER \<or> ph_kind hdr \<noteq> MKRING_CONTAINER_KIND_REQUEST then Inl (- EINVAL)
              else if \<not> mkga_message_matches_operation (Some hdr) then Inl (- EINVAL)
              else
                let op = mkga_operation_from_mkring (ph_operation hdr)
                in if op = MKGA_OP_INVALID then Inl (- EINVAL)
                   else case dec_payload op p of
                     None \<Rightarrow> Inl (- EINVAL)
                   | Some payload \<Rightarrow>
                       Inr ((mkga_envelope_init now)\<lparr>e_kind := MKGA_MESSAGE_REQUEST, e_operation := op,
                          e_peer_kernel_id := rcv_peer u, e_transport_request_id := ph_request_id hdr,
                          e_id := copied MKGA_MAX_ID_LEN (fmt_u (unat (ph_request_id hdr))),
                          e_kernel_id := bounded MKGA_MAX_KERNEL_ID_LEN (field 0 MAX_KERNEL_ID p),
                          e_payload := payload\<rparr>))"

section \<open>Encoding responses\<close>

text \<open>
  \<^verbatim>\<open>mkga_copy_string\<close> into a member of a cleared structure leaves the string followed by zeros.
  \<open>build fs\<close> writes members into the cleared payload, in the order given.
\<close>

definition str_member :: "nat \<Rightarrow> bytes \<Rightarrow> bytes" where
  "str_member n str = strz n (copied n str)"

definition build :: "packed \<Rightarrow> (string \<times> bytes) list \<Rightarrow> bytes" where
  "build fs vs = fold (\<lambda>(n, v). set_member fs n v) vs (replicate sizeof_payload 0)"

definition enc_error :: "int \<Rightarrow> bytes \<Rightarrow> bytes" where
  "enc_error mapped_errno message = build mkring_container_error_payload
     [(''errno_value'', enc_le 4 (of_int (- mapped_errno) :: i32)), (''message'', str_member MAX_ERROR_MSG message)]"

definition enc_create_resp :: "mkga_create_container_resp \<Rightarrow> bytes" where
  "enc_create_resp r = build mkring_container_create_response
     [(''container_id'', str_member MAX_CONTAINER_ID (cr_container_id r)), (''image_ref'', str_member MAX_IMAGE_REF (cr_image_ref r))]"

definition enc_stop_resp :: "mkga_stop_container_resp \<Rightarrow> bytes" where
  "enc_stop_resp r = build mkring_container_stop_response [(''exit_code'', enc_le 4 (sp_exit_code r))]"

definition enc_status_resp :: "mkga_container_status_resp \<Rightarrow> bytes" where
  "enc_status_resp r = build mkring_container_status_response
     [(''state'', enc_le 4 (st_state r)), (''exit_code'', enc_le 4 (st_exit_code r)), (''pid'', enc_le 4 (st_pid r)),
      (''started_at_unix_nano'', enc_le 8 (st_started_at_unix_nano r)),
      (''finished_at_unix_nano'', enc_le 8 (st_finished_at_unix_nano r)),
      (''message'', str_member MAX_ERROR_MSG (st_message r))]"

definition enc_read_log_resp :: "mkga_read_log_resp \<Rightarrow> bytes" where
  "enc_read_log_resp r = build mkring_container_read_log_response
     [(''next_offset'', enc_le 8 (rr_next_offset r)), (''data_len'', enc_le 4 (rr_data_len r)),
      (''eof'', [if rr_eof r then 1 else 0]), (''data'', rr_data r)]"

definition enc_prepare_resp :: "mkga_exec_tty_prepare_resp \<Rightarrow> bytes" where
  "enc_prepare_resp r = build mkring_container_exec_tty_prepare_response
     [(''session_id'', str_member MAX_CONTAINER_ID (er_session_id r))]"

text \<open>Payload length and payload of a response without error; \<open>None\<close> stands for \<open>-EINVAL\<close>.\<close>

fun enc_payload :: "mkga_operation \<Rightarrow> mkga_payload \<Rightarrow> (nat \<times> bytes) option" where
  "enc_payload MKGA_OP_CREATE_CONTAINER p =
     Some (sizeof mkring_container_create_response, enc_create_resp (create_container_resp p))"
| "enc_payload MKGA_OP_STOP_CONTAINER p =
     Some (sizeof mkring_container_stop_response, enc_stop_resp (stop_container_resp p))"
| "enc_payload MKGA_OP_STATUS_CONTAINER p =
     Some (sizeof mkring_container_status_response, enc_status_resp (container_status_resp p))"
| "enc_payload MKGA_OP_READ_LOG p =
     Some (sizeof mkring_container_read_log_response, enc_read_log_resp (read_log_resp p))"
| "enc_payload MKGA_OP_EXEC_TTY_PREPARE p =
     Some (sizeof mkring_container_exec_tty_prepare_response, enc_prepare_resp (exec_tty_prepare_resp p))"
| "enc_payload MKGA_OP_INVALID p = None"
| "enc_payload op p = Some (0, replicate sizeof_payload 0)"

definition container_hdr :: "u8 \<Rightarrow> u8 \<Rightarrow> u64 \<Rightarrow> int \<Rightarrow> nat \<Rightarrow> mkring_proto_header" where
  "container_hdr kind op request_id status payload_len =
    \<lparr>ph_magic = MKRING_PROTO_MAGIC, ph_version = MKRING_PROTO_VERSION, ph_channel = MKRING_CHANNEL_CONTAINER,
     ph_kind = kind, ph_operation = op, ph_flags = 0, ph_reserved0 = 0, ph_request_id = request_id,
     ph_status = of_int status, ph_payload_len = of_nat payload_len\<rparr>"

definition uapi_send :: "u16 \<Rightarrow> mkring_proto_header \<Rightarrow> bytes \<Rightarrow> mkring_transport_send" where
  "uapi_send peer hdr payload =
    \<lparr>snd_peer = peer, snd_channel = ucast MKRING_CHANNEL_CONTAINER, snd_len = of_nat (sizeof mkring_container_message),
     snd_message = put 0 (enc_proto_header hdr @ payload) (replicate 1024 0)\<rparr>"

definition mkga_encode_response_message :: "mkga_envelope option \<Rightarrow> bool \<Rightarrow> int + mkring_transport_send" where
  "mkga_encode_response_message resp have_out =
    (case resp of
       None \<Rightarrow> Inl (- EINVAL)
     | Some r \<Rightarrow>
         if \<not> have_out then Inl (- EINVAL)
         else if e_kind r \<noteq> MKGA_MESSAGE_RESPONSE then Inl (- EINVAL)
         else
           let op = mkga_operation_to_mkring (e_operation r); rid = e_transport_request_id r
           in if op = MKRING_CONTAINER_OP_NONE \<or> rid = 0 then Inl (- EINVAL)
              else if err_present (e_error r)
              then let mapped_errno = mkga_errno_from_code (err_code (e_error r))
                   in Inr (uapi_send (e_peer_kernel_id r)
                        (container_hdr MKRING_CONTAINER_KIND_RESPONSE op rid (- mapped_errno) (sizeof mkring_container_error_payload))
                        (enc_error mapped_errno (err_message (e_error r))))
              else case enc_payload (e_operation r) (e_payload r) of
                None \<Rightarrow> Inl (- EINVAL)
              | Some (len, payload) \<Rightarrow>
                  Inr (uapi_send (e_peer_kernel_id r) (container_hdr MKRING_CONTAINER_KIND_RESPONSE op rid 0 len) payload))"

section \<open>The transport\<close>

record 'k mkga_mkring_uapi_ops =
  uo_send :: "('k \<Rightarrow> mkring_transport_send \<Rightarrow> int \<times> 'k) option"
  uo_recv :: "('k \<Rightarrow> mkring_transport_recv \<Rightarrow> int \<times> mkring_transport_recv \<times> 'k) option"
  uo_destroy :: "('k \<Rightarrow> 'k) option"

record 'k mkga_mkring_transport =
  mt_peer_kernel_id :: u16
  mt_runtime_name :: bytes
  mt_ready_features :: u32
  mt_uapi_ops :: "'k mkga_mkring_uapi_ops option"
  mt_uapi_impl :: 'k

definition mkga_encode_ready_message :: "'k mkga_mkring_transport option \<Rightarrow> bool \<Rightarrow> int + mkring_transport_send" where
  "mkga_encode_ready_message impl have_out =
    (case impl of
       None \<Rightarrow> Inl (- EINVAL)
     | Some t \<Rightarrow>
         if \<not> have_out then Inl (- EINVAL)
         else Inr (uapi_send (mt_peer_kernel_id t)
           (container_hdr MKRING_CONTAINER_KIND_READY MKRING_CONTAINER_OP_NONE 0 0 (sizeof mkring_container_ready_payload))
           (build mkring_container_ready_payload
              [(''features'', enc_le 4 (mt_ready_features t)), (''runtime_name'', str_member MAX_RUNTIME_NAME (mt_runtime_name t))])))"

text \<open>
  \<open>syscall\<close> is what the kernel returns for the raw call, \<open>None\<close> when the headers do not define its
  number. The C library turns a value between -4095 and -1 into -1 and \<^verbatim>\<open>errno\<close>.
\<close>

definition libc_result :: "int \<Rightarrow> int \<times> int" where
  "libc_result r = (if - 4095 \<le> r \<and> r < 0 then (-1, - r) else (r, 0))"

definition mkga_mkring_transport_direct ::
    "(u32 \<Rightarrow> bytes \<Rightarrow> 'k \<Rightarrow> int \<times> bytes \<times> 'k) option \<Rightarrow> u32 \<Rightarrow> bytes \<Rightarrow> 'k \<Rightarrow> int \<times> bytes \<times> 'k" where
  "mkga_mkring_transport_direct syscall op arg k =
    (case syscall of
       None \<Rightarrow> (- ENOSYS, arg, k)
     | Some call \<Rightarrow>
         (case call op arg k of (r, arg', k') \<Rightarrow>
            (case libc_result r of (rc, errno) \<Rightarrow> (if rc = -1 then - errno else rc, arg', k'))))"

definition mkga_direct_send ::
    "(u32 \<Rightarrow> bytes \<Rightarrow> 'k \<Rightarrow> int \<times> bytes \<times> 'k) option \<Rightarrow> 'k \<Rightarrow> mkring_transport_send \<Rightarrow> int \<times> 'k" where
  "mkga_direct_send syscall k req =
    (case mkga_mkring_transport_direct syscall MKRING_TRANSPORT_OP_SEND (enc_send req) k of (rc, _, k') \<Rightarrow> (rc, k'))"

definition mkga_direct_recv ::
    "(u32 \<Rightarrow> bytes \<Rightarrow> 'k \<Rightarrow> int \<times> bytes \<times> 'k) option \<Rightarrow> 'k \<Rightarrow> mkring_transport_recv \<Rightarrow> int \<times> mkring_transport_recv \<times> 'k" where
  "mkga_direct_recv syscall k req =
    (case mkga_mkring_transport_direct syscall MKRING_TRANSPORT_OP_RECV (enc_recv req) k of (rc, mem, k') \<Rightarrow> (rc, dec_recv mem, k'))"

definition mkga_direct_destroy :: "'k \<Rightarrow> 'k" where
  "mkga_direct_destroy k = k"

definition mkga_direct_uapi_ops ::
    "(u32 \<Rightarrow> bytes \<Rightarrow> 'k \<Rightarrow> int \<times> bytes \<times> 'k) option \<Rightarrow> 'k mkga_mkring_uapi_ops" where
  "mkga_direct_uapi_ops syscall = \<lparr>uo_send = Some (mkga_direct_send syscall), uo_recv = Some (mkga_direct_recv syscall),
     uo_destroy = Some mkga_direct_destroy\<rparr>"

definition mkga_mkring_receive ::
    "i64 \<Rightarrow> 'k mkga_mkring_transport \<Rightarrow> mkga_envelope \<Rightarrow> int \<Rightarrow> (int \<times> mkga_envelope \<times> 'k mkga_mkring_transport) option" where
  "mkga_mkring_receive now impl req timeout_ms =
    (case Option.bind (mt_uapi_ops impl) uo_recv of
       None \<Rightarrow> Some (- ENOSYS, req, impl)
     | Some recv \<Rightarrow>
         let u = \<lparr>rcv_peer = 0, rcv_channel = ucast MKRING_CHANNEL_CONTAINER,
                  rcv_timeout_ms = (if timeout_ms < 0 then 0 else of_int timeout_ms), rcv_len = 0, rcv_message = replicate 1024 0\<rparr>
         in case recv (mt_uapi_impl impl) u of
              (rc, u', k') \<Rightarrow>
                let impl' = impl\<lparr>mt_uapi_impl := k'\<rparr> in
                if rc \<noteq> 0 then Some (rc, req, impl')
                else case mkga_decode_request_message now (Some u') True of
                       Inl rc' \<Rightarrow> Some (rc', req, impl')
                     | Inr env \<Rightarrow> Some (0, env, impl'))"

definition mkga_mkring_send :: "'k mkga_mkring_transport \<Rightarrow> mkga_envelope \<Rightarrow> int \<times> 'k mkga_mkring_transport" where
  "mkga_mkring_send impl resp =
    (case Option.bind (mt_uapi_ops impl) uo_send of
       None \<Rightarrow> (- ENOSYS, impl)
     | Some send \<Rightarrow>
         (case mkga_encode_response_message (Some resp) True of
            Inl rc \<Rightarrow> (rc, impl)
          | Inr u \<Rightarrow> (case send (mt_uapi_impl impl) u of (rc, k') \<Rightarrow> (rc, impl\<lparr>mt_uapi_impl := k'\<rparr>))))"

definition mkga_mkring_publish_ready :: "'k mkga_mkring_transport option \<Rightarrow> int \<times> 'k mkga_mkring_transport option" where
  "mkga_mkring_publish_ready impl =
    (case impl of
       None \<Rightarrow> (- ENOSYS, impl)
     | Some t \<Rightarrow>
         (case Option.bind (mt_uapi_ops t) uo_send of
            None \<Rightarrow> (- ENOSYS, impl)
          | Some send \<Rightarrow>
              (case mkga_encode_ready_message impl True of
                 Inl rc \<Rightarrow> (rc, impl)
               | Inr u \<Rightarrow> (case send (mt_uapi_impl t) u of (rc, k') \<Rightarrow> (rc, Some (t\<lparr>mt_uapi_impl := k'\<rparr>))))))"

text \<open>
  The destructor frees the two structures. The destructor of the call table it runs before is always
  \<^verbatim>\<open>mkga_direct_destroy\<close>, which does nothing to the kernel.
\<close>

definition mkga_mkring_destroy :: "'k mkga_mkring_transport option option \<Rightarrow> resource set \<Rightarrow> resource set" where
  "mkga_mkring_destroy transport held =
    (case transport of
       None \<Rightarrow> held
     | Some impl \<Rightarrow> held - (if impl \<noteq> None then {RImpl} else {}) - {RHandle})"

definition mkga_mkring_ops :: "i64 \<Rightarrow> 'k mkga_mkring_transport mkga_transport_ops" where
  "mkga_mkring_ops now = \<lparr>tr_receive = Some (mkga_mkring_receive now), tr_send = Some mkga_mkring_send,
     tr_destroy = Some mkga_mkring_destroy\<rparr>"

text \<open>On failure the result is the value of \<^verbatim>\<open>errno\<close> and the kernel state; \<open>alloc_ok\<close> covers both allocations.\<close>

definition mkga_mkring_transport_create ::
    "(u32 \<Rightarrow> bytes \<Rightarrow> 'k \<Rightarrow> int \<times> bytes \<times> 'k) option \<Rightarrow> i64 \<Rightarrow> bool \<Rightarrow> 'k \<Rightarrow> u16 \<Rightarrow> bytes option \<Rightarrow> u32 \<Rightarrow>
     (int \<times> 'k) + 'k mkga_mkring_transport mkga_transport" where
  "mkga_mkring_transport_create syscall now alloc_ok k peer_kernel_id runtime_name features =
    (if \<not> alloc_ok then Inl (ENOMEM, k)
     else
       let impl = \<lparr>mt_peer_kernel_id = peer_kernel_id,
                   mt_runtime_name = copied MAX_RUNTIME_NAME (case runtime_name of None \<Rightarrow> cs ''containerd'' | Some n \<Rightarrow> n),
                   mt_ready_features = features, mt_uapi_ops = Some (mkga_direct_uapi_ops syscall), mt_uapi_impl = k\<rparr>
       in case mkga_mkring_publish_ready (Some impl) of
            (rc, t) \<Rightarrow>
              if rc \<noteq> 0 then Inl (if rc < 0 then - rc else rc, mt_uapi_impl (the t))
              else Inr \<lparr>tr_ops = Some (mkga_mkring_ops now), tr_impl = t\<rparr>)"

section \<open>Basic facts\<close>

lemma copy_bounded_string_content:
  assumes "0 < length d"
  shows "\<exists>d'. mkga_copy_bounded_string (Some d) (Some s) = Some d' \<and> length d' = length d \<and> cstr d' = bounded (length d) s"
proof (cases "s = []")
  case True
  then have "cstr (d[0 := 0]) = []" using assms by (cases d) (simp_all add: cstr_def)
  with True assms show ?thesis by (simp add: mkga_copy_bounded_string_def bounded_def cstr_def)
next
  case False
  define k where "k = (if length d \<le> length (cstr s) then length d - 1 else length (cstr s))"
  have k: "k \<le> length (cstr s)" "k < length d" using assms by (auto simp: k_def)
  have len: "length (take k s) = k" using k(1) length_cstr [of s] by simp
  have t: "take k s = bounded (length d) s"
    using take_cstr [OF k(1)] assms by (auto simp: bounded_def copied_def k_def)
  let ?d = "put k [0] (put 0 (take k s) d)"
  have "?d = take k s @ 0 # drop (Suc k) d" using k(2) len by (simp add: put_def)
  then have "cstr ?d = bounded (length d) s"
    using cstr_append_zero [of "take k s" "drop (Suc k) d"] by (simp add: t) (simp add: bounded_def)
  moreover have "length ?d = length d" using k(2) len by simp
  moreover have "mkga_copy_bounded_string (Some d) (Some s) = Some ?d"
    using assms False by (simp add: mkga_copy_bounded_string_def k_def Let_def cstr_def)
  ultimately show ?thesis by blast
qed

definition str_ok :: "nat \<Rightarrow> bytes \<Rightarrow> bool" where
  "str_ok n s \<longleftrightarrow> is_cstr s \<and> length s < n"

lemma str_ok_length: "str_ok n s \<Longrightarrow> length (strz n s) = n"
  by (simp add: str_ok_def)

lemma bounded_strz: "str_ok n s \<Longrightarrow> bounded n (strz n s) = s"
  by (simp add: str_ok_def bounded_def cstr_strz)

lemma length_str_member [simp]: "length (str_member n s) = n" if "0 < n"
  using length_copied [OF that, of s] by (simp add: str_member_def)

lemma cstr_str_member: "is_cstr s \<Longrightarrow> 0 < n \<Longrightarrow> cstr (str_member n s) = copied n s"
  using length_copied [of n s] by (simp add: str_member_def cstr_strz)

lemma operation_code_inverse: "mkga_operation_from_mkring (mkga_operation_to_mkring op) = op"
  by (cases op) (simp_all add: mkga_operation_from_mkring_def)

lemma operation_code_zero: "mkga_operation_to_mkring op = 0 \<longleftrightarrow> op = MKGA_OP_INVALID"
  by (cases op) simp_all

text \<open>Error numbers of the runtime that have a name survive the trip through names; all others become \<^verbatim>\<open>EIO\<close>.\<close>

lemma errno_of_strerror:
  "mkga_errno_from_code (mkga_strerror_name (- e)) = (if e \<in> {EINVAL, ENOENT, ENOSPC, ENOSYS} then e else EIO)"
  by (auto simp: mkga_errno_from_code_def mkga_strerror_name.simps cs_def)

lemma direct_result:
  "syscall op arg k = (r, arg', k') \<Longrightarrow> mkga_mkring_transport_direct (Some syscall) op arg k = (r, arg', k')"
  by (simp add: mkga_mkring_transport_direct_def libc_result_def)

end
