(* ===== verification/RequestWire.thy ===== *)
theory RequestWire
  imports MkringTransport
begin

text \<open>
  The request messages a peer has to send so that the agent understands them: for every operation
  the members of the request structure in the order of \<^verbatim>\<open>mkring_container.h\<close>, strings terminated and
  padded with zeros. The theory proves that the decoder of \<^verbatim>\<open>transport_mkring.c\<close> inverts this
  encoding on every well-formed request, and that it accepts nothing else.
\<close>

section \<open>Encoding\<close>

definition enc_argv :: "bytes list \<Rightarrow> bytes" where
  "enc_argv argv = concat (map (strz MAX_ARG_LEN) argv)"

definition enc_create_req :: "mkga_create_container_req \<Rightarrow> bytes" where
  "enc_create_req r = strz MAX_KERNEL_ID (cc_kernel_id r) @ strz MAX_POD_ID (cc_pod_id r) @ strz MAX_NAME (cc_name r) @
     strz MAX_IMAGE (cc_image r) @ strz MAX_LOG_PATH (cc_log_path r) @ enc_le 4 (cc_argv_count r) @ enc_le 4 (0 :: u32) @
     enc_argv (cc_argv r)"

definition enc_control_req :: "mkga_container_control_req \<Rightarrow> bytes" where
  "enc_control_req r = strz MAX_KERNEL_ID (ct_kernel_id r) @ strz MAX_CONTAINER_ID (ct_container_id r) @
     enc_le 8 (ct_timeout_millis r)"

definition enc_read_log_req :: "mkga_read_log_req \<Rightarrow> bytes" where
  "enc_read_log_req r = strz MAX_KERNEL_ID (rl_kernel_id r) @ strz MAX_CONTAINER_ID (rl_container_id r) @
     enc_le 8 (rl_offset r) @ enc_le 4 (rl_max_bytes r)"

definition enc_prepare_req :: "mkga_exec_tty_prepare_req \<Rightarrow> bytes" where
  "enc_prepare_req r = strz MAX_KERNEL_ID (ep_kernel_id r) @ strz MAX_CONTAINER_ID (ep_container_id r) @
     enc_le 4 (ep_argv_count r) @ enc_le 1 (ep_tty r) @ enc_le 1 (ep_stdin_enabled r) @ enc_le 1 (ep_stdout_enabled r) @
     enc_le 1 (ep_stderr_enabled r) @ enc_argv (ep_argv r)"

definition enc_session_req :: "mkga_exec_session_control_req \<Rightarrow> bytes" where
  "enc_session_req r = strz MAX_KERNEL_ID (es_kernel_id r) @ strz MAX_CONTAINER_ID (es_session_id r)"

definition enc_resize_req :: "mkga_exec_tty_resize_req \<Rightarrow> bytes" where
  "enc_resize_req r = strz MAX_KERNEL_ID (ez_kernel_id r) @ strz MAX_CONTAINER_ID (ez_session_id r) @
     enc_le 4 (ez_width r) @ enc_le 4 (ez_height r)"

definition enc_endpoint :: "mkga_network_endpoint \<Rightarrow> bytes" where
  "enc_endpoint e = strz MAX_IP (en_ip e) @ enc_le 2 (en_peer_kernel_id e) @ enc_le 2 (0 :: u16)"

definition enc_network_req :: "mkga_configure_network_req \<Rightarrow> bytes" where
  "enc_network_req r = strz MAX_KERNEL_ID (nw_kernel_id r) @ strz MAX_POD_ID (nw_pod_id r) @ strz MAX_IP (nw_pod_ip r) @
     strz MAX_CIDR (nw_pod_cidr r) @ strz MAX_MODE (nw_mode r) @ enc_le 4 (nw_endpoint_count r) @ enc_le 4 (nw_port_count r) @
     concat (map enc_endpoint (nw_endpoints r)) @ concat (map (enc_le 2) (nw_ports r))"

definition enc_env_req :: "mkga_configure_env_req \<Rightarrow> bytes" where
  "enc_env_req r = strz MAX_KERNEL_ID (ev_kernel_id r) @ strz MAX_POD_ID (ev_pod_id r) @ strz MAX_NAME (ev_name r) @
     strz MAX_ENV_KEY (ev_key r) @ strz MAX_ENV_VALUE (ev_value r)"

section \<open>Well-formed requests\<close>

definition argv_ok :: "u32 \<Rightarrow> bytes list \<Rightarrow> bool" where
  "argv_ok n argv \<longleftrightarrow> unat n \<le> MKGA_MAX_ARGV \<and> length argv = MKGA_MAX_ARGV \<and>
     (\<forall>i<MKGA_MAX_ARGV. str_ok MAX_ARG_LEN (argv ! i) \<and> (unat n \<le> i \<longrightarrow> argv ! i = []))"

definition wf_create_req :: "mkga_create_container_req \<Rightarrow> bool" where
  "wf_create_req r \<longleftrightarrow> str_ok MAX_KERNEL_ID (cc_kernel_id r) \<and> str_ok MAX_POD_ID (cc_pod_id r) \<and> str_ok MAX_NAME (cc_name r) \<and>
     str_ok MAX_IMAGE (cc_image r) \<and> str_ok MAX_LOG_PATH (cc_log_path r) \<and> argv_ok (cc_argv_count r) (cc_argv r) \<and>
     cc_label_count r = 0 \<and> cc_labels r = cc_labels zero_create_req \<and>
     cc_annotation_count r = 0 \<and> cc_annotations r = cc_annotations zero_create_req"

definition wf_control_req :: "mkga_container_control_req \<Rightarrow> bool" where
  "wf_control_req r \<longleftrightarrow> str_ok MAX_KERNEL_ID (ct_kernel_id r) \<and> str_ok MAX_CONTAINER_ID (ct_container_id r)"

definition wf_read_log_req :: "mkga_read_log_req \<Rightarrow> bool" where
  "wf_read_log_req r \<longleftrightarrow> str_ok MAX_KERNEL_ID (rl_kernel_id r) \<and> str_ok MAX_CONTAINER_ID (rl_container_id r)"

definition wf_prepare_req :: "mkga_exec_tty_prepare_req \<Rightarrow> bool" where
  "wf_prepare_req r \<longleftrightarrow> str_ok MAX_KERNEL_ID (ep_kernel_id r) \<and> str_ok MAX_CONTAINER_ID (ep_container_id r) \<and>
     argv_ok (ep_argv_count r) (ep_argv r)"

definition wf_session_req :: "mkga_exec_session_control_req \<Rightarrow> bool" where
  "wf_session_req r \<longleftrightarrow> str_ok MAX_KERNEL_ID (es_kernel_id r) \<and> str_ok MAX_CONTAINER_ID (es_session_id r)"

definition wf_resize_req :: "mkga_exec_tty_resize_req \<Rightarrow> bool" where
  "wf_resize_req r \<longleftrightarrow> str_ok MAX_KERNEL_ID (ez_kernel_id r) \<and> str_ok MAX_CONTAINER_ID (ez_session_id r)"

definition wf_network_req :: "mkga_configure_network_req \<Rightarrow> bool" where
  "wf_network_req r \<longleftrightarrow> str_ok MAX_KERNEL_ID (nw_kernel_id r) \<and> str_ok MAX_POD_ID (nw_pod_id r) \<and> str_ok MAX_IP (nw_pod_ip r) \<and>
     str_ok MAX_CIDR (nw_pod_cidr r) \<and> str_ok MAX_MODE (nw_mode r) \<and>
     unat (nw_endpoint_count r) \<le> MKGA_MAX_ENDPOINTS \<and> length (nw_endpoints r) = MKGA_MAX_ENDPOINTS \<and>
     (\<forall>i<MKGA_MAX_ENDPOINTS. str_ok MAX_IP (en_ip (nw_endpoints r ! i)) \<and> en_reserved0 (nw_endpoints r ! i) = 0 \<and>
        (unat (nw_endpoint_count r) \<le> i \<longrightarrow> nw_endpoints r ! i = zero_endpoint)) \<and>
     unat (nw_port_count r) \<le> MKGA_MAX_PORTS \<and> length (nw_ports r) = MKGA_MAX_PORTS \<and>
     (\<forall>i<MKGA_MAX_PORTS. unat (nw_port_count r) \<le> i \<longrightarrow> nw_ports r ! i = 0)"

definition wf_env_req :: "mkga_configure_env_req \<Rightarrow> bool" where
  "wf_env_req r \<longleftrightarrow> str_ok MAX_KERNEL_ID (ev_kernel_id r) \<and> str_ok MAX_POD_ID (ev_pod_id r) \<and> str_ok MAX_NAME (ev_name r) \<and>
     str_ok MAX_ENV_KEY (ev_key r) \<and> str_ok MAX_ENV_VALUE (ev_value r)"

section \<open>Decoding inverts encoding\<close>

lemma argv_round_trip:
  assumes "argv_ok n argv"
  shows "dec_argv n (enc_argv argv) = argv"
proof (rule nth_equalityI)
  show "length (dec_argv n (enc_argv argv)) = length argv" using assms by (simp add: dec_argv_def argv_ok_def)
next
  fix i assume "i < length (dec_argv n (enc_argv argv))"
  then have i: "i < 4" by (simp add: dec_argv_def)
  have argv: "length argv = 4" "\<And>j. j < 4 \<Longrightarrow> str_ok 64 (argv ! j)" "unat n \<le> i \<Longrightarrow> argv ! i = []"
    using assms i by (auto simp: argv_ok_def)
  have "length (strz 64 a) = 64" if "a \<in> set argv" for a
    using that argv(1,2) by (metis in_set_conv_nth str_ok_length)
  then have "elem 64 i (enc_argv argv) = strz 64 (argv ! i)"
    using elem_concat [of "map (strz 64) argv" 64 i] argv(1) i by (simp add: enc_argv_def)
  then show "dec_argv n (enc_argv argv) ! i = argv ! i"
    using i argv bounded_strz [of 64 "argv ! i"] by (auto simp: dec_argv_def)
qed

lemma length_enc_argv: "argv_ok n argv \<Longrightarrow> length (enc_argv argv) = 256"
proof -
  assume a: "argv_ok n argv"
  then have "length (strz 64 x) = 64" if "x \<in> set argv" for x
    using that by (metis argv_ok_def in_set_conv_nth str_ok_length)
  then have "map (length \<circ> strz 64) argv = map (\<lambda>_. 64) argv" by simp
  then show ?thesis using a by (simp add: enc_argv_def length_concat argv_ok_def map_replicate_const sum_list_replicate)
qed

lemma argv_count_ok: "argv_ok n argv \<Longrightarrow> \<not> 4 < n"
  by (simp add: argv_ok_def word_less_nat_alt)

lemmas member_simps = get_def field_append str_ok_length bounded_strz Let_def dec_enc_u8 [simplified]

lemma create_round_trip:
  assumes r: "wf_create_req r"
  shows "dec_create_req (enc_create_req r) = Some r"
proof -
  have a: "argv_ok (cc_argv_count r) (cc_argv r)" using r by (simp add: wf_create_req_def)
  note [simp] = argv_count_ok [OF a] argv_round_trip [OF a] length_enc_argv [OF a]
  show ?thesis
    using r unfolding wf_create_req_def dec_create_req_def enc_create_req_def mkring_container_create_request_def
    by (simp add: member_simps zero_create_req_def)
qed

lemma control_round_trip: "wf_control_req r \<Longrightarrow> dec_control_req (enc_control_req r @ rest) = r"
  unfolding wf_control_req_def dec_control_req_def enc_control_req_def mkring_container_control_request_def
  by (cases r) (simp add: member_simps)

lemma read_log_round_trip: "wf_read_log_req r \<Longrightarrow> dec_read_log_req (enc_read_log_req r @ rest) = r"
  unfolding wf_read_log_req_def dec_read_log_req_def enc_read_log_req_def mkring_container_read_log_request_def
  by (cases r) (simp add: member_simps)

lemma prepare_round_trip:
  assumes r: "wf_prepare_req r"
  shows "dec_prepare_req (enc_prepare_req r @ rest) = Some r"
proof -
  have a: "argv_ok (ep_argv_count r) (ep_argv r)" using r by (simp add: wf_prepare_req_def)
  note [simp] = argv_count_ok [OF a] argv_round_trip [OF a] length_enc_argv [OF a]
  show ?thesis
    using r unfolding wf_prepare_req_def dec_prepare_req_def enc_prepare_req_def mkring_container_exec_tty_prepare_request_def
    by (simp add: member_simps)
qed

lemma session_round_trip:
  "wf_session_req r \<Longrightarrow> dec_session_req mkring_container_exec_tty_start_request (enc_session_req r @ rest) = r"
  "wf_session_req r \<Longrightarrow> dec_session_req mkring_container_exec_tty_close_request (enc_session_req r @ rest) = r"
  unfolding wf_session_req_def dec_session_req_def enc_session_req_def
    mkring_container_exec_tty_start_request_def mkring_container_exec_tty_close_request_def
  by (cases r, simp add: member_simps)+

lemma resize_round_trip: "wf_resize_req r \<Longrightarrow> dec_resize_req (enc_resize_req r @ rest) = r"
  unfolding wf_resize_req_def dec_resize_req_def enc_resize_req_def mkring_container_exec_tty_resize_request_def
  by (cases r) (simp add: member_simps)

lemma env_round_trip: "wf_env_req r \<Longrightarrow> dec_env_req (enc_env_req r @ rest) = r"
  unfolding wf_env_req_def dec_env_req_def enc_env_req_def mkring_container_configure_env_request_def
  by (cases r) (simp add: member_simps)

lemma endpoint_round_trip:
  assumes "str_ok 16 (en_ip e)" "en_reserved0 e = 0"
  shows "dec_endpoint (enc_endpoint e) = e" "length (enc_endpoint e) = 20"
  using assms unfolding dec_endpoint_def enc_endpoint_def mkring_container_network_endpoint_def
  by (simp_all add: member_simps zero_endpoint_def)

lemma concat_fixed: "\<forall>x\<in>set xs. length (f x) = k \<Longrightarrow> length (concat (map f xs)) = k * length xs"
  by (induction xs) simp_all

lemma elem_concat_map: "\<forall>x\<in>set xs. length (f x) = k \<Longrightarrow> i < length xs \<Longrightarrow> elem k i (concat (map f xs)) = f (xs ! i)"
  using elem_concat [of "map f xs" k i] by simp

lemma network_round_trip:
  assumes r: "wf_network_req r"
  shows "dec_network_req (enc_network_req r @ rest) = Some r"
proof -
  let ?E = "concat (map enc_endpoint (nw_endpoints r))" and ?P = "concat (map (enc_le 2) (nw_ports r))"
  have strs: "str_ok 64 (nw_kernel_id r)" "str_ok 64 (nw_pod_id r)" "str_ok 16 (nw_pod_ip r)" "str_ok 24 (nw_pod_cidr r)" "str_ok 16 (nw_mode r)"
    using r by (simp_all add: wf_network_req_def)
  have ne: "length (nw_endpoints r) = 16" and np: "length (nw_ports r) = 32" using r by (simp_all add: wf_network_req_def)
  have ep: "str_ok 16 (en_ip (nw_endpoints r ! i))" "en_reserved0 (nw_endpoints r ! i) = 0" if "i < 16" for i
    using r that by (simp_all add: wf_network_req_def)
  have len: "\<forall>e\<in>set (nw_endpoints r). length (enc_endpoint e) = 20"
    using ep endpoint_round_trip(2) ne by (metis in_set_conv_nth)
  note [simp] = concat_fixed [OF len, unfolded ne, simplified] concat_fixed [of "nw_ports r" "enc_le 2" 2, unfolded np, simplified]
  have E: "map (\<lambda>i. if i < unat (nw_endpoint_count r) then dec_endpoint (elem 20 i ?E) else zero_endpoint) [0..<16] = nw_endpoints r"
  proof (rule nth_equalityI)
    fix i assume "i < length (map (\<lambda>i. if i < unat (nw_endpoint_count r) then dec_endpoint (elem 20 i ?E) else zero_endpoint) [0..<16])"
    then have i: "i < 16" by simp
    then show "map (\<lambda>i. if i < unat (nw_endpoint_count r) then dec_endpoint (elem 20 i ?E) else zero_endpoint) [0..<16] ! i = nw_endpoints r ! i"
      using elem_concat_map [OF len, of i] endpoint_round_trip(1) [OF ep [OF i]] r ne by (simp add: wf_network_req_def)
  qed (simp add: ne)
  have P: "map (\<lambda>i. if i < unat (nw_port_count r) then dec_le (elem 2 i ?P) else 0) [0..<32] = nw_ports r"
  proof (rule nth_equalityI)
    fix i assume "i < length (map (\<lambda>i. if i < unat (nw_port_count r) then dec_le (elem 2 i ?P) else 0) [0..<32] :: u16 list)"
    then have i: "i < 32" by simp
    then show "map (\<lambda>i. if i < unat (nw_port_count r) then dec_le (elem 2 i ?P) else 0) [0..<32] ! i = nw_ports r ! i"
      using elem_concat_map [of "nw_ports r" "enc_le 2" 2 i] r np by (simp add: wf_network_req_def)
  qed (simp add: np)
  have cnt: "\<not> 16 < nw_endpoint_count r" "\<not> 32 < nw_port_count r"
    using r by (simp_all add: wf_network_req_def word_less_nat_alt)
  let ?S = "mkring_container_configure_network_request" and ?b = "enc_network_req r @ rest"
  have gets: "get ?S ''kernel_id'' ?b = strz 64 (nw_kernel_id r)" "get ?S ''pod_id'' ?b = strz 64 (nw_pod_id r)"
    "get ?S ''pod_ip'' ?b = strz 16 (nw_pod_ip r)" "get ?S ''pod_cidr'' ?b = strz 24 (nw_pod_cidr r)"
    "get ?S ''mode'' ?b = strz 16 (nw_mode r)" "get ?S ''endpoint_count'' ?b = enc_le 4 (nw_endpoint_count r)"
    "get ?S ''port_count'' ?b = enc_le 4 (nw_port_count r)" "get ?S ''endpoints'' ?b = ?E" "get ?S ''ports'' ?b = ?P"
    unfolding enc_network_req_def mkring_container_configure_network_request_def
    by (simp_all add: member_simps strs)
  show ?thesis
    unfolding dec_network_req_def Let_def gets container_sizes by (simp add: bounded_strz strs cnt E P del: upt_Suc)
qed

lemma length_enc_network:
  assumes r: "wf_network_req r"
  shows "length (enc_network_req r) = 576"
proof -
  have len: "\<forall>e\<in>set (nw_endpoints r). length (enc_endpoint e) = 20"
    using r endpoint_round_trip(2) by (metis in_set_conv_nth wf_network_req_def)
  show ?thesis
    using r concat_fixed [OF len] concat_fixed [of "nw_ports r" "enc_le 2" 2]
    by (simp add: enc_network_req_def wf_network_req_def str_ok_length)
qed

section \<open>Whole messages\<close>

text \<open>The request structure of a payload, its length, and the kernel identifier at its start.\<close>

fun enc_req :: "mkga_payload \<Rightarrow> bytes" where
  "enc_req (PCreateReq r) = enc_create_req r"
| "enc_req (PControlReq r) = enc_control_req r"
| "enc_req (PReadLogReq r) = enc_read_log_req r"
| "enc_req (PPrepareReq r) = enc_prepare_req r"
| "enc_req (PSessionReq r) = enc_session_req r"
| "enc_req (PResizeReq r) = enc_resize_req r"
| "enc_req (PNetworkReq r) = enc_network_req r"
| "enc_req (PEnvReq r) = enc_env_req r"
| "enc_req _ = []"

fun req_kernel_id :: "mkga_payload \<Rightarrow> bytes" where
  "req_kernel_id (PCreateReq r) = cc_kernel_id r"
| "req_kernel_id (PControlReq r) = ct_kernel_id r"
| "req_kernel_id (PReadLogReq r) = rl_kernel_id r"
| "req_kernel_id (PPrepareReq r) = ep_kernel_id r"
| "req_kernel_id (PSessionReq r) = es_kernel_id r"
| "req_kernel_id (PResizeReq r) = ez_kernel_id r"
| "req_kernel_id (PNetworkReq r) = nw_kernel_id r"
| "req_kernel_id (PEnvReq r) = ev_kernel_id r"
| "req_kernel_id _ = []"

definition wf_payload :: "mkga_operation \<Rightarrow> mkga_payload \<Rightarrow> bool" where
  "wf_payload op p =
    (case p of
       PCreateReq r \<Rightarrow> op = MKGA_OP_CREATE_CONTAINER \<and> wf_create_req r
     | PControlReq r \<Rightarrow>
         op \<in> {MKGA_OP_START_CONTAINER, MKGA_OP_STOP_CONTAINER, MKGA_OP_REMOVE_CONTAINER, MKGA_OP_STATUS_CONTAINER} \<and> wf_control_req r
     | PReadLogReq r \<Rightarrow> op = MKGA_OP_READ_LOG \<and> wf_read_log_req r
     | PPrepareReq r \<Rightarrow> op = MKGA_OP_EXEC_TTY_PREPARE \<and> wf_prepare_req r
     | PSessionReq r \<Rightarrow> op \<in> {MKGA_OP_EXEC_TTY_START, MKGA_OP_EXEC_TTY_CLOSE} \<and> wf_session_req r
     | PResizeReq r \<Rightarrow> op = MKGA_OP_EXEC_TTY_RESIZE \<and> wf_resize_req r
     | PNetworkReq r \<Rightarrow> op = MKGA_OP_CONFIGURE_NETWORK \<and> wf_network_req r
     | PEnvReq r \<Rightarrow> op = MKGA_OP_CONFIGURE_ENV \<and> wf_env_req r
     | _ \<Rightarrow> False)"

definition request_bytes :: "u64 \<Rightarrow> mkga_operation \<Rightarrow> mkga_payload \<Rightarrow> bytes" where
  "request_bytes rid op p =
    enc_proto_header (container_hdr MKRING_CONTAINER_KIND_REQUEST (mkga_operation_to_mkring op) rid 0 (length (enc_req p))) @
    enc_req p @ replicate (sizeof_payload - length (enc_req p)) 0"

text \<open>The envelope a well-formed request stands for.\<close>

definition request_envelope :: "i64 \<Rightarrow> u16 \<Rightarrow> u64 \<Rightarrow> mkga_operation \<Rightarrow> mkga_payload \<Rightarrow> mkga_envelope" where
  "request_envelope now peer rid op p =
    (mkga_envelope_init now)\<lparr>e_kind := MKGA_MESSAGE_REQUEST, e_operation := op, e_peer_kernel_id := peer,
       e_transport_request_id := rid, e_id := fmt_u (unat rid), e_kernel_id := req_kernel_id p, e_payload := p\<rparr>"

lemma wf_payload_facts:
  assumes "wf_payload op p"
  shows "dec_payload op (enc_req p @ replicate (968 - length (enc_req p)) 0) = Some p"
    and "length (enc_req p) \<le> 968" and "op \<noteq> MKGA_OP_INVALID"
    and "field 0 64 (enc_req p @ rest) = strz 64 (req_kernel_id p)" "str_ok 64 (req_kernel_id p)"
    and "mkga_message_matches_operation (Some (container_hdr kind (mkga_operation_to_mkring op) rid st (length (enc_req p))))"
proof -
  consider (create) r where "op = MKGA_OP_CREATE_CONTAINER" "p = PCreateReq r" "wf_create_req r"
    | (control) r where "op \<in> {MKGA_OP_START_CONTAINER, MKGA_OP_STOP_CONTAINER, MKGA_OP_REMOVE_CONTAINER, MKGA_OP_STATUS_CONTAINER}"
        "p = PControlReq r" "wf_control_req r"
    | (read_log) r where "op = MKGA_OP_READ_LOG" "p = PReadLogReq r" "wf_read_log_req r"
    | (prepare) r where "op = MKGA_OP_EXEC_TTY_PREPARE" "p = PPrepareReq r" "wf_prepare_req r"
    | (session) r where "op \<in> {MKGA_OP_EXEC_TTY_START, MKGA_OP_EXEC_TTY_CLOSE}" "p = PSessionReq r" "wf_session_req r"
    | (resize) r where "op = MKGA_OP_EXEC_TTY_RESIZE" "p = PResizeReq r" "wf_resize_req r"
    | (network) r where "op = MKGA_OP_CONFIGURE_NETWORK" "p = PNetworkReq r" "wf_network_req r"
    | (env) r where "op = MKGA_OP_CONFIGURE_ENV" "p = PEnvReq r" "wf_env_req r"
    using assms by (cases p) (auto simp: wf_payload_def)
  then have "dec_payload op (enc_req p @ replicate (968 - length (enc_req p)) 0) = Some p \<and> length (enc_req p) \<le> 968 \<and>
      op \<noteq> MKGA_OP_INVALID \<and> field 0 64 (enc_req p @ rest) = strz 64 (req_kernel_id p) \<and> str_ok 64 (req_kernel_id p) \<and>
      mkga_message_matches_operation (Some (container_hdr kind (mkga_operation_to_mkring op) rid st (length (enc_req p))))"
  proof cases
    case create
    then have "argv_ok (cc_argv_count r) (cc_argv r)" by (simp add: wf_create_req_def)
    then have "length (enc_create_req r) = 968" "field 0 64 (enc_create_req r @ rest) = strz 64 (cc_kernel_id r)" "str_ok 64 (cc_kernel_id r)"
      using create(3) length_enc_argv by (simp_all add: enc_create_req_def wf_create_req_def member_simps)
    with create create_round_trip [OF create(3)] show ?thesis
      by (simp add: mkga_message_matches_operation_def container_hdr_def)
  next
    case control
    then have "length (enc_control_req r) = 136" "field 0 64 (enc_control_req r @ rest) = strz 64 (ct_kernel_id r)" "str_ok 64 (ct_kernel_id r)"
      by (simp_all add: enc_control_req_def wf_control_req_def member_simps)
    with control control_round_trip [OF control(3)] show ?thesis
      by (auto simp: mkga_message_matches_operation_def container_hdr_def)
  next
    case read_log
    then have "length (enc_read_log_req r) = 140" "field 0 64 (enc_read_log_req r @ rest) = strz 64 (rl_kernel_id r)" "str_ok 64 (rl_kernel_id r)"
      by (simp_all add: enc_read_log_req_def wf_read_log_req_def member_simps)
    with read_log read_log_round_trip [OF read_log(3)] show ?thesis
      by (simp add: mkga_message_matches_operation_def container_hdr_def)
  next
    case prepare
    then have "argv_ok (ep_argv_count r) (ep_argv r)" by (simp add: wf_prepare_req_def)
    then have "length (enc_prepare_req r) = 392" "field 0 64 (enc_prepare_req r @ rest) = strz 64 (ep_kernel_id r)" "str_ok 64 (ep_kernel_id r)"
      using prepare(3) length_enc_argv by (simp_all add: enc_prepare_req_def wf_prepare_req_def member_simps)
    with prepare prepare_round_trip [OF prepare(3)] show ?thesis
      by (simp add: mkga_message_matches_operation_def container_hdr_def)
  next
    case session
    then have "length (enc_session_req r) = 128" "field 0 64 (enc_session_req r @ rest) = strz 64 (es_kernel_id r)" "str_ok 64 (es_kernel_id r)"
      by (simp_all add: enc_session_req_def wf_session_req_def member_simps)
    with session session_round_trip [OF session(3)] show ?thesis
      by (auto simp: mkga_message_matches_operation_def container_hdr_def)
  next
    case resize
    then have "length (enc_resize_req r) = 136" "field 0 64 (enc_resize_req r @ rest) = strz 64 (ez_kernel_id r)" "str_ok 64 (ez_kernel_id r)"
      by (simp_all add: enc_resize_req_def wf_resize_req_def member_simps)
    with resize resize_round_trip [OF resize(3)] show ?thesis
      by (simp add: mkga_message_matches_operation_def container_hdr_def)
  next
    case network
    then have "length (enc_network_req r) = 576" "field 0 64 (enc_network_req r @ rest) = strz 64 (nw_kernel_id r)" "str_ok 64 (nw_kernel_id r)"
      using length_enc_network [of r] by (simp_all add: enc_network_req_def wf_network_req_def member_simps)
    with network network_round_trip [OF network(3)] show ?thesis
      by (simp add: mkga_message_matches_operation_def container_hdr_def)
  next
    case env
    then have "length (enc_env_req r) = 512" "field 0 64 (enc_env_req r @ rest) = strz 64 (ev_kernel_id r)" "str_ok 64 (ev_kernel_id r)"
      by (simp_all add: enc_env_req_def wf_env_req_def member_simps)
    with env env_round_trip [OF env(3)] show ?thesis
      by (simp add: mkga_message_matches_operation_def container_hdr_def)
  qed
  then show "dec_payload op (enc_req p @ replicate (968 - length (enc_req p)) 0) = Some p"
    and "length (enc_req p) \<le> 968" and "op \<noteq> MKGA_OP_INVALID"
    and "field 0 64 (enc_req p @ rest) = strz 64 (req_kernel_id p)" "str_ok 64 (req_kernel_id p)"
    and "mkga_message_matches_operation (Some (container_hdr kind (mkga_operation_to_mkring op) rid st (length (enc_req p))))"
    by blast+
qed

lemma length_request_bytes: "wf_payload op p \<Longrightarrow> length (request_bytes rid op p) = 996"
  using wf_payload_facts(2) by (simp add: request_bytes_def)

lemma container_hdr_fields [simp]:
  "ph_magic (container_hdr kind op rid st n) = MKRING_PROTO_MAGIC" "ph_version (container_hdr kind op rid st n) = MKRING_PROTO_VERSION"
  "ph_channel (container_hdr kind op rid st n) = MKRING_CHANNEL_CONTAINER" "ph_kind (container_hdr kind op rid st n) = kind"
  "ph_operation (container_hdr kind op rid st n) = op" "ph_request_id (container_hdr kind op rid st n) = rid"
  "ph_status (container_hdr kind op rid st n) = of_int st" "ph_payload_len (container_hdr kind op rid st n) = of_nat n"
  by (simp_all add: container_hdr_def)

lemma message_parts:
  assumes "length h = 28" "length p = 968"
  shows "get mkring_container_message ''hdr'' (h @ p) = h" "get mkring_container_message ''payload'' (h @ p) = p"
  using assms by (simp_all add: get_def mkring_container_message_def field_append)

lemma container_hdr_valid:
  "n \<le> 968 \<Longrightarrow> mkring_proto_header_valid (Some (enc_proto_header (container_hdr kind op rid st n) @ p)) 996"
  by (simp add: mkring_proto_header_valid_def Let_def dec_enc_proto_header word_less_nat_alt unsigned_of_nat
      take_bit_nat_eq_self)

lemma decode_request:
  assumes "wf_payload op p" "rcv_len u = 996" "rcv_message u = request_bytes rid op p @ rest"
  shows "mkga_decode_request_message now (Some u) True = Inr (request_envelope now (rcv_peer u) rid op p)"
proof -
  note w = wf_payload_facts [OF assms(1)]
  let ?h = "container_hdr MKRING_CONTAINER_KIND_REQUEST (mkga_operation_to_mkring op) rid 0 (length (enc_req p))"
  let ?p = "enc_req p @ replicate (968 - length (enc_req p)) 0"
  have msg: "take 996 (rcv_message u) = enc_proto_header ?h @ ?p"
    using assms(3) length_request_bytes [OF assms(1), of rid] by (simp add: request_bytes_def)
  have p: "length ?p = 968" using w(2) by simp
  have "length (fmt_u (unat rid)) < 64" using length_fmt_u64 [of rid] by simp
  then have "copied 64 (fmt_u (unat rid)) = fmt_u (unat rid)" by (simp add: copied_def)
  moreover have "bounded 64 (field 0 64 ?p) = req_kernel_id p"
    unfolding w(4) by (rule bounded_strz [OF w(5)])
  ultimately show ?thesis
    using w(1,3,6) container_hdr_valid [OF w(2)] dec_enc_proto_header [of ?h "[]"] assms(2) p
    by (simp add: mkga_decode_request_message_def msg message_parts Let_def operation_code_inverse request_envelope_def)
qed

text \<open>
  C5. The decoder understands every well-formed request, completely. For each of the twelve
  operations, a peer that lays out a request as \<^verbatim>\<open>mkring_container.h\<close> says, with any request id and
  strings that fit their fields, gets exactly that request to the agent: same operation, same
  transport request id (also as the decimal message id), the sender's kernel, and every member of
  the payload unchanged, whatever follows the message in the buffer.
\<close>

theorem decode_request_roundtrip:
  assumes "wf_payload op p" "rcv_len u = 996" "rcv_message u = request_bytes rid op p @ rest"
  shows "mkga_decode_request_message now (Some u) True = Inr (request_envelope now (rcv_peer u) rid op p)"
  by (rule decode_request [OF assms])

definition stop_req :: mkga_container_control_req where
  "stop_req = \<lparr>ct_kernel_id = cs ''k1'', ct_container_id = cs ''ctr-1'', ct_timeout_millis = 1500\<rparr>"

lemma stop_req_wf: "wf_payload MKGA_OP_STOP_CONTAINER (PControlReq stop_req)"
  by (simp add: wf_payload_def wf_control_req_def stop_req_def str_ok_def is_cstr_def cs_def)

theorem decode_request_roundtrip_witness:
  "mkga_decode_request_message 7 (Some \<lparr>rcv_peer = 2, rcv_channel = 1, rcv_timeout_ms = 0, rcv_len = 996,
     rcv_message = request_bytes 42 MKGA_OP_STOP_CONTAINER (PControlReq stop_req) @ replicate 28 9\<rparr>) True =
   Inr (request_envelope 7 2 42 MKGA_OP_STOP_CONTAINER (PControlReq stop_req))"
  by (subst decode_request_roundtrip [OF stop_req_wf]) simp_all

end
