(* ===== verification/ResponseWire.thy ===== *)
theory ResponseWire
  imports RequestWire
begin

text \<open>
  What can be said of the messages at the agent's end of the wire without assuming anything of the
  peer: every request the decoder accepts is well-formed, and every response the encoder of
  \<^verbatim>\<open>transport_mkring.c\<close> produces is a valid message from which a peer reads back the result.
\<close>

section \<open>Accepted requests\<close>

lemma str_ok_bounded: "0 < n \<Longrightarrow> str_ok n (bounded n s)"
proof -
  assume n: "0 < n"
  have "set (copied n (cstr s)) \<subseteq> set (cstr s)" by (auto simp: copied_def dest: in_set_takeD)
  moreover have "0 \<notin> set (cstr s)" using is_cstr_cstr [of s] by (simp add: is_cstr_def)
  moreover have "length (copied n (cstr s)) < n" using n by (simp add: copied_def)
  ultimately show ?thesis by (auto simp: str_ok_def bounded_def is_cstr_def)
qed

lemma str_ok_Nil: "0 < n \<Longrightarrow> str_ok n []"
  by (simp add: str_ok_def is_cstr_def)

lemma argv_ok_dec: "\<not> 4 < n \<Longrightarrow> argv_ok n (dec_argv n bs)"
  by (auto simp: argv_ok_def dec_argv_def word_less_nat_alt str_ok_bounded str_ok_Nil)

lemma dec_payload_wf:
  assumes "dec_payload op bs = Some p"
  shows "wf_payload op p"
proof -
  have create: "wf_create_req r" if "dec_create_req bs = Some r" for r
    using that argv_ok_dec
    by (auto simp: dec_create_req_def wf_create_req_def Let_def str_ok_bounded zero_create_req_def split: if_splits)
  have prepare: "wf_prepare_req r" if "dec_prepare_req bs = Some r" for r
    using that argv_ok_dec
    by (auto simp: dec_prepare_req_def wf_prepare_req_def Let_def str_ok_bounded split: if_splits)
  have endpoint: "str_ok 16 (en_ip (dec_endpoint e))" "en_reserved0 (dec_endpoint e) = 0" for e
    by (simp_all add: dec_endpoint_def str_ok_bounded zero_endpoint_def)
  have network: "wf_network_req r" if "dec_network_req bs = Some r" for r
    using that
    by (auto simp: dec_network_req_def wf_network_req_def Let_def str_ok_bounded endpoint zero_endpoint_def str_ok_Nil
        word_less_nat_alt not_less split: if_splits)
  have rest: "wf_control_req (dec_control_req bs)" "wf_read_log_req (dec_read_log_req bs)" "wf_resize_req (dec_resize_req bs)"
    "wf_env_req (dec_env_req bs)" "wf_session_req (dec_session_req fs bs)" for fs
    by (simp_all add: dec_control_req_def wf_control_req_def dec_read_log_req_def wf_read_log_req_def dec_resize_req_def
        wf_resize_req_def dec_env_req_def wf_env_req_def dec_session_req_def wf_session_req_def Let_def str_ok_bounded)
  show ?thesis
    using assms create prepare network rest by (cases op) (auto simp: wf_payload_def)
qed

lemma dec_payload_kernel_id: "dec_payload op bs = Some p \<Longrightarrow> req_kernel_id p = bounded 64 (field 0 64 bs)"
  by (cases op)
    (auto simp: dec_create_req_def dec_network_req_def dec_env_req_def dec_read_log_req_def dec_prepare_req_def
      dec_session_req_def dec_resize_req_def dec_control_req_def container_structs get_def Let_def split: if_splits)


section \<open>Reading responses\<close>

text \<open>What a peer reads from the payload of a response without error, and what the agent meant to say.\<close>

definition dec_resp :: "mkga_operation \<Rightarrow> bytes \<Rightarrow> mkga_payload" where
  "dec_resp op bs =
    (if op = MKGA_OP_CREATE_CONTAINER then
       let rd = (\<lambda>n. get mkring_container_create_response n bs) in
       PCreateResp \<lparr>cr_container_id = cstr (rd ''container_id''), cr_image_ref = cstr (rd ''image_ref'')\<rparr>
     else if op = MKGA_OP_STOP_CONTAINER then
       PStopResp \<lparr>sp_exit_code = dec_le (get mkring_container_stop_response ''exit_code'' bs)\<rparr>
     else if op = MKGA_OP_STATUS_CONTAINER then
       let rd = (\<lambda>n. get mkring_container_status_response n bs) in
       PStatusResp \<lparr>st_state = dec_le (rd ''state''), st_exit_code = dec_le (rd ''exit_code''), st_pid = dec_le (rd ''pid''),
         st_started_at_unix_nano = dec_le (rd ''started_at_unix_nano''),
         st_finished_at_unix_nano = dec_le (rd ''finished_at_unix_nano''), st_message = cstr (rd ''message'')\<rparr>
     else if op = MKGA_OP_READ_LOG then
       let rd = (\<lambda>n. get mkring_container_read_log_response n bs) in
       PReadLogResp \<lparr>rr_next_offset = dec_le (rd ''next_offset''), rr_data_len = dec_le (rd ''data_len''),
         rr_eof = ((dec_le (rd ''eof'') :: u8) \<noteq> 0), rr_data = rd ''data''\<rparr>
     else if op = MKGA_OP_EXEC_TTY_PREPARE then
       PPrepareResp \<lparr>er_session_id = cstr (get mkring_container_exec_tty_prepare_response ''session_id'' bs)\<rparr>
     else PZero)"

text \<open>
  Responses whose strings fit the protocol. \<open>resp_of\<close> is the member of the union that the operation
  answers with.
\<close>

definition resp_of :: "mkga_operation \<Rightarrow> mkga_payload \<Rightarrow> mkga_payload" where
  "resp_of op p =
    (case op of
       MKGA_OP_CREATE_CONTAINER \<Rightarrow> PCreateResp (create_container_resp p)
     | MKGA_OP_STOP_CONTAINER \<Rightarrow> PStopResp (stop_container_resp p)
     | MKGA_OP_STATUS_CONTAINER \<Rightarrow> PStatusResp (container_status_resp p)
     | MKGA_OP_READ_LOG \<Rightarrow> PReadLogResp (read_log_resp p)
     | MKGA_OP_EXEC_TTY_PREPARE \<Rightarrow> PPrepareResp (exec_tty_prepare_resp p)
     | _ \<Rightarrow> PZero)"

fun wf_resp :: "mkga_payload \<Rightarrow> bool" where
  "wf_resp (PCreateResp r) \<longleftrightarrow> str_ok MAX_CONTAINER_ID (cr_container_id r) \<and> str_ok MAX_IMAGE_REF (cr_image_ref r)"
| "wf_resp (PStatusResp r) \<longleftrightarrow> str_ok MAX_ERROR_MSG (st_message r)"
| "wf_resp (PReadLogResp r) \<longleftrightarrow> length (rr_data r) = MAX_LOG_CHUNK"
| "wf_resp (PPrepareResp r) \<longleftrightarrow> str_ok MAX_CONTAINER_ID (er_session_id r)"
| "wf_resp _ \<longleftrightarrow> True"

fun resp_len :: "mkga_payload \<Rightarrow> nat" where
  "resp_len (PCreateResp r) = 320"
| "resp_len (PStopResp r) = 4"
| "resp_len (PStatusResp r) = 156"
| "resp_len (PReadLogResp r) = 400"
| "resp_len (PPrepareResp r) = 64"
| "resp_len _ = 0"

text \<open>Members written into a cleared structure are read back.\<close>

definition fits :: "packed \<Rightarrow> (string \<times> bytes) list \<Rightarrow> bool" where
  "fits fs vs \<longleftrightarrow> (\<forall>(n, v)\<in>set vs. n \<in> fst ` set fs \<and> length v = member_size fs n) \<and> distinct (map fst vs)"

lemma fold_set_member:
  "fits fs vs \<Longrightarrow> sizeof fs \<le> length bs \<Longrightarrow>
   length (fold (\<lambda>(n, v). set_member fs n v) vs bs) = length bs \<and>
   (\<forall>n\<in>fst ` set fs. get fs n (fold (\<lambda>(n, v). set_member fs n v) vs bs) =
      (case map_of vs n of None \<Rightarrow> get fs n bs | Some v \<Rightarrow> v))"
proof (induction vs arbitrary: bs)
  case (Cons x vs)
  obtain m v where x: "x = (m, v)" by fastforce
  have m: "m \<in> fst ` set fs" "length v = member_size fs m" "fits fs vs" "map_of vs m = None"
    using Cons.prems(1) by (auto simp: fits_def x map_of_eq_None_iff)
  have len: "length (set_member fs m v bs) = length bs" by (rule length_set_member [OF m(1,2) Cons.prems(2)])
  note IH = Cons.IH [OF m(3), of "set_member fs m v bs"]
  show ?case
    using IH len Cons.prems(2) get_set_same [OF m(1,2) Cons.prems(2)] get_set_other [OF m(1) _ _ m(2) Cons.prems(2)] m(4)
    by (auto simp: x split: option.split)
qed simp

lemma build_reads:
  assumes "fits fs vs" "sizeof fs \<le> 968"
  shows "length (build fs vs) = 968" "n \<in> fst ` set fs \<Longrightarrow> map_of vs n = Some v \<Longrightarrow> get fs n (build fs vs) = v"
  using fold_set_member [OF assms(1), of "replicate 968 0"] assms(2) by (auto simp: build_def)

lemma str_ok_copied: "str_ok n s \<Longrightarrow> copied n s = s"
  by (auto simp: str_ok_def copied_def)

lemma str_member_ok: "str_ok n s \<Longrightarrow> length (str_member n s) = n" "str_ok n s \<Longrightarrow> cstr (str_member n s) = s"
  by (simp_all add: str_member_def str_ok_copied str_ok_length) (simp add: str_ok_def cstr_strz)

lemma create_resp_reads:
  assumes "wf_resp (PCreateResp r)"
  shows "length (enc_create_resp r) = 968 \<and> dec_resp MKGA_OP_CREATE_CONTAINER (enc_create_resp r) = PCreateResp r"
proof -
  have "fits mkring_container_create_response [(''container_id'', str_member 64 (cr_container_id r)),
      (''image_ref'', str_member 256 (cr_image_ref r))]"
    by (simp add: fits_def mkring_container_create_response_def)
  from build_reads [OF this] assms show ?thesis
    by (simp add: enc_create_resp_def dec_resp_def str_member_ok) (simp add: mkring_container_create_response_def str_member_ok)
qed

lemma stop_resp_reads: "length (enc_stop_resp r) = 968 \<and> dec_resp MKGA_OP_STOP_CONTAINER (enc_stop_resp r) = PStopResp r"
proof -
  have "fits mkring_container_stop_response [(''exit_code'', enc_le 4 (sp_exit_code r))]"
    by (simp add: fits_def mkring_container_stop_response_def)
  from build_reads [OF this] show ?thesis
    by (simp add: enc_stop_resp_def dec_resp_def) (simp add: mkring_container_stop_response_def)
qed

lemma status_resp_reads:
  assumes "wf_resp (PStatusResp r)"
  shows "length (enc_status_resp r) = 968 \<and> dec_resp MKGA_OP_STATUS_CONTAINER (enc_status_resp r) = PStatusResp r"
proof -
  have "fits mkring_container_status_response
     [(''state'', enc_le 4 (st_state r)), (''exit_code'', enc_le 4 (st_exit_code r)), (''pid'', enc_le 4 (st_pid r)),
      (''started_at_unix_nano'', enc_le 8 (st_started_at_unix_nano r)),
      (''finished_at_unix_nano'', enc_le 8 (st_finished_at_unix_nano r)), (''message'', str_member 128 (st_message r))]"
    by (simp add: fits_def mkring_container_status_response_def)
  from build_reads [OF this] assms show ?thesis
    by (simp add: enc_status_resp_def dec_resp_def) (simp add: mkring_container_status_response_def str_member_ok)
qed

lemma read_log_resp_reads:
  assumes "wf_resp (PReadLogResp r)"
  shows "length (enc_read_log_resp r) = 968 \<and> dec_resp MKGA_OP_READ_LOG (enc_read_log_resp r) = PReadLogResp r"
proof -
  define e :: bytes where "e = [if rr_eof r then 1 else 0]"
  have e: "length e = 1" "(dec_le e :: u8) \<noteq> 0 \<longleftrightarrow> rr_eof r" by (simp_all add: e_def)
  have "fits mkring_container_read_log_response
     [(''next_offset'', enc_le 8 (rr_next_offset r)), (''data_len'', enc_le 4 (rr_data_len r)),
      (''eof'', e), (''data'', rr_data r)]"
    using assms e(1) by (simp add: fits_def mkring_container_read_log_response_def)
  from build_reads [OF this] e(2) show ?thesis
    by (simp add: enc_read_log_resp_def dec_resp_def flip: e_def) (simp add: mkring_container_read_log_response_def)
qed

lemma prepare_resp_reads:
  assumes "wf_resp (PPrepareResp r)"
  shows "length (enc_prepare_resp r) = 968 \<and> dec_resp MKGA_OP_EXEC_TTY_PREPARE (enc_prepare_resp r) = PPrepareResp r"
proof -
  have "fits mkring_container_exec_tty_prepare_response [(''session_id'', str_member 64 (er_session_id r))]"
    by (simp add: fits_def mkring_container_exec_tty_prepare_response_def)
  from build_reads [OF this] assms show ?thesis
    by (simp add: enc_prepare_resp_def dec_resp_def) (simp add: mkring_container_exec_tty_prepare_response_def str_member_ok)
qed

lemma enc_payload_reads:
  assumes "wf_resp (resp_of op p)" "op \<noteq> MKGA_OP_INVALID"
  shows "\<exists>bs. enc_payload op p = Some (resp_len (resp_of op p), bs) \<and> length bs = 968 \<and> dec_resp op bs = resp_of op p"
  using assms create_resp_reads stop_resp_reads status_resp_reads read_log_resp_reads prepare_resp_reads
  by (cases op) (simp_all add: resp_of_def, simp_all add: dec_resp_def)

lemma error_reads:
  assumes "is_cstr msg"
  shows "length (enc_error e msg) = 968"
    "dec_le (get mkring_container_error_payload ''errno_value'' (enc_error e msg)) = (of_int (- e) :: i32)"
    "cstr (get mkring_container_error_payload ''message'' (enc_error e msg)) = copied 128 msg"
proof -
  have "fits mkring_container_error_payload [(''errno_value'', enc_le 4 (of_int (- e) :: i32)), (''message'', str_member 128 msg)]"
    by (simp add: fits_def mkring_container_error_payload_def)
  note b = build_reads [OF this]
  show "length (enc_error e msg) = 968" using b(1) by (simp add: enc_error_def)
  have "get mkring_container_error_payload ''errno_value'' (enc_error e msg) = enc_le 4 (of_int (- e) :: i32)"
    unfolding enc_error_def by (rule b(2)) (simp_all add: mkring_container_error_payload_def)
  then show "dec_le (get mkring_container_error_payload ''errno_value'' (enc_error e msg)) = (of_int (- e) :: i32)"
    using dec_enc_u32 by metis
  have "get mkring_container_error_payload ''message'' (enc_error e msg) = str_member 128 msg"
    unfolding enc_error_def by (rule b(2)) (simp_all add: mkring_container_error_payload_def)
  then show "cstr (get mkring_container_error_payload ''message'' (enc_error e msg)) = copied 128 msg"
    using cstr_str_member [OF assms] by simp
qed

section \<open>Messages of the agent\<close>

text \<open>The prefix of a container message is what the kernel's transport checks.\<close>

lemma container_prefix:
  "prefix_magic (enc_proto_header (container_hdr kind op rid st n) @ p) = MKRING_PROTO_MAGIC"
  "prefix_version (enc_proto_header (container_hdr kind op rid st n) @ p) = MKRING_PROTO_VERSION"
  "prefix_channel (enc_proto_header (container_hdr kind op rid st n) @ p) = MKRING_CHANNEL_CONTAINER"
  using dec_enc_proto_header [of "container_hdr kind op rid st n" p]
  by (simp_all add: dec_proto_header_def prefix_magic_def prefix_version_def prefix_channel_def container_hdr_def)

lemma container_valid_message: "mkct_valid_message (Some (enc_proto_header (container_hdr kind op rid st n) @ p)) 996"
  by (simp add: mkct_valid_message_def container_prefix supported_channels [of 1, simplified])

text \<open>A message as the agent hands it to the system call.\<close>

lemma uapi_send_eq:
  "length p = 968 \<Longrightarrow> uapi_send peer h p = \<lparr>snd_peer = peer, snd_channel = 1, snd_len = 996,
     snd_message = (enc_proto_header h @ p) @ replicate 28 0\<rparr>"
  by (simp add: uapi_send_def put_def)

text \<open>
  A message carries an answer when it is valid and everything a peer needs can be read from it: the
  operation and the request id, and either the negated error number with its text or the result.
\<close>

definition carries :: "mkga_envelope \<Rightarrow> bytes \<Rightarrow> bool" where
  "carries r msg \<longleftrightarrow> length msg = 996 \<and> mkring_proto_header_valid (Some msg) 996 \<and>
    (let h = dec_proto_header msg; p = get mkring_container_message ''payload'' msg in
     ph_channel h = MKRING_CHANNEL_CONTAINER \<and> ph_kind h = MKRING_CONTAINER_KIND_RESPONSE \<and>
     mkga_operation_from_mkring (ph_operation h) = e_operation r \<and> ph_request_id h = e_transport_request_id r \<and>
     (if err_present (e_error r)
      then let e = mkga_errno_from_code (err_code (e_error r)) in
        sint (ph_status h) = - e \<and> unat (ph_payload_len h) = 132 \<and>
        sint (dec_le (get mkring_container_error_payload ''errno_value'' p) :: i32) = - e \<and>
        cstr (get mkring_container_error_payload ''message'' p) = copied MAX_ERROR_MSG (err_message (e_error r))
      else ph_status h = 0 \<and> unat (ph_payload_len h) = resp_len (resp_of (e_operation r) (e_payload r)) \<and>
        dec_resp (e_operation r) p = resp_of (e_operation r) (e_payload r)))"

definition sendable :: "mkga_envelope \<Rightarrow> bool" where
  "sendable r \<longleftrightarrow> e_kind r = MKGA_MESSAGE_RESPONSE \<and> e_operation r \<noteq> MKGA_OP_INVALID \<and> e_transport_request_id r \<noteq> 0 \<and>
    (if err_present (e_error r) then is_cstr (err_message (e_error r)) else wf_resp (resp_of (e_operation r) (e_payload r)))"

lemma errno_from_code_range: "mkga_errno_from_code c \<in> {EINVAL, ENOENT, ENOSPC, ENOSYS, EIO}"
  by (auto simp: mkga_errno_from_code_def)

lemma sint_minus_errno: "sint (of_int (- mkga_errno_from_code c) :: i32) = - mkga_errno_from_code c"
  using errno_from_code_range [of c] by auto

lemma resp_len_le: "resp_len p \<le> 968"
  by (cases p) simp_all

lemma encode_carries:
  assumes "sendable r"
  shows "\<exists>n st p. mkga_encode_response_message (Some r) True = Inr (uapi_send (e_peer_kernel_id r)
      (container_hdr MKRING_CONTAINER_KIND_RESPONSE (mkga_operation_to_mkring (e_operation r)) (e_transport_request_id r) st n) p) \<and>
    length p = 968 \<and> carries r (enc_proto_header
      (container_hdr MKRING_CONTAINER_KIND_RESPONSE (mkga_operation_to_mkring (e_operation r)) (e_transport_request_id r) st n) @ p)"
proof -
  let ?op = "mkga_operation_to_mkring (e_operation r)" and ?rid = "e_transport_request_id r"
  let ?h = "container_hdr MKRING_CONTAINER_KIND_RESPONSE ?op ?rid"
  have op: "?op \<noteq> 0" "?rid \<noteq> 0" "e_kind r = MKGA_MESSAGE_RESPONSE"
    using assms operation_code_zero by (auto simp: sendable_def)
  show ?thesis
  proof (cases "err_present (e_error r)")
    case True
    let ?e = "mkga_errno_from_code (err_code (e_error r))" and ?m = "err_message (e_error r)"
    note e = error_reads [of ?m ?e]
    have m: "is_cstr ?m" using assms True by (simp add: sendable_def)
    have "mkga_encode_response_message (Some r) True = Inr (uapi_send (e_peer_kernel_id r) (?h (- ?e) 132) (enc_error ?e ?m))"
      using True op by (simp add: mkga_encode_response_message_def Let_def)
    moreover have "carries r (enc_proto_header (?h (- ?e) 132) @ enc_error ?e ?m)"
      using True e [OF m] container_hdr_valid [of 132] message_parts(2) [of "enc_proto_header (?h (- ?e) 132)" "enc_error ?e ?m"]
      unfolding carries_def
      by (simp add: Let_def dec_enc_proto_header operation_code_inverse sint_minus_errno [simplified])
    ultimately show ?thesis using e(1) [OF m] by blast
  next
    case False
    let ?n = "resp_len (resp_of (e_operation r) (e_payload r))"
    obtain p where p: "enc_payload (e_operation r) (e_payload r) = Some (?n, p)" "length p = 968"
        "dec_resp (e_operation r) p = resp_of (e_operation r) (e_payload r)"
      using enc_payload_reads [of "e_operation r" "e_payload r"] assms False by (auto simp: sendable_def)
    have "unat (of_nat ?n :: u32) = ?n" using resp_len_le [of "resp_of (e_operation r) (e_payload r)"]
      by (simp add: unsigned_of_nat take_bit_nat_eq_self)
    then have "carries r (enc_proto_header (?h 0 ?n) @ p)"
      using False p(2,3) container_hdr_valid [OF resp_len_le] message_parts(2) [of "enc_proto_header (?h 0 ?n)" p]
      unfolding carries_def by (simp add: Let_def dec_enc_proto_header operation_code_inverse)
    moreover have "mkga_encode_response_message (Some r) True = Inr (uapi_send (e_peer_kernel_id r) (?h 0 ?n) p)"
      using False op p(1) by (simp add: mkga_encode_response_message_def Let_def)
    ultimately show ?thesis using p(2) by blast
  qed
qed


definition created_resp :: mkga_envelope where
  "created_resp = zero_envelope\<lparr>e_kind := MKGA_MESSAGE_RESPONSE, e_operation := MKGA_OP_CREATE_CONTAINER, e_peer_kernel_id := 2,
     e_transport_request_id := 42, e_payload := PCreateResp \<lparr>cr_container_id = cs ''ctr-1'', cr_image_ref = cs ''busybox''\<rparr>\<rparr>"


end
