(* ===== verification/AgentMemory.thy ===== *)
theory AgentMemory
  imports Agent
begin

text \<open>
  The guest agent on its in-memory runtime and its stub transport, as \<^verbatim>\<open>tests/test_agent.c\<close> and
  \<^verbatim>\<open>main.c --runtime memory\<close> assemble it: what its answers mean, that they come in order, and that
  container identifiers are not reused.
\<close>

section \<open>Concrete requests\<close>

definition fresh_memory :: mkga_memory_runtime where
  "fresh_memory = \<lparr>mr_next_id = 0, mr_containers = replicate 64 zero_container\<rparr>"

lemma runtime_create_fresh: "fst (mkga_memory_runtime_create True True True) = rt_of mkga_memory_ops fresh_memory"
  by (simp add: mkga_memory_runtime_create_def fresh_memory_def)

lemma fresh_memory_ok:
  "mem_inv fresh_memory" "mem_view fresh_memory = Map.empty" "mem_issued fresh_memory = {}" "mem_budget fresh_memory = 2 ^ 32 - 1"
proof -
  have s: "slot fresh_memory i = zero_container" if "i < 64" for i
    using that by (simp add: fresh_memory_def)
  then have free: "\<not> mc_in_use (slot fresh_memory i)" if "i < 64" for i
    using that by (simp add: zero_container_def)
  show inv: "mem_inv fresh_memory"
    by (rule mem_invI) (use free in \<open>auto simp: fresh_memory_def\<close>)
  show "mem_view fresh_memory = Map.empty"
    by (rule ext) (use free in \<open>simp add: mem_view_None memory_find_None\<close>)
  show "mem_issued fresh_memory = {}" "mem_budget fresh_memory = 2 ^ 32 - 1"
    by (simp_all add: mem_issued_def mem_budget_def fresh_memory_def)
qed

definition request :: "mkga_operation \<Rightarrow> u64 \<Rightarrow> mkga_payload \<Rightarrow> mkga_envelope" where
  "request op n p = (mkga_envelope_init 0)\<lparr>e_kind := MKGA_MESSAGE_REQUEST, e_operation := op,
     e_transport_request_id := n, e_payload := p\<rparr>"

definition control :: "string \<Rightarrow> mkga_payload" where
  "control k = PControlReq (zero_control_req\<lparr>ct_container_id := cs k\<rparr>)"

definition mem_agent :: "'t mkga_transport option \<Rightarrow> ('t, mkga_memory_runtime) mkga_agent" where
  "mem_agent tr = mkga_agent_init tr (rt_of mkga_memory_ops fresh_memory) 1000"

section \<open>Properties\<close>

text \<open>
  The agent never fails on a request and never leaves one unanswered: for every envelope, valid
  or not, \<^verbatim>\<open>mkga_agent_handle\<close> returns 0 with a response that carries the identifier, the operation, the
  peer and the transport request number of the request. A response with an error has an error
  code and no payload; a response without error answers a request of a known operation and its
  payload is the member of the union that belongs to the operation. An envelope that is not a
  request leaves the runtime untouched.
\<close>

theorem handle_always_answers:
  assumes "ag_runtime a = Some rt"
  shows "\<exists>resp rt'. mkga_agent_handle t1 t2 (Some a) (Some q) (Some r) = (0, Some resp, Some (a\<lparr>ag_runtime := Some rt'\<rparr>)) \<and>
    answer_ok q resp \<and> (e_kind q \<noteq> MKGA_MESSAGE_REQUEST \<longrightarrow> rt' = rt)"
  using assms by (rule handle_total)

theorem handle_always_answers_witness:
  "\<exists>resp rt'. mkga_agent_handle 5 6 (Some (mem_agent (None :: unit mkga_transport option)))
      (Some (request MKGA_OP_STOP_CONTAINER 7 (control ''ctr-1''))) (Some zero_envelope) =
        (0, Some resp, Some ((mem_agent None)\<lparr>ag_runtime := Some rt'\<rparr>)) \<and>
    answer_ok (request MKGA_OP_STOP_CONTAINER 7 (control ''ctr-1'')) resp"
  using handle_always_answers [of "mem_agent (None :: unit mkga_transport option)"
      "\<lparr>rt_ops = Some mkga_memory_ops, rt_impl = Some fresh_memory\<rparr>" 5 6
      "request MKGA_OP_STOP_CONTAINER 7 (control ''ctr-1'')" zero_envelope]
  by (auto simp: mem_agent_def mkga_agent_init_def rt_of_def)

text \<open>
  C4. The agent on the in-memory runtime implements a container store of 64 entries. In every state
  the invariant allows, the answer to a request says truthfully what happened to the set of
  containers: create adds one stopped container under a new identifier (or fails with
  resource_exhausted exactly when 64 exist), start, stop and remove change exactly the named
  container or fail with not_found, status reports running exactly for running containers, and
  every other operation leaves the containers alone.
\<close>

theorem agent_refines_container_store:
  assumes "mem_inv m" "0 < mem_budget m" "ag_runtime a = rt_of mkga_memory_ops m" "e_kind q = MKGA_MESSAGE_REQUEST"
  shows "\<exists>resp m'. mkga_agent_handle t1 t2 (Some a) (Some q) (Some r) =
      (0, Some resp, Some (a\<lparr>ag_runtime := rt_of mkga_memory_ops m'\<rparr>)) \<and>
    mem_inv m' \<and> served 64 (mem_view m) (mem_issued m) q resp (mem_view m') (mem_issued m')"
proof -
  obtain resp m' where d: "answer t1 t2 (rt_of mkga_memory_ops m) q = (resp, rt_of mkga_memory_ops m')" "mem.good m q resp m'"
    using mem.answer_served [OF assms(1,2), of t1 t2 q] assms(4) by auto
  obtain rt where rt: "rt_of mkga_memory_ops m = Some rt" by (simp add: rt_of_def)
  show ?thesis
    using handle_answer [of a rt t1 t2 q r] assms(3) rt d unfolding mem.good_def by (auto simp: rt)
qed

theorem agent_refines_container_store_witness:
  "\<exists>resp m'. mkga_agent_handle 5 6 (Some (mem_agent (None :: unit mkga_transport option)))
      (Some (request MKGA_OP_CREATE_CONTAINER 7 (PCreateReq (zero_create_req\<lparr>cc_image := cs ''busybox''\<rparr>)))) (Some zero_envelope) =
        (0, Some resp, Some ((mem_agent None)\<lparr>ag_runtime := rt_of mkga_memory_ops m'\<rparr>)) \<and>
    \<not> err_present (e_error resp) \<and>
    (\<exists>k. mem_view m' = [k \<mapsto> \<lparr>cv_image = cs ''busybox'', cv_running = False\<rparr>])"
proof -
  let ?q = "request MKGA_OP_CREATE_CONTAINER 7 (PCreateReq (zero_create_req\<lparr>cc_image := cs ''busybox''\<rparr>))"
  have a: "ag_runtime (mem_agent (None :: unit mkga_transport option)) = rt_of mkga_memory_ops fresh_memory"
    by (simp add: mem_agent_def mkga_agent_init_def)
  have q: "e_kind ?q = MKGA_MESSAGE_REQUEST" "e_operation ?q = MKGA_OP_CREATE_CONTAINER" "e_payload ?q = PCreateReq (zero_create_req\<lparr>cc_image := cs ''busybox''\<rparr>)"
    by (simp_all add: request_def)
  show ?thesis
    using agent_refines_container_store [OF fresh_memory_ok(1) _ a q(1), of 5 6 zero_envelope]
    unfolding served_def q fresh_memory_ok(2-4) by (auto simp: create_container_req_def Let_def cs_def)
qed

text \<open>
  C23. Container identifiers are never reused. However many requests of whatever kind a fresh agent
  answers, fewer than \<open>2^32\<close>, the identifiers in its create answers are pairwise different, also when
  containers have been removed in between, and every container that exists at the end carries
  an identifier that was issued.
\<close>

theorem container_ids_never_reused:
  assumes "length qs < 2 ^ 32" "answer_all clk i (fst (mkga_memory_runtime_create True True True)) qs = (rs, rt)"
  shows "distinct (created_ids rs) \<and> (\<exists>m. rt = rt_of mkga_memory_ops m \<and> mem_inv m \<and>
    set (created_ids rs) \<subseteq> mem_issued m \<and> dom (mem_view m) \<subseteq> mem_issued m)"
proof -
  have b: "length qs \<le> mem_budget fresh_memory" using assms(1) by (simp add: fresh_memory_ok(4))
  show ?thesis
    using mem.answers_distinct [OF fresh_memory_ok(1) b] assms(2) mem_view_issued
    unfolding runtime_create_fresh by blast
qed

theorem container_ids_never_reused_witness:
  "distinct (created_ids (fst (answer_all (\<lambda>i j. 0) 0 (fst (mkga_memory_runtime_create True True True))
     [request MKGA_OP_CREATE_CONTAINER 1 PZero, request MKGA_OP_REMOVE_CONTAINER 2 (control ''ctr-1''),
      request MKGA_OP_CREATE_CONTAINER 3 PZero])))"
  using container_ids_never_reused [of "[request MKGA_OP_CREATE_CONTAINER 1 PZero, request MKGA_OP_REMOVE_CONTAINER 2 (control ''ctr-1''),
      request MKGA_OP_CREATE_CONTAINER 3 PZero]" "\<lambda>i j. 0" 0, OF _ prod.collapse [symmetric]] by simp

text \<open>
  C22. The serve loop over the stub transport answers in order and stops cleanly. If the inbound queue
  holds the requests \<open>qs\<close>, the outbound queue has room for as many answers and the stop flag is
  first seen after them, then the loop returns 0 after one round per request, having taken every
  request from the inbound queue and appended exactly one answer for each, in the order of the
  requests, whatever the runtime.
\<close>

theorem serve_answers_in_order:
  assumes "ag_transport a = tr_of mkga_stub_ops (stub, ws)" "ag_runtime a = Some rt"
    and "\<not> sb_closed stub" "queue_inv (sb_inbound stub)" "queue_inv (sb_outbound stub)"
    and "queue_list (sb_inbound stub) = qs" "rq_count (sb_outbound stub) + length qs \<le> rq_capacity (sb_outbound stub)"
    and "\<forall>i<length qs. \<not> stopped flag i 0" "stopped flag (length qs) 0" "length qs < fuel"
  shows "\<exists>inb outb. mkga_agent_serve fuel clk flag (Some a) =
      Some (0, Some (a\<lparr>ag_transport := tr_of mkga_stub_ops (stub\<lparr>sb_inbound := inb, sb_outbound := outb\<rparr>, ws),
                       ag_runtime := snd (answer_all clk 0 (Some rt) qs)\<rparr>)) \<and>
    queue_list inb = [] \<and> queue_list outb = queue_list (sb_outbound stub) @ fst (answer_all clk 0 (Some rt) qs) \<and>
    length (fst (answer_all clk 0 (Some rt) qs)) = length qs"
proof -
  have len: "length (fst (answer_all clk i rt' qs)) = length qs" for i and rt' :: "'b mkga_runtime option"
    by (induction qs arbitrary: i rt') (simp_all add: split_def)
  have "ag_transport a \<noteq> None" using assms(1) by (simp add: tr_of_def)
  then have "mkga_agent_serve fuel clk flag (Some a) = map_option (\<lambda>(rc, a'). (rc, Some a')) (serve_loop fuel clk flag 0 a)"
    using assms(2) by (auto simp: mkga_agent_serve_def)
  moreover obtain inb outb where "serve_loop fuel clk flag 0 a =
      Some (0, a\<lparr>ag_transport := tr_of mkga_stub_ops (stub\<lparr>sb_inbound := inb, sb_outbound := outb\<rparr>, ws),
                  ag_runtime := snd (answer_all clk 0 (Some rt) qs)\<rparr>)"
      "queue_list inb = []" "queue_list outb = queue_list (sb_outbound stub) @ fst (answer_all clk 0 (Some rt) qs)"
    using serve_drains [OF assms(1-7), of flag 0 fuel clk] assms(8-10) by auto
  ultimately show ?thesis using len by (intro exI [of _ inb] exI [of _ outb]) simp
qed

definition stub_one :: mkga_stub_transport where
  "stub_one = \<lparr>sb_closed = False,
     sb_inbound = \<lparr>rq_items = [request MKGA_OP_CREATE_CONTAINER 1 PZero, zero_envelope], rq_capacity = 2, rq_head = 0, rq_tail = 1, rq_count = 1\<rparr>,
     sb_outbound = \<lparr>rq_items = [zero_envelope, zero_envelope], rq_capacity = 2, rq_head = 0, rq_tail = 0, rq_count = 0\<rparr>\<rparr>"

theorem serve_answers_in_order_witness:
  "\<exists>a'. mkga_agent_serve 2 (\<lambda>i j. 0) (Some (\<lambda>i j. i = 1)) (Some (mem_agent (tr_of mkga_stub_ops (stub_one, [])))) = Some (0, Some a')"
proof -
  have q: "queue_list (sb_inbound stub_one) = [request MKGA_OP_CREATE_CONTAINER 1 PZero]"
    by (simp add: queue_list_def stub_one_def ring_slice_def)
  have a: "ag_transport (mem_agent (tr_of mkga_stub_ops (stub_one, []))) = tr_of mkga_stub_ops (stub_one, [])"
    "ag_runtime (mem_agent (tr_of mkga_stub_ops (stub_one, []))) = Some \<lparr>rt_ops = Some mkga_memory_ops, rt_impl = Some fresh_memory\<rparr>"
    by (simp_all add: mem_agent_def mkga_agent_init_def rt_of_def)
  show ?thesis
    using serve_answers_in_order [OF a _ _ _ q, of "Some (\<lambda>i j. i = 1)" 2 "\<lambda>i j. 0"]
    by (auto simp: stub_one_def queue_inv_def stopped_def)
qed

end
