(* ===== verification/AgentLink.thy ===== *)
theory AgentLink
  imports ResponseWire AgentMemory
begin

text \<open>
  The guest agent on the real transport: the system call of its own kernel underneath
  \<^verbatim>\<open>transport_mkring.c\<close>, the in-memory runtime above. One remote call is followed from the message
  the ring delivers to the guest's kernel up to the message the guest's kernel puts on the ring.
\<close>

section \<open>The system call seen from user space\<close>

text \<open>A system call on readable and writable memory; \<open>blocked\<close> is how a wait ends that finds nothing.\<close>

definition guest_call ::
    "(nat \<Rightarrow> u16 \<Rightarrow> u16 \<Rightarrow> int) \<Rightarrow> int \<Rightarrow> u32 \<Rightarrow> bytes \<Rightarrow> mk_kernel \<Rightarrow> int \<times> bytes \<times> mk_kernel" where
  "guest_call nf blocked op arg k =
    (case sys_mkring_transport nf blocked True True op (Some arg) k of (ret, mem, k', _) \<Rightarrow> (ret, the mem, k'))"

definition on_kernel :: "(nat \<Rightarrow> u16 \<Rightarrow> u16 \<Rightarrow> int) \<Rightarrow> int \<Rightarrow> mk_kernel mkga_mkring_transport \<Rightarrow> mk_kernel \<Rightarrow> bool" where
  "on_kernel nf blocked t k \<longleftrightarrow>
     mt_uapi_ops t = Some (mkga_direct_uapi_ops (Some (guest_call nf blocked))) \<and> mt_uapi_impl t = k"

lemma started_call:
  "t_started (k_mkct k) \<Longrightarrow> sys_mkring_transport nf blocked rd wr op arg k = mkct_dispatch_user nf blocked rd wr op arg k"
  by (simp add: sys_mkring_transport_def mkct_ensure_started_def)

lemma direct_send_eq:
  assumes "t_started (k_mkct k)" "length (snd_message u) = 1024"
  shows "mkga_direct_send (Some (guest_call nf blocked)) k u = (case mkct_send nf u k of (ret, k', _) \<Rightarrow> (ret, k'))"
proof -
  obtain ret k' ipis where s: "mkct_send nf u k = (ret, k', ipis)" by (metis prod_cases3)
  have "guest_call nf blocked MKRING_TRANSPORT_OP_SEND (enc_send u) k = (ret, enc_send u, k')"
    using assms s by (simp add: guest_call_def started_call mkct_dispatch_user_def dec_enc_send)
  then show ?thesis by (simp add: mkga_direct_send_def direct_result s)
qed

section \<open>Receiving a request\<close>

definition delivered :: "u16 \<Rightarrow> bytes \<Rightarrow> mk_kernel \<Rightarrow> mk_kernel" where
  "delivered src msg b = run_rx_call True \<lparr>call_cb = DEMUX_CB, call_src = src, call_data = msg\<rparr> b"

definition counted :: "mk_kernel \<Rightarrow> mk_kernel" where
  "counted b = b\<lparr>k_mkct := (k_mkct b)\<lparr>t_rx_ok := t_rx_ok (k_mkct b) + 1\<rparr>\<rparr>"

lemma run_rx_call_mkct: "(run_rx_call ok c k)\<lparr>k_mkct := t\<rparr> = k\<lparr>k_mkct := t\<rparr>"
  by (simp add: run_rx_call_def split: option.split)

lemma started_delivered: "t_started (k_mkct (delivered src msg b)) = t_started (k_mkct b)"
  unfolding delivered_def run_rx_call_def mkct_demux_rx_def by (simp add: Let_def split: option.split prod.split)

lemma request_valid_message:
  "mkct_valid_message (Some (request_bytes rid op p)) 996" "prefix_channel (request_bytes rid op p) = 1"
  unfolding request_bytes_def by (simp_all add: container_valid_message container_prefix)

text \<open>The system call that receives a message which is the only one in its queue.\<close>

lemma guest_recv_delivered:
  assumes b: "mkct_hooked b" "mkct_valid_peer (k_mkct b) src" "messages (t_queues (k_mkct b) ! unat ch) = []"
    and m: "mkct_valid_message (Some bs) len" "length bs = unat len" "ucast (prefix_channel bs) = ch"
    and r: "rcv_channel r = ch" "rcv_message r = replicate 1024 0"
  shows "guest_call nf blocked MKRING_TRANSPORT_OP_RECV (enc_recv r) (delivered src bs b) =
    (0, enc_recv (r\<lparr>rcv_peer := src, rcv_len := len, rcv_message := bs @ replicate (1024 - length bs) 0\<rparr>), counted b)"
proof -
  let ?k = "delivered src bs b" and ?r = "r\<lparr>rcv_peer := src, rcv_len := len, rcv_message := bs @ replicate (1024 - length bs) 0\<rparr>"
  have "mkct_recv blocked r (k_mkct ?k) = (0, ?r, k_mkct (counted b))"
    using rx_then_recv [OF b(1,2) m(1) _ m(3) b(3) r(1), of blocked] m(2) r(2) by (simp add: delivered_def counted_def)
  moreover have "t_started (k_mkct ?k)" using b(1) by (simp add: started_delivered mkct_hooked_def)
  moreover have "?k\<lparr>k_mkct := k_mkct (counted b)\<rparr> = counted b"
    by (simp add: delivered_def counted_def run_rx_call_mkct)
  ultimately show ?thesis
    using r(2) by (simp add: guest_call_def started_call mkct_dispatch_user_def dec_enc_recv)
qed

text \<open>The receive of the agent: the decoder runs on the message, followed by zeros.\<close>

definition received :: "u16 \<Rightarrow> int \<Rightarrow> u32 \<Rightarrow> bytes \<Rightarrow> mkring_transport_recv" where
  "received src ms len bs = \<lparr>rcv_peer = src, rcv_channel = 1, rcv_timeout_ms = (if ms < 0 then 0 else of_int ms),
     rcv_len = len, rcv_message = bs @ replicate (1024 - length bs) 0\<rparr>"

lemma link_receive_raw:
  assumes b: "mkct_hooked b" "mkct_valid_peer (k_mkct b) src" "messages (t_queues (k_mkct b) ! 1) = []"
    and m: "mkct_valid_message (Some bs) len" "length bs = unat len" "prefix_channel bs = MKRING_CHANNEL_CONTAINER"
    and t: "on_kernel nf blocked t (delivered src bs b)"
  shows "mkga_mkring_receive now t req ms =
    (case mkga_decode_request_message now (Some (received src ms len bs)) True of
       Inl rc \<Rightarrow> Some (rc, req, t\<lparr>mt_uapi_impl := counted b\<rparr>)
     | Inr env \<Rightarrow> Some (0, env, t\<lparr>mt_uapi_impl := counted b\<rparr>))"
proof -
  define r where "r = \<lparr>rcv_peer = 0, rcv_channel = 1, rcv_timeout_ms = (if ms < 0 then 0 else of_int ms),
      rcv_len = 0, rcv_message = replicate 1024 0\<rparr>"
  have len: "length bs \<le> 1024" using valid_message_take(3) [OF m(1)] m(2) by (simp add: word_le_nat_alt)
  have "guest_call nf blocked MKRING_TRANSPORT_OP_RECV (enc_recv r) (delivered src bs b) = (0, enc_recv (received src ms len bs), counted b)"
    using guest_recv_delivered [of b src 1 bs len r nf blocked] b m by (simp add: r_def received_def)
  then have "mkga_direct_recv (Some (guest_call nf blocked)) (delivered src bs b) r = (0, received src ms len bs, counted b)"
    using len by (simp add: mkga_direct_recv_def direct_result dec_enc_recv received_def)
  then show ?thesis
    using t unfolding on_kernel_def mkga_mkring_receive_def mkga_direct_uapi_ops_def
    by (simp add: Let_def split: sum.split flip: r_def)
qed

lemma link_receive:
  assumes b: "mkct_hooked b" "mkct_valid_peer (k_mkct b) src" "messages (t_queues (k_mkct b) ! 1) = []"
    and w: "wf_payload op p" and t: "on_kernel nf blocked t (delivered src (request_bytes rid op p) b)"
  shows "mkga_mkring_receive now t req ms = Some (0, request_envelope now src rid op p, t\<lparr>mt_uapi_impl := counted b\<rparr>)"
proof -
  let ?m = "request_bytes rid op p"
  have "length ?m = unat (996 :: u32)" using length_request_bytes [OF w] by simp
  from link_receive_raw [OF b request_valid_message(1) this _ t]
  show ?thesis
    using request_valid_message(2) decode_request [OF w, of "received src ms 996 ?m" rid "replicate (1024 - length ?m) 0" now]
    by (simp add: received_def)
qed

section \<open>Sending the answer\<close>

text \<open>The guest's kernel after a send whose ring part returned \<open>ret\<close> and left \<open>s\<close> and \<open>g\<close>.\<close>

definition after_send :: "int \<Rightarrow> mkring_shm \<Rightarrow> mkring_ctx option \<Rightarrow> mk_kernel \<Rightarrow> mk_kernel" where
  "after_send ret s g k = k\<lparr>k_shm := s, k_mkring := g, k_mkct :=
     (if ret = 0 then (k_mkct k)\<lparr>t_tx_ok := t_tx_ok (k_mkct k) + 1\<rparr> else (k_mkct k)\<lparr>t_tx_fail := t_tx_fail (k_mkct k) + 1\<rparr>)\<rparr>"

lemma mkct_send_container:
  assumes "mkct_valid_peer (k_mkct k) peer" "length p = 968"
  shows "mkct_send nf (uapi_send peer (container_hdr kind op rid st n) p) k =
    (case mkring_send nf peer (Some (enc_proto_header (container_hdr kind op rid st n) @ p)) 996 (k_shm k) (k_mkring k) of
       (ret, s, g, ipis) \<Rightarrow> (ret, after_send ret s g k, ipis))"
proof -
  let ?m = "enc_proto_header (container_hdr kind op rid st n) @ p" and ?z = "replicate 28 0 :: bytes"
  have "take 996 (?m @ ?z) = ?m" using assms(2) by simp
  then have ring: "mkring_send nf peer (Some (?m @ ?z)) 996 s g = mkring_send nf peer (Some ?m) 996 s g" for s g
    using mkring_send_take [of nf peer 996 "?m @ ?z" s g] by simp
  have m: "mkct_valid_message (Some (?m @ ?z)) 996" "prefix_channel (?m @ ?z) = MKRING_CHANNEL_CONTAINER"
    using container_valid_message [of kind op rid st n "p @ ?z"] container_prefix(3) [of kind op rid st n "p @ ?z"] by simp_all
  have "mkct_supported_channel 1" by (simp add: mkct_supported_channel_def)
  then show ?thesis
    using assms(1) m ring [of "k_shm k" "k_mkring k"] unfolding uapi_send_eq [OF assms(2)] mkct_send_def
    by (simp add: Let_def after_send_def split: prod.split)
qed

lemma link_send:
  assumes r: "sendable r" and t: "on_kernel nf blocked t k" and k: "t_started (k_mkct k)" "mkct_valid_peer (k_mkct k) (e_peer_kernel_id r)"
  shows "\<exists>msg. carries r msg \<and> mkga_mkring_send t r =
    (case mkring_send nf (e_peer_kernel_id r) (Some msg) 996 (k_shm k) (k_mkring k) of
       (ret, s, g, ipis) \<Rightarrow> (ret, t\<lparr>mt_uapi_impl := after_send ret s g k\<rparr>))"
proof -
  obtain st n p where e: "mkga_encode_response_message (Some r) True = Inr (uapi_send (e_peer_kernel_id r)
      (container_hdr MKRING_CONTAINER_KIND_RESPONSE (mkga_operation_to_mkring (e_operation r)) (e_transport_request_id r) st n) p)"
      and p: "length p = 968" "carries r (enc_proto_header
      (container_hdr MKRING_CONTAINER_KIND_RESPONSE (mkga_operation_to_mkring (e_operation r)) (e_transport_request_id r) st n) @ p)"
    using encode_carries [OF r] by blast
  have len: "length (snd_message (uapi_send peer h p)) = 1024" for peer h using p(1) by (simp add: uapi_send_eq)
  show ?thesis
    using t p(2) unfolding on_kernel_def mkga_mkring_send_def mkga_direct_uapi_ops_def
    by (intro exI conjI) (auto simp: e direct_send_eq [OF k(1) len] mkct_send_container [OF k(2) p(1)] split: prod.split)
qed

section \<open>The in-memory runtime answers with messages that fit\<close>

lemma dispatch_error_text: "op \<noteq> MKGA_OP_INVALID \<Longrightarrow> err_present (e_error (fst (dispatch t1 t2 op q rt))) \<Longrightarrow>
   is_cstr (err_message (e_error (fst (dispatch t1 t2 op q rt))))"
  by (cases op)
    (simp_all add: finish_plain_def finish_resp_def mkga_envelope_set_error_def is_cstr_copied split: prod.splits if_splits,
     simp_all add: is_cstr_def cs_def)

lemma copied_fits: "is_cstr s \<Longrightarrow> 0 < n \<Longrightarrow> str_ok n (copied n s)"
  by (simp add: str_ok_def is_cstr_copied) (simp add: copied_def)

lemma memory_resp_fits:
  assumes "wf_payload op p" "op \<noteq> MKGA_OP_INVALID" "e_operation q = op" "e_payload q = p"
    and r: "r = fst (dispatch t1 t2 op q (rt_of mkga_memory_ops m))" "\<not> err_present (e_error r)"
  shows "wf_resp (resp_of op (e_payload r))"
proof -
  have n: "is_cstr (container_name i)" for i
    unfolding container_name_def by (rule is_cstr_copied) (use is_cstr_fmt_u in \<open>auto simp: is_cstr_def cs_def\<close>)
  have image: "is_cstr (cc_image (create_container_req p))" if "op = MKGA_OP_CREATE_CONTAINER"
    using assms(1) that by (cases p) (simp_all add: wf_payload_def create_container_req_def wf_create_req_def str_ok_def)
  show ?thesis
    using r n image assms(4)
    by (cases op)
      (auto simp: resp_of_def runtime_dispatch rt_of_def mkga_memory_ops_def finish_resp_def finish_plain_def payload_reads
        mkga_envelope_set_error_def mkga_memory_create_container_def mkga_memory_status_container_def mkga_memory_read_log_def
        mkga_memory_exec_tty_prepare_def zero_status_resp_def zero_read_log_resp_def Let_def copied_fits str_ok_Nil
        split: option.splits if_splits)
qed

lemma request_envelope_fields [simp]:
  "e_kind (request_envelope now src rid op p) = MKGA_MESSAGE_REQUEST" "e_operation (request_envelope now src rid op p) = op"
  "e_payload (request_envelope now src rid op p) = p" "e_transport_request_id (request_envelope now src rid op p) = rid"
  "e_peer_kernel_id (request_envelope now src rid op p) = src"
  by (simp_all add: request_envelope_def)

lemma memory_answer_sendable:
  assumes "wf_payload op p" "rid \<noteq> 0"
  shows "sendable (fst (answer t1 t2 (rt_of mkga_memory_ops m) (request_envelope now src rid op p)))"
    "e_peer_kernel_id (fst (answer t1 t2 (rt_of mkga_memory_ops m) (request_envelope now src rid op p))) = src"
    "answers (request_envelope now src rid op p) (fst (answer t1 t2 (rt_of mkga_memory_ops m) (request_envelope now src rid op p)))"
proof -
  let ?q = "request_envelope now src rid op p" and ?rt = "rt_of mkga_memory_ops m"
  let ?r = "fst (answer t1 t2 ?rt ?q)"
  have eq: "?r = fst (dispatch t1 t2 op ?q ?rt)" by (simp add: answer_def)
  have op: "op \<noteq> MKGA_OP_INVALID" by (rule wf_payload_facts(3) [OF assms(1)])
  show a: "answers ?q ?r" using dispatch_answer_ok [of ?q t1 t2 ?rt] by (simp add: eq answer_ok_def)
  then show "e_peer_kernel_id ?r = src" by (simp add: answers_def)
  show "sendable ?r"
    using a op assms(2) dispatch_error_text [OF op, of t1 t2 ?q ?rt] memory_resp_fits [OF assms(1) op _ _ eq]
    by (auto simp: sendable_def answers_def eq)
qed

section \<open>Remote calls\<close>


definition link2 :: "mk_kernel mkga_mkring_transport" where
  "link2 = \<lparr>mt_peer_kernel_id = 0, mt_runtime_name = cs ''memory'', mt_ready_features = 0,
     mt_uapi_ops = Some (mkga_direct_uapi_ops (Some (guest_call (\<lambda>_ _ _. 0) 0))),
     mt_uapi_impl = delivered 0 (request_bytes 42 MKGA_OP_STOP_CONTAINER (PControlReq stop_req)) receiver2\<rparr>"


text \<open>
  C33. One message the agent does not like ends it. Any peer may send, on the container channel, a
  message that the kernel's transport accepts and whose length is not that of a container
  message; the receive then fails with \<^verbatim>\<open>-EINVAL\<close> and the serve loop returns that error instead of
  dropping the message, so no later request is served.
\<close>

theorem odd_message_ends_serve:
  assumes "mkct_hooked b" "mkct_valid_peer (k_mkct b) src" "messages (t_queues (k_mkct b) ! 1) = []"
    and "mkct_valid_message (Some bs) len" "length bs = unat len" "prefix_channel bs = MKRING_CHANNEL_CONTAINER" "len \<noteq> 996"
    and "on_kernel nf blocked t (delivered src bs b)" "ag_transport a = tr_of (mkga_mkring_ops now) t" "\<not> stopped flag i 0"
  shows "serve_loop (Suc fuel) clk flag i a =
    Some (- EINVAL, a\<lparr>ag_transport := tr_of (mkga_mkring_ops now) (t\<lparr>mt_uapi_impl := counted b\<rparr>)\<rparr>)"
proof -
  have "mkga_decode_request_message now (Some (received src ms len bs)) True = Inl (- EINVAL)" for ms
    using assms(7) by (simp add: mkga_decode_request_message_def received_def)
  then have "mkga_transport_receive (ag_transport a) (Some env) ms =
      Some (- EINVAL, Some env, tr_of (mkga_mkring_ops now) (t\<lparr>mt_uapi_impl := counted b\<rparr>))" for env ms
    by (simp add: assms(9) mkga_mkring_ops_def tr_of_calls link_receive_raw [OF assms(1-6,8)])
  then show ?thesis by (simp add: assms(10) quiet_stop_def)
qed

definition ping6 :: bytes where
  "ping6 = take 6 (snd_message send6)"

theorem odd_message_ends_serve_witness:
  "\<exists>a'. serve_loop 5 (\<lambda>i j. 0) None 0 (mem_agent (tr_of (mkga_mkring_ops 7) (link2\<lparr>mt_uapi_impl := delivered 0 ping6 receiver2\<rparr>))) =
    Some (- EINVAL, a')"
proof -
  let ?t = "link2\<lparr>mt_uapi_impl := delivered 0 ping6 receiver2\<rparr>"
  have b: "mkct_valid_peer (k_mkct receiver2) 0" "messages (t_queues (k_mkct receiver2) ! 1) = []"
    by (simp_all add: receiver2_def mkct_valid_peer_def info2_def zero_mkct_def)
  have m: "mkct_valid_message (Some ping6) 6" "length ping6 = unat (6 :: u32)" "prefix_channel ping6 = MKRING_CHANNEL_CONTAINER"
    using valid_message_take(1,6) [OF send6_valid(1)] send6_valid(2) by (simp_all add: ping6_def send6_def)
  have t: "on_kernel (\<lambda>_ _ _. 0) 0 ?t (delivered 0 ping6 receiver2)" "\<not> stopped None 0 0" "(6 :: u32) \<noteq> 996"
    by (simp_all add: on_kernel_def link2_def stopped_def)
  have a: "ag_transport (mem_agent (tr_of (mkga_mkring_ops 7) ?t)) = tr_of (mkga_mkring_ops 7) ?t"
    by (simp add: mem_agent_def mkga_agent_init_def)
  show ?thesis
    using odd_message_ends_serve [OF receiver2_hooked b m t(3,1) a t(2), of 4 "\<lambda>i j. 0"] by (simp add: numeral_eq_Suc)
qed

end
