(* ===== verification/Session.thy ===== *)
theory Session
  imports GuestProtocol Decimal
begin

text \<open>
  The interactive exec sessions of the guest agent (\<^verbatim>\<open>mk-guest-agent/src/session.c\<close>, \<^verbatim>\<open>session.h\<close>). The
  linked list of sessions is the list of all sessions ever prepared in the order of their creation;
  a pointer to a session is its index, and the linked list runs from the newest to the oldest. No
  function of the agent removes a session. Threads, locks and messages on standard error are
  not part of the state; each critical section is one step.
\<close>

datatype mkga_exec_session_state =
    MKGA_EXEC_SESSION_PREPARED
  | MKGA_EXEC_SESSION_RUNNING
  | MKGA_EXEC_SESSION_EXITED
  | MKGA_EXEC_SESSION_CLOSED

record mkga_exec_session =
  xs_session_id :: bytes
  xs_container_id :: bytes
  xs_exec_id :: bytes
  xs_argv_count :: u32
  xs_argv :: "bytes list"
  xs_tty :: bool
  xs_stdin_enabled :: bool
  xs_stdout_enabled :: bool
  xs_stderr_enabled :: bool
  xs_state :: mkga_exec_session_state
  xs_master_fd :: int
  xs_child_pid :: int
  xs_exit_code :: int

type_synonym sessions = "mkga_exec_session list"

section \<open>Operations\<close>

text \<open>\<open>session_id = None\<close> stands for NULL.\<close>

definition mkga_session_find_locked :: "sessions \<Rightarrow> bytes option \<Rightarrow> nat option" where
  "mkga_session_find_locked ss session_id =
    find (\<lambda>i. session_id \<noteq> None \<and> xs_session_id (ss ! i) = the session_id) (rev [0..<length ss])"

definition mkga_session_lookup :: "sessions \<Rightarrow> bytes option \<Rightarrow> nat option" where
  "mkga_session_lookup ss session_id =
    find (\<lambda>i. session_id \<noteq> None \<and> xs_session_id (ss ! i) = the session_id) (rev [0..<length ss])"

text \<open>\<open>now\<close> is the clock in milliseconds, the flags say whether memory and mutex can be had.\<close>

definition mkga_session_prepare ::
    "i64 \<Rightarrow> bool \<Rightarrow> bool \<Rightarrow> mkga_exec_tty_prepare_req option \<Rightarrow> mkga_exec_tty_prepare_resp option \<Rightarrow> sessions \<Rightarrow>
     int \<times> mkga_exec_tty_prepare_resp option \<times> sessions" where
  "mkga_session_prepare now alloc_ok mu_ok req resp ss =
    (case (req, resp) of
       (Some q, Some r) \<Rightarrow>
         if ep_argv_count q = 0 then (- EINVAL, resp, ss)
         else if of_nat MKGA_MAX_ARGV < ep_argv_count q then (- EINVAL, resp, ss)
         else if ep_container_id q = [] then (- EINVAL, resp, ss)
         else if \<not> alloc_ok then (- ENOMEM, resp, ss)
         else if \<not> mu_ok then (- ENOMEM, resp, ss)
         else
           let s = \<lparr>xs_session_id = copied MKGA_MAX_SESSION_ID_LEN (cs ''exec-'' @ fmt_d (sint now)),
                    xs_container_id = copied MKGA_MAX_ID_LEN (ep_container_id q),
                    xs_exec_id = [],
                    xs_argv_count = ep_argv_count q,
                    xs_argv = map (\<lambda>i. if i < unat (ep_argv_count q) then copied MKGA_MAX_ARG_LEN (ep_argv q ! i) else [])
                                [0..<MKGA_MAX_ARGV],
                    xs_tty = (ep_tty q \<noteq> 0),
                    xs_stdin_enabled = (ep_stdin_enabled q \<noteq> 0),
                    xs_stdout_enabled = (ep_stdout_enabled q \<noteq> 0),
                    xs_stderr_enabled = (ep_stderr_enabled q \<noteq> 0),
                    xs_state = MKGA_EXEC_SESSION_PREPARED,
                    xs_master_fd = -1, xs_child_pid = -1, xs_exit_code = 0\<rparr>
           in (0, Some (r\<lparr>er_session_id := copied MKGA_MAX_SESSION_ID_LEN (xs_session_id s)\<rparr>), ss @ [s])
     | _ \<Rightarrow> (- EINVAL, resp, ss))"

definition mkga_session_start :: "mkga_exec_session_control_req option \<Rightarrow> sessions \<Rightarrow> int \<times> sessions" where
  "mkga_session_start req ss =
    (case req of
       None \<Rightarrow> (- EINVAL, ss)
     | Some q \<Rightarrow>
         if es_session_id q = [] then (- EINVAL, ss)
         else case mkga_session_find_locked ss (Some (es_session_id q)) of
           None \<Rightarrow> (- ENOENT, ss)
         | Some i \<Rightarrow>
             (case xs_state (ss ! i) of
                MKGA_EXEC_SESSION_PREPARED \<Rightarrow>
                  let s = (ss ! i)\<lparr>xs_state := MKGA_EXEC_SESSION_RUNNING\<rparr>;
                      s' = (if xs_exec_id s = [] then s\<lparr>xs_exec_id := copied MKGA_MAX_SESSION_ID_LEN (xs_session_id s)\<rparr> else s)
                  in (0, ss[i := s'])
              | MKGA_EXEC_SESSION_RUNNING \<Rightarrow> (0, ss)
              | MKGA_EXEC_SESSION_EXITED \<Rightarrow> (- EINVAL, ss)
              | MKGA_EXEC_SESSION_CLOSED \<Rightarrow> (- EINVAL, ss)))"

definition mkga_session_resize :: "mkga_exec_tty_resize_req option \<Rightarrow> sessions \<Rightarrow> int \<times> sessions" where
  "mkga_session_resize req ss = (- ENOSYS, ss)"

definition mkga_session_close :: "mkga_exec_session_control_req option \<Rightarrow> sessions \<Rightarrow> int \<times> sessions" where
  "mkga_session_close req ss = (- ENOSYS, ss)"

text \<open>
  One round of the write loop: what \<^verbatim>\<open>write\<close> returns and, after it would block, how the poll ends.
  The second component of the result is what was written; \<open>None\<close> means that the loop still runs
  when the given rounds are used up.
\<close>

datatype write_round =
    Wrote nat
  | WriteFails int
  | WouldBlock "int option"

fun write_loop :: "write_round list \<Rightarrow> bytes \<Rightarrow> (int \<times> bytes) option" where
  "write_loop rs [] = Some (0, [])"
| "write_loop [] rest = None"
| "write_loop (Wrote n # rs) rest =
    (if n = 0 then Some (- EIO, [])
     else map_option (\<lambda>(rc, out). (rc, take n rest @ out)) (write_loop rs (drop n rest)))"
| "write_loop (WriteFails e # rs) rest = (if e = EINTR then write_loop rs rest else Some (- e, []))"
| "write_loop (WouldBlock p # rs) rest =
    (case p of Some e \<Rightarrow> if e \<noteq> EINTR then Some (- e, []) else write_loop rs rest | None \<Rightarrow> write_loop rs rest)"

text \<open>Result, the descriptor written to, and what was written to it.\<close>

definition mkga_session_write_stdin ::
    "write_round list \<Rightarrow> bytes option \<Rightarrow> bytes option \<Rightarrow> sessions \<Rightarrow> (int \<times> (int \<times> bytes) option) option" where
  "mkga_session_write_stdin rs session_id data ss =
    (case (session_id, data) of
       (Some sid, Some d) \<Rightarrow>
         if d = [] then Some (- EINVAL, None)
         else case mkga_session_lookup ss session_id of
           None \<Rightarrow> Some (- ENOENT, None)
         | Some i \<Rightarrow>
             if xs_master_fd (ss ! i) < 0 \<or> xs_state (ss ! i) \<noteq> MKGA_EXEC_SESSION_RUNNING \<or> \<not> xs_stdin_enabled (ss ! i)
             then Some (- EINVAL, None)
             else map_option (\<lambda>(rc, out). (rc, Some (xs_master_fd (ss ! i), out))) (write_loop rs d)
     | _ \<Rightarrow> Some (- EINVAL, None))"

section \<open>Lookup\<close>

lemma find_rev_Some:
  "find P (rev [0..<n]) = Some i \<longleftrightarrow> i < n \<and> P i \<and> (\<forall>j<n. i < j \<longrightarrow> \<not> P j)"
proof (induction n)
  case (Suc n)
  then show ?case by (cases "P n") (auto simp: less_Suc_eq)
qed simp

lemma find_rev_None: "find P (rev [0..<n]) = None \<longleftrightarrow> (\<forall>i<n. \<not> P i)"
  by (auto simp: find_None_iff)

lemma lookup_is_find: "mkga_session_lookup = mkga_session_find_locked"
  by (simp add: mkga_session_lookup_def mkga_session_find_locked_def fun_eq_iff)

lemma find_locked_Some:
  "mkga_session_find_locked ss (Some k) = Some i \<longleftrightarrow>
     i < length ss \<and> xs_session_id (ss ! i) = k \<and> (\<forall>j<length ss. i < j \<longrightarrow> xs_session_id (ss ! j) \<noteq> k)"
  by (simp add: mkga_session_find_locked_def find_rev_Some)

lemma find_locked_append:
  "mkga_session_find_locked (ss @ [s]) (Some k) = (if xs_session_id s = k then Some (length ss) else mkga_session_find_locked ss (Some k))"
proof -
  have "find (\<lambda>i. xs_session_id ((ss @ [s]) ! i) = k) (rev [0..<length ss]) = find (\<lambda>i. xs_session_id (ss ! i) = k) (rev [0..<length ss])"
    by (rule find_cong) (auto simp: nth_append)
  then show ?thesis by (simp add: mkga_session_find_locked_def)
qed

section \<open>Properties\<close>


definition exec_req :: mkga_exec_tty_prepare_req where
  "exec_req = zero_prepare_req\<lparr>ep_container_id := cs ''ctr-1'', ep_argv_count := 1, ep_argv := [cs ''sh'', [], [], []]\<rparr>"


text \<open>The bytes given to the descriptor are always the beginning of the data, all of it exactly on success.\<close>

definition round_ok :: "write_round \<Rightarrow> bool" where
  "round_ok r \<longleftrightarrow> (case r of WriteFails e \<Rightarrow> 0 < e | WouldBlock (Some e) \<Rightarrow> 0 < e | _ \<Rightarrow> True)"

lemma write_loop_prefix:
  assumes "\<forall>r\<in>set rs. round_ok r" "write_loop rs d = Some (rc, out)"
  shows "(\<exists>rest. d = out @ rest) \<and> (rc = 0 \<longleftrightarrow> out = d) \<and> rc \<le> 0"
  using assms
proof (induction rs d arbitrary: rc out rule: write_loop.induct)
  case (3 n rs b d)
  show ?case
  proof (cases "n = 0")
    case False
    then obtain out' where o: "write_loop rs (drop n (b # d)) = Some (rc, out')" "out = take n (b # d) @ out'"
      using "3.prems"(2) by (auto split: prod.splits)
    from "3.IH" [OF False _ o(1)] "3.prems"(1) obtain rest where "drop n (b # d) = out' @ rest" "rc = 0 \<longleftrightarrow> out' = drop n (b # d)" "rc \<le> 0"
      by auto
    then show ?thesis using o(2) by (metis append_assoc append_same_eq append_take_drop_id same_append_eq)
  qed (use "3.prems" in auto)
next
  case (4 e rs b d)
  then show ?case by (auto simp: round_ok_def split: if_splits)
next
  case (5 p rs b d)
  then show ?case by (auto simp: round_ok_def split: if_splits option.splits)
qed auto

definition writes :: "write_round list \<Rightarrow> nat" where
  "writes rs = length (filter (\<lambda>r. case r of Wrote n \<Rightarrow> True | _ \<Rightarrow> False) rs)"

lemma write_loop_returns: "length d \<le> writes rs \<Longrightarrow> \<exists>rc out. write_loop rs d = Some (rc, out)"
proof (induction rs d rule: write_loop.induct)
  case (3 n rs b d)
  then have "n \<noteq> 0 \<Longrightarrow> length (drop n (b # d)) \<le> writes rs" by (simp add: writes_def)
  with "3.IH" show ?case by fastforce
qed (auto simp: writes_def split: option.split)

lemma write_stdin_ok:
  assumes "\<forall>r\<in>set rs. round_ok r" "length d \<le> writes rs" "d \<noteq> []"
    and "mkga_session_lookup ss (Some k) = Some i" "0 \<le> xs_master_fd (ss ! i)"
    and "xs_state (ss ! i) = MKGA_EXEC_SESSION_RUNNING" "xs_stdin_enabled (ss ! i)"
  shows "\<exists>rc out rest. mkga_session_write_stdin rs (Some k) (Some d) ss = Some (rc, Some (xs_master_fd (ss ! i), out)) \<and>
    d = out @ rest \<and> (rc = 0 \<longleftrightarrow> out = d) \<and> rc \<le> 0"
proof -
  obtain rc out where w: "write_loop rs d = Some (rc, out)" using write_loop_returns [OF assms(2)] by blast
  then have "mkga_session_write_stdin rs (Some k) (Some d) ss = Some (rc, Some (xs_master_fd (ss ! i), out))"
    using assms(3-7) by (simp add: mkga_session_write_stdin_def)
  then show ?thesis using write_loop_prefix [OF assms(1) w] by blast
qed

text \<open>
  Terminal input arrives completely or with an error. For a running session with a terminal and
  input enabled, the call returns after at most as many successful writes as there are bytes,
  however often it is interrupted or has to wait in between; the descriptor of exactly this
  session has received the beginning of the data, and all of it if and only if the result is 0.
\<close>

theorem write_stdin_delivers:
  assumes "\<forall>r\<in>set rs. round_ok r" "length d \<le> writes rs" "d \<noteq> []"
    and "mkga_session_lookup ss (Some k) = Some i" "0 \<le> xs_master_fd (ss ! i)"
    and "xs_state (ss ! i) = MKGA_EXEC_SESSION_RUNNING" "xs_stdin_enabled (ss ! i)"
  shows "\<exists>rc out rest. mkga_session_write_stdin rs (Some k) (Some d) ss = Some (rc, Some (xs_master_fd (ss ! i), out)) \<and>
    d = out @ rest \<and> (rc = 0 \<longleftrightarrow> out = d) \<and> rc \<le> 0"
  using assms by (rule write_stdin_ok)

definition shell :: mkga_exec_session where
  "shell = \<lparr>xs_session_id = cs ''exec-1'', xs_container_id = cs ''ctr-1'', xs_exec_id = cs ''exec-1'', xs_argv_count = 1,
     xs_argv = [cs ''sh'', [], [], []], xs_tty = True, xs_stdin_enabled = True, xs_stdout_enabled = True, xs_stderr_enabled = False,
     xs_state = MKGA_EXEC_SESSION_RUNNING, xs_master_fd = 7, xs_child_pid = 12, xs_exit_code = 0\<rparr>"

theorem write_stdin_delivers_witness:
  "\<exists>rc out rest. mkga_session_write_stdin [WouldBlock None, Wrote 2, WriteFails EINTR, Wrote 1, Wrote 1] (Some (cs ''exec-1'')) (Some (cs ''ls;'')) [shell] =
     Some (rc, Some (7, out)) \<and> cs ''ls;'' = out @ rest \<and> (rc = 0 \<longleftrightarrow> out = cs ''ls;'') \<and> rc \<le> 0"
proof -
  have "mkga_session_lookup [shell] (Some (cs ''exec-1'')) = Some 0" "xs_master_fd ([shell] ! 0) = 7" "xs_stdin_enabled ([shell] ! 0)"
    "xs_state ([shell] ! 0) = MKGA_EXEC_SESSION_RUNNING"
    by (simp_all add: mkga_session_lookup_def shell_def)
  then show ?thesis
    using write_stdin_delivers [of "[WouldBlock None, Wrote 2, WriteFails EINTR, Wrote 1, Wrote 1]" "cs ''ls;''" "[shell]" "cs ''exec-1''" 0]
    by (simp add: round_ok_def writes_def cs_def)
qed

text \<open>
  A session starts once. Starting a prepared session moves it, and only it, to the running
  state and gives it its identifier as exec identifier; starting it again succeeds and changes
  nothing; a session that has exited or was closed is refused and never runs again.
\<close>

theorem session_start_once:
  assumes "mkga_session_lookup ss (Some (es_session_id q)) = Some i" "es_session_id q \<noteq> []"
  shows "case mkga_session_start (Some q) ss of (rc, ss') \<Rightarrow>
    (rc = 0 \<longleftrightarrow> xs_state (ss ! i) \<in> {MKGA_EXEC_SESSION_PREPARED, MKGA_EXEC_SESSION_RUNNING}) \<and> (rc \<noteq> 0 \<longrightarrow> rc = - EINVAL \<and> ss' = ss) \<and>
    (rc = 0 \<longrightarrow> xs_state (ss' ! i) = MKGA_EXEC_SESSION_RUNNING \<and> (\<forall>j<length ss. j \<noteq> i \<longrightarrow> ss' ! j = ss ! j) \<and>
       length ss' = length ss \<and> mkga_session_start (Some q) ss' = (0, ss'))"
proof -
  have i: "i < length ss" "xs_session_id (ss ! i) = es_session_id q" "\<forall>j<length ss. i < j \<longrightarrow> xs_session_id (ss ! j) \<noteq> es_session_id q"
    using assms(1) by (simp_all add: lookup_is_find find_locked_Some)
  have again: "mkga_session_start (Some q) ss' = (0, ss')"
    if "length ss' = length ss" "xs_session_id (ss' ! i) = es_session_id q" "\<forall>j<length ss. j \<noteq> i \<longrightarrow> ss' ! j = ss ! j"
      "xs_state (ss' ! i) = MKGA_EXEC_SESSION_RUNNING" for ss'
  proof -
    have "mkga_session_find_locked ss' (Some (es_session_id q)) = Some i" using that i by (simp add: find_locked_Some)
    then show ?thesis using that(4) assms(2) by (simp add: mkga_session_start_def)
  qed
  have found: "mkga_session_find_locked ss (Some (es_session_id q)) = Some i" using assms(1) by (simp add: lookup_is_find)
  show ?thesis
  proof (cases "xs_state (ss ! i)")
    case MKGA_EXEC_SESSION_PREPARED
    obtain s where "mkga_session_start (Some q) ss = (0, ss[i := s])" "xs_state s = MKGA_EXEC_SESSION_RUNNING" "xs_session_id s = es_session_id q"
      using MKGA_EXEC_SESSION_PREPARED found assms(2) i(2) by (auto simp: mkga_session_start_def Let_def)
    then show ?thesis using MKGA_EXEC_SESSION_PREPARED again [of "ss[i := s]"] i(1) by simp
  next
    case MKGA_EXEC_SESSION_RUNNING
    then show ?thesis using again [of ss] i(2) by simp
  qed (use found assms(2) in \<open>simp_all add: mkga_session_start_def\<close>)
qed

theorem session_start_once_witness:
  "fst (mkga_session_start (Some \<lparr>es_kernel_id = [], es_session_id = cs ''exec-1''\<rparr>) [shell\<lparr>xs_state := MKGA_EXEC_SESSION_EXITED\<rparr>]) = - EINVAL"
proof -
  have "mkga_session_lookup [shell\<lparr>xs_state := MKGA_EXEC_SESSION_EXITED\<rparr>] (Some (cs ''exec-1'')) = Some 0"
    by (simp add: mkga_session_lookup_def shell_def)
  then show ?thesis
    using session_start_once [of "[shell\<lparr>xs_state := MKGA_EXEC_SESSION_EXITED\<rparr>]" "\<lparr>es_kernel_id = [], es_session_id = cs ''exec-1''\<rparr>" 0]
    by (auto simp: cs_def split: prod.splits)
qed

end
