(* ===== verification/Config.thy ===== *)
theory Config
  imports GuestProtocol Decimal
begin

text \<open>
  The configuration of the guest agent (\<^verbatim>\<open>mk-guest-agent/src/config.c\<close>, \<^verbatim>\<open>include/mkga_config.h\<close>): values
  read from environment variables. The environment is a map from names to strings.
\<close>

type_synonym environment = "bytes \<Rightarrow> bytes option"

abbreviation (input) MKGA_DRIVER_NAME_LEN :: nat where "MKGA_DRIVER_NAME_LEN \<equiv> 32"
abbreviation (input) MKGA_SOCKET_PATH_LEN :: nat where "MKGA_SOCKET_PATH_LEN \<equiv> 256"

record mkga_config =
  cf_transport_driver :: bytes
  cf_runtime_driver :: bytes
  cf_containerd_socket :: bytes
  cf_peer_kernel_id :: u16
  cf_inbound_buffer :: u64
  cf_receive_timeout_ms :: int

text \<open>The cast of a \<^verbatim>\<open>long\<close> to \<^verbatim>\<open>int\<close> keeps the low 32 bits.\<close>

definition c_int :: "int \<Rightarrow> int" where
  "c_int v = sint (of_int v :: 32 word)"

definition mkga_getenv_int :: "environment \<Rightarrow> bytes \<Rightarrow> int \<Rightarrow> int" where
  "mkga_getenv_int env key fallback =
    (case env key of
       None \<Rightarrow> fallback
     | Some value \<Rightarrow>
         if value = [] then fallback
         else case strtol value of
           (parsed, end) \<Rightarrow> if end \<noteq> [] \<or> parsed \<le> 0 then fallback else c_int parsed)"

definition mkga_getenv_u16 :: "environment \<Rightarrow> bytes \<Rightarrow> u16 \<Rightarrow> u16" where
  "mkga_getenv_u16 env key fallback =
    (case env key of
       None \<Rightarrow> fallback
     | Some value \<Rightarrow>
         if value = [] then fallback
         else case strtoul value of
           (parsed, end) \<Rightarrow> if end \<noteq> [] \<or> 65535 < parsed then fallback else of_int parsed)"

definition mkga_config_load_from_env :: "environment \<Rightarrow> mkga_config" where
  "mkga_config_load_from_env env =
    (let get = (\<lambda>key dflt. case env (cs key) of None \<Rightarrow> cs dflt | Some v \<Rightarrow> v) in
     \<lparr>cf_transport_driver = copied MKGA_DRIVER_NAME_LEN (get ''MK_GUEST_AGENT_TRANSPORT'' ''stub''),
      cf_runtime_driver = copied MKGA_DRIVER_NAME_LEN (get ''MK_GUEST_AGENT_RUNTIME'' ''memory''),
      cf_containerd_socket = copied MKGA_SOCKET_PATH_LEN
        (get ''MK_GUEST_AGENT_CONTAINERD_SOCKET'' ''/run/containerd/containerd.sock''),
      cf_peer_kernel_id = mkga_getenv_u16 env (cs ''MK_GUEST_AGENT_PEER_KERNEL_ID'') 0,
      cf_inbound_buffer = of_int (mkga_getenv_int env (cs ''MK_GUEST_AGENT_INBOUND_BUFFER'') 32),
      cf_receive_timeout_ms = mkga_getenv_int env (cs ''MK_GUEST_AGENT_RECEIVE_TIMEOUT_MS'') 200\<rparr>)"

section \<open>Numbers from the environment\<close>

lemma c_int_id: "- (2 ^ 31) \<le> v \<Longrightarrow> v < 2 ^ 31 \<Longrightarrow> c_int v = v"
  by (simp add: c_int_def int_word_sint)

lemma fmt_d_nonempty: "fmt_d v \<noteq> []"
  using fmt_u_nonempty by (simp add: fmt_d_def)

lemma getenv_int_printed:
  assumes "env key = Some (fmt_d v)" "- (2 ^ 63) \<le> v" "v < 2 ^ 63"
  shows "mkga_getenv_int env key fallback = (if v \<le> 0 then fallback else c_int v)"
  using assms strtol_fmt_d [of "[]" v] by (simp add: mkga_getenv_int_def fmt_d_nonempty)

lemma getenv_u16_printed:
  assumes "env key = Some (fmt_d v)" "0 \<le> v" "v < 2 ^ 64"
  shows "mkga_getenv_u16 env key fallback = (if 65535 < v then fallback else of_int v)"
  using assms scan_fmt_d [of "[]" v] by (simp add: mkga_getenv_u16_def strtoul_def fmt_d_nonempty)

text \<open>
  A number written to the environment is the number the agent runs with, as long as it fits an
  \<^verbatim>\<open>int\<close>: a positive number below \<open>2^31\<close> is taken as it is, zero and negative numbers give the
  fallback. From \<open>2^31\<close> on, up to the largest \<^verbatim>\<open>long\<close>, the value is neither taken nor rejected but
  truncated to 32 bits, so the result can be zero or negative although the text was checked to be
  a positive number.
\<close>

theorem getenv_int_roundtrip:
  assumes "env key = Some (fmt_d v)" "- (2 ^ 63) \<le> v" "v < 2 ^ 63"
  shows "mkga_getenv_int env key fallback =
    (if v \<le> 0 then fallback else if v < 2 ^ 31 then v else (v + 2 ^ 31) mod 2 ^ 32 - 2 ^ 31)"
proof -
  have "c_int v = (v + 2 ^ 31) mod 2 ^ 32 - 2 ^ 31"
    by (simp add: c_int_def int_word_sint)
  then show ?thesis using getenv_int_printed [of env key v, OF assms] c_int_id [of v] by simp
qed

theorem getenv_int_roundtrip_witness:
  "mkga_getenv_int (\<lambda>_. Some (cs ''4294967296'')) (cs ''MK_GUEST_AGENT_INBOUND_BUFFER'') 32 = 0 \<and>
   mkga_getenv_int (\<lambda>_. Some (cs ''500'')) (cs ''MK_GUEST_AGENT_INBOUND_BUFFER'') 32 = 500"
proof -
  have p: "fmt_d 4294967296 = cs ''4294967296''" "fmt_d 500 = cs ''500''"
    by (simp_all add: fmt_d_def fmt_u.simps cs_def)
  show ?thesis
    using getenv_int_roundtrip [of "\<lambda>_. Some (cs ''4294967296'')" "cs ''MK_GUEST_AGENT_INBOUND_BUFFER''" 4294967296 32]
      getenv_int_roundtrip [of "\<lambda>_. Some (cs ''500'')" "cs ''MK_GUEST_AGENT_INBOUND_BUFFER''" 500 32] p by simp
qed

end
