(* ===== verification/StreamDevice.thy ===== *)
theory StreamDevice
  imports MkringTransport Session Config
begin

text \<open>
  The stream data path of the guest agent (\<^verbatim>\<open>mk-guest-agent/src/stream_device.c\<close>, messages of
  \<^verbatim>\<open>include/mkring_stream.h\<close>): terminal output and exit notices to the peer, terminal input from the
  peer to a session. The system call is a parameter, as in MkringTransport. Messages on standard
  error are not modelled.
\<close>

section \<open>Messages\<close>

abbreviation (input) MKRING_STREAM_MAGIC :: u32 where "MKRING_STREAM_MAGIC \<equiv> 0x4d4b434e"
abbreviation (input) MKRING_STREAM_VERSION :: u8 where "MKRING_STREAM_VERSION \<equiv> 1"
abbreviation (input) MKRING_STREAM_CHANNEL :: u8 where "MKRING_STREAM_CHANNEL \<equiv> 3"
abbreviation (input) MKRING_STREAM_TYPE_STDIN :: u8 where "MKRING_STREAM_TYPE_STDIN \<equiv> 1"
abbreviation (input) MKRING_STREAM_TYPE_OUTPUT :: u8 where "MKRING_STREAM_TYPE_OUTPUT \<equiv> 2"
abbreviation (input) MKRING_STREAM_TYPE_CONTROL :: u8 where "MKRING_STREAM_TYPE_CONTROL \<equiv> 3"
abbreviation (input) MKRING_STREAM_CTL_EXIT :: u32 where "MKRING_STREAM_CTL_EXIT \<equiv> 3"
abbreviation (input) MKRING_STREAM_MAX_SESSION_ID :: nat where "MKRING_STREAM_MAX_SESSION_ID \<equiv> 64"
abbreviation (input) MKRING_STREAM_MAX_PAYLOAD :: nat where "MKRING_STREAM_MAX_PAYLOAD \<equiv> 768"
abbreviation (input) MKGA_STREAM_RECV_TIMEOUT_MS :: u32 where "MKGA_STREAM_RECV_TIMEOUT_MS \<equiv> 1000"

definition mkring_stream_header :: packed where
  "mkring_stream_header =
    [(''magic'', 4), (''version'', 1), (''channel'', 1), (''stream_type'', 1), (''flags'', 1), (''session_seq'', 8),
     (''session_id'', MKRING_STREAM_MAX_SESSION_ID), (''payload_len'', 4)]"

definition mkring_stream_control_exit :: packed where
  "mkring_stream_control_exit = [(''kind'', 4), (''exit_code'', 4)]"

text \<open>The members of the header followed by the payload.\<close>

definition mkring_stream_message :: packed where
  "mkring_stream_message = mkring_stream_header @ [(''payload'', MKRING_STREAM_MAX_PAYLOAD)]"

lemma stream_sizes [simp]:
  "sizeof mkring_stream_header = 84" "sizeof mkring_stream_control_exit = 8" "sizeof mkring_stream_message = 852"
  by (simp_all add: mkring_stream_header_def mkring_stream_control_exit_def mkring_stream_message_def)

section \<open>State and operations\<close>

record mkga_stream_state =
  sm_peer_kernel_id :: u16
  sm_started :: bool
  sm_stopping :: bool
  sm_next_seq :: u64

definition mkga_stream_message_valid :: "bytes option \<Rightarrow> bool" where
  "mkga_stream_message_valid msg =
    (case msg of
       None \<Rightarrow> False
     | Some m \<Rightarrow>
         let rd = (\<lambda>n. get mkring_stream_message n m) in
         if dec_le (rd ''magic'') \<noteq> MKRING_STREAM_MAGIC \<or> dec_le (rd ''version'') \<noteq> MKRING_STREAM_VERSION \<or>
            dec_le (rd ''channel'') \<noteq> MKRING_STREAM_CHANNEL \<or>
            of_nat MKRING_STREAM_MAX_PAYLOAD < (dec_le (rd ''payload_len'') :: u32)
         then False
         else (dec_le (rd ''stream_type'') :: u8) \<in> {MKRING_STREAM_TYPE_STDIN, MKRING_STREAM_TYPE_OUTPUT, MKRING_STREAM_TYPE_CONTROL})"

definition mkga_stream_send_packet ::
    "(u32 \<Rightarrow> bytes \<Rightarrow> 'k \<Rightarrow> int \<times> bytes \<times> 'k) option \<Rightarrow> u8 \<Rightarrow> bytes option \<Rightarrow> bytes option \<Rightarrow> nat \<Rightarrow>
     mkga_stream_state \<Rightarrow> 'k \<Rightarrow> int \<times> mkga_stream_state \<times> 'k" where
  "mkga_stream_send_packet syscall stream_type session_id data len st k =
    (if session_id = None \<or> MKRING_STREAM_MAX_PAYLOAD < len then (- EINVAL, st, k)
     else
       let seq = sm_next_seq st + 1;
           fields = [(''magic'', enc_le 4 MKRING_STREAM_MAGIC), (''version'', [MKRING_STREAM_VERSION]),
             (''channel'', [MKRING_STREAM_CHANNEL]), (''stream_type'', [stream_type]),
             (''payload_len'', enc_le 4 (of_nat len :: u32)),
             (''session_id'', str_member MKRING_STREAM_MAX_SESSION_ID (the session_id)),
             (''payload'', (case data of Some d \<Rightarrow> memcpy (replicate MKRING_STREAM_MAX_PAYLOAD 0) d len
                                      | None \<Rightarrow> replicate MKRING_STREAM_MAX_PAYLOAD 0)),
             (''session_seq'', enc_le 8 seq)];
           msg = fold (\<lambda>(n, v). set_member mkring_stream_message n v) fields (replicate (sizeof mkring_stream_message) 0);
           req = \<lparr>snd_peer = sm_peer_kernel_id st, snd_channel = ucast MKRING_STREAM_CHANNEL,
                  snd_len = of_nat (sizeof mkring_stream_message), snd_message = put 0 msg (replicate 1024 0)\<rparr>
       in case mkga_mkring_transport_direct syscall MKRING_TRANSPORT_OP_SEND (enc_send req) k of
            (rc, _, k') \<Rightarrow> (rc, st\<lparr>sm_next_seq := seq\<rparr>, k'))"

text \<open>
  The session identifier of a message is read as a C string, past the end of its field when the
  field holds no NUL. The result is that of the write to the session, see Session.
\<close>

definition stream_session_id :: "bytes \<Rightarrow> bytes" where
  "stream_session_id m = cstr (drop (offset_of mkring_stream_message ''session_id'') m)"

definition stream_payload :: "bytes \<Rightarrow> bytes" where
  "stream_payload m = take (unat (dec_le (get mkring_stream_message ''payload_len'' m) :: u32)) (get mkring_stream_message ''payload'' m)"

definition mkga_stream_handle_message ::
    "write_round list \<Rightarrow> u16 \<Rightarrow> bytes option \<Rightarrow> sessions \<Rightarrow> (int \<times> (int \<times> bytes) option) option" where
  "mkga_stream_handle_message rs peer_kernel_id msg ss =
    (case msg of
       None \<Rightarrow> Some (- EINVAL, None)
     | Some m \<Rightarrow>
         if \<not> mkga_stream_message_valid msg then Some (- EINVAL, None)
         else if dec_le (get mkring_stream_message ''stream_type'' m) = MKRING_STREAM_TYPE_STDIN
         then mkga_session_write_stdin rs (Some (stream_session_id m)) (Some (stream_payload m)) ss
         else Some (0, None))"

text \<open>
  The reader thread. Round \<open>i\<close> finds the flag \<^verbatim>\<open>stopping\<close> as \<open>stop i\<close>, the sessions as \<open>sess i\<close> and the
  descriptors as \<open>rounds i\<close>. The result is the list of the writes made; \<open>None\<close> means that the thread
  still runs when the fuel is used up.
\<close>

fun mkga_stream_reader ::
    "nat \<Rightarrow> (u32 \<Rightarrow> bytes \<Rightarrow> 'k \<Rightarrow> int \<times> bytes \<times> 'k) option \<Rightarrow> (nat \<Rightarrow> bool) \<Rightarrow> (nat \<Rightarrow> sessions) \<Rightarrow> (nat \<Rightarrow> write_round list) \<Rightarrow>
     nat \<Rightarrow> 'k \<Rightarrow> ((int \<times> bytes) list \<times> 'k) option" where
  "mkga_stream_reader 0 syscall stop sess rounds i k = None"
| "mkga_stream_reader (Suc fuel) syscall stop sess rounds i k =
    (let req = \<lparr>rcv_peer = 0, rcv_channel = ucast MKRING_STREAM_CHANNEL, rcv_timeout_ms = MKGA_STREAM_RECV_TIMEOUT_MS,
                rcv_len = 0, rcv_message = replicate 1024 0\<rparr>
     in case mkga_mkring_transport_direct syscall MKRING_TRANSPORT_OP_RECV (enc_recv req) k of
          (rc, mem, k') \<Rightarrow>
            let r = dec_recv mem in
            if rc \<noteq> 0
            then (if rc = - EINTR \<or> rc = - ETIMEDOUT \<or> rc = - EAGAIN
                  then (if stop i then Some ([], k') else mkga_stream_reader fuel syscall stop sess rounds (Suc i) k')
                  else Some ([], k'))
            else if stop i then Some ([], k')
            else if rcv_len r \<noteq> of_nat (sizeof mkring_stream_message)
            then mkga_stream_reader fuel syscall stop sess rounds (Suc i) k'
            else case mkga_stream_handle_message (rounds i) (rcv_peer r)
                        (Some (take (sizeof mkring_stream_message) (rcv_message r))) (sess i) of
                   None \<Rightarrow> None
                 | Some (_, w) \<Rightarrow>
                     map_option (\<lambda>(ws, k''). ((case w of None \<Rightarrow> ws | Some x \<Rightarrow> x # ws), k''))
                       (mkga_stream_reader fuel syscall stop sess rounds (Suc i) k'))"

text \<open>\<open>thread_rc\<close> is what \<^verbatim>\<open>pthread_create\<close> returns.\<close>

definition mkga_stream_ensure_started :: "environment \<Rightarrow> int \<Rightarrow> mkga_stream_state \<Rightarrow> int \<times> mkga_stream_state" where
  "mkga_stream_ensure_started env thread_rc st =
    (if sm_started st then (0, st)
     else
       let st1 = st\<lparr>sm_peer_kernel_id := mkga_getenv_u16 env (cs ''MK_GUEST_AGENT_PEER_KERNEL_ID'') 0,
                    sm_stopping := False, sm_next_seq := 0\<rparr>
       in if thread_rc \<noteq> 0 then (- thread_rc, st1) else (0, st1\<lparr>sm_started := True\<rparr>))"

definition mkga_stream_send_output ::
    "environment \<Rightarrow> int \<Rightarrow> (u32 \<Rightarrow> bytes \<Rightarrow> 'k \<Rightarrow> int \<times> bytes \<times> 'k) option \<Rightarrow> bytes option \<Rightarrow> bytes option \<Rightarrow> nat \<Rightarrow>
     mkga_stream_state \<Rightarrow> 'k \<Rightarrow> int \<times> mkga_stream_state \<times> 'k" where
  "mkga_stream_send_output env thread_rc syscall session_id data len st k =
    (case mkga_stream_ensure_started env thread_rc st of
       (rc, st1) \<Rightarrow>
         if rc \<noteq> 0 then (rc, st1, k)
         else mkga_stream_send_packet syscall MKRING_STREAM_TYPE_OUTPUT session_id data len st1 k)"

definition mkga_stream_send_exit ::
    "environment \<Rightarrow> int \<Rightarrow> (u32 \<Rightarrow> bytes \<Rightarrow> 'k \<Rightarrow> int \<times> bytes \<times> 'k) option \<Rightarrow> bytes option \<Rightarrow> i32 \<Rightarrow>
     mkga_stream_state \<Rightarrow> 'k \<Rightarrow> int \<times> mkga_stream_state \<times> 'k" where
  "mkga_stream_send_exit env thread_rc syscall session_id exit_code st k =
    (case mkga_stream_ensure_started env thread_rc st of
       (rc, st1) \<Rightarrow>
         if rc \<noteq> 0 then (rc, st1, k)
         else
           let payload = set_member mkring_stream_control_exit ''exit_code'' (enc_le 4 exit_code)
                 (set_member mkring_stream_control_exit ''kind'' (enc_le 4 MKRING_STREAM_CTL_EXIT)
                    (replicate (sizeof mkring_stream_control_exit) 0))
           in mkga_stream_send_packet syscall MKRING_STREAM_TYPE_CONTROL session_id (Some payload)
                (sizeof mkring_stream_control_exit) st1 k)"

end
