(* ===== verification/StreamLink.thy ===== *)
theory StreamLink
  imports StreamDevice AgentLink
begin

text \<open>
  Properties of the stream data path: what a packet says to its receiver, and terminal input from
  the message the ring delivers to the guest's kernel up to the descriptor of the session.
\<close>

section \<open>Packets\<close>

text \<open>The message of a packet and what is read from it.\<close>

definition stream_bytes :: "u8 \<Rightarrow> u64 \<Rightarrow> bytes \<Rightarrow> nat \<Rightarrow> bytes \<Rightarrow> bytes" where
  "stream_bytes ty seq sid len payload =
    fold (\<lambda>(n, v). set_member mkring_stream_message n v)
      [(''magic'', enc_le 4 MKRING_STREAM_MAGIC), (''version'', [MKRING_STREAM_VERSION]), (''channel'', [MKRING_STREAM_CHANNEL]),
       (''stream_type'', [ty]), (''payload_len'', enc_le 4 (of_nat len :: u32)), (''session_id'', str_member 64 sid),
       (''payload'', payload), (''session_seq'', enc_le 8 seq)] (replicate 852 0)"

lemma stream_bytes_reads:
  assumes "length payload = 768"
  shows "length (stream_bytes ty seq sid len payload) = 852"
    "get mkring_stream_message ''magic'' (stream_bytes ty seq sid len payload) = enc_le 4 MKRING_STREAM_MAGIC"
    "get mkring_stream_message ''version'' (stream_bytes ty seq sid len payload) = [MKRING_STREAM_VERSION]"
    "get mkring_stream_message ''channel'' (stream_bytes ty seq sid len payload) = [MKRING_STREAM_CHANNEL]"
    "get mkring_stream_message ''stream_type'' (stream_bytes ty seq sid len payload) = [ty]"
    "get mkring_stream_message ''payload_len'' (stream_bytes ty seq sid len payload) = enc_le 4 (of_nat len :: u32)"
    "get mkring_stream_message ''session_id'' (stream_bytes ty seq sid len payload) = str_member 64 sid"
    "get mkring_stream_message ''payload'' (stream_bytes ty seq sid len payload) = payload"
    "get mkring_stream_message ''session_seq'' (stream_bytes ty seq sid len payload) = enc_le 8 seq"
proof -
  let ?vs = "[(''magic'', enc_le 4 MKRING_STREAM_MAGIC), (''version'', [MKRING_STREAM_VERSION]), (''channel'', [MKRING_STREAM_CHANNEL]),
       (''stream_type'', [ty]), (''payload_len'', enc_le 4 (of_nat len :: u32)), (''session_id'', str_member 64 sid),
       (''payload'', payload), (''session_seq'', enc_le 8 seq)]"
  have "fits mkring_stream_message ?vs"
    using assms by (simp add: fits_def mkring_stream_message_def mkring_stream_header_def)
  note all = fold_set_member [OF this, of "replicate 852 0", folded stream_bytes_def]
  then show "length (stream_bytes ty seq sid len payload) = 852" by simp
  have rd: "get mkring_stream_message n (stream_bytes ty seq sid len payload) = v"
    if "n \<in> fst ` set mkring_stream_message" "map_of ?vs n = Some v" for n v
    using all that by auto
  show "get mkring_stream_message ''magic'' (stream_bytes ty seq sid len payload) = enc_le 4 MKRING_STREAM_MAGIC"
    "get mkring_stream_message ''version'' (stream_bytes ty seq sid len payload) = [MKRING_STREAM_VERSION]"
    "get mkring_stream_message ''channel'' (stream_bytes ty seq sid len payload) = [MKRING_STREAM_CHANNEL]"
    "get mkring_stream_message ''stream_type'' (stream_bytes ty seq sid len payload) = [ty]"
    "get mkring_stream_message ''payload_len'' (stream_bytes ty seq sid len payload) = enc_le 4 (of_nat len :: u32)"
    "get mkring_stream_message ''session_id'' (stream_bytes ty seq sid len payload) = str_member 64 sid"
    "get mkring_stream_message ''payload'' (stream_bytes ty seq sid len payload) = payload"
    "get mkring_stream_message ''session_seq'' (stream_bytes ty seq sid len payload) = enc_le 8 seq"
    by (rule rd; simp add: mkring_stream_message_def mkring_stream_header_def)+
qed

text \<open>What the receiver's checks see.\<close>

lemma cstr_append: "0 \<in> set a \<Longrightarrow> cstr (a @ b) = cstr a"
  by (auto simp: cstr_def takeWhile_append1)

lemma stream_bytes_valid:
  assumes "length payload = 768" "len \<le> 768" "ty \<in> {1, 2, 3}"
  shows "mkga_stream_message_valid (Some (stream_bytes ty seq sid len payload))"
    "stream_payload (stream_bytes ty seq sid len payload) = take len payload"
proof -
  note rd = stream_bytes_reads [OF assms(1), of ty seq sid len]
  have len: "unat (of_nat len :: u32) = len" using assms(2) by (simp add: unsigned_of_nat take_bit_nat_eq_self)
  then have "\<not> 768 < (of_nat len :: u32)" using assms(2) by (simp add: word_less_nat_alt)
  moreover have "(dec_le [ty] :: u8) = ty" by simp
  ultimately show "mkga_stream_message_valid (Some (stream_bytes ty seq sid len payload))"
    using assms(3) unfolding mkga_stream_message_valid_def by (simp only: rd Let_def option.case) simp
  show "stream_payload (stream_bytes ty seq sid len payload) = take len payload"
    unfolding stream_payload_def rd by (simp add: len)
qed

lemma stream_bytes_session:
  assumes "length payload = 768" "str_ok 64 sid"
  shows "stream_session_id (stream_bytes ty seq sid len payload) = sid"
proof -
  let ?m = "stream_bytes ty seq sid len payload"
  note rd = stream_bytes_reads [OF assms(1), of ty seq sid len]
  have "offset_of mkring_stream_message ''session_id'' = 16" "member_size mkring_stream_message ''session_id'' = 64"
    by (simp_all add: mkring_stream_message_def mkring_stream_header_def)
  then have "drop 16 ?m = str_member 64 sid @ drop 80 ?m"
    using rd(7) append_take_drop_id [of 64 "drop 16 ?m"] by (simp add: get_def field_def)
  moreover have "0 \<in> set (str_member 64 sid)"
    using assms(2) by (auto simp: str_member_def str_ok_copied strz_def str_ok_def)
  ultimately show ?thesis
    using str_member_ok(2) [OF assms(2)] \<open>offset_of mkring_stream_message ''session_id'' = 16\<close>
    by (simp add: stream_session_id_def cstr_append)
qed

lemma stream_valid_message:
  assumes "length payload = 768"
  shows "mkct_valid_message (Some (stream_bytes ty seq sid len payload)) 852" "prefix_channel (stream_bytes ty seq sid len payload) = 3"
proof -
  note rd = stream_bytes_reads [OF assms, of ty seq sid len]
  have "field 0 4 (stream_bytes ty seq sid len payload) = enc_le 4 MKRING_STREAM_MAGIC"
    "field 4 1 (stream_bytes ty seq sid len payload) = [1]" "field 5 1 (stream_bytes ty seq sid len payload) = [3]"
    using rd(2-4) by (simp_all add: get_def mkring_stream_message_def mkring_stream_header_def)
  then have p: "prefix_magic (stream_bytes ty seq sid len payload) = MKRING_PROTO_MAGIC"
    "prefix_version (stream_bytes ty seq sid len payload) = 1" "prefix_channel (stream_bytes ty seq sid len payload) = 3"
    by (simp_all add: prefix_magic_def prefix_version_def prefix_channel_def)
  then show "mkct_valid_message (Some (stream_bytes ty seq sid len payload)) 852" "prefix_channel (stream_bytes ty seq sid len payload) = 3"
    by (simp_all add: mkct_valid_message_def mkct_supported_channel_def)
qed

text \<open>
  C38. Stream packets are understood as they were meant. Every packet the agent sends (output of a
  terminal or an exit notice, at most 768 bytes for a session with a valid identifier) is one
  message for the configured peer on the stream channel that the kernel's transport accepts and
  that the receiver's check accepts, and the receiver reads back the type, the session, exactly
  the given bytes, and a sequence number one higher than that of the packet before; whatever the
  system call returns is returned.
\<close>

theorem stream_packet_roundtrip:
  assumes "len \<le> 768" "len \<le> length d" "ty \<in> {1, 2, 3}" "str_ok 64 sid"
  shows "\<exists>msg. length msg = 852 \<and> mkct_valid_message (Some msg) 852 \<and> prefix_channel msg = MKRING_CHANNEL_STREAM \<and>
    mkga_stream_message_valid (Some msg) \<and> get mkring_stream_message ''stream_type'' msg = [ty] \<and>
    stream_session_id msg = sid \<and> stream_payload msg = take len d \<and>
    dec_le (get mkring_stream_message ''session_seq'' msg) = sm_next_seq st + 1 \<and>
    mkga_stream_send_packet syscall ty (Some sid) (Some d) len st k =
      (case mkga_mkring_transport_direct syscall MKRING_TRANSPORT_OP_SEND
              (enc_send \<lparr>snd_peer = sm_peer_kernel_id st, snd_channel = 3, snd_len = 852, snd_message = msg @ replicate 172 0\<rparr>) k of
         (rc, _, k') \<Rightarrow> (rc, st\<lparr>sm_next_seq := sm_next_seq st + 1\<rparr>, k'))"
proof -
  define p where "p = memcpy (replicate 768 0) d len"
  have p: "length p = 768" "take len p = take len d" using assms(1,2) by (simp_all add: p_def memcpy_def)
  let ?m = "stream_bytes ty (sm_next_seq st + 1) sid len p"
  note rd = stream_bytes_reads [OF p(1), of ty "sm_next_seq st + 1" sid len]
  have "put 0 ?m (replicate 1024 0) = ?m @ replicate 172 0" using rd(1) by (simp add: put_def)
  then have "mkga_stream_send_packet syscall ty (Some sid) (Some d) len st k =
      (case mkga_mkring_transport_direct syscall MKRING_TRANSPORT_OP_SEND
              (enc_send \<lparr>snd_peer = sm_peer_kernel_id st, snd_channel = 3, snd_len = 852, snd_message = ?m @ replicate 172 0\<rparr>) k of
         (rc, _, k') \<Rightarrow> (rc, st\<lparr>sm_next_seq := sm_next_seq st + 1\<rparr>, k'))"
    using assms(1)
    unfolding mkga_stream_send_packet_def Let_def stream_sizes option.sel option.case p_def [symmetric] stream_bytes_def [symmetric]
    by simp
  then show ?thesis
    using stream_valid_message [OF p(1)] stream_bytes_valid [OF p(1) assms(1,3)] stream_bytes_session [OF p(1) assms(4)] rd p(2)
    by (intro exI [of _ ?m]) simp
qed

theorem stream_packet_roundtrip_witness:
  "\<exists>msg. mkga_stream_message_valid (Some msg) \<and> stream_session_id msg = cs ''exec-1'' \<and> stream_payload msg = cs ''hi''"
  using stream_packet_roundtrip [of 2 "cs ''hi''" 2 "cs ''exec-1''" "\<lparr>sm_peer_kernel_id = 0, sm_started = True, sm_stopping = False, sm_next_seq = 4\<rparr>"
      "None :: (u32 \<Rightarrow> bytes \<Rightarrow> unit \<Rightarrow> int \<times> bytes \<times> unit) option" "()"]
  by (auto simp: str_ok_def is_cstr_def cs_def)

section \<open>The reader\<close>

lemma reader_round:
  assumes b: "mkct_hooked b" "mkct_valid_peer (k_mkct b) src" "messages (t_queues (k_mkct b) ! 3) = []"
    and m: "mkct_valid_message (Some bs) len" "length bs = unat len" "prefix_channel bs = MKRING_CHANNEL_STREAM" and f: "\<not> stop i"
  shows "mkga_stream_reader (Suc fuel) (Some (guest_call nf blocked)) stop sess rounds i (delivered src bs b) =
    (if len \<noteq> 852 then mkga_stream_reader fuel (Some (guest_call nf blocked)) stop sess rounds (Suc i) (counted b)
     else case mkga_stream_handle_message (rounds i) src (Some bs) (sess i) of
       None \<Rightarrow> None
     | Some (_, w) \<Rightarrow>
         map_option (\<lambda>(ws, k). ((case w of None \<Rightarrow> ws | Some x \<Rightarrow> x # ws), k))
           (mkga_stream_reader fuel (Some (guest_call nf blocked)) stop sess rounds (Suc i) (counted b)))"
proof -
  define r where "r = \<lparr>rcv_peer = 0, rcv_channel = ucast (3 :: u8), rcv_timeout_ms = 1000, rcv_len = 0, rcv_message = replicate 1024 0 :: bytes\<rparr>"
  let ?r = "r\<lparr>rcv_peer := src, rcv_len := len, rcv_message := bs @ replicate (1024 - length bs) 0\<rparr>"
  have "guest_call nf blocked MKRING_TRANSPORT_OP_RECV (enc_recv r) (delivered src bs b) = (0, enc_recv ?r, counted b)"
    using guest_recv_delivered [of b src 3 bs len r nf blocked] b m by (simp add: r_def)
  then have call: "mkga_mkring_transport_direct (Some (guest_call nf blocked)) MKRING_TRANSPORT_OP_RECV (enc_recv r) (delivered src bs b) =
      (0, enc_recv ?r, counted b)" by (rule direct_result)
  have "length bs \<le> 1024" using valid_message_take(3) [OF m(1)] m(2) by (simp add: word_le_nat_alt)
  then have dec: "dec_recv (enc_recv ?r) = ?r" by (simp add: dec_enc_recv)
  show ?thesis
    unfolding mkga_stream_reader.simps Let_def r_def [symmetric] call prod.case dec using f m(2)
    by (cases "len = 852") simp_all
qed



text \<open>
  The reader drops what it does not understand. A message of the wrong size, or with a wrong
  magic number, version, type or payload length, that any peer puts on the stream channel changes
  no descriptor, and the reader goes on with the next message.
\<close>

theorem stream_reader_skips_odd:
  assumes "mkct_hooked b" "mkct_valid_peer (k_mkct b) src" "messages (t_queues (k_mkct b) ! 3) = []" "\<not> stop i"
    and "mkct_valid_message (Some bs) len" "length bs = unat len" "prefix_channel bs = MKRING_CHANNEL_STREAM"
    and "len = 852 \<Longrightarrow> \<not> mkga_stream_message_valid (Some bs)"
  shows "mkga_stream_reader (Suc fuel) (Some (guest_call nf blocked)) stop sess rounds i (delivered src bs b) =
    mkga_stream_reader fuel (Some (guest_call nf blocked)) stop sess rounds (Suc i) (counted b)"
proof (cases "len = 852")
  case True
  then have "mkga_stream_handle_message (rounds i) src (Some bs) (sess i) = Some (- EINVAL, None)"
    using assms(8) by (simp add: mkga_stream_handle_message_def)
  then show ?thesis
    using reader_round [where stop = stop and i = i, OF assms(1-3,5-7,4), of fuel nf blocked sess rounds] by (simp add: option.map_id0 id_def case_prod_eta option.map_ident)
next
  case False
  then show ?thesis using reader_round [where stop = stop and i = i, OF assms(1-3,5-7,4), of fuel nf blocked sess rounds] by simp
qed

definition ping_stream :: bytes where
  "ping_stream = enc_le 4 MKRING_PROTO_MAGIC @ [1, 3]"

theorem stream_reader_skips_odd_witness:
  "mkga_stream_reader 5 (Some (guest_call (\<lambda>_ _ _. 0) (- EINTR))) (\<lambda>_. False) (\<lambda>_. []) (\<lambda>_. []) 0 (delivered 0 ping_stream receiver2) =
   mkga_stream_reader 4 (Some (guest_call (\<lambda>_ _ _. 0) (- EINTR))) (\<lambda>_. False) (\<lambda>_. []) (\<lambda>_. []) 1 (counted receiver2)"
proof -
  have b: "mkct_valid_peer (k_mkct receiver2) 0" "messages (t_queues (k_mkct receiver2) ! 3) = []"
    by (simp_all add: receiver2_def mkct_valid_peer_def info2_def zero_mkct_def)
  have p: "prefix_magic ping_stream = MKRING_PROTO_MAGIC" "prefix_version ping_stream = 1" "prefix_channel ping_stream = 3"
    by (simp_all add: prefix_magic_def prefix_version_def prefix_channel_def ping_stream_def field_append) (simp_all add: field_def)
  then have "mkct_valid_message (Some ping_stream) 6" by (simp add: mkct_valid_message_def mkct_supported_channel_def)
  moreover have "length ping_stream = unat (6 :: u32)" by (simp add: ping_stream_def)
  ultimately have st: "mkga_stream_reader (Suc 4) (Some (guest_call (\<lambda>_ _ _. 0) (- EINTR))) (\<lambda>_. False) (\<lambda>_. []) (\<lambda>_. []) 0 (delivered 0 ping_stream receiver2) =
      mkga_stream_reader 4 (Some (guest_call (\<lambda>_ _ _. 0) (- EINTR))) (\<lambda>_. False) (\<lambda>_. []) (\<lambda>_. []) (Suc 0) (counted receiver2)"
    using p(3) by (intro stream_reader_skips_odd [OF receiver2_hooked b, where len = 6]) simp_all
  have "Suc 4 = 5" by simp
  then show ?thesis using st by (simp only: One_nat_def)
qed

end
