(* ===== verification/CtrExec.thy ===== *)
theory CtrExec
  imports Config
begin

text \<open>
  Running one \<^verbatim>\<open>ctr\<close> command and collecting its output (\<^verbatim>\<open>mk-guest-agent/src/runtime_containerd_stub.c\<close>,
  \<^verbatim>\<open>mkga_append_output\<close> to \<^verbatim>\<open>mkga_ctr_exec\<close>). What the system calls return, round by round, is an
  argument: the results of \<^verbatim>\<open>pipe\<close>, \<^verbatim>\<open>fork\<close> and \<^verbatim>\<open>fcntl\<close>, then for every round of the loop the clock,
  \<^verbatim>\<open>poll\<close>, each \<^verbatim>\<open>read\<close> and \<^verbatim>\<open>waitpid\<close>. An output buffer is the list of the bytes stored in it so far; no
  buffer (NULL) is one of length 0. A system call that succeeds leaves \<^verbatim>\<open>errno\<close> as it is.
\<close>

section \<open>Output buffers\<close>

definition mkga_append_output :: "nat \<Rightarrow> bytes \<Rightarrow> bytes \<Rightarrow> bytes" where
  "mkga_append_output dst_len dst src =
    (if dst_len = 0 \<or> src = [] then dst
     else if dst_len - 1 \<le> length dst then dst
     else let room = dst_len - 1 - length dst; copy_len = (if length src < room then length src else room)
          in dst @ take copy_len src)"

text \<open>One \<^verbatim>\<open>read\<close>: some bytes, end of file, or an error number.\<close>

datatype read_result =
    ReadBytes bytes
  | ReadEof
  | ReadFails int

text \<open>
  The code, the buffer, and whether the descriptor is still open; \<open>None\<close> when the loop still runs
  after the given results.
\<close>

fun read_pipe_loop :: "nat \<Rightarrow> read_result list \<Rightarrow> bytes \<Rightarrow> (int \<times> bytes \<times> bool) option" where
  "read_pipe_loop dst_len [] dst = None"
| "read_pipe_loop dst_len (ReadBytes buf # rs) dst = read_pipe_loop dst_len rs (mkga_append_output dst_len dst buf)"
| "read_pipe_loop dst_len (ReadEof # rs) dst = Some (0, dst, False)"
| "read_pipe_loop dst_len (ReadFails e # rs) dst =
    (if e = EINTR then read_pipe_loop dst_len rs dst
     else if e = EAGAIN then Some (0, dst, True)
     else Some (- e, dst, True))"

definition mkga_read_pipe_into_buffer :: "bool \<Rightarrow> nat \<Rightarrow> read_result list \<Rightarrow> bytes \<Rightarrow> (int \<times> bytes \<times> bool) option" where
  "mkga_read_pipe_into_buffer fd dst_len rs dst = (if \<not> fd then Some (0, dst, False) else read_pipe_loop dst_len rs dst)"

section \<open>Exit status\<close>

datatype wait_status =
    WExited int
  | WSignaled int
  | WOther

fun strstr :: "bytes \<Rightarrow> bytes \<Rightarrow> bool" where
  "strstr [] needle = (needle = [])"
| "strstr (c # s) needle = (take (length needle) (c # s) = needle \<or> strstr s needle)"

text \<open>Both arguments are buffers that hold C strings.\<close>

definition mkga_contains_text :: "bytes \<Rightarrow> bytes \<Rightarrow> bool" where
  "mkga_contains_text haystack needle = strstr (cstr haystack) (cstr needle)"

definition mkga_map_ctr_error :: "wait_status \<Rightarrow> bytes \<Rightarrow> int" where
  "mkga_map_ctr_error wait_status stderr_buf =
    (if wait_status = WExited 0 then 0
     else if wait_status = WExited 127 then - ENOENT
     else if mkga_contains_text stderr_buf (cs ''not found'') then - ENOENT
     else if mkga_contains_text stderr_buf (cs ''already exists'') then - EEXIST
     else if mkga_contains_text stderr_buf (cs ''deadline exceeded'') \<or> mkga_contains_text stderr_buf (cs ''timed out'')
     then - ETIMEDOUT
     else if mkga_contains_text stderr_buf (cs ''permission denied'') then - EACCES
     else if mkga_contains_text stderr_buf (cs ''invalid'') then - EINVAL
     else - EIO)"

section \<open>The command\<close>

datatype exec_res = StdoutRead | StdoutWrite | StderrRead | StderrWrite | Child

datatype wait_result =
    NotYet
  | Reaped wait_status
  | WaitFails int

text \<open>
  One round of the loop: the clock in milliseconds, the error of \<^verbatim>\<open>poll\<close> (0 when it returns), the
  reads from both pipes, and \<^verbatim>\<open>waitpid\<close>.
\<close>

record exec_round =
  xr_now :: int
  xr_poll :: int
  xr_stdout :: "read_result list"
  xr_stderr :: "read_result list"
  xr_wait :: wait_result

text \<open>
  One run: the errors of the calls before the loop (0 for success), the clock at the start, and the
  rounds.
\<close>

record ctr_run =
  run_start_ms :: int
  run_stdout_pipe :: int
  run_stderr_pipe :: int
  run_fork :: int
  run_nonblock :: int
  run_rounds :: "exec_round list"

record exec_state =
  x_stdout :: bytes
  x_stderr :: bytes
  x_stdout_open :: bool
  x_stderr_open :: bool
  x_child :: "wait_status option"
  x_held :: "exec_res set"

text \<open>Kill the child, wait for it, close both pipes.\<close>

definition kill_child :: "exec_state \<Rightarrow> exec_state" where
  "kill_child s = s\<lparr>x_held := x_held s - {Child} - {StdoutRead} - {StderrRead}\<rparr>"

definition read_stdout :: "nat \<Rightarrow> exec_round \<Rightarrow> exec_state \<Rightarrow> (int \<times> exec_state) option" where
  "read_stdout stdout_len r s =
    (if x_stdout_open s
     then (case mkga_read_pipe_into_buffer (StdoutRead \<in> x_held s) stdout_len (xr_stdout r) (x_stdout s) of
             None \<Rightarrow> None
           | Some (rc, buf, open) \<Rightarrow>
               Some (rc, s\<lparr>x_stdout := buf, x_stdout_open := open,
                           x_held := (if open then x_held s else x_held s - {StdoutRead})\<rparr>))
     else Some (0, s))"

definition read_stderr :: "nat \<Rightarrow> exec_round \<Rightarrow> exec_state \<Rightarrow> (int \<times> exec_state) option" where
  "read_stderr stderr_len r s =
    (if x_stderr_open s
     then (case mkga_read_pipe_into_buffer (StderrRead \<in> x_held s) stderr_len (xr_stderr r) (x_stderr s) of
             None \<Rightarrow> None
           | Some (rc, buf, open) \<Rightarrow>
               Some (rc, s\<lparr>x_stderr := buf, x_stderr_open := open,
                           x_held := (if open then x_held s else x_held s - {StderrRead})\<rparr>))
     else Some (0, s))"

definition exec_running :: "exec_state \<Rightarrow> bool" where
  "exec_running s \<longleftrightarrow> x_stdout_open s \<or> x_stderr_open s \<or> x_child s = None"

text \<open>What one round comes to: the loop goes on, or the function returns.\<close>

datatype round_result =
    Again exec_state
  | Return int exec_state

definition wait_child :: "exec_round \<Rightarrow> exec_state \<Rightarrow> round_result" where
  "wait_child r s =
    (if x_child s \<noteq> None then Again s
     else case xr_wait r of
       NotYet \<Rightarrow> Again s
     | Reaped st \<Rightarrow> Again (s\<lparr>x_child := Some st, x_held := x_held s - {Child}\<rparr>)
     | WaitFails e \<Rightarrow> Return (- e) (s\<lparr>x_held := x_held s - {StdoutRead} - {StderrRead}\<rparr>))"

definition exec_step :: "int \<Rightarrow> int \<Rightarrow> nat \<Rightarrow> nat \<Rightarrow> exec_round \<Rightarrow> exec_state \<Rightarrow> round_result option" where
  "exec_step timeout_ms start_ms stdout_len stderr_len r s =
    (if 0 < timeout_ms \<and> timeout_ms - (xr_now r - start_ms) \<le> 0 then Some (Return (- ETIMEDOUT) (kill_child s))
     else if xr_poll r = EINTR then Some (Again s)
     else if xr_poll r \<noteq> 0 then Some (Return (- xr_poll r) (kill_child s))
     else case read_stdout stdout_len r s of
       None \<Rightarrow> None
     | Some (rc1, s1) \<Rightarrow>
         if rc1 \<noteq> 0 then Some (Return rc1 (kill_child s1))
         else case read_stderr stderr_len r s1 of
           None \<Rightarrow> None
         | Some (rc2, s2) \<Rightarrow>
             if rc2 \<noteq> 0 then Some (Return rc2 (kill_child s2))
             else Some (wait_child r s2))"

fun exec_loop :: "int \<Rightarrow> int \<Rightarrow> nat \<Rightarrow> nat \<Rightarrow> exec_round list \<Rightarrow> exec_state \<Rightarrow> (int \<times> exec_state) option" where
  "exec_loop timeout_ms start_ms stdout_len stderr_len rs s =
    (if \<not> exec_running s then Some (mkga_map_ctr_error (the (x_child s)) (x_stderr s), s)
     else case rs of
       [] \<Rightarrow> None
     | r # rs' \<Rightarrow>
         (case exec_step timeout_ms start_ms stdout_len stderr_len r s of
            None \<Rightarrow> None
          | Some (Return rc s') \<Rightarrow> Some (rc, s')
          | Some (Again s') \<Rightarrow> exec_loop timeout_ms start_ms stdout_len stderr_len rs' s'))"

declare exec_loop.simps [simp del]

definition exec_start :: exec_state where
  "exec_start = \<lparr>x_stdout = [], x_stderr = [], x_stdout_open = True, x_stderr_open = True, x_child = None,
    x_held = {StdoutRead, StdoutWrite, StderrRead, StderrWrite, Child}\<rparr>"

text \<open>
  The command line is the list \<open>argv\<close>, the program first. The result is the code with both buffers
  and what is still held; whether there is an \<open>impl\<close> is a flag.
\<close>

definition mkga_ctr_exec ::
    "bool \<Rightarrow> bytes list \<Rightarrow> int \<Rightarrow> nat \<Rightarrow> nat \<Rightarrow> ctr_run \<Rightarrow> (int \<times> exec_state) option" where
  "mkga_ctr_exec impl argv timeout_ms stdout_len stderr_len run =
    (let s0 = exec_start in
     if \<not> impl \<or> argv = [] then Some (- EINVAL, s0\<lparr>x_held := {}\<rparr>)
     else if run_stdout_pipe run \<noteq> 0 then Some (- run_stdout_pipe run, s0\<lparr>x_held := {}\<rparr>)
     else if run_stderr_pipe run \<noteq> 0
     then Some (- run_stderr_pipe run, s0\<lparr>x_held := {StdoutRead, StdoutWrite} - {StdoutRead} - {StdoutWrite}\<rparr>)
     else if run_fork run \<noteq> 0
     then Some (- run_fork run, s0\<lparr>x_held := {StdoutRead, StdoutWrite, StderrRead, StderrWrite} -
            {StdoutRead} - {StdoutWrite} - {StderrRead} - {StderrWrite}\<rparr>)
     else
       let s1 = s0\<lparr>x_held := x_held s0 - {StdoutWrite} - {StderrWrite}\<rparr> in
       if run_nonblock run \<noteq> 0 then Some (- EIO, kill_child s1)
       else exec_loop timeout_ms (run_start_ms run) stdout_len stderr_len (run_rounds run) s1)"

section \<open>What the buffers hold\<close>

lemma append_output_take:
  "mkga_append_output n (take (n - 1) a) b = take (n - 1) (a @ b)"
  by (auto simp: mkga_append_output_def Let_def min_def)

text \<open>The bytes of one series of reads and whether they reached the end of the file.\<close>

fun read_data :: "read_result list \<Rightarrow> bytes \<times> bool" where
  "read_data [] = ([], False)"
| "read_data (ReadBytes b # rs) = (b @ fst (read_data rs), snd (read_data rs))"
| "read_data (ReadEof # rs) = ([], True)"
| "read_data (ReadFails e # rs) = (if e = EINTR then read_data rs else ([], False))"

fun pipe_data :: "read_result list list \<Rightarrow> bytes" where
  "pipe_data [] = []"
| "pipe_data (l # ls) = fst (read_data l) @ (if snd (read_data l) then [] else pipe_data ls)"

definition polled :: "exec_round list \<Rightarrow> exec_round list" where
  "polled rs = filter (\<lambda>r. xr_poll r \<noteq> EINTR) rs"

lemma read_pipe_loop_data:
  "read_pipe_loop n rs (take (n - 1) a) = Some (rc, buf, opn) \<Longrightarrow>
    buf = take (n - 1) (a @ fst (read_data rs)) \<and> (rc = 0 \<longrightarrow> opn = (\<not> snd (read_data rs))) \<and> (rc \<noteq> 0 \<longrightarrow> opn)"
proof (induction n rs "take (n - 1) a" arbitrary: a rule: read_pipe_loop.induct)
  case (2 n b rs)
  have "read_pipe_loop n rs (take (n - 1) (a @ b)) = Some (rc, buf, opn)"
    using 2(2) by (simp only: read_pipe_loop.simps append_output_take)
  from 2(1) [OF append_output_take this] show ?case unfolding read_data.simps append_assoc prod.sel .
qed (auto split: if_splits)

lemma read_pipe_loop_open: "read_pipe_loop n rs dst = Some (rc, buf, opn) \<Longrightarrow> rc \<noteq> 0 \<Longrightarrow> opn"
  by (induction n rs dst rule: read_pipe_loop.induct) (auto split: if_splits)

text \<open>The descriptors and the child the loop holds are those it still works on.\<close>

definition exec_held :: "exec_state \<Rightarrow> bool" where
  "exec_held s \<longleftrightarrow> StdoutWrite \<notin> x_held s \<and> StderrWrite \<notin> x_held s \<and>
    (StdoutRead \<in> x_held s) = x_stdout_open s \<and> (StderrRead \<in> x_held s) = x_stderr_open s \<and>
    (Child \<in> x_held s) = (x_child s = None)"

lemma exec_res_empty: "(\<forall>x. (x :: exec_res) \<notin> S) \<longleftrightarrow> StdoutWrite \<notin> S \<and> StderrWrite \<notin> S \<and> StdoutRead \<notin> S \<and> StderrRead \<notin> S \<and> Child \<notin> S"
  by (metis exec_res.exhaust)

lemma held_stopped: "exec_held s \<Longrightarrow> \<not> exec_running s \<Longrightarrow> x_held s = {}"
  using exec_res_empty [of "x_held s"] by (auto simp: exec_held_def exec_running_def)

lemma held_killed: "exec_held s \<Longrightarrow> x_held (kill_child s) = {}"
  using exec_res_empty [of "x_held (kill_child s)"] by (auto simp: exec_held_def kill_child_def)

lemma held_read_stdout: "read_stdout n r s = Some (rc, s') \<Longrightarrow> exec_held s \<Longrightarrow> exec_held s'"
  by (auto simp: read_stdout_def exec_held_def mkga_read_pipe_into_buffer_def split: if_splits option.splits)

lemma held_read_stderr: "read_stderr n r s = Some (rc, s') \<Longrightarrow> exec_held s \<Longrightarrow> exec_held s'"
  by (auto simp: read_stderr_def exec_held_def mkga_read_pipe_into_buffer_def split: if_splits option.splits)

definition round_held :: "exec_round \<Rightarrow> round_result \<Rightarrow> bool" where
  "round_held r x = (case x of
      Again s \<Rightarrow> exec_held s
    | Return rc s \<Rightarrow> x_held s = {} \<or> (\<exists>e. xr_wait r = WaitFails e) \<and> x_held s = {Child})"

lemma held_wait_child:
  assumes "exec_held s"
  shows "round_held r (wait_child r s)"
proof (cases "x_child s = None")
  case True
  have "x_held s - {StdoutRead} - {StderrRead} = {Child}"
  proof (rule set_eqI)
    fix x show "x \<in> x_held s - {StdoutRead} - {StderrRead} \<longleftrightarrow> x \<in> {Child}"
      using assms True by (cases x) (simp_all add: exec_held_def)
  qed
  then show ?thesis using assms True by (cases "xr_wait r") (simp_all add: wait_child_def round_held_def exec_held_def)
next
  case False
  then show ?thesis using assms by (simp add: wait_child_def round_held_def)
qed

lemma exec_held_round:
  assumes "exec_step t st n m r s = Some x" "exec_held s"
  shows "round_held r x"
proof -
  have killed: "round_held r (Return rc (kill_child s'))" if "exec_held s'" for rc s'
    using held_killed [OF that] by (simp add: round_held_def)
  have again: "round_held r (Again s)" using assms(2) by (simp add: round_held_def)
  show ?thesis
  proof (cases "read_stdout n r s")
    case None
    then show ?thesis using assms killed again by (auto simp: exec_step_def split: if_splits)
  next
    case (Some a)
    obtain rc1 s1 where a: "a = (rc1, s1)" by fastforce
    note h1 = held_read_stdout [OF Some [unfolded a] assms(2)]
    show ?thesis
    proof (cases "read_stderr m r s1")
      case None
      then show ?thesis using assms killed again h1 Some a by (auto simp: exec_step_def split: if_splits)
    next
      case (Some b)
      obtain rc2 s2 where b: "b = (rc2, s2)" by fastforce
      note h2 = held_read_stderr [OF Some [unfolded b] h1]
      show ?thesis using assms killed again h1 h2 held_wait_child [OF h2] Some a b \<open>read_stdout n r s = Some a\<close>
        by (auto simp: exec_step_def split: if_splits)
    qed
  qed
qed

lemma exec_loop_stopped: "\<not> exec_running s \<Longrightarrow> exec_loop t st n m rs s = Some (mkga_map_ctr_error (the (x_child s)) (x_stderr s), s)"
  by (simp add: exec_loop.simps)

lemma exec_loop_Nil: "exec_running s \<Longrightarrow> exec_loop t st n m [] s = None"
  by (simp add: exec_loop.simps)

lemma exec_loop_Cons:
  "exec_running s \<Longrightarrow> exec_loop t st n m (r # rs) s =
    (case exec_step t st n m r s of
       None \<Rightarrow> None
     | Some (Return rc s') \<Rightarrow> Some (rc, s')
     | Some (Again s') \<Rightarrow> exec_loop t st n m rs s')"
  by (subst exec_loop.simps) simp

lemma exec_loop_releases:
  assumes "exec_loop t st n m rs s = Some (rc, s')" "exec_held s"
  shows "x_held s' = {} \<or> (\<exists>r\<in>set rs. \<exists>e. xr_wait r = WaitFails e) \<and> x_held s' = {Child}"
  using assms
proof (induction rs arbitrary: s)
  case Nil
  then show ?case by (cases "exec_running s") (auto simp: exec_loop_stopped exec_loop_Nil held_stopped)
next
  case (Cons r rs)
  consider "\<not> exec_running s" | s1 where "exec_running s" "exec_step t st n m r s = Some (Again s1)"
    | rc1 s1 where "exec_running s" "exec_step t st n m r s = Some (Return rc1 s1)"
    using Cons.prems(1) by (cases "exec_running s") (auto simp: exec_loop_Cons split: option.splits round_result.splits)
  then show ?case
  proof cases
    case 1
    then show ?thesis using Cons.prems held_stopped by (auto simp: exec_loop_stopped)
  next
    case 2
    then show ?thesis using Cons.IH [of s1] Cons.prems exec_held_round [OF 2(2) Cons.prems(2)] by (auto simp: exec_loop_Cons round_held_def)
  next
    case 3
    then show ?thesis using exec_held_round [OF 3(2) Cons.prems(2)] Cons.prems(1) by (auto simp: exec_loop_Cons round_held_def)
  qed
qed

text \<open>A series of reads ends when something other than bytes or an interruption comes.\<close>

fun settles :: "read_result list \<Rightarrow> bool" where
  "settles [] = False"
| "settles (ReadBytes b # rs) = settles rs"
| "settles (ReadEof # rs) = True"
| "settles (ReadFails e # rs) = (e \<noteq> EINTR \<or> settles rs)"

lemma settles_ends: "settles rs \<Longrightarrow> read_pipe_loop n rs dst \<noteq> None"
  by (induction n rs dst rule: read_pipe_loop.induct) auto

lemma settles_round:
  assumes "settles (xr_stdout r)" "settles (xr_stderr r)"
  shows "exec_step t st n m r s \<noteq> None"
proof -
  have h: "read_stdout n r s \<noteq> None" "read_stderr m r s1 \<noteq> None" for s s1
    using settles_ends [OF assms(1), of n "x_stdout s"] settles_ends [OF assms(2), of m "x_stderr s1"]
    by (auto simp: read_stdout_def read_stderr_def mkga_read_pipe_into_buffer_def split: option.splits)
  obtain rc1 s1 where 1: "read_stdout n r s = Some (rc1, s1)" using h(1) [of s] by fastforce
  obtain rc2 s2 where "read_stderr m r s1 = Some (rc2, s2)" using h(2) [of s1] by fastforce
  with 1 show ?thesis by (simp add: exec_step_def)
qed

lemma exec_loop_ends:
  assumes "0 < t" "\<forall>r\<in>set rs. settles (xr_stdout r) \<and> settles (xr_stderr r)" "\<exists>r\<in>set rs. st + t \<le> xr_now r"
  shows "exec_loop t st n m rs s \<noteq> None"
  using assms(2,3)
proof (induction rs arbitrary: s)
  case (Cons r rs)
  then have "exec_step t st n m r s \<noteq> None" using settles_round by simp
  then obtain x where x: "exec_step t st n m r s = Some x" by blast
  show ?case
  proof (cases "exec_running s \<and> \<not> st + t \<le> xr_now r")
    case True
    then show ?thesis using Cons x by (auto simp: exec_loop_Cons split: round_result.splits)
  next
    case False
    then show ?thesis using assms(1) by (cases "exec_running s") (simp_all add: exec_loop_stopped exec_loop_Cons exec_step_def)
  qed
qed simp

lemma read_stdout_data:
  assumes "read_stdout n r s = Some (0, s1)" "x_stdout s = take (n - 1) out" "exec_held s" "x_stdout_open s"
  shows "x_stdout s1 = take (n - 1) (out @ fst (read_data (xr_stdout r))) \<and> x_stdout_open s1 = (\<not> snd (read_data (xr_stdout r)))"
  using assms read_pipe_loop_data [of n "xr_stdout r" out]
  by (auto simp: read_stdout_def exec_held_def mkga_read_pipe_into_buffer_def split: option.splits)

lemma read_stderr_data:
  assumes "read_stderr n r s = Some (0, s1)" "x_stderr s = take (n - 1) out" "exec_held s" "x_stderr_open s"
  shows "x_stderr s1 = take (n - 1) (out @ fst (read_data (xr_stderr r))) \<and> x_stderr_open s1 = (\<not> snd (read_data (xr_stderr r)))"
  using assms read_pipe_loop_data [of n "xr_stderr r" out]
  by (auto simp: read_stderr_def exec_held_def mkga_read_pipe_into_buffer_def split: option.splits)

lemma read_keeps:
  "read_stdout n r s = Some (rc, s1) \<Longrightarrow> x_stderr s1 = x_stderr s \<and> x_stderr_open s1 = x_stderr_open s \<and> x_child s1 = x_child s \<and> (\<not> x_stdout_open s \<longrightarrow> s1 = s)"
  "read_stderr n r s = Some (rc, s1) \<Longrightarrow> x_stdout s1 = x_stdout s \<and> x_stdout_open s1 = x_stdout_open s \<and> x_child s1 = x_child s \<and> (\<not> x_stderr_open s \<longrightarrow> s1 = s)"
  by (auto simp: read_stdout_def read_stderr_def split: option.splits if_splits)

lemma wait_keeps:
  "wait_child r s = Again s1 \<Longrightarrow> x_stdout s1 = x_stdout s \<and> x_stdout_open s1 = x_stdout_open s \<and> x_stderr s1 = x_stderr s \<and> x_stderr_open s1 = x_stderr_open s"
  by (auto simp: wait_child_def split: if_splits wait_result.splits)

text \<open>The data a pipe still delivers, nothing once it is closed.\<close>

definition pipe_rest :: "bool \<Rightarrow> read_result list list \<Rightarrow> bytes" where
  "pipe_rest opn ls = (if opn then pipe_data ls else [])"

lemma exec_step_again:
  assumes "exec_step t st n m r s = Some (Again s')"
  obtains "xr_poll r = EINTR" "s' = s"
  | s1 s2 where "xr_poll r = 0" "read_stdout n r s = Some (0, s1)" "read_stderr m r s1 = Some (0, s2)" "wait_child r s2 = Again s'"
  using assms unfolding exec_step_def by (simp split: if_splits option.splits prod.splits)

lemma exec_step_return_running:
  assumes "exec_step t st n m r s = Some (Return rc s')" "exec_running s"
  shows "exec_running s'"
proof -
  have 1: "exec_running s1" if "read_stdout n r s = Some (rc1, s1)" "rc1 \<noteq> 0" for rc1 s1
    using that read_pipe_loop_open [of n "xr_stdout r" "x_stdout s"]
    by (auto simp: read_stdout_def exec_running_def mkga_read_pipe_into_buffer_def split: if_splits option.splits)
  have 2: "exec_running s1" if "read_stderr m r s2 = Some (rc1, s1)" "rc1 \<noteq> 0" for rc1 s1 s2
    using that read_pipe_loop_open [of m "xr_stderr r" "x_stderr s2"]
    by (auto simp: read_stderr_def exec_running_def mkga_read_pipe_into_buffer_def split: if_splits option.splits)
  have k: "exec_running (kill_child s1) = exec_running s1" for s1 by (simp add: exec_running_def kill_child_def)
  have 3: "exec_running s'" if "wait_child r s2 = Return rc s'" for s2
    using that by (auto simp: wait_child_def exec_running_def split: if_splits wait_result.splits)
  show ?thesis using assms 1 2 3 k unfolding exec_step_def by (auto split: if_splits option.splits prod.splits)
qed

lemma exec_loop_output:
  assumes "exec_loop t st n m rs s = Some (rc, s')" "\<not> exec_running s'" "exec_held s"
    and "x_stdout s = take (n - 1) out" "x_stderr s = take (m - 1) err"
  shows "x_stdout s' = take (n - 1) (out @ pipe_rest (x_stdout_open s) (map xr_stdout (polled rs))) \<and>
    x_stderr s' = take (m - 1) (err @ pipe_rest (x_stderr_open s) (map xr_stderr (polled rs))) \<and>
    rc = mkga_map_ctr_error (the (x_child s')) (x_stderr s')"
  using assms
proof (induction rs arbitrary: s out err)
  case Nil
  then show ?case by (cases "exec_running s") (auto simp: exec_loop_stopped exec_loop_Nil exec_running_def pipe_rest_def)
next
  case (Cons r rs)
  show ?case
  proof (cases "exec_running s")
    case False
    then show ?thesis using Cons.prems by (auto simp: exec_loop_stopped exec_running_def pipe_rest_def)
  next
    case True
    have "exec_running s1" if "exec_step t st n m r s = Some (Return rc1 s1)" for rc1 s1
      by (rule exec_step_return_running [OF that True])
    then obtain s1 where s1: "exec_step t st n m r s = Some (Again s1)" "exec_loop t st n m rs s1 = Some (rc, s')"
      using Cons.prems(1,2) True by (auto simp: exec_loop_Cons split: option.splits round_result.splits)
    have h: "exec_held s1" using exec_held_round [OF s1(1) Cons.prems(3)] by (simp add: round_held_def)
    from s1(1) show ?thesis
    proof (cases rule: exec_step_again)
      case 1
      then show ?thesis using Cons.IH [OF s1(2) Cons.prems(2) h] Cons.prems(4,5) by (simp add: polled_def)
    next
      case (2 a b)
      define out1 where "out1 = out @ (if x_stdout_open s then fst (read_data (xr_stdout r)) else [])"
      define err1 where "err1 = err @ (if x_stderr_open s then fst (read_data (xr_stderr r)) else [])"
      note h1 = held_read_stdout [OF 2(2) Cons.prems(3)]
      have o: "x_stdout s1 = take (n - 1) out1" "x_stdout_open s1 = (x_stdout_open s \<and> \<not> snd (read_data (xr_stdout r)))"
        using read_stdout_data [OF 2(2) Cons.prems(4,3)] read_keeps(1) [OF 2(2)] read_keeps(2) [OF 2(3)] wait_keeps [OF 2(4)] Cons.prems(4)
        by (auto simp: out1_def)
      have e: "x_stderr s1 = take (m - 1) err1" "x_stderr_open s1 = (x_stderr_open s \<and> \<not> snd (read_data (xr_stderr r)))"
        using read_stderr_data [OF 2(3) _ h1] read_keeps(1) [OF 2(2)] read_keeps(2) [OF 2(3)] wait_keeps [OF 2(4)] Cons.prems(5)
        by (auto simp: err1_def)
      have p: "polled (r # rs) = r # polled rs" using 2(1) by (simp add: polled_def)
      show ?thesis
        using Cons.IH [OF s1(2) Cons.prems(2) h o(1) e(1)] unfolding p o(2) e(2) out1_def err1_def pipe_rest_def
        by (cases "x_stdout_open s"; cases "x_stderr_open s") simp_all
    qed
  qed
qed

section \<open>Properties\<close>

text \<open>
  C19. A command with a time limit always comes back and leaves nothing behind. When every series of
  reads ends and the clock reaches the limit in some round, the function returns, and then all four
  ends of the pipes are closed and the child has been waited for; only when \<^verbatim>\<open>waitpid\<close> itself fails
  may the child be left.
\<close>

theorem ctr_exec_ends_clean:
  assumes "0 < timeout_ms" "\<forall>r\<in>set (run_rounds run). settles (xr_stdout r) \<and> settles (xr_stderr r)"
    and "\<exists>r\<in>set (run_rounds run). run_start_ms run + timeout_ms \<le> xr_now r"
  shows "\<exists>rc s. mkga_ctr_exec impl argv timeout_ms n m run = Some (rc, s) \<and>
    (x_held s = {} \<or> (\<exists>r\<in>set (run_rounds run). \<exists>e. xr_wait r = WaitFails e) \<and> x_held s = {Child})"
proof -
  let ?s = "exec_start\<lparr>x_held := x_held exec_start - {StdoutWrite} - {StderrWrite}\<rparr>"
  have h: "exec_held ?s" by (simp add: exec_held_def exec_start_def)
  obtain rc s where l: "exec_loop timeout_ms (run_start_ms run) n m (run_rounds run) ?s = Some (rc, s)"
    using exec_loop_ends [OF assms, of n m ?s] by fastforce
  note r = exec_loop_releases [OF l h]
  show ?thesis
  proof (cases "\<not> impl \<or> argv = [] \<or> run_stdout_pipe run \<noteq> 0 \<or> run_stderr_pipe run \<noteq> 0 \<or> run_fork run \<noteq> 0 \<or> run_nonblock run \<noteq> 0")
    case True
    then show ?thesis using held_killed [OF h] by (auto simp: mkga_ctr_exec_def Let_def)
  next
    case False
    then show ?thesis using l r by (simp add: mkga_ctr_exec_def Let_def)
  qed
qed

text \<open>A command that prints two pieces on one pipe and exits with the given status.\<close>

definition two_rounds :: "wait_status \<Rightarrow> ctr_run" where
  "two_rounds st = \<lparr>run_start_ms = 100, run_stdout_pipe = 0, run_stderr_pipe = 0, run_fork = 0, run_nonblock = 0,
    run_rounds =
      [\<lparr>xr_now = 110, xr_poll = 0, xr_stdout = [ReadBytes (cs ''mk''), ReadFails EAGAIN], xr_stderr = [ReadFails EAGAIN], xr_wait = NotYet\<rparr>,
       \<lparr>xr_now = 120, xr_poll = EINTR, xr_stdout = [ReadEof], xr_stderr = [ReadEof], xr_wait = NotYet\<rparr>,
       \<lparr>xr_now = 130, xr_poll = 0, xr_stdout = [ReadFails EINTR, ReadBytes (cs ''c-1''), ReadEof], xr_stderr = [ReadEof], xr_wait = Reaped st\<rparr>,
       \<lparr>xr_now = 9000, xr_poll = 0, xr_stdout = [ReadEof], xr_stderr = [ReadEof], xr_wait = NotYet\<rparr>]\<rparr>"

theorem ctr_exec_ends_clean_witness:
  "\<exists>rc s. mkga_ctr_exec True [cs ''ctr''] 5000 4096 4096 (two_rounds (WExited 0)) = Some (rc, s) \<and> x_held s = {}"
  using ctr_exec_ends_clean [of 5000 "two_rounds (WExited 0)" True "[cs ''ctr'']" 4096 4096]
  by (simp add: two_rounds_def)

text \<open>
  The buffers hold what the command printed. When the command has come to its end, each buffer
  holds the bytes its pipe delivered over all rounds, in order and however they were cut into
  pieces, up to the length of the buffer less one, and the code follows from the exit status and the
  collected error output.
\<close>

theorem ctr_exec_output:
  assumes "mkga_ctr_exec True argv timeout_ms n m run = Some (rc, s)" "\<not> exec_running s"
  shows "x_stdout s = take (n - 1) (pipe_data (map xr_stdout (polled (run_rounds run)))) \<and>
    x_stderr s = take (m - 1) (pipe_data (map xr_stderr (polled (run_rounds run)))) \<and>
    rc = mkga_map_ctr_error (the (x_child s)) (x_stderr s)"
proof -
  let ?s = "exec_start\<lparr>x_held := x_held exec_start - {StdoutWrite} - {StderrWrite}\<rparr>"
  have "exec_held ?s" by (simp add: exec_held_def exec_start_def)
  moreover have "exec_loop timeout_ms (run_start_ms run) n m (run_rounds run) ?s = Some (rc, s)"
    using assms by (auto simp: mkga_ctr_exec_def Let_def exec_running_def exec_start_def kill_child_def split: if_splits)
  ultimately show ?thesis
    using exec_loop_output [of timeout_ms "run_start_ms run" n m "run_rounds run" ?s rc s "[]" "[]"] assms(2)
    by (simp add: exec_start_def pipe_rest_def)
qed

lemma two_rounds_exec:
  "argv \<noteq> [] \<Longrightarrow> mkga_ctr_exec True argv 5000 4096 4096 (two_rounds (WExited 0)) =
   Some (0, \<lparr>x_stdout = cs ''mkc-1'', x_stderr = [], x_stdout_open = False, x_stderr_open = False, x_child = Some (WExited 0), x_held = {}\<rparr>)"
  by (simp add: mkga_ctr_exec_def two_rounds_def exec_start_def exec_loop.simps exec_running_def exec_step_def read_stdout_def read_stderr_def
      mkga_read_pipe_into_buffer_def mkga_append_output_def wait_child_def mkga_map_ctr_error_def cs_def insert_Diff_if)

theorem ctr_exec_output_witness:
  "\<exists>s. mkga_ctr_exec True [cs ''ctr''] 5000 4096 4096 (two_rounds (WExited 0)) = Some (0, s) \<and> x_stdout s = cs ''mkc-1''"
proof -
  note o = ctr_exec_output [OF two_rounds_exec [of "[cs ''ctr'']"]]
  show ?thesis using o two_rounds_exec [of "[cs ''ctr'']"] by (simp add: exec_running_def)
qed

end
