(* ===== verification/CriLog.thy ===== *)
theory CriLog
  imports CtrExec
begin

text \<open>
  The container log in the format of the container runtime interface
  (\<^verbatim>\<open>mk-guest-agent/src/runtime_containerd_stub.c\<close>, \<^verbatim>\<open>mkga_write_all\<close> to \<^verbatim>\<open>mkga_cri_log_append_chunk\<close> and
  \<^verbatim>\<open>mkga_ctr_exec_to_cri_log\<close>): every line a command prints becomes a record with a time stamp, the name
  of the stream and a tag, \<^verbatim>\<open>F\<close> for the end of a line and \<^verbatim>\<open>P\<close> for a piece of a longer one. The log
  file is open for appending, so its descriptor is never negative. The results of \<^verbatim>\<open>write\<close> and of the
  clock are arguments, numbered by the calls made.
\<close>

abbreviation (input) MKGA_CONTAINERD_CRI_LOG_BUFFER :: nat where "MKGA_CONTAINERD_CRI_LOG_BUFFER \<equiv> 4096"

abbreviation (input) tagF :: u8 where "tagF \<equiv> 70"
abbreviation (input) tagP :: u8 where "tagP \<equiv> 80"
abbreviation (input) newline :: u8 where "newline \<equiv> 10"

section \<open>Writing\<close>

text \<open>\<open>PutZero e\<close>: nothing was written and \<^verbatim>\<open>errno\<close> is still \<open>e\<close> from an earlier call.\<close>

datatype log_write =
    Put nat
  | PutZero int
  | PutFails int

record cri_time =
  ct_year :: int
  ct_mon :: int
  ct_mday :: int
  ct_hour :: int
  ct_min :: int
  ct_sec :: int
  ct_nsec :: int

text \<open>The time is an error number when \<^verbatim>\<open>clock_gettime\<close> or \<^verbatim>\<open>gmtime_r\<close> fails.\<close>

record log_env =
  le_write :: "nat \<Rightarrow> log_write"
  le_time :: "nat \<Rightarrow> int + cri_time"

record log_file =
  lf_data :: bytes
  lf_calls :: nat
  lf_stamps :: nat

definition log_put :: "bytes \<Rightarrow> log_file \<Rightarrow> log_file" where
  "log_put b f = f\<lparr>lf_data := lf_data f @ b, lf_calls := Suc (lf_calls f)\<rparr>"

partial_function (option) mkga_write_all :: "log_env \<Rightarrow> bytes \<Rightarrow> log_file \<Rightarrow> (int \<times> log_file) option" where
  "mkga_write_all env buf f =
    (if buf = [] then Some (0, f)
     else case le_write env (lf_calls f) of
       Put n \<Rightarrow> mkga_write_all env (drop n buf) (log_put (take n buf) f)
     | PutZero e \<Rightarrow> Some (- e, log_put [] f)
     | PutFails e \<Rightarrow> if e = EINTR then mkga_write_all env buf (log_put [] f) else Some (- e, log_put [] f))"

text \<open>The conversion \<^verbatim>\<open>%0<w>d\<close>.\<close>

definition fmt_0d :: "nat \<Rightarrow> int \<Rightarrow> bytes" where
  "fmt_0d w v =
    (let digits = fmt_u (nat \<bar>v\<bar>) in
     if v < 0 then 45 # replicate (w - 1 - length digits) 48 @ digits
     else replicate (w - length digits) 48 @ digits)"

definition cri_header :: "cri_time \<Rightarrow> bytes \<Rightarrow> u8 \<Rightarrow> bytes" where
  "cri_header t stream_name tag =
    fmt_0d 4 (ct_year t + 1900) @ cs ''-'' @ fmt_0d 2 (ct_mon t + 1) @ cs ''-'' @ fmt_0d 2 (ct_mday t) @ cs ''T'' @
    fmt_0d 2 (ct_hour t) @ cs '':'' @ fmt_0d 2 (ct_min t) @ cs '':'' @ fmt_0d 2 (ct_sec t) @ cs ''.'' @
    fmt_0d 9 (ct_nsec t) @ cs ''Z '' @ stream_name @ cs '' '' @ [tag] @ cs '' ''"

definition mkga_cri_log_write_record :: "log_env \<Rightarrow> log_file \<Rightarrow> bytes \<Rightarrow> u8 \<Rightarrow> bytes \<Rightarrow> (int \<times> log_file) option" where
  "mkga_cri_log_write_record env f0 stream_name tag payload =
    (let f = f0\<lparr>lf_stamps := Suc (lf_stamps f0)\<rparr> in
     case le_time env (lf_stamps f0) of
       Inl e \<Rightarrow> Some (- e, f)
     | Inr t \<Rightarrow>
         let header = cri_header t stream_name tag in
         if 128 \<le> length header then Some (- ENOSPC, f)
         else case mkga_write_all env header f of
           None \<Rightarrow> None
         | Some (rc, f1) \<Rightarrow>
             if rc \<noteq> 0 then Some (rc, f1)
             else case (if payload \<noteq> [] then mkga_write_all env payload f1 else Some (0, f1)) of
               None \<Rightarrow> None
             | Some (rc, f2) \<Rightarrow> if rc \<noteq> 0 then Some (rc, f2) else mkga_write_all env [newline] f2)"

record mkga_cri_log_stream =
  cl_stream_name :: bytes
  cl_pending :: bytes

definition mkga_cri_log_flush_pending ::
    "log_env \<Rightarrow> log_file \<Rightarrow> mkga_cri_log_stream \<Rightarrow> u8 \<Rightarrow> (int \<times> log_file \<times> mkga_cri_log_stream) option" where
  "mkga_cri_log_flush_pending env f stream tag =
    (if cl_pending stream = [] then Some (0, f, stream)
     else case mkga_cri_log_write_record env f (cl_stream_name stream) tag (cl_pending stream) of
       None \<Rightarrow> None
     | Some (rc, f1) \<Rightarrow> if rc \<noteq> 0 then Some (rc, f1, stream) else Some (0, f1, stream\<lparr>cl_pending := []\<rparr>))"

fun mkga_cri_log_append_chunk ::
    "log_env \<Rightarrow> log_file \<Rightarrow> mkga_cri_log_stream \<Rightarrow> bytes \<Rightarrow> (int \<times> log_file \<times> mkga_cri_log_stream) option" where
  "mkga_cri_log_append_chunk env f stream [] = Some (0, f, stream)"
| "mkga_cri_log_append_chunk env f stream (ch # chunk) =
    (if ch = newline
     then (case mkga_cri_log_flush_pending env f stream tagF of
             None \<Rightarrow> None
           | Some (rc, f1, s1) \<Rightarrow> if rc \<noteq> 0 then Some (rc, f1, s1) else mkga_cri_log_append_chunk env f1 s1 chunk)
     else if MKGA_CONTAINERD_CRI_LOG_BUFFER \<le> length (cl_pending stream)
     then (case mkga_cri_log_flush_pending env f stream tagP of
             None \<Rightarrow> None
           | Some (rc, f1, s1) \<Rightarrow>
               if rc \<noteq> 0 then Some (rc, f1, s1)
               else mkga_cri_log_append_chunk env f1 (s1\<lparr>cl_pending := cl_pending s1 @ [ch]\<rparr>) chunk)
     else mkga_cri_log_append_chunk env f (stream\<lparr>cl_pending := cl_pending stream @ [ch]\<rparr>) chunk)"

section \<open>Running a command with its output in the log\<close>

text \<open>
  The reads of one round from one pipe. The error output is also kept in a buffer; a buffer of
  length 0 keeps nothing. Code, whether the pipe is still open, log, stream and buffer.
\<close>

fun log_reads ::
    "log_env \<Rightarrow> nat \<Rightarrow> read_result list \<Rightarrow> log_file \<Rightarrow> mkga_cri_log_stream \<Rightarrow> bytes \<Rightarrow>
     (int \<times> bool \<times> log_file \<times> mkga_cri_log_stream \<times> bytes) option" where
  "log_reads env len [] f stream buf = None"
| "log_reads env len (ReadBytes b # rs) f stream buf =
    (case mkga_cri_log_append_chunk env f stream b of
       None \<Rightarrow> None
     | Some (rc, f1, s1) \<Rightarrow>
         if rc \<noteq> 0 then Some (rc, True, f1, s1, mkga_append_output len buf b)
         else log_reads env len rs f1 s1 (mkga_append_output len buf b))"
| "log_reads env len (ReadEof # rs) f stream buf = Some (0, False, f, stream, buf)"
| "log_reads env len (ReadFails e # rs) f stream buf =
    (if e \<noteq> EINTR \<and> e \<noteq> EAGAIN then Some (- e, True, f, stream, buf) else Some (0, True, f, stream, buf))"

record cri_state =
  cy_stdout_open :: bool
  cy_stderr_open :: bool
  cy_child :: "wait_status option"
  cy_file :: log_file
  cy_stdout :: mkga_cri_log_stream
  cy_stderr :: mkga_cri_log_stream
  cy_buf :: bytes

datatype cri_result =
    CriAgain cri_state
  | CriReturn int cri_state

definition cri_stdout :: "log_env \<Rightarrow> exec_round \<Rightarrow> cri_state \<Rightarrow> (int \<times> cri_state) option" where
  "cri_stdout env r s =
    (if cy_stdout_open s
     then (case log_reads env 0 (xr_stdout r) (cy_file s) (cy_stdout s) [] of
             None \<Rightarrow> None
           | Some (rc, opn, f, st, _) \<Rightarrow> Some (rc, s\<lparr>cy_stdout_open := opn, cy_file := f, cy_stdout := st\<rparr>))
     else Some (0, s))"

definition cri_stderr :: "log_env \<Rightarrow> nat \<Rightarrow> exec_round \<Rightarrow> cri_state \<Rightarrow> (int \<times> cri_state) option" where
  "cri_stderr env stderr_len r s =
    (if cy_stderr_open s
     then (case log_reads env stderr_len (xr_stderr r) (cy_file s) (cy_stderr s) (cy_buf s) of
             None \<Rightarrow> None
           | Some (rc, opn, f, st, buf) \<Rightarrow>
               Some (rc, s\<lparr>cy_stderr_open := opn, cy_file := f, cy_stderr := st, cy_buf := buf\<rparr>))
     else Some (0, s))"

definition cri_wait :: "exec_round \<Rightarrow> cri_state \<Rightarrow> cri_result" where
  "cri_wait r s =
    (if cy_child s \<noteq> None then CriAgain s
     else case xr_wait r of
       NotYet \<Rightarrow> CriAgain s
     | Reaped st \<Rightarrow> CriAgain (s\<lparr>cy_child := Some st\<rparr>)
     | WaitFails e \<Rightarrow> CriReturn (- e) s)"

definition cri_step :: "log_env \<Rightarrow> nat \<Rightarrow> exec_round \<Rightarrow> cri_state \<Rightarrow> cri_result option" where
  "cri_step env stderr_len r s =
    (if xr_poll r = EINTR then Some (CriAgain s)
     else if xr_poll r \<noteq> 0 then Some (CriReturn (- xr_poll r) s)
     else case cri_stdout env r s of
       None \<Rightarrow> None
     | Some (rc1, s1) \<Rightarrow>
         if rc1 \<noteq> 0 then Some (CriReturn rc1 s1)
         else case cri_stderr env stderr_len r s1 of
           None \<Rightarrow> None
         | Some (rc2, s2) \<Rightarrow> if rc2 \<noteq> 0 then Some (CriReturn rc2 s2) else Some (cri_wait r s2))"

definition exit_result :: "wait_status \<Rightarrow> cri_state \<Rightarrow> int \<times> int \<times> cri_state" where
  "exit_result st s =
    (case st of
       WExited c \<Rightarrow> (if c = 0 then 0 else - EIO, c, s)
     | WSignaled sig \<Rightarrow> (- EIO, 128 + sig, s)
     | WOther \<Rightarrow> (- EIO, 0, s))"

text \<open>After the loop: both streams are flushed, the log is closed, the status decides.\<close>

definition cri_finish :: "log_env \<Rightarrow> int \<Rightarrow> cri_state \<Rightarrow> (int \<times> int \<times> cri_state) option" where
  "cri_finish env close_rc s =
    (case mkga_cri_log_flush_pending env (cy_file s) (cy_stdout s) tagF of
       None \<Rightarrow> None
     | Some (rc1, f1, st1) \<Rightarrow>
         if rc1 \<noteq> 0 then Some (- EIO, 0, s\<lparr>cy_file := f1, cy_stdout := st1\<rparr>)
         else case mkga_cri_log_flush_pending env f1 (cy_stderr s) tagF of
           None \<Rightarrow> None
         | Some (rc2, f2, st2) \<Rightarrow>
             let s' = s\<lparr>cy_file := f2, cy_stdout := st1, cy_stderr := st2\<rparr> in
             if rc2 \<noteq> 0 then Some (- EIO, 0, s')
             else if close_rc \<noteq> 0 then Some (- close_rc, 0, s')
             else Some (exit_result (the (cy_child s)) s'))"

fun cri_loop :: "log_env \<Rightarrow> nat \<Rightarrow> int \<Rightarrow> exec_round list \<Rightarrow> cri_state \<Rightarrow> (int \<times> int \<times> cri_state) option" where
  "cri_loop env stderr_len close_rc rs s =
    (if \<not> (cy_stdout_open s \<or> cy_stderr_open s \<or> cy_child s = None) then cri_finish env close_rc s
     else case rs of
       [] \<Rightarrow> None
     | r # rs' \<Rightarrow>
         (case cri_step env stderr_len r s of
            None \<Rightarrow> None
          | Some (CriReturn rc s') \<Rightarrow> Some (rc, 0, s')
          | Some (CriAgain s') \<Rightarrow> cri_loop env stderr_len close_rc rs' s'))"

declare cri_loop.simps [simp del]

definition cri_start :: "log_file \<Rightarrow> cri_state" where
  "cri_start f = \<lparr>cy_stdout_open = True, cy_stderr_open = True, cy_child = None, cy_file = f,
    cy_stdout = \<lparr>cl_stream_name = cs ''stdout'', cl_pending = []\<rparr>,
    cy_stderr = \<lparr>cl_stream_name = cs ''stderr'', cl_pending = []\<rparr>, cy_buf = []\<rparr>"

text \<open>
  \<open>log_rc\<close> and \<open>close_rc\<close> are the errors of opening and closing the log, \<open>f\<close> is what the file holds
  when it is opened. Code, exit code, and the state with the log and the collected error output.
\<close>

definition mkga_ctr_exec_to_cri_log ::
    "log_env \<Rightarrow> bool \<Rightarrow> bytes list \<Rightarrow> int \<Rightarrow> int \<Rightarrow> log_file \<Rightarrow> nat \<Rightarrow> ctr_run \<Rightarrow> (int \<times> int \<times> cri_state) option" where
  "mkga_ctr_exec_to_cri_log env impl argv log_rc close_rc f stderr_len run =
    (let s0 = cri_start f in
     if \<not> impl \<or> argv = [] then Some (- EINVAL, 0, s0)
     else if log_rc \<noteq> 0 then Some (- log_rc, 0, s0)
     else if run_stdout_pipe run \<noteq> 0 then Some (- run_stdout_pipe run, 0, s0)
     else if run_stderr_pipe run \<noteq> 0 then Some (- run_stderr_pipe run, 0, s0)
     else if run_fork run \<noteq> 0 then Some (- run_fork run, 0, s0)
     else if run_nonblock run \<noteq> 0 then Some (- EIO, 0, s0)
     else cri_loop env stderr_len close_rc (run_rounds run) s0)"

section \<open>A log that can be written\<close>

text \<open>Every write makes some progress and every time has its usual form.\<close>

definition usual_time :: "cri_time \<Rightarrow> bool" where
  "usual_time t \<longleftrightarrow> 0 \<le> ct_year t + 1900 \<and> ct_year t + 1900 < 10000 \<and> 0 \<le> ct_mon t + 1 \<and> ct_mon t + 1 < 100 \<and>
    0 \<le> ct_mday t \<and> ct_mday t < 100 \<and> 0 \<le> ct_hour t \<and> ct_hour t < 100 \<and> 0 \<le> ct_min t \<and> ct_min t < 100 \<and>
    0 \<le> ct_sec t \<and> ct_sec t < 100 \<and> 0 \<le> ct_nsec t \<and> ct_nsec t < 10 ^ 9"

definition log_works :: "log_env \<Rightarrow> bool" where
  "log_works env \<longleftrightarrow> (\<forall>k. (\<exists>n. 0 < n \<and> le_write env k = Put n) \<and> (\<exists>t. le_time env k = Inr t \<and> usual_time t))"

definition the_time :: "log_env \<Rightarrow> nat \<Rightarrow> cri_time" where
  "the_time env k = projr (le_time env k)"

lemma log_worksD:
  "log_works env \<Longrightarrow> \<exists>n. 0 < n \<and> le_write env k = Put n"
  "log_works env \<Longrightarrow> le_time env k = Inr (the_time env k) \<and> usual_time (the_time env k)"
  unfolding log_works_def the_time_def by (blast, metis sum.sel(2))

lemma write_all_works:
  assumes "log_works env"
  shows "\<exists>c. mkga_write_all env buf f = Some (0, f\<lparr>lf_data := lf_data f @ buf, lf_calls := c\<rparr>)"
proof (induction "length buf" arbitrary: buf f rule: less_induct)
  case less
  show ?case
  proof (cases "buf = []")
    case True
    then show ?thesis by (subst mkga_write_all.simps) (auto intro: exI [of _ "lf_calls f"])
  next
    case False
    obtain n where n: "0 < n" "le_write env (lf_calls f) = Put n" using log_worksD(1) [OF assms] by blast
    have "length (drop n buf) < length buf" using n False by simp
    then obtain c where "mkga_write_all env (drop n buf) (log_put (take n buf) f) =
        Some (0, (log_put (take n buf) f)\<lparr>lf_data := lf_data (log_put (take n buf) f) @ drop n buf, lf_calls := c\<rparr>)"
      using less by blast
    then show ?thesis using False n by (subst mkga_write_all.simps) (auto simp: log_put_def)
  qed
qed

lemma length_fmt_0d: "0 \<le> v \<Longrightarrow> v < 10 ^ w \<Longrightarrow> 0 < w \<Longrightarrow> length (fmt_0d w v) = w"
proof -
  assume v: "0 \<le> v" "v < 10 ^ w" "0 < w"
  then have "nat v < 10 ^ w" by (simp add: nat_less_iff)
  then have "length (fmt_u (nat v)) \<le> w" using v(3) by (rule length_fmt_u)
  then show ?thesis using v(1) by (simp add: fmt_0d_def Let_def)
qed

lemma length_cri_header: "usual_time t \<Longrightarrow> length (cri_header t name tag) = 34 + length name"
  by (simp add: cri_header_def usual_time_def length_fmt_0d cs_def)

definition record_bytes :: "cri_time \<Rightarrow> bytes \<Rightarrow> u8 \<Rightarrow> bytes \<Rightarrow> bytes" where
  "record_bytes t name tag payload = cri_header t name tag @ payload @ [newline]"

definition logged :: "log_env \<Rightarrow> bytes \<Rightarrow> u8 \<Rightarrow> bytes \<Rightarrow> nat \<Rightarrow> log_file \<Rightarrow> log_file" where
  "logged env name tag payload c f = f\<lparr>lf_data := lf_data f @ record_bytes (the_time env (lf_stamps f)) name tag payload,
    lf_calls := c, lf_stamps := Suc (lf_stamps f)\<rparr>"

lemma write_record_works:
  assumes "log_works env" "length name < 90"
  shows "\<exists>c. mkga_cri_log_write_record env f name tag payload = Some (0, logged env name tag payload c f)"
proof -
  let ?t = "the_time env (lf_stamps f)" and ?f = "f\<lparr>lf_stamps := Suc (lf_stamps f)\<rparr>"
  let ?h = "cri_header ?t name tag"
  obtain c1 where 1: "mkga_write_all env ?h ?f = Some (0, ?f\<lparr>lf_data := lf_data f @ ?h, lf_calls := c1\<rparr>)" (is "_ = Some (0, ?f1)")
    using write_all_works [OF assms(1), of ?h ?f] by auto
  obtain c2 where 2: "(if payload \<noteq> [] then mkga_write_all env payload ?f1 else Some (0, ?f1)) =
      Some (0, ?f1\<lparr>lf_data := lf_data f @ ?h @ payload, lf_calls := c2\<rparr>)" (is "_ = Some (0, ?f2)")
  proof (cases "payload = []")
    case True
    then show ?thesis using that [of c1] by simp
  next
    case False
    then show ?thesis using write_all_works [OF assms(1), of payload ?f1] that by auto
  qed
  obtain c3 where 3: "mkga_write_all env [newline] ?f2 = Some (0, ?f2\<lparr>lf_data := lf_data ?f2 @ [newline], lf_calls := c3\<rparr>)"
    using write_all_works [OF assms(1), of "[newline]" ?f2] by auto
  have t: "le_time env (lf_stamps f) = Inr ?t" "length ?h < 128"
    using log_worksD(2) [OF assms(1), of "lf_stamps f"] assms(2) by (simp_all add: length_cri_header)
  have "mkga_cri_log_write_record env f name tag payload = mkga_write_all env [newline] ?f2"
    using t unfolding mkga_cri_log_write_record_def Let_def t(1) sum.case 1 option.case prod.case 2 by simp
  then show ?thesis unfolding 3 by (auto simp: logged_def record_bytes_def intro: exI [of _ c3])
qed

section \<open>Records and lines\<close>

text \<open>
  The records into which a stream is cut, given what is pending, and what is pending afterwards.
\<close>

fun cri_split :: "bytes \<Rightarrow> bytes \<Rightarrow> (u8 \<times> bytes) list \<times> bytes" where
  "cri_split p [] = ([], p)"
| "cri_split p (c # xs) =
    (if c = newline then (if p = [] then cri_split [] xs else apfst (Cons (tagF, p)) (cri_split [] xs))
     else if MKGA_CONTAINERD_CRI_LOG_BUFFER \<le> length p then apfst (Cons (tagP, p)) (cri_split [c] xs)
     else cri_split (p @ [c]) xs)"

lemma cri_split_append:
  "cri_split p (xs @ ys) = apfst ((@) (fst (cri_split p xs))) (cri_split (snd (cri_split p xs)) ys)"
  by (induction p xs rule: cri_split.induct) (auto simp: apfst_def map_prod_def split: prod.splits)

text \<open>The record for what is left at the end.\<close>

definition flush_rec :: "bytes \<Rightarrow> (u8 \<times> bytes) list" where
  "flush_rec p = (if p = [] then [] else [(tagF, p)])"

text \<open>A reader of the log joins the pieces of a line, and the lines of a stream without the empty ones.\<close>

fun log_lines :: "bytes \<Rightarrow> (u8 \<times> bytes) list \<Rightarrow> bytes list" where
  "log_lines acc [] = []"
| "log_lines acc ((tag, p) # rs) = (if tag = tagF then (acc @ p) # log_lines [] rs else log_lines (acc @ p) rs)"

fun lines_of :: "bytes \<Rightarrow> bytes \<Rightarrow> bytes list" where
  "lines_of cur [] = (if cur = [] then [] else [cur])"
| "lines_of cur (c # xs) =
    (if c = newline then (if cur = [] then lines_of [] xs else cur # lines_of [] xs) else lines_of (cur @ [c]) xs)"

lemma log_lines_split:
  "(acc \<noteq> [] \<longrightarrow> p \<noteq> []) \<Longrightarrow> log_lines acc (fst (cri_split p xs) @ flush_rec (snd (cri_split p xs))) = lines_of (acc @ p) xs"
proof (induction p xs arbitrary: acc rule: cri_split.induct)
  case (1 p)
  then show ?case by (auto simp: flush_rec_def)
next
  case (2 p c xs)
  then show ?case by auto
qed

fun rendered :: "log_env \<Rightarrow> nat \<Rightarrow> (bytes \<times> u8 \<times> bytes) list \<Rightarrow> bytes" where
  "rendered env k [] = []"
| "rendered env k ((name, tag, p) # rs) = record_bytes (the_time env k) name tag p @ rendered env (Suc k) rs"

lemma rendered_append: "rendered env k (as @ bs) = rendered env k as @ rendered env (k + length as) bs"
  by (induction env k as rule: rendered.induct) simp_all

text \<open>The log has grown by the given records.\<close>

definition wrote :: "log_env \<Rightarrow> log_file \<Rightarrow> (bytes \<times> u8 \<times> bytes) list \<Rightarrow> log_file \<Rightarrow> bool" where
  "wrote env f recs f' \<longleftrightarrow> lf_data f' = lf_data f @ rendered env (lf_stamps f) recs \<and> lf_stamps f' = lf_stamps f + length recs"

lemma wrote_Nil [simp]: "wrote env f [] f"
  by (simp add: wrote_def)

lemma wrote_append: "wrote env f a f1 \<Longrightarrow> wrote env f1 b f2 \<Longrightarrow> wrote env f (a @ b) f2"
  by (simp add: wrote_def rendered_append add.assoc)

definition named :: "bytes \<Rightarrow> (u8 \<times> bytes) list \<Rightarrow> (bytes \<times> u8 \<times> bytes) list" where
  "named name rs = map (Pair name) rs"

lemma flush_works:
  assumes "log_works env" "length (cl_stream_name st) < 90"
  shows "\<exists>f'. mkga_cri_log_flush_pending env f st tag = Some (0, f', st\<lparr>cl_pending := []\<rparr>) \<and>
    wrote env f (if cl_pending st = [] then [] else [(cl_stream_name st, tag, cl_pending st)]) f'"
proof (cases "cl_pending st = []")
  case True
  then show ?thesis by (cases st) (simp add: mkga_cri_log_flush_pending_def)
next
  case False
  obtain c where c: "mkga_cri_log_write_record env f (cl_stream_name st) tag (cl_pending st) =
      Some (0, logged env (cl_stream_name st) tag (cl_pending st) c f)"
    using write_record_works [OF assms] by blast
  have "wrote env f [(cl_stream_name st, tag, cl_pending st)] (logged env (cl_stream_name st) tag (cl_pending st) c f)"
    by (simp add: wrote_def logged_def)
  then show ?thesis using False c by (simp add: mkga_cri_log_flush_pending_def)
qed

lemma append_chunk_works:
  assumes "log_works env" "length (cl_stream_name st) < 90"
  shows "\<exists>f'. mkga_cri_log_append_chunk env f st chunk = Some (0, f', st\<lparr>cl_pending := snd (cri_split (cl_pending st) chunk)\<rparr>) \<and>
    wrote env f (named (cl_stream_name st) (fst (cri_split (cl_pending st) chunk))) f'"
  using assms(2)
proof (induction chunk arbitrary: f st)
  case Nil
  then show ?case by (simp add: named_def)
next
  case (Cons c xs)
  show ?case
  proof (cases "c = newline \<or> MKGA_CONTAINERD_CRI_LOG_BUFFER \<le> length (cl_pending st)")
    case True
    define tag where "tag = (if c = newline then tagF else tagP)"
    define st1 where "st1 = st\<lparr>cl_pending := if c = newline then [] else [c]\<rparr>"
    obtain f1 where f1: "mkga_cri_log_flush_pending env f st tag = Some (0, f1, st\<lparr>cl_pending := []\<rparr>)"
      "wrote env f (if cl_pending st = [] then [] else [(cl_stream_name st, tag, cl_pending st)]) f1"
      using flush_works [OF assms(1) Cons.prems] by blast
    have "length (cl_stream_name st1) < 90" using Cons.prems by (simp add: st1_def)
    then obtain f2 where f2: "mkga_cri_log_append_chunk env f1 st1 xs = Some (0, f2, st1\<lparr>cl_pending := snd (cri_split (cl_pending st1) xs)\<rparr>)"
      "wrote env f1 (named (cl_stream_name st1) (fst (cri_split (cl_pending st1) xs))) f2"
      using Cons.IH by blast
    have "mkga_cri_log_append_chunk env f st (c # xs) = mkga_cri_log_append_chunk env f1 st1 xs"
      using True f1(1) by (auto simp: tag_def st1_def)
    moreover have "cri_split (cl_pending st) (c # xs) = apfst ((@) (if cl_pending st = [] then [] else [(tag, cl_pending st)])) (cri_split (cl_pending st1) xs)"
      using True by (auto simp: tag_def st1_def apfst_def map_prod_def split: prod.splits)
    ultimately show ?thesis using f2(1) wrote_append [OF f1(2) f2(2)] by (auto simp: st1_def named_def)
  next
    case False
    then show ?thesis using Cons.IH [of "st\<lparr>cl_pending := cl_pending st @ [c]\<rparr>" f] Cons.prems by auto
  qed
qed

text \<open>A series of reads as a pipe gives it: some bytes, then the end or nothing more for now.\<close>

fun calm :: "read_result list \<Rightarrow> bool" where
  "calm [] = False"
| "calm (ReadBytes b # rs) = calm rs"
| "calm (ReadEof # rs) = (rs = [])"
| "calm (ReadFails e # rs) = ((e = EINTR \<or> e = EAGAIN) \<and> rs = [])"

lemma log_reads_works:
  assumes "log_works env" "length (cl_stream_name st) < 90" "calm rs"
  shows "\<exists>f'. log_reads env len rs f st (take (len - 1) a) =
      Some (0, \<not> snd (read_data rs), f', st\<lparr>cl_pending := snd (cri_split (cl_pending st) (fst (read_data rs)))\<rparr>,
            take (len - 1) (a @ fst (read_data rs))) \<and>
    wrote env f (named (cl_stream_name st) (fst (cri_split (cl_pending st) (fst (read_data rs))))) f'"
  using assms(2,3)
proof (induction rs arbitrary: f st a rule: calm.induct)
  case (2 b rs)
  obtain f1 where f1: "mkga_cri_log_append_chunk env f st b = Some (0, f1, st\<lparr>cl_pending := snd (cri_split (cl_pending st) b)\<rparr>)"
    "wrote env f (named (cl_stream_name st) (fst (cri_split (cl_pending st) b))) f1"
    using append_chunk_works [OF assms(1) 2(2)] by blast
  let ?st = "st\<lparr>cl_pending := snd (cri_split (cl_pending st) b)\<rparr>"
  have "length (cl_stream_name ?st) < 90" "calm rs" using 2(2,3) by simp_all
  from 2(1) [OF this, of f1 "a @ b"] obtain f2 where f2: "log_reads env len rs f1 ?st (take (len - 1) (a @ b)) =
      Some (0, \<not> snd (read_data rs), f2, ?st\<lparr>cl_pending := snd (cri_split (cl_pending ?st) (fst (read_data rs)))\<rparr>,
            take (len - 1) ((a @ b) @ fst (read_data rs)))"
    "wrote env f1 (named (cl_stream_name ?st) (fst (cri_split (cl_pending ?st) (fst (read_data rs))))) f2" by blast
  have "log_reads env len (ReadBytes b # rs) f st (take (len - 1) a) = log_reads env len rs f1 ?st (take (len - 1) (a @ b))"
    unfolding log_reads.simps f1(1) option.case prod.case append_output_take by simp
  then show ?case using f2(1) wrote_append [OF f1(2) f2(2)] by (auto simp: cri_split_append named_def)
qed (auto simp: named_def)

section \<open>The whole command\<close>

definition stream_of :: "bytes \<Rightarrow> (bytes \<times> u8 \<times> bytes) list \<Rightarrow> (u8 \<times> bytes) list" where
  "stream_of name R = map snd (filter (\<lambda>r. fst r = name) R)"

lemma stream_of_append [simp]: "stream_of name (a @ b) = stream_of name a @ stream_of name b"
  by (simp add: stream_of_def)

lemma stream_of_named [simp]: "stream_of name (named name' rs) = (if name' = name then rs else [])"
  by (simp add: stream_of_def named_def filter_map comp_def)

lemma std_names [simp]: "cs ''stdout'' \<noteq> cs ''stderr''" "cs ''stderr'' \<noteq> cs ''stdout''" "length (cs ''stdout'') < 90" "length (cs ''stderr'') < 90"
  by (simp_all add: cs_def)

text \<open>
  The log has the records \<open>R\<close> more than at the start; those of each stream, with what is pending, are
  the stream so far.
\<close>

definition cri_inv :: "log_env \<Rightarrow> nat \<Rightarrow> log_file \<Rightarrow> bytes \<Rightarrow> bytes \<Rightarrow> (bytes \<times> u8 \<times> bytes) list \<Rightarrow> cri_state \<Rightarrow> bool" where
  "cri_inv env n f0 out err R s \<longleftrightarrow> wrote env f0 R (cy_file s) \<and>
    cl_stream_name (cy_stdout s) = cs ''stdout'' \<and> cl_stream_name (cy_stderr s) = cs ''stderr'' \<and>
    stream_of (cs ''stdout'') R = fst (cri_split [] out) \<and> cl_pending (cy_stdout s) = snd (cri_split [] out) \<and>
    stream_of (cs ''stderr'') R = fst (cri_split [] err) \<and> cl_pending (cy_stderr s) = snd (cri_split [] err) \<and>
    cy_buf s = take (n - 1) err"

definition read_now :: "bool \<Rightarrow> read_result list \<Rightarrow> bytes" where
  "read_now opn l = (if opn then fst (read_data l) else [])"

lemma cri_stdout_works:
  assumes "log_works env" "calm (xr_stdout r)" "cri_inv env n f0 out err R s"
  shows "\<exists>s1 R1. cri_stdout env r s = Some (0, s1) \<and> cri_inv env n f0 (out @ read_now (cy_stdout_open s) (xr_stdout r)) err R1 s1 \<and>
    cy_stdout_open s1 = (cy_stdout_open s \<and> \<not> snd (read_data (xr_stdout r))) \<and> cy_stderr_open s1 = cy_stderr_open s \<and> cy_child s1 = cy_child s"
proof (cases "cy_stdout_open s")
  case False
  then show ?thesis using assms(3) by (auto simp: cri_stdout_def read_now_def)
next
  case True
  have "length (cl_stream_name (cy_stdout s)) < 90" using assms(3) by (simp add: cri_inv_def)
  from log_reads_works [OF assms(1) this assms(2), of 0 "cy_file s" "[]"] obtain f' where
    f: "log_reads env 0 (xr_stdout r) (cy_file s) (cy_stdout s) [] = Some (0, \<not> snd (read_data (xr_stdout r)), f',
        (cy_stdout s)\<lparr>cl_pending := snd (cri_split (cl_pending (cy_stdout s)) (fst (read_data (xr_stdout r))))\<rparr>, [])"
      "wrote env (cy_file s) (named (cl_stream_name (cy_stdout s)) (fst (cri_split (cl_pending (cy_stdout s)) (fst (read_data (xr_stdout r)))))) f'"
    by auto
  have "wrote env f0 (R @ named (cl_stream_name (cy_stdout s)) (fst (cri_split (cl_pending (cy_stdout s)) (fst (read_data (xr_stdout r)))))) f'"
    using wrote_append [OF _ f(2)] assms(3) by (simp add: cri_inv_def)
  then show ?thesis using True f(1) assms(3)
    by (intro exI [of _ "s\<lparr>cy_stdout_open := \<not> snd (read_data (xr_stdout r)), cy_file := f', cy_stdout := (cy_stdout s)\<lparr>cl_pending := snd (cri_split (cl_pending (cy_stdout s)) (fst (read_data (xr_stdout r))))\<rparr>\<rparr>"]
        exI [of _ "R @ named (cl_stream_name (cy_stdout s)) (fst (cri_split (cl_pending (cy_stdout s)) (fst (read_data (xr_stdout r)))))"])
      (simp add: cri_stdout_def cri_inv_def cri_split_append read_now_def)
qed

lemma cri_stderr_works:
  assumes "log_works env" "calm (xr_stderr r)" "cri_inv env n f0 out err R s"
  shows "\<exists>s1 R1. cri_stderr env n r s = Some (0, s1) \<and> cri_inv env n f0 out (err @ read_now (cy_stderr_open s) (xr_stderr r)) R1 s1 \<and>
    cy_stderr_open s1 = (cy_stderr_open s \<and> \<not> snd (read_data (xr_stderr r))) \<and> cy_stdout_open s1 = cy_stdout_open s \<and> cy_child s1 = cy_child s"
proof (cases "cy_stderr_open s")
  case False
  then show ?thesis using assms(3) by (auto simp: cri_stderr_def read_now_def)
next
  case True
  have "length (cl_stream_name (cy_stderr s)) < 90" using assms(3) by (simp add: cri_inv_def)
  from log_reads_works [OF assms(1) this assms(2), of n "cy_file s" err] obtain f' where
    f: "log_reads env n (xr_stderr r) (cy_file s) (cy_stderr s) (take (n - 1) err) = Some (0, \<not> snd (read_data (xr_stderr r)), f',
        (cy_stderr s)\<lparr>cl_pending := snd (cri_split (cl_pending (cy_stderr s)) (fst (read_data (xr_stderr r))))\<rparr>,
        take (n - 1) (err @ fst (read_data (xr_stderr r))))"
      "wrote env (cy_file s) (named (cl_stream_name (cy_stderr s)) (fst (cri_split (cl_pending (cy_stderr s)) (fst (read_data (xr_stderr r)))))) f'"
    by blast
  have "wrote env f0 (R @ named (cl_stream_name (cy_stderr s)) (fst (cri_split (cl_pending (cy_stderr s)) (fst (read_data (xr_stderr r)))))) f'"
    using wrote_append [OF _ f(2)] assms(3) by (simp add: cri_inv_def)
  moreover have "cy_buf s = take (n - 1) err" using assms(3) by (simp add: cri_inv_def)
  ultimately show ?thesis using True f(1) assms(3)
    by (intro exI [of _ "s\<lparr>cy_stderr_open := \<not> snd (read_data (xr_stderr r)), cy_file := f', cy_stderr := (cy_stderr s)\<lparr>cl_pending := snd (cri_split (cl_pending (cy_stderr s)) (fst (read_data (xr_stderr r))))\<rparr>, cy_buf := take (n - 1) (err @ fst (read_data (xr_stderr r)))\<rparr>"]
        exI [of _ "R @ named (cl_stream_name (cy_stderr s)) (fst (cri_split (cl_pending (cy_stderr s)) (fst (read_data (xr_stderr r)))))"])
      (simp add: cri_stderr_def cri_inv_def cri_split_append read_now_def)
qed

lemma cri_inv_wait: "cri_wait r s = CriAgain s1 \<Longrightarrow> cri_inv env n f0 out err R s \<Longrightarrow> cri_inv env n f0 out err R s1"
  by (auto simp: cri_wait_def cri_inv_def split: if_splits wait_result.splits)

lemma cri_finish_works:
  assumes "log_works env" "cri_inv env n f0 out err R s"
  shows "\<exists>s' R'. cri_finish env 0 s =
      Some (exit_result (the (cy_child s)) s') \<and>
    wrote env f0 R' (cy_file s') \<and> log_lines [] (stream_of (cs ''stdout'') R') = lines_of [] out \<and>
    log_lines [] (stream_of (cs ''stderr'') R') = lines_of [] err \<and> cy_buf s' = take (n - 1) err"
proof -
  let ?o = "cy_stdout s" and ?e = "cy_stderr s"
  have n: "length (cl_stream_name ?o) < 90" "length (cl_stream_name ?e) < 90" using assms(2) by (simp_all add: cri_inv_def)
  obtain f1 where f1: "mkga_cri_log_flush_pending env (cy_file s) ?o tagF = Some (0, f1, ?o\<lparr>cl_pending := []\<rparr>)"
    "wrote env (cy_file s) (named (cs ''stdout'') (flush_rec (snd (cri_split [] out)))) f1"
    using flush_works [OF assms(1) n(1), of "cy_file s" tagF] assms(2) by (auto simp: cri_inv_def named_def flush_rec_def split: if_splits)
  obtain f2 where f2: "mkga_cri_log_flush_pending env f1 ?e tagF = Some (0, f2, ?e\<lparr>cl_pending := []\<rparr>)"
    "wrote env f1 (named (cs ''stderr'') (flush_rec (snd (cri_split [] err)))) f2"
    using flush_works [OF assms(1) n(2), of f1 tagF] assms(2) by (auto simp: cri_inv_def named_def flush_rec_def split: if_splits)
  define R' where "R' = (R @ named (cs ''stdout'') (flush_rec (snd (cri_split [] out)))) @ named (cs ''stderr'') (flush_rec (snd (cri_split [] err)))"
  have w: "wrote env f0 R' f2" unfolding R'_def using assms(2) wrote_append [OF wrote_append [OF _ f1(2)] f2(2)] by (simp add: cri_inv_def)
  have "log_lines [] (stream_of (cs ''stdout'') R') = lines_of [] out" "log_lines [] (stream_of (cs ''stderr'') R') = lines_of [] err"
    using assms(2) log_lines_split [of "[]" "[]" out] log_lines_split [of "[]" "[]" err]
    by (simp_all add: R'_def cri_inv_def)
  moreover have "cy_buf s = take (n - 1) err" using assms(2) by (simp add: cri_inv_def)
  ultimately show ?thesis using w f1(1) f2(1)
    by (intro exI [of _ "s\<lparr>cy_file := f2, cy_stdout := ?o\<lparr>cl_pending := []\<rparr>, cy_stderr := ?e\<lparr>cl_pending := []\<rparr>\<rparr>"] exI [of _ R'])
      (simp add: cri_finish_def Let_def)
qed

definition quiet_round :: "exec_round \<Rightarrow> bool" where
  "quiet_round r \<longleftrightarrow> (xr_poll r = 0 \<or> xr_poll r = EINTR) \<and> calm (xr_stdout r) \<and> calm (xr_stderr r) \<and> (\<forall>e. xr_wait r \<noteq> WaitFails e)"

fun reaped :: "exec_round list \<Rightarrow> wait_status option" where
  "reaped [] = None"
| "reaped (r # rs) = (case xr_wait r of Reaped st \<Rightarrow> Some st | _ \<Rightarrow> reaped rs)"

lemma cri_step_works:
  assumes "log_works env" "quiet_round r" "xr_poll r = 0" "cri_inv env n f0 out err R s"
  shows "\<exists>s1 R1. cri_step env n r s = Some (CriAgain s1) \<and>
    cri_inv env n f0 (out @ read_now (cy_stdout_open s) (xr_stdout r)) (err @ read_now (cy_stderr_open s) (xr_stderr r)) R1 s1 \<and>
    cy_stdout_open s1 = (cy_stdout_open s \<and> \<not> snd (read_data (xr_stdout r))) \<and>
    cy_stderr_open s1 = (cy_stderr_open s \<and> \<not> snd (read_data (xr_stderr r))) \<and>
    cy_child s1 = (case cy_child s of Some st \<Rightarrow> Some st | None \<Rightarrow> reaped [r])"
proof -
  have q: "calm (xr_stdout r)" "calm (xr_stderr r)" using assms(2) by (simp_all add: quiet_round_def)
  obtain a R1 where a: "cri_stdout env r s = Some (0, a)" "cri_inv env n f0 (out @ read_now (cy_stdout_open s) (xr_stdout r)) err R1 a"
    "cy_stdout_open a = (cy_stdout_open s \<and> \<not> snd (read_data (xr_stdout r)))" "cy_stderr_open a = cy_stderr_open s" "cy_child a = cy_child s"
    using cri_stdout_works [OF assms(1) q(1) assms(4)] by blast
  obtain b R2 where b: "cri_stderr env n r a = Some (0, b)"
    "cri_inv env n f0 (out @ read_now (cy_stdout_open s) (xr_stdout r)) (err @ read_now (cy_stderr_open a) (xr_stderr r)) R2 b"
    "cy_stderr_open b = (cy_stderr_open a \<and> \<not> snd (read_data (xr_stderr r)))" "cy_stdout_open b = cy_stdout_open a" "cy_child b = cy_child a"
    using cri_stderr_works [OF assms(1) q(2) a(2)] by blast
  have step: "cri_step env n r s = Some (cri_wait r b)" using assms(3) a(1) b(1) by (simp add: cri_step_def)
  obtain c where c: "cri_wait r b = CriAgain c" "cy_stdout_open c = cy_stdout_open b" "cy_stderr_open c = cy_stderr_open b"
    "cy_child c = (case cy_child b of Some st \<Rightarrow> Some st | None \<Rightarrow> reaped [r])"
    using assms(2) by (cases "cy_child b"; cases "xr_wait r") (auto simp: cri_wait_def quiet_round_def)
  show ?thesis using step c cri_inv_wait [OF c(1) b(2)] a(3-5) b(3-5) by auto
qed

lemma cri_loop_works:
  assumes "log_works env" "\<forall>r\<in>set rs. quiet_round r" "cri_inv env n f0 out err R s"
    and "cy_stdout_open s \<longrightarrow> (\<exists>r\<in>set (polled rs). snd (read_data (xr_stdout r)))"
    and "cy_stderr_open s \<longrightarrow> (\<exists>r\<in>set (polled rs). snd (read_data (xr_stderr r)))"
    and "cy_child s = None \<longrightarrow> reaped (polled rs) \<noteq> None"
  shows "\<exists>s' R'. cri_loop env n 0 rs s = Some (exit_result (case cy_child s of Some st \<Rightarrow> st | None \<Rightarrow> the (reaped (polled rs))) s') \<and>
    wrote env f0 R' (cy_file s') \<and>
    log_lines [] (stream_of (cs ''stdout'') R') = lines_of [] (out @ pipe_rest (cy_stdout_open s) (map xr_stdout (polled rs))) \<and>
    log_lines [] (stream_of (cs ''stderr'') R') = lines_of [] (err @ pipe_rest (cy_stderr_open s) (map xr_stderr (polled rs))) \<and>
    cy_buf s' = take (n - 1) (err @ pipe_rest (cy_stderr_open s) (map xr_stderr (polled rs)))"
  using assms(2-)
proof (induction rs arbitrary: s out err R)
  case Nil
  then have "\<not> cy_stdout_open s" "\<not> cy_stderr_open s" "cy_child s \<noteq> None" by (auto simp: polled_def)
  then show ?case using cri_finish_works [OF assms(1) Nil(2)] by (auto simp: cri_loop.simps pipe_rest_def)
next
  case (Cons r rs)
  show ?case
  proof (cases "cy_stdout_open s \<or> cy_stderr_open s \<or> cy_child s = None")
    case False
    then show ?thesis using cri_finish_works [OF assms(1) Cons.prems(2)] by (auto simp: cri_loop.simps pipe_rest_def)
  next
    case True
    then have l: "cri_loop env n 0 (r # rs) s = (case cri_step env n r s of None \<Rightarrow> None | Some (CriReturn rc s') \<Rightarrow> Some (rc, 0, s')
        | Some (CriAgain s') \<Rightarrow> cri_loop env n 0 rs s')" by (subst cri_loop.simps) simp
    show ?thesis
    proof (cases "xr_poll r = EINTR")
      case True
      then have e: "cri_loop env n 0 (r # rs) s = cri_loop env n 0 rs s" "polled (r # rs) = polled rs"
        using l by (simp_all add: cri_step_def polled_def)
      show ?thesis unfolding e by (rule Cons.IH [OF _ Cons.prems(2)]) (use Cons.prems e(2) in simp_all)
    next
      case False
      then have p: "polled (r # rs) = r # polled rs" "xr_poll r = 0" using Cons.prems(1) by (simp_all add: polled_def quiet_round_def)
      obtain s1 R1 where s1: "cri_step env n r s = Some (CriAgain s1)"
        "cri_inv env n f0 (out @ read_now (cy_stdout_open s) (xr_stdout r)) (err @ read_now (cy_stderr_open s) (xr_stderr r)) R1 s1"
        "cy_stdout_open s1 = (cy_stdout_open s \<and> \<not> snd (read_data (xr_stdout r)))"
        "cy_stderr_open s1 = (cy_stderr_open s \<and> \<not> snd (read_data (xr_stderr r)))"
        "cy_child s1 = (case cy_child s of Some st \<Rightarrow> Some st | None \<Rightarrow> reaped [r])"
        using cri_step_works [OF assms(1) _ p(2) Cons.prems(2)] Cons.prems(1) by auto
      have e: "cri_loop env n 0 (r # rs) s = cri_loop env n 0 rs s1"
        "(case cy_child s of Some st \<Rightarrow> st | None \<Rightarrow> the (reaped (polled (r # rs)))) =
          (case cy_child s1 of Some st \<Rightarrow> st | None \<Rightarrow> the (reaped (polled rs)))"
        using l s1(1,5) p(1) by (auto split: option.splits wait_result.splits)
      have j: "a @ pipe_rest opn (map g (polled (r # rs))) = (a @ read_now opn (g r)) @ pipe_rest (opn \<and> \<not> snd (read_data (g r))) (map g (polled rs))"
        for a opn and g :: "exec_round \<Rightarrow> read_result list" by (simp add: p(1) read_now_def pipe_rest_def)
      have "cy_child s1 = None \<longrightarrow> reaped (polled rs) \<noteq> None"
        using s1(5) Cons.prems(5) p(1) by (auto split: option.splits wait_result.splits)
      then show ?thesis unfolding e j s1(3,4) [symmetric]
        by (intro Cons.IH [OF _ s1(2)]) (use Cons.prems(1,3,4) p(1) s1(3,4) in auto)
    qed
  qed
qed

lemma cri_log_lines:
  assumes "log_works env" "argv \<noteq> []" "run_stdout_pipe run = 0" "run_stderr_pipe run = 0" "run_fork run = 0" "run_nonblock run = 0"
    and "\<forall>r\<in>set (run_rounds run). quiet_round r"
    and "\<exists>r\<in>set (polled (run_rounds run)). snd (read_data (xr_stdout r))"
    and "\<exists>r\<in>set (polled (run_rounds run)). snd (read_data (xr_stderr r))"
    and "reaped (polled (run_rounds run)) = Some st"
  shows "\<exists>s R. mkga_ctr_exec_to_cri_log env True argv 0 0 f n run = Some (exit_result st s) \<and>
    lf_data (cy_file s) = lf_data f @ rendered env (lf_stamps f) R \<and>
    log_lines [] (stream_of (cs ''stdout'') R) = lines_of [] (pipe_data (map xr_stdout (polled (run_rounds run)))) \<and>
    log_lines [] (stream_of (cs ''stderr'') R) = lines_of [] (pipe_data (map xr_stderr (polled (run_rounds run)))) \<and>
    cy_buf s = take (n - 1) (pipe_data (map xr_stderr (polled (run_rounds run))))"
proof -
  have "cri_inv env n f [] [] [] (cri_start f)" by (simp add: cri_inv_def cri_start_def stream_of_def)
  from cri_loop_works [OF assms(1,7) this] assms(8-10) obtain s R where
    "cri_loop env n 0 (run_rounds run) (cri_start f) = Some (exit_result st s)" "wrote env f R (cy_file s)"
    "log_lines [] (stream_of (cs ''stdout'') R) = lines_of [] (pipe_data (map xr_stdout (polled (run_rounds run))))"
    "log_lines [] (stream_of (cs ''stderr'') R) = lines_of [] (pipe_data (map xr_stderr (polled (run_rounds run))))"
    "cy_buf s = take (n - 1) (pipe_data (map xr_stderr (polled (run_rounds run))))"
    by (auto simp: cri_start_def pipe_rest_def)
  then show ?thesis using assms(2-6) by (auto simp: mkga_ctr_exec_to_cri_log_def wrote_def)
qed

text \<open>
  C15. The log keeps the lines of the command. When the command runs to its end and the log can be
  written, the function returns the exit status of the command, and the log has grown by records
  from which joining the pieces gives back, for each of the two streams, the lines it printed in
  order and in full length, however the output was cut into pieces and mixed with the other stream.
  Empty lines are lost: they leave no record.
\<close>

theorem cri_log_keeps_lines:
  assumes "log_works env" "argv \<noteq> []" "run_stdout_pipe run = 0" "run_stderr_pipe run = 0" "run_fork run = 0" "run_nonblock run = 0"
    and "\<forall>r\<in>set (run_rounds run). quiet_round r"
    and "\<exists>r\<in>set (polled (run_rounds run)). snd (read_data (xr_stdout r))"
    and "\<exists>r\<in>set (polled (run_rounds run)). snd (read_data (xr_stderr r))"
    and "reaped (polled (run_rounds run)) = Some st"
  shows "\<exists>s R. mkga_ctr_exec_to_cri_log env True argv 0 0 f n run = Some (exit_result st s) \<and>
    lf_data (cy_file s) = lf_data f @ rendered env (lf_stamps f) R \<and>
    log_lines [] (stream_of (cs ''stdout'') R) = lines_of [] (pipe_data (map xr_stdout (polled (run_rounds run)))) \<and>
    log_lines [] (stream_of (cs ''stderr'') R) = lines_of [] (pipe_data (map xr_stderr (polled (run_rounds run)))) \<and>
    cy_buf s = take (n - 1) (pipe_data (map xr_stderr (polled (run_rounds run))))"
  using cri_log_lines [OF assms] .

definition noon :: log_env where
  "noon = \<lparr>le_write = \<lambda>_. Put 7, le_time = \<lambda>_. Inr \<lparr>ct_year = 125, ct_mon = 2, ct_mday = 1, ct_hour = 12, ct_min = 0, ct_sec = 0, ct_nsec = 5\<rparr>\<rparr>"

definition echo_run :: ctr_run where
  "echo_run = \<lparr>run_start_ms = 0, run_stdout_pipe = 0, run_stderr_pipe = 0, run_fork = 0, run_nonblock = 0,
    run_rounds =
      [\<lparr>xr_now = 0, xr_poll = 0, xr_stdout = [ReadBytes (cs ''he''), ReadFails EAGAIN], xr_stderr = [ReadBytes (cs ''w''), ReadEof], xr_wait = Reaped (WExited 3)\<rparr>,
       \<lparr>xr_now = 0, xr_poll = 0, xr_stdout = [ReadBytes (cs ''llo'' @ [newline, newline, 33]), ReadEof], xr_stderr = [ReadEof], xr_wait = NotYet\<rparr>]\<rparr>"

theorem cri_log_keeps_lines_witness:
  "\<exists>s R. mkga_ctr_exec_to_cri_log noon True [cs ''ctr''] 0 0 \<lparr>lf_data = [], lf_calls = 0, lf_stamps = 0\<rparr> 4096 echo_run = Some (- EIO, 3, s) \<and>
    lf_data (cy_file s) = rendered noon 0 R \<and> log_lines [] (stream_of (cs ''stdout'') R) = [cs ''hello'', cs ''!''] \<and>
    log_lines [] (stream_of (cs ''stderr'') R) = [cs ''w''] \<and> cy_buf s = cs ''w''"
proof -
  have "log_works noon" by (simp add: log_works_def noon_def usual_time_def)
  moreover have "polled (run_rounds echo_run) = run_rounds echo_run" by (simp add: polled_def echo_run_def)
  moreover have "\<forall>r\<in>set (run_rounds echo_run). quiet_round r" by (simp add: echo_run_def quiet_round_def)
  ultimately show ?thesis
    using cri_log_keeps_lines [of noon "[cs ''ctr'']" echo_run "WExited 3" "\<lparr>lf_data = [], lf_calls = 0, lf_stamps = 0\<rparr>" 4096]
    by (simp add: echo_run_def exit_result_def cs_def)
qed

end
