(* ===== verification/CtrFiles.thy ===== *)
theory CtrFiles
  imports CriLog
begin

text \<open>
  The state directory of the containerd runtime (\<^verbatim>\<open>mk-guest-agent/src/runtime_containerd_stub.c\<close>,
  \<^verbatim>\<open>mkga_containerd_ensure_state_root\<close> to \<^verbatim>\<open>mkga_containerd_delete_log\<close>): for every container a metadata
  file, a state file and a log. The file system is a map from paths to contents. System calls are
  numbered; for every number the operating system decides whether the call fails, and how many
  bytes it transfers at most. A pointer to the runtime is never NULL here.
\<close>

abbreviation (input) MKGA_CONTAINERD_OUTPUT_MAX :: nat where "MKGA_CONTAINERD_OUTPUT_MAX \<equiv> 4096"
abbreviation (input) MKGA_CONTAINERD_MAX_PENDING_ENV :: nat where "MKGA_CONTAINERD_MAX_PENDING_ENV \<equiv> 128"

section \<open>Data\<close>

text \<open>The array of pending variables with its count is a list.\<close>

record mkga_containerd_runtime =
  cd_socket_path :: bytes
  cd_ctr_path :: bytes
  cd_runc_binary :: bytes
  cd_state_root :: bytes
  cd_namespace_name :: bytes
  cd_default_timeout_ms :: int
  cd_no_pivot :: bool
  cd_start_via_run :: bool
  cd_null_io :: bool
  cd_pending_env :: "mkga_configure_env_req list"

record mkga_containerd_env =
  ke_key :: bytes
  ke_value :: bytes
  ke_entry :: bytes

text \<open>The arrays of arguments and variables with their counts are lists.\<close>

record mkga_containerd_metadata =
  km_image :: bytes
  km_argv :: "bytes list"
  km_env :: "mkga_containerd_env list"

record mkga_containerd_state =
  ks_state :: u32
  ks_exit_code :: i32
  ks_pid :: i32
  ks_started_at_unix_nano :: u64
  ks_finished_at_unix_nano :: u64
  ks_message :: bytes

section \<open>The operating system\<close>

text \<open>
  \<open>os_fault k\<close> is the error of the system call number \<open>k\<close>, 0 when it succeeds; \<open>os_ctr\<close> is what a command
  line started with a time limit does to the daemon and how its run looks to the agent.
\<close>

record 'd os =
  os_fault :: "nat \<Rightarrow> int"
  os_amount :: "nat \<Rightarrow> nat"
  os_millis :: "nat \<Rightarrow> int"
  os_nanos :: "nat \<Rightarrow> u64"
  os_getenv :: environment
  os_log :: log_env
  os_ctr :: "bytes list \<Rightarrow> int \<Rightarrow> 'd \<Rightarrow> ctr_run \<times> 'd"

text \<open>
  What the agent leaves to a process of its own: a command whose output goes to the log of its
  container (container, image, arguments, variables, path of the log), or the wait for the end of a
  container.
\<close>

datatype ctr_job =
    LogRunner bytes bytes "bytes list" "mkga_containerd_env list" bytes
  | ExitWatcher bytes

record 'd world =
  w_files :: "bytes \<Rightarrow> bytes option"
  w_dirs :: "bytes \<Rightarrow> bool"
  w_calls :: nat
  w_daemon :: 'd
  w_jobs :: "ctr_job list"

definition sys_call :: "'d os \<Rightarrow> 'd world \<Rightarrow> int \<times> 'd world" where
  "sys_call os w = (os_fault os (w_calls w), w\<lparr>w_calls := Suc (w_calls w)\<rparr>)"

definition set_file :: "bytes \<Rightarrow> bytes option \<Rightarrow> 'd world \<Rightarrow> 'd world" where
  "set_file path c w = w\<lparr>w_files := (w_files w)(path := c)\<rparr>"

section \<open>Paths\<close>

fun mkdir_all :: "'d os \<Rightarrow> bytes list \<Rightarrow> 'd world \<Rightarrow> int \<times> 'd world" where
  "mkdir_all os [] w = (0, w)"
| "mkdir_all os (p # ps) w =
    (case sys_call os w of
       (e, w1) \<Rightarrow>
         if e \<noteq> 0 \<and> e \<noteq> EEXIST then (- e, w1)
         else mkdir_all os ps (if e = 0 then w1\<lparr>w_dirs := (w_dirs w1)(p := True)\<rparr> else w1))"

abbreviation (input) slash :: u8 where "slash \<equiv> 47"

definition mkga_containerd_ensure_state_root :: "'d os \<Rightarrow> mkga_containerd_runtime \<Rightarrow> 'd world \<Rightarrow> int \<times> 'd world" where
  "mkga_containerd_ensure_state_root os impl w =
    (if cd_state_root impl = [] then (- EINVAL, w)
     else
       let path = copied MKGA_MAX_LOG_PATH_LEN (cd_state_root impl)
       in mkdir_all os (map (\<lambda>i. take i path) (filter (\<lambda>i. path ! i = slash) [1..<length path]) @ [path]) w)"

text \<open>A path, or the error that prevents it.\<close>

definition container_path :: "bytes \<Rightarrow> 'd os \<Rightarrow> mkga_containerd_runtime \<Rightarrow> bytes \<Rightarrow> 'd world \<Rightarrow> (int + bytes) \<times> 'd world" where
  "container_path suffix os impl container_id w =
    (case mkga_containerd_ensure_state_root os impl w of
       (rc, w1) \<Rightarrow>
         if rc \<noteq> 0 then (Inl rc, w1)
         else
           let path = cd_state_root impl @ [slash] @ container_id @ suffix
           in (if MKGA_MAX_LOG_PATH_LEN \<le> length path then Inl (- ENOSPC) else Inr path, w1))"

definition mkga_containerd_metadata_path :: "'d os \<Rightarrow> mkga_containerd_runtime \<Rightarrow> bytes \<Rightarrow> 'd world \<Rightarrow> (int + bytes) \<times> 'd world" where
  "mkga_containerd_metadata_path = container_path (cs ''.meta'')"

definition mkga_containerd_state_path :: "'d os \<Rightarrow> mkga_containerd_runtime \<Rightarrow> bytes \<Rightarrow> 'd world \<Rightarrow> (int + bytes) \<times> 'd world" where
  "mkga_containerd_state_path = container_path (cs ''.state'')"

definition mkga_containerd_log_path :: "'d os \<Rightarrow> mkga_containerd_runtime \<Rightarrow> bytes \<Rightarrow> 'd world \<Rightarrow> (int + bytes) \<times> 'd world" where
  "mkga_containerd_log_path = container_path (cs ''.cri.log'')"

section \<open>Environment entries\<close>

definition mkga_containerd_set_env_entry :: "bytes \<Rightarrow> bytes \<Rightarrow> int + mkga_containerd_env" where
  "mkga_containerd_set_env_entry key value =
    (if key = [] then Inl (- EINVAL)
     else
       let entry = key @ cs ''='' @ value in
       if MKGA_MAX_ENV_KEY_LEN + MKGA_MAX_ENV_VALUE_LEN + 2 \<le> length entry then Inl (- ENOSPC)
       else Inr \<lparr>ke_key = copied MKGA_MAX_ENV_KEY_LEN key, ke_value = copied MKGA_MAX_ENV_VALUE_LEN value, ke_entry = entry\<rparr>)"

section \<open>Metadata\<close>

text \<open>
  The texts of the calls of \<^verbatim>\<open>fprintf\<close>, in order. When one of them fails, the file keeps a part of what
  was printed until then.
\<close>

definition metadata_texts :: "mkga_containerd_metadata \<Rightarrow> bytes list" where
  "metadata_texts meta =
    [km_image meta @ [newline] @ fmt_u (length (km_argv meta)) @ [newline]] @
    map (\<lambda>a. a @ [newline]) (km_argv meta) @
    [fmt_u (length (km_env meta)) @ [newline]] @
    map (\<lambda>v. ke_key v @ [newline] @ ke_value v @ [newline]) (km_env meta)"

fun fprintf_all :: "'d os \<Rightarrow> bytes \<Rightarrow> bytes \<Rightarrow> bytes list \<Rightarrow> 'd world \<Rightarrow> int \<times> 'd world" where
  "fprintf_all os path done [] w = (0, set_file path (Some done) w)"
| "fprintf_all os path done (t # ts) w =
    (case sys_call os w of
       (e, w1) \<Rightarrow>
         if e \<noteq> 0 then (- EIO, set_file path (Some (take (os_amount os (w_calls w)) (done @ t))) w1)
         else fprintf_all os path (done @ t) ts w1)"

definition mkga_containerd_write_metadata ::
    "'d os \<Rightarrow> mkga_containerd_runtime \<Rightarrow> bytes \<Rightarrow> mkga_containerd_metadata \<Rightarrow> 'd world \<Rightarrow> int \<times> 'd world" where
  "mkga_containerd_write_metadata os impl container_id meta w =
    (case mkga_containerd_metadata_path os impl container_id w of
       (Inl rc, w1) \<Rightarrow> (rc, w1)
     | (Inr path, w1) \<Rightarrow>
         (case sys_call os w1 of
            (e, w2) \<Rightarrow>
              if e \<noteq> 0 then (- e, w2)
              else case fprintf_all os path [] (metadata_texts meta) w2 of
                (rc, w3) \<Rightarrow>
                  if rc \<noteq> 0 then (rc, w3)
                  else case sys_call os w3 of
                    (e, w4) \<Rightarrow>
                      if e \<noteq> 0
                      then (- e, set_file path (Some (take (os_amount os (w_calls w3)) (concat (metadata_texts meta)))) w4)
                      else (0, w4)))"

text \<open>
  \<^verbatim>\<open>fgets\<close> with a buffer of \<open>n\<close> bytes on the rest of a file: the line, at most \<open>n - 1\<close> bytes of it, and what
  follows; the error is what the callers make of a failed read and of the end of the file.
\<close>

definition fgets :: "'d os \<Rightarrow> nat \<Rightarrow> bytes \<Rightarrow> 'd world \<Rightarrow> (int + bytes \<times> bytes) \<times> 'd world" where
  "fgets os n s w =
    (case sys_call os w of
       (e, w1) \<Rightarrow>
         (if e \<noteq> 0 then Inl (- EIO)
          else if s = [] then Inl (- ENOENT)
          else let k = min (n - 1) (Suc (length (takeWhile (\<lambda>c. c \<noteq> newline) s))) in Inr (take k s, drop k s), w1))"

text \<open>The line in the buffer up to its newline.\<close>

definition chomp :: "bytes \<Rightarrow> bytes" where
  "chomp line = takeWhile (\<lambda>c. c \<noteq> newline) (cstr line)"

definition count_of :: "bytes \<Rightarrow> u32" where
  "count_of line = of_int (fst (strtoul (cstr line)))"

fun read_args :: "'d os \<Rightarrow> nat \<Rightarrow> bytes \<Rightarrow> 'd world \<Rightarrow> (int + bytes list \<times> bytes) \<times> 'd world" where
  "read_args os 0 s w = (Inr ([], s), w)"
| "read_args os (Suc i) s w =
    (case fgets os MKGA_MAX_ARG_LEN s w of
       (Inl rc, w1) \<Rightarrow> (Inl rc, w1)
     | (Inr (line, s1), w1) \<Rightarrow>
         (case read_args os i s1 w1 of
            (Inl rc, w2) \<Rightarrow> (Inl rc, w2)
          | (Inr (args, s2), w2) \<Rightarrow> (Inr (copied MKGA_MAX_ARG_LEN (chomp line) # args, s2), w2)))"

fun read_envs :: "'d os \<Rightarrow> nat \<Rightarrow> bytes \<Rightarrow> 'd world \<Rightarrow> (int + mkga_containerd_env list) \<times> 'd world" where
  "read_envs os 0 s w = (Inr [], w)"
| "read_envs os (Suc i) s w =
    (case fgets os MKGA_MAX_ENV_KEY_LEN s w of
       (Inl rc, w1) \<Rightarrow> (Inl rc, w1)
     | (Inr (key_line, s1), w1) \<Rightarrow>
         (case fgets os MKGA_MAX_ENV_VALUE_LEN s1 w1 of
            (Inl rc, w2) \<Rightarrow> (Inl rc, w2)
          | (Inr (value_line, s2), w2) \<Rightarrow>
              (case mkga_containerd_set_env_entry (chomp key_line) (chomp value_line) of
                 Inl rc \<Rightarrow> (Inl rc, w2)
               | Inr env \<Rightarrow>
                   (case read_envs os i s2 w2 of
                      (Inl rc, w3) \<Rightarrow> (Inl rc, w3)
                    | (Inr envs, w3) \<Rightarrow> (Inr (env # envs), w3)))))"

text \<open>A file without the count of variables is accepted: it is one of an earlier version.\<close>

definition parse_metadata :: "'d os \<Rightarrow> bytes \<Rightarrow> 'd world \<Rightarrow> (int + mkga_containerd_metadata) \<times> 'd world" where
  "parse_metadata os s0 w0 =
    (case fgets os MKGA_MAX_IMAGE_LEN s0 w0 of
       (Inl rc, w1) \<Rightarrow> (Inl rc, w1)
     | (Inr (line, s1), w1) \<Rightarrow>
         (case fgets os 32 s1 w1 of
            (Inl rc, w2) \<Rightarrow> (Inl rc, w2)
          | (Inr (count_line, s2), w2) \<Rightarrow>
              if of_nat MKGA_MAX_ARGV < count_of count_line then (Inl (- EINVAL), w2)
              else (case read_args os (unat (count_of count_line)) s2 w2 of
                 (Inl rc, w3) \<Rightarrow> (Inl rc, w3)
               | (Inr (args, s3), w3) \<Rightarrow>
                   let meta = \<lparr>km_image = copied MKGA_MAX_IMAGE_LEN (chomp line), km_argv = args, km_env = []\<rparr> in
                   (case fgets os 32 s3 w3 of
                      (Inl rc, w4) \<Rightarrow> (if rc = - EIO then Inl (- EIO) else Inr meta, w4)
                    | (Inr (count_line, s4), w4) \<Rightarrow>
                        if of_nat MKGA_CONTAINERD_MAX_PENDING_ENV < count_of count_line then (Inl (- EINVAL), w4)
                        else (case read_envs os (unat (count_of count_line)) s4 w4 of
                           (Inl rc, w5) \<Rightarrow> (Inl rc, w5)
                         | (Inr envs, w5) \<Rightarrow> (Inr (meta\<lparr>km_env := envs\<rparr>), w5))))))"

text \<open>\<^verbatim>\<open>open\<close> for reading: the contents, or the error number.\<close>

definition open_read :: "'d os \<Rightarrow> bytes \<Rightarrow> 'd world \<Rightarrow> (int + bytes) \<times> 'd world" where
  "open_read os path w =
    (case sys_call os w of
       (e, w1) \<Rightarrow> (if e \<noteq> 0 then Inl e else case w_files w1 path of None \<Rightarrow> Inl ENOENT | Some s \<Rightarrow> Inr s, w1))"

definition mkga_containerd_read_metadata ::
    "'d os \<Rightarrow> mkga_containerd_runtime \<Rightarrow> bytes \<Rightarrow> 'd world \<Rightarrow> (int + mkga_containerd_metadata) \<times> 'd world" where
  "mkga_containerd_read_metadata os impl container_id w =
    (case mkga_containerd_metadata_path os impl container_id w of
       (Inl rc, w1) \<Rightarrow> (Inl rc, w1)
     | (Inr path, w1) \<Rightarrow>
         (case open_read os path w1 of
            (Inl e, w2) \<Rightarrow> (Inl (- e), w2)
          | (Inr s, w2) \<Rightarrow>
              (case parse_metadata os s w2 of
                 (Inl rc, w3) \<Rightarrow> (Inl rc, w3)
               | (Inr meta, w3) \<Rightarrow> (case sys_call os w3 of (e, w4) \<Rightarrow> (if e \<noteq> 0 then Inl (- e) else Inr meta, w4)))))"

definition unlink :: "'d os \<Rightarrow> bytes \<Rightarrow> 'd world \<Rightarrow> 'd world" where
  "unlink os path w = (case sys_call os w of (e, w1) \<Rightarrow> if e \<noteq> 0 then w1 else set_file path None w1)"

definition delete_file :: "(int + bytes) \<times> 'd world \<Rightarrow> 'd os \<Rightarrow> 'd world" where
  "delete_file p os = (case p of (Inl rc, w) \<Rightarrow> w | (Inr path, w) \<Rightarrow> unlink os path w)"

definition mkga_containerd_delete_metadata :: "'d os \<Rightarrow> mkga_containerd_runtime \<Rightarrow> bytes \<Rightarrow> 'd world \<Rightarrow> 'd world" where
  "mkga_containerd_delete_metadata os impl container_id w = delete_file (mkga_containerd_metadata_path os impl container_id w) os"

section \<open>State\<close>

text \<open>The structure in memory: four bytes of padding before the 64-bit members.\<close>

definition enc_state :: "mkga_containerd_state \<Rightarrow> bytes" where
  "enc_state st =
    enc_le 4 (ks_state st) @ enc_le 4 (ks_exit_code st) @ enc_le 4 (ks_pid st) @ replicate 4 0 @
    enc_le 8 (ks_started_at_unix_nano st) @ enc_le 8 (ks_finished_at_unix_nano st) @ strz MKGA_MAX_MESSAGE_LEN (ks_message st)"

definition dec_state :: "bytes \<Rightarrow> mkga_containerd_state" where
  "dec_state bs =
    \<lparr>ks_state = dec_le (field 0 4 bs), ks_exit_code = dec_le (field 4 4 bs), ks_pid = dec_le (field 8 4 bs),
     ks_started_at_unix_nano = dec_le (field 16 8 bs), ks_finished_at_unix_nano = dec_le (field 24 8 bs),
     ks_message = cstr (field 32 MKGA_MAX_MESSAGE_LEN bs)\<rparr>"

abbreviation (input) sizeof_state :: nat where "sizeof_state \<equiv> 288"

definition mkga_containerd_write_state ::
    "'d os \<Rightarrow> mkga_containerd_runtime \<Rightarrow> bytes \<Rightarrow> mkga_containerd_state \<Rightarrow> 'd world \<Rightarrow> int \<times> 'd world" where
  "mkga_containerd_write_state os impl container_id state w =
    (case mkga_containerd_state_path os impl container_id w of
       (Inl rc, w1) \<Rightarrow> (rc, w1)
     | (Inr path, w1) \<Rightarrow>
         (case sys_call os w1 of
            (e, w2) \<Rightarrow>
              if e \<noteq> 0 then (- e, w2)
              else
                let w2' = set_file path (Some []) w2; n = min (os_amount os (w_calls w2')) sizeof_state in
                case sys_call os w2' of
                  (e, w3) \<Rightarrow>
                    if e \<noteq> 0 then (- e, snd (sys_call os w3))
                    else
                      let w3' = set_file path (Some (take n (enc_state state))) w3 in
                      if n \<noteq> sizeof_state then (- EIO, snd (sys_call os w3'))
                      else case sys_call os w3' of (e, w4) \<Rightarrow> (if e \<noteq> 0 then - e else 0, w4)))"

definition mkga_containerd_read_state ::
    "'d os \<Rightarrow> mkga_containerd_runtime \<Rightarrow> bytes \<Rightarrow> 'd world \<Rightarrow> (int + mkga_containerd_state) \<times> 'd world" where
  "mkga_containerd_read_state os impl container_id w =
    (case mkga_containerd_state_path os impl container_id w of
       (Inl rc, w1) \<Rightarrow> (Inl rc, w1)
     | (Inr path, w1) \<Rightarrow>
         (case open_read os path w1 of
            (Inl e, w2) \<Rightarrow> (Inl (- e), w2)
          | (Inr s, w2) \<Rightarrow>
              let n = min (os_amount os (w_calls w2)) (min sizeof_state (length s)) in
              (case sys_call os w2 of
                 (e, w3) \<Rightarrow>
                   if e \<noteq> 0 then (Inl (- e), snd (sys_call os w3))
                   else if n \<noteq> sizeof_state then (Inl (- EIO), snd (sys_call os w3))
                   else case sys_call os w3 of (e, w4) \<Rightarrow> (if e \<noteq> 0 then Inl (- e) else Inr (dec_state s), w4))))"

definition mkga_containerd_delete_state :: "'d os \<Rightarrow> mkga_containerd_runtime \<Rightarrow> bytes \<Rightarrow> 'd world \<Rightarrow> 'd world" where
  "mkga_containerd_delete_state os impl container_id w = delete_file (mkga_containerd_state_path os impl container_id w) os"

definition mkga_containerd_delete_log :: "'d os \<Rightarrow> mkga_containerd_runtime \<Rightarrow> bytes \<Rightarrow> 'd world \<Rightarrow> 'd world" where
  "mkga_containerd_delete_log os impl container_id w = delete_file (mkga_containerd_log_path os impl container_id w) os"

section \<open>When the system calls succeed\<close>

definition os_works :: "'d os \<Rightarrow> bool" where
  "os_works os \<longleftrightarrow> (\<forall>k. os_fault os k = 0 \<and> 512 \<le> os_amount os k)"

text \<open>Same files, daemon and jobs; the calls made and the directories do not matter.\<close>

definition same :: "'d world \<Rightarrow> 'd world \<Rightarrow> bool" where
  "same w w' \<longleftrightarrow> w_files w' = w_files w \<and> w_daemon w' = w_daemon w \<and> w_jobs w' = w_jobs w"

lemma same_refl [simp]: "same w w"
  by (simp add: same_def)

lemma same_trans: "same w w' \<Longrightarrow> same w' w'' \<Longrightarrow> same w w''"
  by (simp add: same_def)

definition tick :: "'d world \<Rightarrow> 'd world" where
  "tick w = w\<lparr>w_calls := Suc (w_calls w)\<rparr>"

lemma tick_fields [simp]: "w_files (tick w) = w_files w" "w_daemon (tick w) = w_daemon w" "w_jobs (tick w) = w_jobs w" "same w (tick w)"
  by (simp_all add: tick_def same_def)

lemma set_file_fields [simp]:
  "w_files (set_file p c w) = (w_files w)(p := c)" "w_daemon (set_file p c w) = w_daemon w" "w_calls (set_file p c w) = w_calls w" "w_jobs (set_file p c w) = w_jobs w"
  by (simp_all add: set_file_def)

lemma sys_call_works [simp]: "os_works os \<Longrightarrow> sys_call os w = (0, tick w)"
  by (simp add: sys_call_def os_works_def tick_def)

lemma os_amount_works: "os_works os \<Longrightarrow> n \<le> 512 \<Longrightarrow> min (os_amount os k) n = n"
  unfolding os_works_def by (meson le_trans min.absorb2)

lemma mkdir_all_works: "os_works os \<Longrightarrow> \<exists>w'. mkdir_all os ps w = (0, w') \<and> same w w'"
proof (induction ps arbitrary: w)
  case (Cons p ps)
  have "same w ((tick w)\<lparr>w_dirs := (w_dirs (tick w))(p := True)\<rparr>)" by (simp add: same_def)
  then show ?case using Cons.IH [of "(tick w)\<lparr>w_dirs := (w_dirs (tick w))(p := True)\<rparr>"] Cons.prems same_trans by fastforce
qed simp

text \<open>A container whose three paths fit their buffers, under a state root that is not empty.\<close>

definition path_of :: "bytes \<Rightarrow> mkga_containerd_runtime \<Rightarrow> bytes \<Rightarrow> bytes" where
  "path_of suffix impl container_id = cd_state_root impl @ [slash] @ container_id @ suffix"

abbreviation (input) meta_of :: "mkga_containerd_runtime \<Rightarrow> bytes \<Rightarrow> bytes" where "meta_of \<equiv> path_of (cs ''.meta'')"
abbreviation (input) state_of :: "mkga_containerd_runtime \<Rightarrow> bytes \<Rightarrow> bytes" where "state_of \<equiv> path_of (cs ''.state'')"
abbreviation (input) log_of :: "mkga_containerd_runtime \<Rightarrow> bytes \<Rightarrow> bytes" where "log_of \<equiv> path_of (cs ''.cri.log'')"

definition has_paths :: "mkga_containerd_runtime \<Rightarrow> bytes \<Rightarrow> bool" where
  "has_paths impl container_id \<longleftrightarrow> cd_state_root impl \<noteq> [] \<and> length (cd_state_root impl) + length container_id + 9 < MKGA_MAX_LOG_PATH_LEN"

lemma paths_distinct [simp]:
  "path_of s impl a = path_of s impl b \<longleftrightarrow> a = b"
  "meta_of impl a \<noteq> state_of impl b" "state_of impl b \<noteq> meta_of impl a"
  "meta_of impl a \<noteq> log_of impl b" "log_of impl b \<noteq> meta_of impl a"
  "state_of impl a \<noteq> log_of impl b" "log_of impl b \<noteq> state_of impl a"
proof -
  show "path_of s impl a = path_of s impl b \<longleftrightarrow> a = b" by (simp add: path_of_def)
  have l: "last (meta_of impl c) = 97" "last (state_of impl c) = 101" "last (log_of impl c) = 103" for c
    by (simp_all add: path_of_def cs_def)
  show "meta_of impl a \<noteq> state_of impl b" "state_of impl b \<noteq> meta_of impl a" using l(1) [of a] l(2) [of b] by auto
  show "meta_of impl a \<noteq> log_of impl b" "log_of impl b \<noteq> meta_of impl a" using l(1) [of a] l(3) [of b] by auto
  show "state_of impl a \<noteq> log_of impl b" "log_of impl b \<noteq> state_of impl a" using l(2) [of a] l(3) [of b] by auto
qed

lemma container_path_works:
  assumes "os_works os" "has_paths impl cid" "length suffix \<le> 8"
  shows "\<exists>w'. container_path suffix os impl cid w = (Inr (path_of suffix impl cid), w') \<and> same w w'"
proof -
  obtain w' where "mkga_containerd_ensure_state_root os impl w = (0, w')" "same w w'"
    using mkdir_all_works [OF assms(1)] assms(2) by (auto simp: mkga_containerd_ensure_state_root_def has_paths_def Let_def)
  then show ?thesis using assms(2,3) by (auto simp: container_path_def has_paths_def path_of_def)
qed

lemma path_works:
  assumes "os_works os" "has_paths impl cid"
  shows "\<exists>w'. mkga_containerd_metadata_path os impl cid w = (Inr (meta_of impl cid), w') \<and> same w w'"
    "\<exists>w'. mkga_containerd_state_path os impl cid w = (Inr (state_of impl cid), w') \<and> same w w'"
    "\<exists>w'. mkga_containerd_log_path os impl cid w = (Inr (log_of impl cid), w') \<and> same w w'"
  unfolding mkga_containerd_metadata_path_def mkga_containerd_state_path_def mkga_containerd_log_path_def
  using container_path_works [OF assms] by (simp_all add: cs_def)

text \<open>The file at a path holds \<open>c\<close> now, everything else is as before.\<close>

definition stored :: "bytes \<Rightarrow> bytes option \<Rightarrow> 'd world \<Rightarrow> 'd world \<Rightarrow> bool" where
  "stored p c w w' \<longleftrightarrow> w_files w' = (w_files w)(p := c) \<and> w_daemon w' = w_daemon w \<and> w_jobs w' = w_jobs w"

lemma delete_file_works:
  assumes "os_works os" "same w w1"
  shows "stored p None w (delete_file (Inr p, w1) os)"
  using assms by (simp add: delete_file_def unlink_def stored_def same_def)

lemma delete_works:
  assumes "os_works os" "has_paths impl cid"
  shows "stored (meta_of impl cid) None w (mkga_containerd_delete_metadata os impl cid w)"
    "stored (state_of impl cid) None w (mkga_containerd_delete_state os impl cid w)"
    "stored (log_of impl cid) None w (mkga_containerd_delete_log os impl cid w)"
  unfolding mkga_containerd_delete_metadata_def mkga_containerd_delete_state_def mkga_containerd_delete_log_def
  using path_works [OF assms, of w] delete_file_works [OF assms(1)] by fastforce+

section \<open>State files\<close>

lemma length_enc_state: "length (ks_message st) \<le> 256 \<Longrightarrow> length (enc_state st) = 288"
  by (simp add: enc_state_def strz_def)

lemma dec_enc_state: "is_cstr (ks_message st) \<Longrightarrow> length (ks_message st) < 256 \<Longrightarrow> dec_state (enc_state st) = st"
  by (simp add: dec_state_def enc_state_def field_append cstr_strz)

lemma write_state_works:
  assumes "os_works os" "has_paths impl cid" "length (ks_message st) \<le> 256"
  shows "\<exists>w'. mkga_containerd_write_state os impl cid st w = (0, w') \<and> stored (state_of impl cid) (Some (enc_state st)) w w'"
proof -
  obtain w1 where w1: "mkga_containerd_state_path os impl cid w = (Inr (state_of impl cid), w1)" "same w w1"
    using path_works(2) [OF assms(1,2)] by blast
  have n: "min (os_amount os k) sizeof_state = sizeof_state" for k using os_amount_works [OF assms(1)] by simp
  show ?thesis using w1 assms(1) length_enc_state [OF assms(3)]
    by (simp add: mkga_containerd_write_state_def n Let_def stored_def same_def)
qed

lemma read_state_works:
  assumes "os_works os" "has_paths impl cid"
  shows "\<exists>w'. same w w' \<and> mkga_containerd_read_state os impl cid w =
    ((case w_files w (state_of impl cid) of None \<Rightarrow> Inl (- ENOENT) | Some s \<Rightarrow> if length s < 288 then Inl (- EIO) else Inr (dec_state s)), w')"
proof -
  obtain w1 where w1: "mkga_containerd_state_path os impl cid w = (Inr (state_of impl cid), w1)" "same w w1"
    using path_works(2) [OF assms] by blast
  have n: "min (os_amount os k) (min sizeof_state l) = min sizeof_state l" for k l using os_amount_works [OF assms(1)] by simp
  show ?thesis using w1 assms(1)
    by (auto simp: mkga_containerd_read_state_def open_read_def n Let_def same_def split: option.splits)
qed

section \<open>Metadata files\<close>

text \<open>A value that comes back from its line: no newline in it and room for one in the buffer of \<open>n\<close> bytes.\<close>

definition line_ok :: "nat \<Rightarrow> bytes \<Rightarrow> bool" where
  "line_ok n s \<longleftrightarrow> is_cstr s \<and> newline \<notin> set s \<and> length s + 1 < n"

lemma takeWhile_line: "newline \<notin> set s \<Longrightarrow> takeWhile (\<lambda>c. c \<noteq> newline) (s @ newline # r) = s"
  by (subst takeWhile_append2) auto

lemma fgets_line:
  assumes "os_works os" "line_ok n s"
  shows "fgets os n (s @ newline # r) w = (Inr (s @ [newline], r), tick w)"
proof -
  have "min (n - 1) (Suc (length s)) = Suc (length s)" using assms(2) by (auto simp: line_ok_def min_def)
  then show ?thesis using assms takeWhile_line [of s r] by (simp add: fgets_def line_ok_def Let_def del: One_nat_def)
qed

lemma chomp_line: "line_ok n s \<Longrightarrow> chomp (s @ [newline]) = s"
proof -
  assume a: "line_ok n s"
  then have "cstr (s @ [newline]) = s @ [newline]" by (auto simp: line_ok_def is_cstr_def cstr_def takeWhile_eq_all_conv)
  then show ?thesis using a takeWhile_line [of s "[]"] by (simp add: chomp_def line_ok_def)
qed

lemma copied_line: "line_ok n s \<Longrightarrow> copied n s = s"
  by (simp add: line_ok_def)

lemma fmt_u_line: "k < 10 ^ 9 \<Longrightarrow> line_ok 32 (fmt_u k)"
  using fmt_u_digits [of k] length_fmt_u [of k 9] by (auto simp: line_ok_def is_digit_def)

lemma count_line: "k < 10 ^ 9 \<Longrightarrow> count_of (fmt_u k @ [newline]) = of_nat k"
proof -
  assume k: "k < 10 ^ 9"
  have "cstr (fmt_u k @ [newline]) = fmt_u k @ [newline]"
    using is_cstr_fmt_u [of k] by (auto simp: is_cstr_def cstr_def takeWhile_eq_all_conv)
  moreover have "scan_int (fmt_u k @ [newline]) = Some (int k, [newline])"
    using scan_fmt_d [of "[newline]" "int k"] by (simp add: fmt_d_def is_digit_def word_le_nat_alt)
  ultimately show ?thesis using k by (simp add: count_of_def strtoul_def)
qed

lemma read_args_lines:
  assumes "os_works os" "\<forall>a\<in>set as. line_ok 64 a"
  shows "\<exists>w'. read_args os (length as) (concat (map (\<lambda>a. a @ [newline]) as) @ r) w = (Inr (as, r), w') \<and> same w w'"
  using assms(2)
proof (induction as arbitrary: w)
  case (Cons a as)
  then obtain w' where "read_args os (length as) (concat (map (\<lambda>a. a @ [newline]) as) @ r) (tick w) = (Inr (as, r), w')" "same (tick w) w'"
    using Cons.IH [of "tick w"] by auto
  then show ?case using fgets_line [OF assms(1), of 64 a] Cons.prems chomp_line [of 64 a] copied_line [of 64 a] by (simp add: same_def)
qed simp

definition env_ok :: "mkga_containerd_env \<Rightarrow> bool" where
  "env_ok v \<longleftrightarrow> ke_key v \<noteq> [] \<and> line_ok 64 (ke_key v) \<and> line_ok 256 (ke_value v) \<and> ke_entry v = ke_key v @ cs ''='' @ ke_value v"

lemma set_env_entry_ok: "env_ok v \<Longrightarrow> mkga_containerd_set_env_entry (ke_key v) (ke_value v) = Inr v"
  by (cases v) (auto simp: env_ok_def mkga_containerd_set_env_entry_def line_ok_def cs_def)

lemma read_envs_lines:
  assumes "os_works os" "\<forall>v\<in>set vs. env_ok v"
  shows "\<exists>w'. read_envs os (length vs) (concat (map (\<lambda>v. ke_key v @ [newline] @ ke_value v @ [newline]) vs)) w = (Inr vs, w') \<and> same w w'"
  using assms(2)
proof (induction vs arbitrary: w)
  case (Cons v vs)
  then obtain w' where "read_envs os (length vs) (concat (map (\<lambda>v. ke_key v @ [newline] @ ke_value v @ [newline]) vs)) (tick (tick w)) = (Inr vs, w')"
    "same (tick (tick w)) w'" using Cons.IH [of "tick (tick w)"] by auto
  moreover have v: "env_ok v" "line_ok 64 (ke_key v)" "line_ok 256 (ke_value v)" using Cons.prems by (simp_all add: env_ok_def)
  ultimately show ?case
    using fgets_line [OF assms(1) v(2)] fgets_line [OF assms(1) v(3)] chomp_line [OF v(2)] chomp_line [OF v(3)] set_env_entry_ok [OF v(1)]
    by (simp add: same_def)
qed simp

definition meta_ok :: "mkga_containerd_metadata \<Rightarrow> bool" where
  "meta_ok m \<longleftrightarrow> line_ok 256 (km_image m) \<and> length (km_argv m) \<le> 4 \<and> (\<forall>a\<in>set (km_argv m). line_ok 64 a) \<and>
    length (km_env m) \<le> 128 \<and> (\<forall>v\<in>set (km_env m). env_ok v)"

lemma parse_metadata_texts:
  assumes "os_works os" "meta_ok m"
  shows "\<exists>w'. parse_metadata os (concat (metadata_texts m)) w = (Inr m, w') \<and> same w w'"
proof -
  let ?e = "concat (map (\<lambda>v. ke_key v @ [newline] @ ke_value v @ [newline]) (km_env m))"
  have i: "line_ok 256 (km_image m)" and l: "length (km_argv m) \<le> 4" "length (km_env m) \<le> 128" using assms(2) by (simp_all add: meta_ok_def)
  have c: "line_ok 32 (fmt_u (length (km_argv m)))" "line_ok 32 (fmt_u (length (km_env m)))"
    "count_of (fmt_u (length (km_argv m)) @ [newline]) = of_nat (length (km_argv m))"
    "count_of (fmt_u (length (km_env m)) @ [newline]) = of_nat (length (km_env m))"
    using l by (simp_all add: fmt_u_line count_line)
  have n: "unat (of_nat (length (km_argv m)) :: u32) = length (km_argv m)" "unat (of_nat (length (km_env m)) :: u32) = length (km_env m)"
    using l by (simp_all add: unat_of_nat)
  obtain w1 where a: "read_args os (length (km_argv m)) (concat (map (\<lambda>a. a @ [newline]) (km_argv m)) @ fmt_u (length (km_env m)) @ newline # ?e) (tick (tick w)) =
      (Inr (km_argv m, fmt_u (length (km_env m)) @ newline # ?e), w1)" "same (tick (tick w)) w1"
    using read_args_lines [OF assms(1)] assms(2) unfolding meta_ok_def by blast
  obtain w2 where e: "read_envs os (length (km_env m)) ?e (tick w1) = (Inr (km_env m), w2)" "same (tick w1) w2"
    using read_envs_lines [OF assms(1)] assms(2) unfolding meta_ok_def by blast
  have t: "concat (metadata_texts m) = km_image m @ newline # fmt_u (length (km_argv m)) @ newline #
      concat (map (\<lambda>a. a @ [newline]) (km_argv m)) @ fmt_u (length (km_env m)) @ newline # ?e"
    by (simp add: metadata_texts_def)
  have le: "\<not> of_nat MKGA_MAX_ARGV < (of_nat (length (km_argv m)) :: u32)" "\<not> of_nat MKGA_CONTAINERD_MAX_PENDING_ENV < (of_nat (length (km_env m)) :: u32)"
    using l n by (simp_all add: word_less_nat_alt)
  show ?thesis unfolding parse_metadata_def t fgets_line [OF assms(1) i] prod.case sum.case fgets_line [OF assms(1) c(1)] c(3) n a(1)
      fgets_line [OF assms(1) c(2)] c(4) e(1) Let_def
    using le a(2) e(2) chomp_line [OF i] copied_line [OF i] by (simp add: same_def)
qed

lemma fprintf_all_works:
  "os_works os \<Longrightarrow> \<exists>w'. fprintf_all os path acc ts w = (0, w') \<and> stored path (Some (acc @ concat ts)) w w'"
proof (induction ts arbitrary: acc w)
  case (Cons t ts)
  then show ?case using Cons.IH [of "acc @ t" "tick w"] by (simp add: stored_def)
qed (simp add: stored_def)

lemma write_metadata_works:
  assumes "os_works os" "has_paths impl cid"
  shows "\<exists>w'. mkga_containerd_write_metadata os impl cid m w = (0, w') \<and> stored (meta_of impl cid) (Some (concat (metadata_texts m))) w w'"
proof -
  obtain w1 where w1: "mkga_containerd_metadata_path os impl cid w = (Inr (meta_of impl cid), w1)" "same w w1"
    using path_works(1) [OF assms] by blast
  obtain w2 where "fprintf_all os (meta_of impl cid) [] (metadata_texts m) (tick w1) = (0, w2)"
    "stored (meta_of impl cid) (Some (concat (metadata_texts m))) (tick w1) w2"
    using fprintf_all_works [OF assms(1), of "meta_of impl cid" "[]"] by auto
  then show ?thesis using w1 assms(1) by (auto simp: mkga_containerd_write_metadata_def stored_def same_def)
qed

lemma read_metadata_works:
  assumes "os_works os" "has_paths impl cid" "w_files w (meta_of impl cid) = Some (concat (metadata_texts m))" "meta_ok m"
  shows "\<exists>w'. mkga_containerd_read_metadata os impl cid w = (Inr m, w') \<and> same w w'"
proof -
  obtain w1 where w1: "mkga_containerd_metadata_path os impl cid w = (Inr (meta_of impl cid), w1)" "same w w1"
    using path_works(1) [OF assms(1,2)] by blast
  obtain w2 where "parse_metadata os (concat (metadata_texts m)) (tick w1) = (Inr m, w2)" "same (tick w1) w2"
    using parse_metadata_texts [OF assms(1,4)] by blast
  then show ?thesis using w1 assms(1,3) by (auto simp: mkga_containerd_read_metadata_def open_read_def same_def)
qed

text \<open>
  C20. What a container was created with survives in its metadata file. Image, arguments and
  environment written by the create operation are what the start operation reads back, for every
  image and value without a newline that leaves room for one in the buffer it is read with.
\<close>

theorem metadata_roundtrip:
  assumes "os_works os" "has_paths impl cid" "meta_ok m"
  shows "\<exists>w1 w2. mkga_containerd_write_metadata os impl cid m w = (0, w1) \<and> mkga_containerd_read_metadata os impl cid w1 = (Inr m, w2)"
proof -
  obtain w1 where w1: "mkga_containerd_write_metadata os impl cid m w = (0, w1)" "stored (meta_of impl cid) (Some (concat (metadata_texts m))) w w1"
    using write_metadata_works [OF assms(1,2)] by blast
  then have "w_files w1 (meta_of impl cid) = Some (concat (metadata_texts m))" by (simp add: stored_def)
  then show ?thesis using read_metadata_works [OF assms(1,2) _ assms(3)] w1(1) by blast
qed

definition quiet_os :: "unit os" where
  "quiet_os = \<lparr>os_fault = \<lambda>_. 0, os_amount = \<lambda>_. 65536, os_millis = \<lambda>k. int k, os_nanos = \<lambda>k. of_nat k, os_getenv = \<lambda>_. None, os_log = noon,
    os_ctr = \<lambda>_ _ d. (two_rounds (WExited 0), d)\<rparr>"

definition box :: mkga_containerd_runtime where
  "box = \<lparr>cd_socket_path = cs ''/run/c.sock'', cd_ctr_path = cs ''ctr'', cd_runc_binary = cs ''/bin/runc'', cd_state_root = cs ''/run/mk'',
    cd_namespace_name = cs ''mk'', cd_default_timeout_ms = 5000, cd_no_pivot = False, cd_start_via_run = False, cd_null_io = False, cd_pending_env = []\<rparr>"

definition empty_world :: "unit world" where
  "empty_world = \<lparr>w_files = \<lambda>_. None, w_dirs = \<lambda>_. False, w_calls = 0, w_daemon = (), w_jobs = []\<rparr>"

definition busybox :: mkga_containerd_metadata where
  "busybox = \<lparr>km_image = cs ''busybox'', km_argv = [cs ''sh''], km_env = [\<lparr>ke_key = cs ''A'', ke_value = cs ''b=c'', ke_entry = cs ''A=b=c''\<rparr>]\<rparr>"

lemma quiet_os_works: "os_works quiet_os"
  by (simp add: os_works_def quiet_os_def)

lemma box_paths: "length cid \<le> 64 \<Longrightarrow> has_paths box cid"
  by (simp add: has_paths_def box_def cs_def)

lemma busybox_ok: "meta_ok busybox"
  by (simp add: meta_ok_def busybox_def line_ok_def env_ok_def is_cstr_def cs_def)

theorem metadata_roundtrip_witness:
  "\<exists>w1 w2. mkga_containerd_write_metadata quiet_os box (cs ''mkc-1'') busybox empty_world = (0, w1) \<and>
    mkga_containerd_read_metadata quiet_os box (cs ''mkc-1'') w1 = (Inr busybox, w2)"
  by (rule metadata_roundtrip [OF quiet_os_works box_paths busybox_ok]) (simp add: cs_def)

text \<open>
  An argument may have 63 bytes and then fills the buffer it is read with; its newline is taken for
  the line with the number of variables, and the environment of the container is lost.
\<close>

lemma fgets_full:
  assumes "os_works os" "newline \<notin> set s" "length s + 1 = n" "s \<noteq> []"
  shows "fgets os n (s @ newline # r) w = (Inr (s, newline # r), tick w)"
proof -
  have "min (n - 1) (Suc (length s)) = length s" using assms(3) by auto
  then show ?thesis using assms takeWhile_line [of s r] by (simp add: fgets_def Let_def del: One_nat_def)
qed

lemma long_argument_loses_environment:
  assumes "os_works os" "line_ok 256 img" "is_cstr a" "newline \<notin> set a" "length a = 63"
  shows "\<exists>w'. parse_metadata os (concat (metadata_texts \<lparr>km_image = img, km_argv = [a], km_env = vs\<rparr>)) w =
    (Inr \<lparr>km_image = img, km_argv = [a], km_env = []\<rparr>, w')"
proof -
  let ?r = "fmt_u (length vs) @ newline # concat (map (\<lambda>v. ke_key v @ [newline] @ ke_value v @ [newline]) vs)"
  have t: "concat (metadata_texts \<lparr>km_image = img, km_argv = [a], km_env = vs\<rparr>) =
      img @ newline # fmt_u 1 @ newline # a @ newline # ?r" by (simp add: metadata_texts_def)
  have "line_ok 32 (fmt_u 1)" "count_of (fmt_u 1 @ [newline]) = 1" using fmt_u_line [of 1] count_line [of 1] by simp_all
  note f = fgets_line [OF assms(1,2)] fgets_line [OF assms(1) this(1)] this(2)
  have g: "fgets os 64 (a @ newline # ?r) w' = (Inr (a, newline # ?r), tick w')" for w' using assms by (intro fgets_full) auto
  have e: "fgets os 32 ([] @ newline # ?r) w' = (Inr ([] @ [newline], ?r), tick w')" for w'
    by (rule fgets_line [OF assms(1)]) (simp add: line_ok_def)
  have c: "count_of [newline] = 0" by (simp add: count_of_def strtoul_def cstr_def scan_int_def scan_sign_def is_space_def is_digit_def Let_def word_le_nat_alt)
  have "cstr a = a" using assms(3) by (auto simp: is_cstr_def cstr_def takeWhile_eq_all_conv)
  then have a: "chomp a = a" using assms(4) by (auto simp: chomp_def takeWhile_eq_all_conv)
  have i: "chomp (img @ [newline]) = img" "copied 256 img = img" using chomp_line copied_line assms(2) by auto
  have "read_args os 1 (a @ newline # ?r) w' = (Inr ([a], newline # ?r), tick w')" for w'
    using g a assms(5) by (simp add: copied_def)
  then show ?thesis unfolding parse_metadata_def t f(1,2) prod.case sum.case f(3) using e c i by (simp add: Let_def)
qed

end
