(* ===== verification/CtrCommands.thy ===== *)
theory CtrCommands
  imports CtrFiles
begin

text \<open>
  The \<^verbatim>\<open>ctr\<close> commands of the containerd runtime (\<^verbatim>\<open>mk-guest-agent/src/runtime_containerd_stub.c\<close>): command
  lines, images, the state of tasks, waiting for the end of a container, and the two background
  processes. A function that runs commands gives \<open>None\<close> when it does not return. Reading a clock
  counts as a system call, sleeping does not change anything.
\<close>

abbreviation (input) MKGA_CONTAINERD_ARGV_MAX :: nat where "MKGA_CONTAINERD_ARGV_MAX \<equiv> 160"
abbreviation (input) MKGA_CONTAINERD_PULL_TIMEOUT_MS :: int where "MKGA_CONTAINERD_PULL_TIMEOUT_MS \<equiv> 30000"
abbreviation (input) MKGA_CONTAINERD_READY_POLL_MS :: int where "MKGA_CONTAINERD_READY_POLL_MS \<equiv> 200"
abbreviation (input) INT32_MAX :: int where "INT32_MAX \<equiv> 2147483647"

section \<open>Command lines\<close>

definition mkga_ctr_fill_base_args :: "mkga_containerd_runtime \<Rightarrow> bytes list" where
  "mkga_ctr_fill_base_args impl =
    [cd_ctr_path impl, cs ''--address'', cd_socket_path impl, cs ''--namespace'', cd_namespace_name impl]"

fun mkga_containerd_append_env_argv :: "nat \<Rightarrow> bytes list \<Rightarrow> mkga_containerd_env list \<Rightarrow> int + bytes list" where
  "mkga_containerd_append_env_argv argv_max argv [] = Inr argv"
| "mkga_containerd_append_env_argv argv_max argv (v # env) =
    (if ke_entry v = [] then mkga_containerd_append_env_argv argv_max argv env
     else if argv_max - 2 \<le> length argv then Inl (- ENOSPC)
     else mkga_containerd_append_env_argv argv_max (argv @ [cs ''--env'', ke_entry v]) env)"

fun append_args :: "nat \<Rightarrow> bytes list \<Rightarrow> bytes list \<Rightarrow> int + bytes list" where
  "append_args argv_max argv [] = Inr argv"
| "append_args argv_max argv (a # as) =
    (if argv_max - 1 \<le> length argv then Inl (- E2BIG) else append_args argv_max (argv @ [a]) as)"

definition mkga_containerd_append_exec_argv :: "nat \<Rightarrow> bytes list \<Rightarrow> bytes list \<Rightarrow> int + bytes list" where
  "mkga_containerd_append_exec_argv argv_max argv exec_argv =
    (if MKGA_MAX_ARGV < length exec_argv then Inl (- EINVAL) else append_args argv_max argv exec_argv)"

definition mkga_containerd_effective_timeout :: "mkga_containerd_runtime \<Rightarrow> int \<Rightarrow> int \<Rightarrow> int" where
  "mkga_containerd_effective_timeout impl requested_ms fallback_ms =
    (if 0 < requested_ms \<and> requested_ms \<le> INT32_MAX then requested_ms
     else if 0 < fallback_ms then fallback_ms
     else cd_default_timeout_ms impl)"

text \<open>Run a command line with a time limit: code, output, error output.\<close>

definition ctr :: "'d os \<Rightarrow> bytes list \<Rightarrow> int \<Rightarrow> 'd world \<Rightarrow> (int \<times> bytes \<times> bytes \<times> 'd world) option" where
  "ctr os argv timeout_ms w =
    (case os_ctr os argv timeout_ms (w_daemon w) of
       (run, d) \<Rightarrow>
         map_option (\<lambda>(rc, s). (rc, x_stdout s, x_stderr s, w\<lparr>w_daemon := d\<rparr>))
           (mkga_ctr_exec True argv timeout_ms MKGA_CONTAINERD_OUTPUT_MAX MKGA_CONTAINERD_OUTPUT_MAX run))"

text \<open>The clocks.\<close>

definition now_ms :: "'d os \<Rightarrow> 'd world \<Rightarrow> int \<times> 'd world" where
  "now_ms os w = (os_millis os (w_calls w), w\<lparr>w_calls := Suc (w_calls w)\<rparr>)"

definition now_ns :: "'d os \<Rightarrow> 'd world \<Rightarrow> u64 \<times> 'd world" where
  "now_ns os w = (os_nanos os (w_calls w), w\<lparr>w_calls := Suc (w_calls w)\<rparr>)"

section \<open>Images and readiness\<close>

definition mkga_containerd_image_present :: "'d os \<Rightarrow> mkga_containerd_runtime \<Rightarrow> bytes \<Rightarrow> 'd world \<Rightarrow> (bool \<times> 'd world) option" where
  "mkga_containerd_image_present os impl img w =
    (if img = [] then Some (False, w)
     else map_option (\<lambda>(rc, out, err, w1). (if rc \<noteq> 0 then False else mkga_contains_text out img, w1))
            (ctr os (mkga_ctr_fill_base_args impl @ [cs ''images'', cs ''ls'']) (cd_default_timeout_ms impl) w))"

definition mkga_containerd_pull_image :: "'d os \<Rightarrow> mkga_containerd_runtime \<Rightarrow> bytes \<Rightarrow> 'd world \<Rightarrow> (int \<times> 'd world) option" where
  "mkga_containerd_pull_image os impl img w =
    map_option (\<lambda>(rc, out, err, w1). (rc, w1))
      (ctr os (mkga_ctr_fill_base_args impl @ [cs ''images'', cs ''pull'', img]) MKGA_CONTAINERD_PULL_TIMEOUT_MS w)"

definition mkga_containerd_ensure_image :: "'d os \<Rightarrow> mkga_containerd_runtime \<Rightarrow> bytes \<Rightarrow> 'd world \<Rightarrow> (int \<times> 'd world) option" where
  "mkga_containerd_ensure_image os impl img w =
    (case mkga_containerd_image_present os impl img w of
       None \<Rightarrow> None
     | Some (present, w1) \<Rightarrow> if present then Some (0, w1) else mkga_containerd_pull_image os impl img w1)"

definition mkga_containerd_ping :: "'d os \<Rightarrow> mkga_containerd_runtime \<Rightarrow> int \<Rightarrow> 'd world \<Rightarrow> (int \<times> 'd world) option" where
  "mkga_containerd_ping os impl timeout_ms w =
    map_option (\<lambda>(rc, out, err, w1). (rc, w1))
      (ctr os (mkga_ctr_fill_base_args impl @ [cs ''version''])
         (mkga_containerd_effective_timeout impl timeout_ms (cd_default_timeout_ms impl)) w)"

partial_function (option) ready_loop :: "'d os \<Rightarrow> mkga_containerd_runtime \<Rightarrow> int \<Rightarrow> int \<Rightarrow> 'd world \<Rightarrow> (int \<times> 'd world) option" where
  "ready_loop os impl deadline last_rc w =
    (case now_ms os w of
       (now, w1) \<Rightarrow>
         if \<not> now < deadline then Some (if last_rc = 0 then - ETIMEDOUT else last_rc, w1)
         else case mkga_containerd_ping os impl MKGA_CONTAINERD_READY_POLL_MS w1 of
           None \<Rightarrow> None
         | Some (rc, w2) \<Rightarrow> if rc = 0 then Some (0, w2) else ready_loop os impl deadline rc w2)"

definition mkga_containerd_wait_ready :: "'d os \<Rightarrow> mkga_containerd_runtime \<Rightarrow> int \<Rightarrow> 'd world \<Rightarrow> (int \<times> 'd world) option" where
  "mkga_containerd_wait_ready os impl timeout_ms w =
    (case now_ms os w of
       (now, w1) \<Rightarrow>
         ready_loop os impl (now + mkga_containerd_effective_timeout impl timeout_ms (cd_default_timeout_ms impl)) (- ETIMEDOUT) w1)"

section \<open>Tasks\<close>

datatype mkga_containerd_task_status =
    MKGA_CONTAINERD_TASK_STATUS_UNKNOWN
  | MKGA_CONTAINERD_TASK_STATUS_RUNNING
  | MKGA_CONTAINERD_TASK_STATUS_STOPPED
  | MKGA_CONTAINERD_TASK_STATUS_MISSING

text \<open>All tokens that repeated calls of \<^verbatim>\<open>strtok_r\<close> give.\<close>

fun tokens_from :: "(u8 \<Rightarrow> bool) \<Rightarrow> bytes \<Rightarrow> bytes \<Rightarrow> bytes list" where
  "tokens_from delim cur [] = (if cur = [] then [] else [cur])"
| "tokens_from delim cur (c # s) =
    (if delim c then (if cur = [] then tokens_from delim [] s else cur # tokens_from delim [] s)
     else tokens_from delim (cur @ [c]) s)"

definition strtok_all :: "(u8 \<Rightarrow> bool) \<Rightarrow> bytes \<Rightarrow> bytes list" where
  "strtok_all delim s = tokens_from delim [] s"

definition blank :: "u8 \<Rightarrow> bool" where
  "blank c \<longleftrightarrow> c = 32 \<or> c = 9 \<or> c = 13"

text \<open>The lines of the table until the one of the container.\<close>

fun find_task :: "bytes \<Rightarrow> bytes list \<Rightarrow> mkga_containerd_task_status \<times> i32" where
  "find_task cid [] = (MKGA_CONTAINERD_TASK_STATUS_MISSING, 0)"
| "find_task cid (line # lines) =
    (case strtok_all blank (copied MKGA_CONTAINERD_OUTPUT_MAX line) of
       [] \<Rightarrow> find_task cid lines
     | task_id # toks \<Rightarrow>
         if task_id = cs ''TASK'' then find_task cid lines
         else if task_id \<noteq> cid then find_task cid lines
         else (case toks of
                 [] \<Rightarrow> (MKGA_CONTAINERD_TASK_STATUS_UNKNOWN, 0)
               | pid_token # toks' \<Rightarrow>
                   (case toks' of
                      [] \<Rightarrow> MKGA_CONTAINERD_TASK_STATUS_UNKNOWN
                    | status_token # _ \<Rightarrow>
                        if status_token = cs ''RUNNING'' then MKGA_CONTAINERD_TASK_STATUS_RUNNING
                        else if status_token = cs ''STOPPED'' then MKGA_CONTAINERD_TASK_STATUS_STOPPED
                        else MKGA_CONTAINERD_TASK_STATUS_UNKNOWN,
                    if pid_token \<noteq> cs ''-'' then of_int (fst (strtol pid_token)) else 0)))"

definition mkga_containerd_query_task_status ::
    "'d os \<Rightarrow> mkga_containerd_runtime \<Rightarrow> bytes \<Rightarrow> 'd world \<Rightarrow> (int \<times> mkga_containerd_task_status \<times> i32 \<times> 'd world) option" where
  "mkga_containerd_query_task_status os impl cid w =
    map_option (\<lambda>(rc, out, err, w1).
        if rc \<noteq> 0 then (rc, MKGA_CONTAINERD_TASK_STATUS_MISSING, 0, w1)
        else case find_task cid (strtok_all (\<lambda>c. c = newline) (cstr out)) of (st, pid) \<Rightarrow> (0, st, pid, w1))
      (ctr os (mkga_ctr_fill_base_args impl @ [cs ''tasks'', cs ''ls'']) (cd_default_timeout_ms impl) w)"

fun parse_exit_code :: "bytes \<Rightarrow> i32 option" where
  "parse_exit_code [] = None"
| "parse_exit_code (c # s) =
    (if is_digit c \<or> c = 45 \<and> s \<noteq> [] \<and> is_digit (hd s) then Some (of_int (fst (strtol (c # s)))) else parse_exit_code s)"

definition mkga_parse_exit_code_text :: "bytes \<Rightarrow> int + i32" where
  "mkga_parse_exit_code_text txt = (case parse_exit_code (cstr txt) of None \<Rightarrow> Inl (- EINVAL) | Some v \<Rightarrow> Inr v)"

definition mkga_ctr_wait_unsupported :: "bytes \<Rightarrow> bytes \<Rightarrow> bool" where
  "mkga_ctr_wait_unsupported stdout_buf stderr_buf \<longleftrightarrow>
    mkga_contains_text stdout_buf (cs ''No help topic for '' @ [39] @ cs ''wait'' @ [39]) \<or>
    mkga_contains_text stderr_buf (cs ''No help topic for '' @ [39] @ cs ''wait'' @ [39]) \<or>
    mkga_contains_text stdout_buf (cs ''No help topic for '' @ [34] @ cs ''wait'' @ [34]) \<or>
    mkga_contains_text stderr_buf (cs ''No help topic for '' @ [34] @ cs ''wait'' @ [34])"

text \<open>Waiting: the code and, when it is 0, the exit code of the container.\<close>

partial_function (option) mkga_containerd_poll_for_exit_until ::
    "'d os \<Rightarrow> mkga_containerd_runtime \<Rightarrow> bytes \<Rightarrow> int \<Rightarrow> 'd world \<Rightarrow> (int \<times> i32 \<times> 'd world) option" where
  "mkga_containerd_poll_for_exit_until os impl cid deadline_ms w =
    (case mkga_containerd_query_task_status os impl cid w of
       None \<Rightarrow> None
     | Some (rc, st, pid, w1) \<Rightarrow>
         if rc \<noteq> 0 then Some (rc, 0, w1)
         else if st = MKGA_CONTAINERD_TASK_STATUS_STOPPED \<or> st = MKGA_CONTAINERD_TASK_STATUS_MISSING then Some (0, 0, w1)
         else if st = MKGA_CONTAINERD_TASK_STATUS_UNKNOWN then Some (- EIO, 0, w1)
         else case now_ms os w1 of
           (now, w2) \<Rightarrow>
             if deadline_ms \<le> now then Some (- ETIMEDOUT, 0, w2)
             else mkga_containerd_poll_for_exit_until os impl cid deadline_ms w2)"

definition mkga_containerd_wait_for_exit_until ::
    "'d os \<Rightarrow> mkga_containerd_runtime \<Rightarrow> bytes \<Rightarrow> int \<Rightarrow> 'd world \<Rightarrow> (int \<times> i32 \<times> 'd world) option" where
  "mkga_containerd_wait_for_exit_until os impl cid deadline_ms w =
    (case now_ms os w of
       (now, w1) \<Rightarrow>
         let remaining_ms = deadline_ms - now in
         if remaining_ms \<le> 0 then mkga_containerd_poll_for_exit_until os impl cid deadline_ms w1
         else case ctr os (mkga_ctr_fill_base_args impl @ [cs ''tasks'', cs ''wait'', cid]) (c_int remaining_ms) w1 of
           None \<Rightarrow> None
         | Some (rc, out, err, w2) \<Rightarrow>
             if rc \<noteq> 0
             then (if mkga_ctr_wait_unsupported out err
                   then mkga_containerd_poll_for_exit_until os impl cid deadline_ms w2
                   else Some (rc, 0, w2))
             else case mkga_parse_exit_code_text out of
               Inr v \<Rightarrow> Some (0, v, w2)
             | Inl _ \<Rightarrow> (case mkga_parse_exit_code_text err of Inr v \<Rightarrow> Some (0, v, w2) | Inl _ \<Rightarrow> Some (0, 0, w2)))"

definition mkga_containerd_wait_for_exit ::
    "'d os \<Rightarrow> mkga_containerd_runtime \<Rightarrow> bytes \<Rightarrow> int \<Rightarrow> 'd world \<Rightarrow> (int \<times> i32 \<times> 'd world) option" where
  "mkga_containerd_wait_for_exit os impl cid timeout_ms w =
    (case now_ms os w of
       (now, w1) \<Rightarrow>
         mkga_containerd_wait_for_exit_until os impl cid
           (now + mkga_containerd_effective_timeout impl timeout_ms (cd_default_timeout_ms impl)) w1)"

definition mkga_containerd_signal_task ::
    "'d os \<Rightarrow> mkga_containerd_runtime \<Rightarrow> bytes \<Rightarrow> bytes \<Rightarrow> 'd world \<Rightarrow> (int \<times> 'd world) option" where
  "mkga_containerd_signal_task os impl cid signal_name w =
    map_option (\<lambda>(rc, out, err, w1). (rc, w1))
      (ctr os (mkga_ctr_fill_base_args impl @ [cs ''tasks'', cs ''kill'', cs ''--all'', cs ''-s'', signal_name, cid])
         (cd_default_timeout_ms impl) w)"

definition mkga_containerd_delete_task ::
    "'d os \<Rightarrow> mkga_containerd_runtime \<Rightarrow> bytes \<Rightarrow> 'd world \<Rightarrow> (int \<times> 'd world) option" where
  "mkga_containerd_delete_task os impl cid w =
    map_option (\<lambda>(rc, out, err, w1). (if rc = - ENOENT then 0 else rc, w1))
      (ctr os (mkga_ctr_fill_base_args impl @ [cs ''tasks'', cs ''delete'', cid]) (cd_default_timeout_ms impl) w)"

definition mkga_containerd_delete_container ::
    "'d os \<Rightarrow> mkga_containerd_runtime \<Rightarrow> bytes \<Rightarrow> 'd world \<Rightarrow> (int \<times> 'd world) option" where
  "mkga_containerd_delete_container os impl cid w =
    map_option (\<lambda>(rc, out, err, w1). (if rc = - ENOENT then 0 else rc, w1))
      (ctr os (mkga_ctr_fill_base_args impl @ [cs ''containers'', cs ''delete'', cid]) (cd_default_timeout_ms impl) w)"

section \<open>Background processes\<close>

definition mkga_containerd_fill_state :: "u32 \<Rightarrow> i32 \<Rightarrow> i32 \<Rightarrow> u64 \<Rightarrow> u64 \<Rightarrow> bytes \<Rightarrow> mkga_containerd_state" where
  "mkga_containerd_fill_state container_state exit_code pid started_at finished_at message =
    \<lparr>ks_state = container_state, ks_exit_code = exit_code, ks_pid = pid, ks_started_at_unix_nano = started_at,
     ks_finished_at_unix_nano = finished_at, ks_message = copied MKGA_MAX_MESSAGE_LEN message\<rparr>"

text \<open>The command line of \<^verbatim>\<open>ctr run\<close>.\<close>

definition run_argv :: "mkga_containerd_runtime \<Rightarrow> bytes \<Rightarrow> bytes \<Rightarrow> bytes list \<Rightarrow> mkga_containerd_env list \<Rightarrow> int + bytes list" where
  "run_argv impl cid img args env =
    (let argv = mkga_ctr_fill_base_args impl @ [cs ''run''] @ (if cd_no_pivot impl then [cs ''--no-pivot''] else []) @
           (if cd_runc_binary impl \<noteq> [] then [cs ''--runc-binary'', cd_runc_binary impl] else [])
     in case mkga_containerd_append_env_argv MKGA_CONTAINERD_ARGV_MAX argv env of
          Inl rc \<Rightarrow> Inl rc
        | Inr argv1 \<Rightarrow> mkga_containerd_append_exec_argv MKGA_CONTAINERD_ARGV_MAX (argv1 @ [img, cid]) args)"

text \<open>
  The error output of the command, as a C string, is the message of the final state. Of the log file
  only its contents are kept between two runs. The command has no time limit, which is the limit 0.
\<close>

definition mkga_containerd_run_logged_foreground ::
    "'d os \<Rightarrow> mkga_containerd_runtime \<Rightarrow> bytes \<Rightarrow> bytes \<Rightarrow> bytes list \<Rightarrow> mkga_containerd_env list \<Rightarrow> bytes \<Rightarrow> 'd world \<Rightarrow>
     (int \<times> 'd world) option" where
  "mkga_containerd_run_logged_foreground os impl cid img args env log_path w =
    (case run_argv impl cid img args env of
       Inl rc \<Rightarrow> Some (rc, w)
     | Inr argv \<Rightarrow>
         (case (sys_call os w, os_ctr os argv 0 (w_daemon w)) of
            ((log_rc, w1), (run, d)) \<Rightarrow>
              let f = \<lparr>lf_data = (case w_files w1 log_path of None \<Rightarrow> [] | Some s \<Rightarrow> s), lf_calls = 0, lf_stamps = 0\<rparr> in
              case sys_call os w1 of
                (close_rc, w2) \<Rightarrow>
                  (case mkga_ctr_exec_to_cri_log (os_log os) True argv log_rc close_rc f MKGA_CONTAINERD_OUTPUT_MAX run of
                     None \<Rightarrow> None
                   | Some (rc, exit_code, s) \<Rightarrow>
                       let w3 = (if log_rc = 0 then (set_file log_path (Some (lf_data (cy_file s))) w2)\<lparr>w_daemon := d\<rparr> else w2) in
                       (case mkga_containerd_read_state os impl cid w3 of
                          (Inl _, w4) \<Rightarrow>
                            (case now_ns os w4 of
                               (t, w5) \<Rightarrow>
                                 Some (rc, snd (mkga_containerd_write_state os impl cid
                                   (mkga_containerd_fill_state (state_code MKGA_CONTAINER_STATE_EXITED) (of_int exit_code) 0 0 t (cstr (cy_buf s))) w5)))
                        | (Inr st, w4) \<Rightarrow>
                            (case (if ks_started_at_unix_nano st = 0 then now_ns os w4 else (ks_started_at_unix_nano st, w4)) of
                               (t0, w5) \<Rightarrow>
                                 (case now_ns os w5 of
                                    (t, w6) \<Rightarrow>
                                      Some (rc, snd (mkga_containerd_write_state os impl cid
                                        (st\<lparr>ks_state := state_code MKGA_CONTAINER_STATE_EXITED, ks_exit_code := of_int exit_code, ks_pid := 0,
                                            ks_started_at_unix_nano := t0, ks_finished_at_unix_nano := t,
                                            ks_message := copied MKGA_MAX_MESSAGE_LEN (cstr (cy_buf s))\<rparr>) w6))))))))"

text \<open>\<^verbatim>\<open>waitpid\<close> again after an interruption.\<close>

partial_function (option) waitpid_retry :: "'d os \<Rightarrow> 'd world \<Rightarrow> (int \<times> 'd world) option" where
  "waitpid_retry os w = (case sys_call os w of (e, w1) \<Rightarrow> if e = EINTR then waitpid_retry os w1 else Some (e, w1))"

text \<open>
  The double fork: the child starts the job in a process of its own and exits, with 1 when it cannot;
  the agent waits for the child only.
\<close>

definition spawn :: "'d os \<Rightarrow> ctr_job \<Rightarrow> 'd world \<Rightarrow> (int \<times> 'd world) option" where
  "spawn os job w =
    (case sys_call os w of
       (e, w1) \<Rightarrow>
         if e \<noteq> 0 then Some (- e, w1)
         else case sys_call os w1 of
           (e2, w2) \<Rightarrow>
             map_option (\<lambda>(e3, w3). (if e3 \<noteq> 0 then - e3 else if e2 \<noteq> 0 then - EIO else 0, w3))
               (waitpid_retry os (if e2 \<noteq> 0 then w2 else w2\<lparr>w_jobs := w_jobs w2 @ [job]\<rparr>)))"

definition mkga_containerd_spawn_log_runner ::
    "'d os \<Rightarrow> mkga_containerd_runtime \<Rightarrow> bytes \<Rightarrow> bytes \<Rightarrow> bytes list \<Rightarrow> mkga_containerd_env list \<Rightarrow> 'd world \<Rightarrow> (int \<times> 'd world) option" where
  "mkga_containerd_spawn_log_runner os impl cid img args env w =
    (case mkga_containerd_log_path os impl cid w of
       (Inl rc, w1) \<Rightarrow> Some (rc, w1)
     | (Inr log_path, w1) \<Rightarrow> spawn os (LogRunner cid img args env log_path) (unlink os log_path w1))"

definition mkga_containerd_spawn_exit_watcher ::
    "'d os \<Rightarrow> mkga_containerd_runtime \<Rightarrow> bytes \<Rightarrow> 'd world \<Rightarrow> (int \<times> 'd world) option" where
  "mkga_containerd_spawn_exit_watcher os impl cid w =
    (if cid = [] then Some (- EINVAL, w) else spawn os (ExitWatcher cid) w)"

text \<open>The exit watcher itself.\<close>

definition exited_state :: "i32 \<Rightarrow> u64 \<Rightarrow> (int + mkga_containerd_state) \<Rightarrow> mkga_containerd_state" where
  "exited_state exit_code t r =
    (case r of
       Inl _ \<Rightarrow> mkga_containerd_fill_state (state_code MKGA_CONTAINER_STATE_EXITED) exit_code 0 0 t []
     | Inr st \<Rightarrow> st\<lparr>ks_state := state_code MKGA_CONTAINER_STATE_EXITED, ks_exit_code := exit_code, ks_pid := 0,
         ks_finished_at_unix_nano := t, ks_message := []\<rparr>)"

partial_function (option) watch_loop :: "'d os \<Rightarrow> mkga_containerd_runtime \<Rightarrow> bytes \<Rightarrow> 'd world \<Rightarrow> 'd world option" where
  "watch_loop os impl cid w =
    (case mkga_containerd_wait_for_exit os impl cid INT32_MAX w of
       None \<Rightarrow> None
     | Some (rc, exit_code, w1) \<Rightarrow>
         if rc = 0
         then (case mkga_containerd_read_state os impl cid w1 of
                 (r, w2) \<Rightarrow>
                   (case now_ns os w2 of
                      (t, w3) \<Rightarrow> Some (snd (mkga_containerd_write_state os impl cid (exited_state exit_code t r) w3))))
         else if rc = - ENOENT
         then (case mkga_containerd_read_state os impl cid w1 of
                 (r, w2) \<Rightarrow>
                   if (case r of Inl _ \<Rightarrow> False | Inr st \<Rightarrow> ks_state st = state_code MKGA_CONTAINER_STATE_EXITED) then Some w2
                   else watch_loop os impl cid w2)
         else watch_loop os impl cid w1)"

text \<open>One job from its start to its end.\<close>

definition run_job :: "'d os \<Rightarrow> mkga_containerd_runtime \<Rightarrow> ctr_job \<Rightarrow> 'd world \<Rightarrow> 'd world option" where
  "run_job os impl job w =
    (case job of
       LogRunner cid img args env log_path \<Rightarrow>
         map_option snd (mkga_containerd_run_logged_foreground os impl cid img args env log_path w)
     | ExitWatcher cid \<Rightarrow> watch_loop os impl cid w)"

end
