(* ===== verification/Containerd.thy ===== *)
theory Containerd
  imports CtrCommands Runtime
begin

text \<open>
  The operations of the containerd runtime (\<^verbatim>\<open>mk-guest-agent/src/runtime_containerd_stub.c\<close>) on containers,
  their environment, the network and the logs, and its creation. Requests and responses are never
  NULL here: the dispatchers of theory Runtime have checked them. An operation that does not return
  gives \<open>None\<close>.
\<close>

abbreviation (input) MKGA_CONTAINERD_DEFAULT_TIMEOUT_MS :: int where "MKGA_CONTAINERD_DEFAULT_TIMEOUT_MS \<equiv> 5000"
abbreviation (input) MKGA_CONTAINERD_STOP_TERM_GRACE_MS :: int where "MKGA_CONTAINERD_STOP_TERM_GRACE_MS \<equiv> 2000"

section \<open>Container identifiers\<close>

definition fnv_step :: "u64 \<Rightarrow> u8 \<Rightarrow> u64" where
  "fnv_step hash b = (hash XOR ucast b) * 1099511628211"

definition mkga_fnv1a64_update :: "u64 \<Rightarrow> bytes \<Rightarrow> u64" where
  "mkga_fnv1a64_update hash txt = fnv_step (foldl fnv_step hash txt) 0xff"

definition hex_digit :: "u8 \<Rightarrow> u8" where
  "hex_digit d = (if d < 10 then 48 + d else 87 + d)"

text \<open>The conversion \<^verbatim>\<open>%016llx\<close>.\<close>

definition fmt_016x :: "u64 \<Rightarrow> bytes" where
  "fmt_016x v = map (\<lambda>i. hex_digit (ucast (drop_bit (4 * (15 - i)) v AND 15))) [0..<16]"

definition mkga_containerd_make_container_id :: "mkga_create_container_req \<Rightarrow> nat \<Rightarrow> int + bytes" where
  "mkga_containerd_make_container_id req out_len =
    (if out_len = 0 then Inl (- EINVAL)
     else
       let h0 = (1469598103934665603 :: u64);
           h1 = mkga_fnv1a64_update h0 (cc_kernel_id req);
           h2 = mkga_fnv1a64_update h1 (cc_pod_id req);
           h3 = mkga_fnv1a64_update h2 (cc_name req);
           h4 = mkga_fnv1a64_update h3 (cc_image req);
           hash = foldl (\<lambda>h i. mkga_fnv1a64_update h (cc_argv req ! i)) h4
                    [0..<min (unat (cc_argv_count req)) MKGA_MAX_ARGV];
           out = cs ''mkc-'' @ fmt_016x hash
       in if out_len \<le> length out then Inl (- ENOSPC) else Inr out)"

section \<open>Environment of a container\<close>

definition mkga_containerd_validate_create_req :: "mkga_create_container_req \<Rightarrow> int" where
  "mkga_containerd_validate_create_req req =
    (if cc_kernel_id req = [] \<or> cc_pod_id req = [] \<or> cc_name req = [] \<or> cc_image req = [] then - EINVAL
     else if of_nat MKGA_MAX_ARGV < cc_argv_count req then - EINVAL
     else if \<exists>i\<in>set [0..<unat (cc_argv_count req)]. cc_argv req ! i = [] then - EINVAL
     else 0)"

definition same_variable :: "mkga_configure_env_req \<Rightarrow> mkga_configure_env_req \<Rightarrow> bool" where
  "same_variable a b \<longleftrightarrow> ev_pod_id a = ev_pod_id b \<and> ev_name a = ev_name b \<and> ev_key a = ev_key b"

definition copied_env_req :: "mkga_configure_env_req \<Rightarrow> mkga_configure_env_req" where
  "copied_env_req req =
    \<lparr>ev_kernel_id = copied MKGA_MAX_KERNEL_ID_LEN (ev_kernel_id req), ev_pod_id = copied MKGA_MAX_POD_ID_LEN (ev_pod_id req),
     ev_name = copied MKGA_MAX_NAME_LEN (ev_name req), ev_key = copied MKGA_MAX_ENV_KEY_LEN (ev_key req),
     ev_value = copied MKGA_MAX_ENV_VALUE_LEN (ev_value req)\<rparr>"

definition mkga_containerd_configure_env ::
    "mkga_containerd_runtime \<Rightarrow> mkga_configure_env_req \<Rightarrow> int \<times> mkga_containerd_runtime" where
  "mkga_containerd_configure_env impl req =
    (let pending = cd_pending_env impl in
     if ev_pod_id req = [] \<or> ev_name req = [] \<or> ev_key req = [] then (- EINVAL, impl)
     else case find (\<lambda>i. same_variable (pending ! i) req) [0..<length pending] of
       Some i \<Rightarrow> (0, impl\<lparr>cd_pending_env := pending[i := copied_env_req req]\<rparr>)
     | None \<Rightarrow>
         if MKGA_CONTAINERD_MAX_PENDING_ENV \<le> length pending then (- ENOSPC, impl)
         else (0, impl\<lparr>cd_pending_env := pending @ [copied_env_req req]\<rparr>))"

text \<open>
  The variables of the container go to its metadata, the others move together at the beginning of the
  array. \<open>i\<close> and \<open>write_idx\<close> are the reading and the writing position; on an error the array keeps its
  count.
\<close>

fun apply_env_loop ::
    "mkga_create_container_req \<Rightarrow> nat list \<Rightarrow> nat \<Rightarrow> mkga_configure_env_req list \<Rightarrow> mkga_containerd_metadata \<Rightarrow>
     int \<times> mkga_configure_env_req list \<times> mkga_containerd_metadata" where
  "apply_env_loop req [] write_idx pending meta = (0, take write_idx pending, meta)"
| "apply_env_loop req (i # is) write_idx pending meta =
    (let env = pending ! i in
     if ev_pod_id env \<noteq> cc_pod_id req \<or> ev_name env \<noteq> cc_name req
     then apply_env_loop req is (Suc write_idx) (if write_idx \<noteq> i then pending[write_idx := env] else pending) meta
     else if MKGA_CONTAINERD_MAX_PENDING_ENV \<le> length (km_env meta) then (- ENOSPC, pending, meta)
     else case mkga_containerd_set_env_entry (ev_key env) (ev_value env) of
       Inl _ \<Rightarrow> (- ENOSPC, pending, meta)
     | Inr v \<Rightarrow> apply_env_loop req is write_idx pending (meta\<lparr>km_env := km_env meta @ [v]\<rparr>))"

definition mkga_containerd_apply_pending_env ::
    "mkga_containerd_runtime \<Rightarrow> mkga_create_container_req \<Rightarrow> mkga_containerd_metadata \<Rightarrow>
     int \<times> mkga_containerd_runtime \<times> mkga_containerd_metadata" where
  "mkga_containerd_apply_pending_env impl req meta =
    (case apply_env_loop req [0..<length (cd_pending_env impl)] 0 (cd_pending_env impl) meta of
       (rc, pending, meta') \<Rightarrow> (rc, impl\<lparr>cd_pending_env := pending\<rparr>, meta'))"

section \<open>Network\<close>

definition mkga_containerd_exec_network_cmd ::
    "'d os \<Rightarrow> mkga_containerd_runtime \<Rightarrow> bytes list \<Rightarrow> 'd world \<Rightarrow> 'd world option" where
  "mkga_containerd_exec_network_cmd os impl argv w =
    map_option (\<lambda>(rc, out, err, w1). w1) (ctr os argv (cd_default_timeout_ms impl) w)"

fun exec_network_cmds :: "'d os \<Rightarrow> mkga_containerd_runtime \<Rightarrow> bytes list list \<Rightarrow> 'd world \<Rightarrow> 'd world option" where
  "exec_network_cmds os impl [] w = Some w"
| "exec_network_cmds os impl (argv # cmds) w =
    (case mkga_containerd_exec_network_cmd os impl argv w of
       None \<Rightarrow> None
     | Some w1 \<Rightarrow> exec_network_cmds os impl cmds w1)"

definition getenv_or :: "environment \<Rightarrow> bytes \<Rightarrow> bytes \<Rightarrow> bytes" where
  "getenv_or env key fallback = (case env key of None \<Rightarrow> fallback | Some v \<Rightarrow> if v = [] then fallback else v)"

text \<open>The address with the suffix \<^verbatim>\<open>/32\<close>, when it fits.\<close>

definition host_cidr :: "bytes \<Rightarrow> bytes option" where
  "host_cidr ip = (let s = ip @ cs ''/32'' in if 64 \<le> length s then None else Some s)"

definition network_cmds :: "bytes \<Rightarrow> bytes \<Rightarrow> bytes \<Rightarrow> bytes \<Rightarrow> mkga_configure_network_req \<Rightarrow> bytes list list" where
  "network_cmds ip_path iptables_path proxy_port pod_ip_cidr req =
    [[ip_path, cs ''link'', cs ''set'', cs ''lo'', cs ''up''],
     [ip_path, cs ''addr'', cs ''add'', pod_ip_cidr, cs ''dev'', cs ''lo'']] @
    (if nw_mode req = cs ''explicit''
     then concat (map (\<lambda>i.
            let ip = en_ip (nw_endpoints req ! i) in
            if ip = [] \<or> ip = nw_pod_ip req then []
            else case host_cidr ip of
              None \<Rightarrow> []
            | Some cidr \<Rightarrow> [[ip_path, cs ''addr'', cs ''add'', cidr, cs ''dev'', cs ''lo'']])
          [0..<min (unat (nw_endpoint_count req)) MKGA_MAX_ENDPOINTS])
     else []) @
    (if nw_pod_cidr req \<noteq> [] then [[ip_path, cs ''route'', cs ''replace'', nw_pod_cidr req, cs ''dev'', cs ''lo'']] else []) @
    (if nw_mode req = cs ''redirect'' \<and> nw_pod_cidr req \<noteq> []
     then [[iptables_path, cs ''-t'', cs ''nat'', cs ''-A'', cs ''OUTPUT'', cs ''-d'', nw_pod_cidr req, cs ''-p'', cs ''tcp'', cs ''-j'',
            cs ''REDIRECT'', cs ''--to-ports'', proxy_port]]
     else [])"

definition mkga_containerd_configure_network ::
    "'d os \<Rightarrow> mkga_containerd_runtime \<Rightarrow> mkga_configure_network_req \<Rightarrow> 'd world \<Rightarrow> (int \<times> 'd world) option" where
  "mkga_containerd_configure_network os impl req w =
    (if nw_pod_ip req = [] then Some (- EINVAL, w)
     else
       let ip_path = getenv_or (os_getenv os) (cs ''MK_GUEST_AGENT_IP_PATH'') (cs ''ip'');
           iptables_path = getenv_or (os_getenv os) (cs ''MK_GUEST_AGENT_IPTABLES_PATH'') (cs ''iptables'');
           proxy_port = getenv_or (os_getenv os) (cs ''MK_GUEST_AGENT_MKNET_PROXY_PORT'') (cs ''15080'')
       in case host_cidr (nw_pod_ip req) of
            None \<Rightarrow> Some (- ENOSPC, w)
          | Some cidr \<Rightarrow> map_option (\<lambda>w1. (0, w1)) (exec_network_cmds os impl (network_cmds ip_path iptables_path proxy_port cidr req) w))"

section \<open>Containers\<close>

definition mkga_containerd_validate_control_req :: "mkga_container_control_req \<Rightarrow> int" where
  "mkga_containerd_validate_control_req req = (if ct_kernel_id req = [] \<or> ct_container_id req = [] then - EINVAL else 0)"

definition mkga_containerd_validate_read_log_req :: "mkga_read_log_req \<Rightarrow> int" where
  "mkga_containerd_validate_read_log_req req = (if rl_kernel_id req = [] \<or> rl_container_id req = [] then - EINVAL else 0)"

text \<open>Delete the container again when the rest of its creation failed.\<close>

definition undo_create ::
    "'d os \<Rightarrow> mkga_containerd_runtime \<Rightarrow> bytes \<Rightarrow> int \<Rightarrow> mkga_create_container_resp \<Rightarrow> 'd world \<Rightarrow>
     (int \<times> mkga_create_container_resp \<times> mkga_containerd_runtime \<times> 'd world) option" where
  "undo_create os impl cid rc resp w =
    (if cd_start_via_run impl then Some (rc, resp, impl, w)
     else map_option (\<lambda>(_, w1). (rc, resp, impl, w1)) (mkga_containerd_delete_container os impl cid w))"

definition create_argv :: "mkga_containerd_runtime \<Rightarrow> bytes \<Rightarrow> mkga_containerd_metadata \<Rightarrow> bytes \<Rightarrow> int + bytes list" where
  "create_argv impl img meta cid =
    (case mkga_containerd_append_env_argv MKGA_CONTAINERD_ARGV_MAX
            (mkga_ctr_fill_base_args impl @ [cs ''containers'', cs ''create'']) (km_env meta) of
       Inl rc \<Rightarrow> Inl rc
     | Inr argv \<Rightarrow> mkga_containerd_append_exec_argv MKGA_CONTAINERD_ARGV_MAX (argv @ [img, cid]) (km_argv meta))"

text \<open>The files of a new container.\<close>

definition create_files ::
    "'d os \<Rightarrow> mkga_containerd_runtime \<Rightarrow> bytes \<Rightarrow> bytes \<Rightarrow> mkga_containerd_metadata \<Rightarrow> mkga_create_container_resp \<Rightarrow> 'd world \<Rightarrow>
     (int \<times> mkga_create_container_resp \<times> mkga_containerd_runtime \<times> 'd world) option" where
  "create_files os impl img cid meta resp w =
    (case mkga_containerd_write_metadata os impl cid meta w of
       (rc, w1) \<Rightarrow>
         if rc \<noteq> 0 then undo_create os impl cid rc resp w1
         else
           let state = mkga_containerd_fill_state (state_code MKGA_CONTAINER_STATE_CREATED) 0 0 0 0 [] in
           case mkga_containerd_write_state os impl cid state w1 of
             (rc, w2) \<Rightarrow>
               if rc \<noteq> 0 then undo_create os impl cid rc resp (mkga_containerd_delete_metadata os impl cid w2)
               else Some (0, \<lparr>cr_container_id = copied MKGA_MAX_ID_LEN cid, cr_image_ref = copied MKGA_MAX_IMAGE_LEN img\<rparr>,
                          impl, mkga_containerd_delete_log os impl cid w2))"

definition mkga_containerd_create_container ::
    "'d os \<Rightarrow> mkga_containerd_runtime \<Rightarrow> mkga_create_container_req \<Rightarrow> mkga_create_container_resp \<Rightarrow> 'd world \<Rightarrow>
     (int \<times> mkga_create_container_resp \<times> mkga_containerd_runtime \<times> 'd world) option" where
  "mkga_containerd_create_container os impl req resp w =
    (if mkga_containerd_validate_create_req req \<noteq> 0 then Some (mkga_containerd_validate_create_req req, resp, impl, w)
     else case mkga_containerd_ensure_image os impl (cc_image req) w of
       None \<Rightarrow> None
     | Some (rc, w1) \<Rightarrow>
         if rc \<noteq> 0 then Some (rc, resp, impl, w1)
         else case mkga_containerd_make_container_id req MKGA_MAX_ID_LEN of
           Inl rc \<Rightarrow> Some (rc, resp, impl, w1)
         | Inr cid \<Rightarrow>
             (case mkga_containerd_apply_pending_env impl req
                     \<lparr>km_image = copied MKGA_MAX_IMAGE_LEN (cc_image req),
                      km_argv = map (\<lambda>i. copied MKGA_MAX_ARG_LEN (cc_argv req ! i)) [0..<unat (cc_argv_count req)], km_env = []\<rparr> of
                (rc, impl1, meta) \<Rightarrow>
                  if rc \<noteq> 0 then Some (rc, resp, impl1, w1)
                  else if cd_start_via_run impl1 then create_files os impl1 (cc_image req) cid meta resp w1
                  else case create_argv impl1 (cc_image req) meta cid of
                    Inl rc \<Rightarrow> Some (rc, resp, impl1, w1)
                  | Inr argv \<Rightarrow>
                      (case ctr os argv (cd_default_timeout_ms impl1) w1 of
                         None \<Rightarrow> None
                       | Some (rc, out, err, w2) \<Rightarrow>
                           if rc \<noteq> 0 then Some (rc, resp, impl1, w2)
                           else create_files os impl1 (cc_image req) cid meta resp w2)))"

definition running_state :: "u64 \<Rightarrow> mkga_containerd_state" where
  "running_state t = mkga_containerd_fill_state (state_code MKGA_CONTAINER_STATE_RUNNING) 0 0 t 0 []"

definition mkga_containerd_start_container ::
    "'d os \<Rightarrow> mkga_containerd_runtime \<Rightarrow> mkga_container_control_req \<Rightarrow> 'd world \<Rightarrow> (int \<times> 'd world) option" where
  "mkga_containerd_start_container os impl req w =
    (let cid = ct_container_id req in
     if mkga_containerd_validate_control_req req \<noteq> 0 then Some (mkga_containerd_validate_control_req req, w)
     else if cd_start_via_run impl
     then (case mkga_containerd_read_metadata os impl cid w of
             (Inl rc, w1) \<Rightarrow> Some (rc, w1)
           | (Inr meta, w1) \<Rightarrow>
               (case now_ns os w1 of
                  (t, w2) \<Rightarrow>
                    (case mkga_containerd_write_state os impl cid (running_state t) w2 of
                       (rc, w3) \<Rightarrow>
                         if rc \<noteq> 0 then Some (rc, w3)
                         else mkga_containerd_spawn_log_runner os impl cid (km_image meta) (km_argv meta) (km_env meta) w3)))
     else case ctr os (mkga_ctr_fill_base_args impl @ [cs ''tasks'', cs ''start'', cs ''-d'', cid]) (cd_default_timeout_ms impl) w of
       None \<Rightarrow> None
     | Some (rc, out, err, w1) \<Rightarrow>
         if rc \<noteq> 0 then Some (rc, w1)
         else case now_ns os w1 of
           (t, w2) \<Rightarrow>
             (case mkga_containerd_write_state os impl cid (running_state t) w2 of
                (rc, w3) \<Rightarrow> if rc \<noteq> 0 then Some (rc, w3) else mkga_containerd_spawn_exit_watcher os impl cid w3))"

text \<open>How the runtime waits for the end of a container.\<close>

definition wait_until ::
    "'d os \<Rightarrow> mkga_containerd_runtime \<Rightarrow> bytes \<Rightarrow> int \<Rightarrow> 'd world \<Rightarrow> (int \<times> i32 \<times> 'd world) option" where
  "wait_until os impl cid deadline_ms w =
    (if cd_start_via_run impl then mkga_containerd_poll_for_exit_until os impl cid deadline_ms w
     else mkga_containerd_wait_for_exit_until os impl cid deadline_ms w)"

definition finish_stop ::
    "'d os \<Rightarrow> mkga_containerd_runtime \<Rightarrow> bytes \<Rightarrow> i32 \<Rightarrow> mkga_stop_container_resp \<Rightarrow> 'd world \<Rightarrow> int \<times> mkga_stop_container_resp \<times> 'd world" where
  "finish_stop os impl cid exit_code resp w =
    (case mkga_containerd_read_state os impl cid w of
       (r, w1) \<Rightarrow>
         (case now_ns os w1 of
            (t, w2) \<Rightarrow>
              (0, resp\<lparr>sp_exit_code := exit_code\<rparr>, snd (mkga_containerd_write_state os impl cid (exited_state exit_code t r) w2))))"

definition mkga_containerd_stop_container ::
    "'d os \<Rightarrow> mkga_containerd_runtime \<Rightarrow> mkga_container_control_req \<Rightarrow> mkga_stop_container_resp \<Rightarrow> 'd world \<Rightarrow>
     (int \<times> mkga_stop_container_resp \<times> 'd world) option" where
  "mkga_containerd_stop_container os impl req resp w =
    (let cid = ct_container_id req;
         timeout_ms = mkga_containerd_effective_timeout impl (sint (ct_timeout_millis req)) (cd_default_timeout_ms impl) in
     if mkga_containerd_validate_control_req req \<noteq> 0 then Some (mkga_containerd_validate_control_req req, resp, w)
     else case now_ms os w of
       (now, w1) \<Rightarrow>
         let deadline_ms = now + timeout_ms in
         case (if MKGA_CONTAINERD_STOP_TERM_GRACE_MS < timeout_ms
               then (case now_ms os w1 of (now', w2) \<Rightarrow> (now' + MKGA_CONTAINERD_STOP_TERM_GRACE_MS, w2))
               else (deadline_ms, w1)) of
           (term_deadline_ms, w2) \<Rightarrow>
             (case mkga_containerd_signal_task os impl cid (cs ''SIGTERM'') w2 of
                None \<Rightarrow> None
              | Some (rc, w3) \<Rightarrow>
                  if rc = - ENOENT then Some (0, resp\<lparr>sp_exit_code := 0\<rparr>, w3)
                  else if rc \<noteq> 0 then Some (rc, resp, w3)
                  else case wait_until os impl cid term_deadline_ms w3 of
                    None \<Rightarrow> None
                  | Some (rc, exit_code, w4) \<Rightarrow>
                      if rc = 0 then Some (finish_stop os impl cid exit_code resp w4)
                      else if rc \<noteq> - ETIMEDOUT then Some (rc, resp, w4)
                      else case mkga_containerd_signal_task os impl cid (cs ''SIGKILL'') w4 of
                        None \<Rightarrow> None
                      | Some (rc, w5) \<Rightarrow>
                          if rc \<noteq> 0 \<and> rc \<noteq> - ENOENT then Some (rc, resp, w5)
                          else case wait_until os impl cid deadline_ms w5 of
                            None \<Rightarrow> None
                          | Some (rc, exit_code, w6) \<Rightarrow>
                              if rc \<noteq> 0 then Some (rc, resp, w6) else Some (finish_stop os impl cid exit_code resp w6)))"

definition mkga_containerd_remove_container ::
    "'d os \<Rightarrow> mkga_containerd_runtime \<Rightarrow> mkga_container_control_req \<Rightarrow> 'd world \<Rightarrow> (int \<times> 'd world) option" where
  "mkga_containerd_remove_container os impl req w =
    (let cid = ct_container_id req in
     if mkga_containerd_validate_control_req req \<noteq> 0 then Some (mkga_containerd_validate_control_req req, w)
     else case mkga_containerd_signal_task os impl cid (cs ''SIGKILL'') w of
       None \<Rightarrow> None
     | Some (rc, w1) \<Rightarrow>
         if rc \<noteq> 0 \<and> rc \<noteq> - ENOENT then Some (rc, w1)
         else case mkga_containerd_delete_task os impl cid w1 of
           None \<Rightarrow> None
         | Some (rc, w2) \<Rightarrow>
             if rc \<noteq> 0 then Some (rc, w2)
             else case mkga_containerd_delete_container os impl cid w2 of
               None \<Rightarrow> None
             | Some (rc, w3) \<Rightarrow>
                 if rc \<noteq> 0 then Some (rc, w3)
                 else Some (0, mkga_containerd_delete_log os impl cid
                                 (mkga_containerd_delete_state os impl cid (mkga_containerd_delete_metadata os impl cid w3))))"

text \<open>A state that was running and whose task is over.\<close>

definition task_over ::
    "'d os \<Rightarrow> mkga_containerd_runtime \<Rightarrow> bytes \<Rightarrow> mkga_containerd_state \<Rightarrow> 'd world \<Rightarrow> mkga_containerd_state \<times> 'd world" where
  "task_over os impl cid st w =
    (case (if ks_finished_at_unix_nano st = 0 then now_ns os w else (ks_finished_at_unix_nano st, w)) of
       (t, w1) \<Rightarrow>
         let st' = st\<lparr>ks_state := state_code MKGA_CONTAINER_STATE_EXITED, ks_pid := 0, ks_finished_at_unix_nano := t, ks_message := []\<rparr>
         in (st', snd (mkga_containerd_write_state os impl cid st' w1)))"

definition refresh_state ::
    "'d os \<Rightarrow> mkga_containerd_runtime \<Rightarrow> bytes \<Rightarrow> mkga_containerd_state \<Rightarrow> 'd world \<Rightarrow> (mkga_containerd_state \<times> 'd world) option" where
  "refresh_state os impl cid st w =
    (if ks_state st \<noteq> state_code MKGA_CONTAINER_STATE_RUNNING then Some (st, w)
     else case mkga_containerd_query_task_status os impl cid w of
       None \<Rightarrow> None
     | Some (rc, task_status, pid, w1) \<Rightarrow>
         if rc \<noteq> 0 then Some (st, w1)
         else if task_status = MKGA_CONTAINERD_TASK_STATUS_STOPPED then Some (task_over os impl cid st w1)
         else if task_status = MKGA_CONTAINERD_TASK_STATUS_MISSING \<and> \<not> cd_start_via_run impl then Some (task_over os impl cid st w1)
         else if task_status = MKGA_CONTAINERD_TASK_STATUS_RUNNING
         then (let st' = st\<lparr>ks_pid := pid\<rparr> in Some (st', snd (mkga_containerd_write_state os impl cid st' w1)))
         else Some (st, w1))"

definition mkga_containerd_status_container ::
    "'d os \<Rightarrow> mkga_containerd_runtime \<Rightarrow> mkga_container_control_req \<Rightarrow> mkga_container_status_resp \<Rightarrow> 'd world \<Rightarrow>
     (int \<times> mkga_container_status_resp \<times> 'd world) option" where
  "mkga_containerd_status_container os impl req resp w =
    (let cid = ct_container_id req in
     if mkga_containerd_validate_control_req req \<noteq> 0 then Some (mkga_containerd_validate_control_req req, resp, w)
     else case mkga_containerd_read_state os impl cid w of
       (Inl rc, w1) \<Rightarrow> Some (rc, resp, w1)
     | (Inr st, w1) \<Rightarrow>
         map_option (\<lambda>(st', w2).
             (0, \<lparr>st_state = ks_state st', st_exit_code = ks_exit_code st', st_pid = ks_pid st',
                  st_started_at_unix_nano = ks_started_at_unix_nano st', st_finished_at_unix_nano = ks_finished_at_unix_nano st',
                  st_message = copied MKGA_MAX_MESSAGE_LEN (ks_message st')\<rparr>, w2))
           (refresh_state os impl cid st w1))"

section \<open>Logs\<close>

text \<open>
  The part of the file that is read: nothing when the offset is at the end. \<^verbatim>\<open>pread\<close> may give less than
  it is asked for. The offset is below \<open>2^63\<close> whenever something is read, since it is smaller than the size.
\<close>

definition log_chunk :: "mkga_read_log_req \<Rightarrow> nat \<Rightarrow> nat \<times> nat" where
  "log_chunk req file_size =
    (let offset = (if file_size < unat (rl_offset req) then file_size else unat (rl_offset req));
         max0 = (if 0 < rl_max_bytes req then unat (rl_max_bytes req) else MKGA_MAX_LOG_CHUNK);
         max_bytes = (if MKGA_MAX_LOG_CHUNK < max0 then MKGA_MAX_LOG_CHUNK else max0);
         to_read = (if offset < file_size then (if max_bytes < file_size - offset then max_bytes else file_size - offset) else 0)
     in (offset, to_read))"

definition mkga_containerd_read_log ::
    "'d os \<Rightarrow> mkga_containerd_runtime \<Rightarrow> mkga_read_log_req \<Rightarrow> mkga_read_log_resp \<Rightarrow> 'd world \<Rightarrow> int \<times> mkga_read_log_resp \<times> 'd world" where
  "mkga_containerd_read_log os impl req resp w =
    (let cid = rl_container_id req; resp0 = zero_read_log_resp\<lparr>rr_next_offset := rl_offset req\<rparr> in
     if mkga_containerd_validate_read_log_req req \<noteq> 0 then (mkga_containerd_validate_read_log_req req, resp, w)
     else case mkga_containerd_read_state os impl cid w of
       (Inl rc, w1) \<Rightarrow> (rc, resp0, w1)
     | (Inr st, w1) \<Rightarrow>
         (case mkga_containerd_log_path os impl cid w1 of
            (Inl rc, w2) \<Rightarrow> (rc, resp0, w2)
          | (Inr log_path, w2) \<Rightarrow>
              (case open_read os log_path w2 of
                 (Inl e, w3) \<Rightarrow>
                   if e = ENOENT then (0, resp0\<lparr>rr_eof := (ks_state st = state_code MKGA_CONTAINER_STATE_EXITED)\<rparr>, w3)
                   else (- e, resp0, w3)
               | (Inr s, w3) \<Rightarrow>
                   (case sys_call os w3 of
                      (e, w4) \<Rightarrow>
                        if e \<noteq> 0 then (- e, resp0, snd (sys_call os w4))
                        else
                          (case log_chunk req (length s) of
                             (offset, to_read) \<Rightarrow>
                               let resp1 = resp0\<lparr>rr_next_offset := of_nat offset\<rparr> in
                               if 0 < to_read
                               then (case sys_call os w4 of
                                       (e, w5) \<Rightarrow>
                                         if e \<noteq> 0 then (- e, resp1, snd (sys_call os w5))
                                         else
                                           let data = take (min (os_amount os (w_calls w4)) to_read) (drop offset s);
                                               resp2 = resp1\<lparr>rr_data := data @ drop (length data) (rr_data resp1), rr_data_len := of_nat (length data),
                                                             rr_next_offset := of_nat (offset + length data)\<rparr>
                                           in case sys_call os w5 of
                                                (e, w6) \<Rightarrow>
                                                  if e \<noteq> 0 then (- e, resp2, w6)
                                                  else (0, resp2\<lparr>rr_eof := (length s \<le> offset + length data \<and>
                                                             ks_state st = state_code MKGA_CONTAINER_STATE_EXITED)\<rparr>, w6))
                               else (case sys_call os w4 of
                                       (e, w5) \<Rightarrow>
                                         if e \<noteq> 0 then (- e, resp1, w5)
                                         else (0, resp1\<lparr>rr_eof := (length s \<le> offset \<and>
                                                    ks_state st = state_code MKGA_CONTAINER_STATE_EXITED)\<rparr>, w5)))))))"

section \<open>Creation\<close>

definition mkga_getenv_bool :: "environment \<Rightarrow> bytes \<Rightarrow> bool \<Rightarrow> bool" where
  "mkga_getenv_bool env key fallback =
    (case env key of
       None \<Rightarrow> fallback
     | Some v \<Rightarrow>
         if v = [] then fallback
         else if v \<in> {cs ''1'', cs ''true'', cs ''yes'', cs ''on''} then True
         else if v \<in> {cs ''0'', cs ''false'', cs ''no'', cs ''off''} then False
         else fallback)"

definition containerd_impl :: "environment \<Rightarrow> bytes option \<Rightarrow> mkga_containerd_runtime" where
  "containerd_impl env socket_path =
    (let get = (\<lambda>key dflt. case env (cs key) of None \<Rightarrow> cs dflt | Some v \<Rightarrow> v);
         no_pivot = mkga_getenv_bool env (cs ''MK_GUEST_AGENT_CONTAINERD_NO_PIVOT'') False in
     \<lparr>cd_socket_path = copied MKGA_MAX_LOG_PATH_LEN (case socket_path of None \<Rightarrow> cs ''/run/containerd/containerd.sock'' | Some s \<Rightarrow> s),
      cd_ctr_path = copied MKGA_MAX_LOG_PATH_LEN (get ''MK_GUEST_AGENT_CTR_PATH'' ''ctr''),
      cd_runc_binary = copied MKGA_MAX_LOG_PATH_LEN (get ''MK_GUEST_AGENT_RUNC_BINARY'' ''/bin/runc''),
      cd_state_root = copied MKGA_MAX_LOG_PATH_LEN (get ''MK_GUEST_AGENT_CONTAINERD_STATE_ROOT'' ''/run/mk-guest-agent/containerd''),
      cd_namespace_name = copied MKGA_MAX_NAME_LEN (get ''MK_GUEST_AGENT_CONTAINERD_NAMESPACE'' ''mk''),
      cd_default_timeout_ms = mkga_getenv_int env (cs ''MK_GUEST_AGENT_CONTAINERD_TIMEOUT_MS'') MKGA_CONTAINERD_DEFAULT_TIMEOUT_MS,
      cd_no_pivot = no_pivot,
      cd_start_via_run = mkga_getenv_bool env (cs ''MK_GUEST_AGENT_CONTAINERD_START_VIA_RUN'') no_pivot,
      cd_null_io = mkga_getenv_bool env (cs ''MK_GUEST_AGENT_CONTAINERD_NULL_IO'') False,
      cd_pending_env = []\<rparr>)"

text \<open>The private state, or the error number; the flags are the two allocations.\<close>

definition mkga_containerd_runtime_create ::
    "'d os \<Rightarrow> bool \<Rightarrow> bool \<Rightarrow> bytes option \<Rightarrow> 'd world \<Rightarrow> ((int + mkga_containerd_runtime) \<times> resource set \<times> 'd world) option" where
  "mkga_containerd_runtime_create os runtime_ok impl_ok socket_path w =
    (let held = got runtime_ok RHandle \<union> got impl_ok RImpl in
     if \<not> runtime_ok \<or> \<not> impl_ok then Some (Inl ENOMEM, held - {RHandle} - {RImpl}, w)
     else
       let impl = containerd_impl (os_getenv os) socket_path in
       case mkga_containerd_wait_ready os impl (cd_default_timeout_ms impl) w of
         None \<Rightarrow> None
       | Some (rc, w1) \<Rightarrow>
           if rc \<noteq> 0 then Some (Inl (if rc < 0 then - rc else EIO), held - {RHandle} - {RImpl}, w1)
           else Some (Inr impl, held, w1))"

definition mkga_containerd_destroy :: "'r option \<Rightarrow> resource set \<Rightarrow> resource set" where
  "mkga_containerd_destroy runtime held = (case runtime of None \<Rightarrow> held | Some _ \<Rightarrow> held - {RImpl} - {RHandle})"

end
