(* ===== verification/CtrEnv.thy ===== *)
theory CtrEnv
  imports Containerd
begin

text \<open>
  The environment variables the host configures for a container before it creates it: what
  \<^verbatim>\<open>mkga_containerd_configure_env\<close> collects and \<^verbatim>\<open>mkga_containerd_apply_pending_env\<close> hands over.
\<close>

section \<open>The pending variables as a map\<close>

type_synonym variable = "bytes \<times> bytes \<times> bytes"

definition var_of :: "mkga_configure_env_req \<Rightarrow> variable" where
  "var_of e = (ev_pod_id e, ev_name e, ev_key e)"

definition env_req_ok :: "mkga_configure_env_req \<Rightarrow> bool" where
  "env_req_ok e \<longleftrightarrow> ev_pod_id e \<noteq> [] \<and> ev_name e \<noteq> [] \<and> ev_key e \<noteq> [] \<and>
    length (ev_kernel_id e) < 64 \<and> length (ev_pod_id e) < 64 \<and> length (ev_name e) < 64 \<and> length (ev_key e) < 64 \<and> length (ev_value e) < 256"

definition env_inv :: "mkga_containerd_runtime \<Rightarrow> bool" where
  "env_inv impl \<longleftrightarrow> distinct (map var_of (cd_pending_env impl)) \<and> length (cd_pending_env impl) \<le> 128 \<and>
    (\<forall>e\<in>set (cd_pending_env impl). env_req_ok e)"

definition pending_map :: "mkga_containerd_runtime \<Rightarrow> variable \<Rightarrow> bytes option" where
  "pending_map impl = map_of (map (\<lambda>e. (var_of e, ev_value e)) (cd_pending_env impl))"

lemma copied_env_req_ok: "env_req_ok e \<Longrightarrow> copied_env_req e = e"
  by (cases e) (simp add: env_req_ok_def copied_env_req_def)

lemma same_variable_var: "same_variable a b \<longleftrightarrow> var_of a = var_of b"
  by (simp add: same_variable_def var_of_def)

lemma map_of_update_nth:
  assumes "distinct (map fst xs)" "i < length xs" "fst (xs ! i) = fst y"
  shows "map_of (xs[i := y]) = (map_of xs)(fst y \<mapsto> snd y)"
proof (rule ext)
  fix k
  have "map fst (xs[i := y]) = map fst xs" using assms(2,3) by (intro nth_equalityI) (auto simp: nth_list_update)
  then have d: "distinct (map fst (xs[i := y]))" using assms(1) by simp
  show "map_of (xs[i := y]) k = ((map_of xs)(fst y \<mapsto> snd y)) k"
  proof (cases "k = fst y")
    case True
    have "y \<in> set (xs[i := y])" using assms(2) by (simp add: set_update_memI)
    then show ?thesis using map_of_eq_Some_iff [OF d, of "fst y" "snd y"] True by simp
  next
    case False
    have "(k, v) \<in> set (xs[i := y]) \<longleftrightarrow> (k, v) \<in> set xs" for v
      using False assms(2,3) by (auto simp: in_set_conv_nth nth_list_update) (metis fst_conv nth_list_update_neq)+
    then have "map_of (xs[i := y]) k = Some v \<longleftrightarrow> map_of xs k = Some v" for v
      using map_of_eq_Some_iff [OF d, of k] map_of_eq_Some_iff [OF assms(1), of k] by blast
    then have "map_of (xs[i := y]) k = map_of xs k" by (metis option.exhaust)
    then show ?thesis using False by simp
  qed
qed

text \<open>
  Configuring a variable is an update of a map. The pending variables never hold the same
  variable of the same container twice; a request sets the value of its variable and leaves all
  others as they are, and it is refused for want of space only when 128 other variables are pending.
\<close>

theorem configure_env_updates:
  assumes "env_inv impl" "env_req_ok req"
  shows "env_inv (snd (mkga_containerd_configure_env impl req)) \<and>
    (if var_of req \<notin> dom (pending_map impl) \<and> length (cd_pending_env impl) = 128
     then mkga_containerd_configure_env impl req = (- ENOSPC, impl)
     else fst (mkga_containerd_configure_env impl req) = 0 \<and>
       pending_map (snd (mkga_containerd_configure_env impl req)) = (pending_map impl)(var_of req \<mapsto> ev_value req))"
proof -
  let ?p = "cd_pending_env impl"
  note c = copied_env_req_ok [OF assms(2)]
  have r: "ev_pod_id req \<noteq> []" "ev_name req \<noteq> []" "ev_key req \<noteq> []" using assms(2) by (simp_all add: env_req_ok_def)
  have d: "dom (pending_map impl) = var_of ` set ?p" by (simp add: pending_map_def dom_map_of_conv_image_fst image_image)
  have dom: "var_of req \<in> dom (pending_map impl) \<longleftrightarrow> (\<exists>i<length ?p. same_variable (?p ! i) req)"
    unfolding d same_variable_var image_iff by (metis in_set_conv_nth)
  show ?thesis
  proof (cases "find (\<lambda>i. same_variable (?p ! i) req) [0..<length ?p]")
    case (Some i)
    then have i: "i < length ?p" "var_of (?p ! i) = var_of req" using Some by (simp_all add: find_upt_Some same_variable_var)
    have e: "mkga_containerd_configure_env impl req = (0, impl\<lparr>cd_pending_env := ?p[i := req]\<rparr>)"
      using Some r c by (simp add: mkga_containerd_configure_env_def)
    have "map var_of (?p[i := req]) = map var_of ?p" using i by (intro nth_equalityI) (auto simp: nth_list_update)
    then have "env_inv (impl\<lparr>cd_pending_env := ?p[i := req]\<rparr>)"
      using assms by (auto simp: env_inv_def dest: set_update_subset_insert [THEN subsetD])
    moreover have "pending_map (impl\<lparr>cd_pending_env := ?p[i := req]\<rparr>) = (pending_map impl)(var_of req \<mapsto> ev_value req)"
      using map_of_update_nth [of "map (\<lambda>e. (var_of e, ev_value e)) ?p" i "(var_of req, ev_value req)"] assms(1) i
      by (simp add: pending_map_def env_inv_def map_update comp_def)
    ultimately show ?thesis using e dom Some i by (auto simp: same_variable_var)
  next
    case None
    then have n: "\<forall>i<length ?p. \<not> same_variable (?p ! i) req" by (simp add: find_upt_None)
    show ?thesis
    proof (cases "length ?p = 128")
      case True
      then show ?thesis using None n dom r assms(1) by (auto simp: mkga_containerd_configure_env_def)
    next
      case False
      then have l: "length ?p < 128" using assms(1) by (simp add: env_inv_def)
      have e: "mkga_containerd_configure_env impl req = (0, impl\<lparr>cd_pending_env := ?p @ [req]\<rparr>)"
        using None r c l by (simp add: mkga_containerd_configure_env_def)
      have v: "var_of req \<notin> var_of ` set ?p" using n dom d by auto
      then have "pending_map (impl\<lparr>cd_pending_env := ?p @ [req]\<rparr>) = (pending_map impl)(var_of req \<mapsto> ev_value req)"
        using d by (auto simp: pending_map_def map_add_def fun_eq_iff split: option.splits)
      then show ?thesis using e l assms False v by (auto simp: env_inv_def)
    qed
  qed
qed

definition sample_env :: mkga_configure_env_req where
  "sample_env = \<lparr>ev_kernel_id = cs ''k1'', ev_pod_id = cs ''p1'', ev_name = cs ''web'', ev_key = cs ''PORT'', ev_value = cs ''80''\<rparr>"

lemma sample_env_ok: "env_req_ok sample_env" "env_inv box"
  by (simp_all add: env_req_ok_def sample_env_def env_inv_def box_def cs_def)

theorem configure_env_updates_witness:
  "fst (mkga_containerd_configure_env box sample_env) = 0 \<and>
   pending_map (snd (mkga_containerd_configure_env box sample_env)) (cs ''p1'', cs ''web'', cs ''PORT'') = Some (cs ''80'')"
  using configure_env_updates [OF sample_env_ok(2,1)] by (simp add: box_def var_of_def sample_env_def)

section \<open>Handing over\<close>

definition for_container :: "mkga_create_container_req \<Rightarrow> mkga_configure_env_req \<Rightarrow> bool" where
  "for_container req e \<longleftrightarrow> ev_pod_id e = cc_pod_id req \<and> ev_name e = cc_name req"

definition env_entry :: "mkga_configure_env_req \<Rightarrow> mkga_containerd_env" where
  "env_entry e = \<lparr>ke_key = ev_key e, ke_value = ev_value e, ke_entry = ev_key e @ cs ''='' @ ev_value e\<rparr>"

lemma set_env_entry_pending: "env_req_ok e \<Longrightarrow> mkga_containerd_set_env_entry (ev_key e) (ev_value e) = Inr (env_entry e)"
  by (simp add: mkga_containerd_set_env_entry_def env_req_ok_def env_entry_def cs_def)

text \<open>The array while the loop is at position \<open>i\<close>: kept variables first, the unread ones in their places.\<close>

lemma apply_env_loop_works:
  assumes "\<forall>e\<in>set p. env_req_ok e" "length p \<le> 128" "i \<le> length p" "length (km_env meta) \<le> i"
    and "length a = length p" "drop i a = drop i p"
    and "take (length (filter (\<lambda>e. \<not> for_container req e) (take i p))) a = filter (\<lambda>e. \<not> for_container req e) (take i p)"
  shows "apply_env_loop req [i..<length p] (length (filter (\<lambda>e. \<not> for_container req e) (take i p))) a meta =
    (0, filter (\<lambda>e. \<not> for_container req e) p, meta\<lparr>km_env := km_env meta @ map env_entry (filter (for_container req) (drop i p))\<rparr>)"
  using assms(3-)
proof (induction "length p - i" arbitrary: i a meta)
  case 0
  then show ?case by simp
next
  case (Suc n)
  let ?keep = "\<lambda>e. \<not> for_container req e"
  let ?w = "length (filter ?keep (take i p))"
  have i: "i < length p" using Suc by simp
  have u: "[i..<length p] = i # [Suc i..<length p]" using i by (simp add: upt_conv_Cons)
  have t: "take (Suc i) p = take i p @ [p ! i]" "drop i p = p ! i # drop (Suc i) p"
    using i by (simp_all add: take_Suc_conv_app_nth Cons_nth_drop_Suc)
  have e: "a ! i = p ! i" using Suc.prems(3,4) i by (metis nth_via_drop t(2))
  have d: "drop (Suc i) a = drop (Suc i) p" using Suc.prems(4) by (metis drop_Suc tl_drop)
  have w: "?w \<le> i" using length_filter_le [of ?keep "take i p"] i by simp
  show ?case
  proof (cases "for_container req (p ! i)")
    case True
    have "env_req_ok (p ! i)" using assms(1) i by simp
    then have "apply_env_loop req [i..<length p] ?w a meta =
        apply_env_loop req [Suc i..<length p] ?w a (meta\<lparr>km_env := km_env meta @ [env_entry (p ! i)]\<rparr>)"
      using True Suc.prems(2) i assms(2) by (simp add: u Let_def e set_env_entry_pending for_container_def)
    then show ?thesis
      using Suc.hyps(1) [of "Suc i" "meta\<lparr>km_env := km_env meta @ [env_entry (p ! i)]\<rparr>" a] Suc.hyps(2) Suc.prems i d True
      by (simp add: t)
  next
    case False
    define a' where "a' = (if ?w \<noteq> i then a[?w := p ! i] else a)"
    have "apply_env_loop req [i..<length p] ?w a meta = apply_env_loop req [Suc i..<length p] (Suc ?w) a' meta"
      using False by (simp add: u Let_def e for_container_def a'_def)
    moreover have "drop (Suc i) a' = drop (Suc i) p" using d w by (simp add: a'_def)
    moreover have "take (Suc ?w) a' = filter ?keep (take i p) @ [p ! i]"
      using w i Suc.prems(3,5) e by (auto simp: a'_def take_Suc_conv_app_nth)
    ultimately show ?thesis
      using Suc.hyps(1) [of "Suc i" meta a'] Suc.hyps(2) Suc.prems i False by (simp add: t a'_def)
  qed
qed

lemma handed_over_map:
  "map_of (map (\<lambda>v. (ke_key v, ke_value v)) (map env_entry (filter (for_container req) p))) key =
   map_of (map (\<lambda>e. (var_of e, ev_value e)) p) (cc_pod_id req, cc_name req, key)"
  by (induction p) (auto simp: for_container_def env_entry_def var_of_def)

lemma kept_map:
  "map_of (map (\<lambda>e. (var_of e, ev_value e)) (filter (\<lambda>e. \<not> for_container req e) p)) (pod, name, key) =
   (if pod = cc_pod_id req \<and> name = cc_name req then None else map_of (map (\<lambda>e. (var_of e, ev_value e)) p) (pod, name, key))"
  by (induction p) (auto simp: for_container_def var_of_def)

lemma apply_env_result:
  assumes "env_inv impl" "km_env meta = []"
  shows "mkga_containerd_apply_pending_env impl req meta =
    (0, impl\<lparr>cd_pending_env := filter (\<lambda>e. \<not> for_container req e) (cd_pending_env impl)\<rparr>,
     meta\<lparr>km_env := map env_entry (filter (for_container req) (cd_pending_env impl))\<rparr>)"
  using apply_env_loop_works [of "cd_pending_env impl" 0 meta "cd_pending_env impl" req] assms
  by (simp add: mkga_containerd_apply_pending_env_def env_inv_def)

lemma env_inv_filter: "env_inv impl \<Longrightarrow> env_inv (impl\<lparr>cd_pending_env := filter P (cd_pending_env impl)\<rparr>)"
  using order_trans [OF length_filter_le [of P "cd_pending_env impl"], of 128] by (auto simp: env_inv_def distinct_map_filter)

text \<open>
  The variables configured for a container are the ones it is created with. Handing them over
  never fails: exactly the pending variables of that pod and name become the environment of the
  container, each with its last value, and exactly the variables of other containers stay pending.
\<close>

theorem apply_env_hands_over:
  assumes "env_inv impl" "km_env meta = []"
  shows "\<exists>impl' meta'. mkga_containerd_apply_pending_env impl req meta = (0, impl', meta') \<and> env_inv impl' \<and>
    meta' = meta\<lparr>km_env := map env_entry (filter (for_container req) (cd_pending_env impl))\<rparr> \<and>
    (\<forall>key. map_of (map (\<lambda>v. (ke_key v, ke_value v)) (km_env meta')) key = pending_map impl (cc_pod_id req, cc_name req, key)) \<and>
    (\<forall>pod name key. pending_map impl' (pod, name, key) =
      (if pod = cc_pod_id req \<and> name = cc_name req then None else pending_map impl (pod, name, key)))"
proof -
  show ?thesis
    unfolding apply_env_result [OF assms] using env_inv_filter [OF assms(1)] handed_over_map [of req "cd_pending_env impl"]
      kept_map [of req "cd_pending_env impl"] by (simp add: pending_map_def)
qed

definition web_req :: mkga_create_container_req where
  "web_req = zero_create_req\<lparr>cc_kernel_id := cs ''k1'', cc_pod_id := cs ''p1'', cc_name := cs ''web'', cc_image := cs ''busybox''\<rparr>"

theorem apply_env_hands_over_witness:
  "\<exists>impl' meta'. mkga_containerd_apply_pending_env (box\<lparr>cd_pending_env := [sample_env]\<rparr>) web_req \<lparr>km_image = [], km_argv = [], km_env = []\<rparr> = (0, impl', meta') \<and>
    km_env meta' = [\<lparr>ke_key = cs ''PORT'', ke_value = cs ''80'', ke_entry = cs ''PORT=80''\<rparr>]"
proof -
  have "env_inv (box\<lparr>cd_pending_env := [sample_env]\<rparr>)" using sample_env_ok(1) by (simp add: env_inv_def)
  from apply_env_hands_over [OF this, of "\<lparr>km_image = [], km_argv = [], km_env = []\<rparr>" web_req] show ?thesis
    by (auto simp: for_container_def sample_env_def web_req_def env_entry_def cs_def)
qed

end
