(* ===== verification/CtrIsolation.thy ===== *)
theory CtrIsolation
  imports CtrEnv
begin

text \<open>
  What the operations of the containerd runtime and its background processes do to the files of the
  state directory, whatever the system calls and the daemon do: an operation for one container
  leaves the files of all others alone.
\<close>

named_theorems frame \<open>files that a function leaves as they are\<close>

section \<open>Files\<close>

definition touches :: "bytes set \<Rightarrow> 'd world \<Rightarrow> 'd world \<Rightarrow> bool" where
  "touches S w w' \<longleftrightarrow> (\<forall>p. p \<notin> S \<longrightarrow> w_files w' p = w_files w p)"

definition own :: "mkga_containerd_runtime \<Rightarrow> bytes \<Rightarrow> bytes set" where
  "own impl cid = {meta_of impl cid, state_of impl cid, log_of impl cid}"

lemma own_mem [simp]: "meta_of impl cid \<in> own impl cid" "state_of impl cid \<in> own impl cid" "log_of impl cid \<in> own impl cid"
  by (simp_all add: own_def)

lemma own_disjoint: "a \<noteq> b \<Longrightarrow> own impl a \<inter> own impl b = {}"
  by (auto simp: own_def)

lemma touches_refl [simp]: "touches S w w"
  by (simp add: touches_def)

lemma touches_trans: "touches S w w' \<Longrightarrow> touches S w' w'' \<Longrightarrow> touches S w w''"
  by (simp add: touches_def)

lemma touches_same: "w_files w' = w_files w \<Longrightarrow> touches S w w'"
  by (simp add: touches_def)

lemma touches_mono: "touches S w w' \<Longrightarrow> S \<subseteq> T \<Longrightarrow> touches T w w'"
  by (auto simp: touches_def)

lemma touches_set_file: "p \<in> S \<Longrightarrow> touches S w (set_file p c w)"
  by (auto simp: touches_def)

lemma sys_call_files [frame]: "sys_call os w = (e, w') \<Longrightarrow> w_files w' = w_files w"
  by (auto simp: sys_call_def)

lemma now_files [frame]: "now_ms os w = (t, w') \<Longrightarrow> w_files w' = w_files w" "now_ns os w = (t', w') \<Longrightarrow> w_files w' = w_files w"
  by (auto simp: now_ms_def now_ns_def)

lemma snd_sys_call_files [simp]: "w_files (snd (sys_call os w)) = w_files w"
  by (simp add: sys_call_def)

lemma mkdir_all_files [frame]: "mkdir_all os ps w = (rc, w') \<Longrightarrow> w_files w' = w_files w"
proof (induction ps arbitrary: w)
  case (Cons p ps)
  then show ?case by (auto simp: sys_call_def split: if_splits dest!: Cons.IH)
qed simp

lemma container_path_files:
  "container_path suffix os impl cid w = (r, w') \<Longrightarrow> w_files w' = w_files w \<and> (\<forall>p. r = Inr p \<longrightarrow> p = path_of suffix impl cid)"
  by (auto simp: container_path_def mkga_containerd_ensure_state_root_def path_of_def Let_def split: prod.splits if_splits dest: frame)

lemma path_files [frame]:
  "mkga_containerd_metadata_path os impl cid w = (r, w') \<Longrightarrow> w_files w' = w_files w"
  "mkga_containerd_state_path os impl cid w = (r, w') \<Longrightarrow> w_files w' = w_files w"
  "mkga_containerd_log_path os impl cid w = (r, w') \<Longrightarrow> w_files w' = w_files w"
  by (auto simp: mkga_containerd_metadata_path_def mkga_containerd_state_path_def mkga_containerd_log_path_def dest: container_path_files)

lemma path_is:
  "mkga_containerd_metadata_path os impl cid w = (Inr p, w') \<Longrightarrow> p = meta_of impl cid"
  "mkga_containerd_state_path os impl cid w = (Inr p, w') \<Longrightarrow> p = state_of impl cid"
  "mkga_containerd_log_path os impl cid w = (Inr p, w') \<Longrightarrow> p = log_of impl cid"
  by (auto simp: mkga_containerd_metadata_path_def mkga_containerd_state_path_def mkga_containerd_log_path_def dest: container_path_files)

lemma fprintf_all_touches: "fprintf_all os path acc ts w = (rc, w') \<Longrightarrow> touches {path} w w'"
proof (induction ts arbitrary: acc w)
  case (Cons t ts)
  then show ?case by (fastforce simp: touches_def sys_call_def split: if_splits)
qed (auto simp: touches_def)

lemma write_metadata_touches:
  assumes "mkga_containerd_write_metadata os impl cid m w = (rc, w')"
  shows "touches (own impl cid) w w'"
proof -
  obtain r w1 where p: "mkga_containerd_metadata_path os impl cid w = (r, w1)" by fastforce
  obtain e2 w2 where 2: "sys_call os w1 = (e2, w2)" by fastforce
  obtain rc3 w3 where 3: "fprintf_all os (meta_of impl cid) [] (metadata_texts m) w2 = (rc3, w3)" by fastforce
  obtain e4 w4 where 4: "sys_call os w3 = (e4, w4)" by fastforce
  have "w_files w1 = w_files w" "w_files w2 = w_files w1" "w_files w4 = w_files w3"
    using path_files(1) [OF p] sys_call_files [OF 2] sys_call_files [OF 4] by simp_all
  moreover have "touches (own impl cid) w2 w3" using touches_mono [OF fprintf_all_touches [OF 3]] by simp
  moreover have "r = Inr p' \<Longrightarrow> p' = meta_of impl cid" for p' using p path_is(1) by blast
  ultimately show ?thesis
    using assms p 2 3 4 by (cases r) (auto simp: mkga_containerd_write_metadata_def touches_def split: if_splits)
qed

lemma write_state_touches:
  assumes "mkga_containerd_write_state os impl cid st w = (rc, w')"
  shows "touches (own impl cid) w w'"
proof -
  obtain r w1 where p: "mkga_containerd_state_path os impl cid w = (r, w1)" by fastforce
  have "r = Inr p' \<Longrightarrow> p' = state_of impl cid" for p' using p path_is(2) by blast
  moreover have "state_of impl cid \<in> own impl cid" by simp
  ultimately show ?thesis
    using assms p path_files(2) [OF p]
    by (cases r) (auto simp: mkga_containerd_write_state_def touches_def sys_call_def Let_def split: if_splits)
qed

lemma open_read_files [frame]: "open_read os p w = (r, w') \<Longrightarrow> w_files w' = w_files w"
  by (auto simp: open_read_def sys_call_def)

lemma fgets_files [frame]: "fgets os n s w = (r, w') \<Longrightarrow> w_files w' = w_files w"
  by (auto simp: fgets_def sys_call_def)

lemma read_args_files [frame]: "read_args os i s w = (r, w') \<Longrightarrow> w_files w' = w_files w"
proof (induction i arbitrary: s w r w')
  case (Suc i)
  then show ?case by (auto split: prod.splits sum.splits dest!: Suc.IH fgets_files)
qed simp

lemma read_envs_files [frame]: "read_envs os i s w = (r, w') \<Longrightarrow> w_files w' = w_files w"
proof (induction i arbitrary: s w r w')
  case (Suc i)
  then show ?case by (auto split: prod.splits sum.splits dest!: Suc.IH fgets_files)
qed simp

lemma parse_metadata_files [frame]: "parse_metadata os s w = (r, w') \<Longrightarrow> w_files w' = w_files w"
  by (auto simp: parse_metadata_def Let_def split: prod.splits sum.splits if_splits dest!: frame)

lemma read_files [frame]:
  "mkga_containerd_read_metadata os impl cid w = (r, w') \<Longrightarrow> w_files w' = w_files w"
  "mkga_containerd_read_state os impl cid w = (r', w') \<Longrightarrow> w_files w' = w_files w"
  by (auto simp: mkga_containerd_read_metadata_def mkga_containerd_read_state_def Let_def split: prod.splits sum.splits if_splits dest!: frame)

lemma unlink_touches: "p \<in> S \<Longrightarrow> touches S w (unlink os p w)"
  by (auto simp: unlink_def sys_call_def touches_def)

lemma delete_touches:
  "touches (own impl cid) w (mkga_containerd_delete_metadata os impl cid w)"
  "touches (own impl cid) w (mkga_containerd_delete_state os impl cid w)"
  "touches (own impl cid) w (mkga_containerd_delete_log os impl cid w)"
proof -
  have "touches (own impl cid) w (delete_file (r, w1) os)" if "w_files w1 = w_files w" "\<And>p. r = Inr p \<Longrightarrow> p \<in> own impl cid" for r w1
    using touches_trans [OF touches_same [OF that(1)] unlink_touches] that by (cases r) (auto simp: delete_file_def touches_same)
  then show "touches (own impl cid) w (mkga_containerd_delete_metadata os impl cid w)"
    "touches (own impl cid) w (mkga_containerd_delete_state os impl cid w)"
    "touches (own impl cid) w (mkga_containerd_delete_log os impl cid w)"
    unfolding mkga_containerd_delete_metadata_def mkga_containerd_delete_state_def mkga_containerd_delete_log_def
    using path_files path_is own_mem by (metis surj_pair)+
qed

section \<open>Commands\<close>

lemma ctr_files [frame]: "ctr os argv t w = Some (rc, out, err, w') \<Longrightarrow> w_files w' = w_files w"
  by (auto simp: ctr_def split: prod.splits)

lemma query_files [frame]: "mkga_containerd_query_task_status os impl cid w = Some (rc, st, pid, w') \<Longrightarrow> w_files w' = w_files w"
  by (auto simp: mkga_containerd_query_task_status_def case_prod_beta split: if_splits dest!: ctr_files)

lemma command_files [frame]:
  "mkga_containerd_signal_task os impl cid sig w = Some (rc, w') \<Longrightarrow> w_files w' = w_files w"
  "mkga_containerd_delete_task os impl cid w = Some (rc, w') \<Longrightarrow> w_files w' = w_files w"
  "mkga_containerd_delete_container os impl cid w = Some (rc, w') \<Longrightarrow> w_files w' = w_files w"
  by (auto simp: mkga_containerd_signal_task_def mkga_containerd_delete_task_def mkga_containerd_delete_container_def dest: ctr_files)

lemma image_files [frame]: "mkga_containerd_ensure_image os impl img w = Some (rc, w') \<Longrightarrow> w_files w' = w_files w"
  by (auto simp: mkga_containerd_ensure_image_def mkga_containerd_image_present_def mkga_containerd_pull_image_def
      split: option.splits if_splits dest!: ctr_files)

lemma poll_files [frame]:
  assumes "mkga_containerd_poll_for_exit_until os impl cid dl w = Some (rc, ec, w')"
  shows "w_files w' = w_files w"
proof -
  have "w_files (snd (snd (rc, ec, w'))) = w_files w"
  proof (rule mkga_containerd_poll_for_exit_until.raw_induct [where P = "\<lambda>_ _ _ _ w y. w_files (snd (snd y)) = w_files w", OF _ assms])
    fix f :: "'a os \<Rightarrow> mkga_containerd_runtime \<Rightarrow> bytes \<Rightarrow> int \<Rightarrow> 'a world \<Rightarrow> (int \<times> i32 \<times> 'a world) option" and os impl cid dl w y
    assume IH: "\<And>os impl cid dl w y. f os impl cid dl w = Some y \<Longrightarrow> w_files (snd (snd y)) = w_files w"
      and b: "(case mkga_containerd_query_task_status os impl cid w of None \<Rightarrow> None
       | Some (rc, st, pid, w1) \<Rightarrow>
           if rc \<noteq> 0 then Some (rc, 0, w1)
           else if st = MKGA_CONTAINERD_TASK_STATUS_STOPPED \<or> st = MKGA_CONTAINERD_TASK_STATUS_MISSING then Some (0, 0, w1)
           else if st = MKGA_CONTAINERD_TASK_STATUS_UNKNOWN then Some (- EIO, 0, w1)
           else case now_ms os w1 of (now, w2) \<Rightarrow> if dl \<le> now then Some (- ETIMEDOUT, 0, w2) else f os impl cid dl w2) = Some y"
    show "w_files (snd (snd y)) = w_files w"
      using b by (auto split: option.splits if_splits prod.splits dest!: IH query_files now_files)
  qed
  then show ?thesis by simp
qed

lemma wait_files [frame]:
  "mkga_containerd_wait_for_exit_until os impl cid dl w = Some (rc, ec, w') \<Longrightarrow> w_files w' = w_files w"
  "mkga_containerd_wait_for_exit os impl cid t w = Some (rc, ec, w') \<Longrightarrow> w_files w' = w_files w"
  "wait_until os impl cid dl w = Some (rc, ec, w') \<Longrightarrow> w_files w' = w_files w"
proof -
  have u: "w_files w' = w_files w" if "mkga_containerd_wait_for_exit_until os impl cid dl w = Some (rc, ec, w')" for w w' dl
    using that unfolding mkga_containerd_wait_for_exit_until_def Let_def
    by (auto split: option.splits if_splits prod.splits sum.splits dest!: ctr_files poll_files now_files)
  then show "mkga_containerd_wait_for_exit_until os impl cid dl w = Some (rc, ec, w') \<Longrightarrow> w_files w' = w_files w" .
  show "mkga_containerd_wait_for_exit os impl cid t w = Some (rc, ec, w') \<Longrightarrow> w_files w' = w_files w"
    unfolding mkga_containerd_wait_for_exit_def by (auto split: prod.splits dest!: u now_files)
  show "wait_until os impl cid dl w = Some (rc, ec, w') \<Longrightarrow> w_files w' = w_files w"
    unfolding wait_until_def by (auto split: if_splits dest!: u poll_files)
qed

lemma waitpid_retry_files [frame]:
  assumes "waitpid_retry os w = Some (e, w')"
  shows "w_files w' = w_files w"
proof -
  have "w_files (snd (e, w')) = w_files w"
  proof (rule waitpid_retry.raw_induct [where P = "\<lambda>_ w y. w_files (snd y) = w_files w", OF _ assms])
    fix f :: "'a os \<Rightarrow> 'a world \<Rightarrow> (int \<times> 'a world) option" and os w y
    assume IH: "\<And>os w y. f os w = Some y \<Longrightarrow> w_files (snd y) = w_files w"
      and b: "(case sys_call os w of (e, w1) \<Rightarrow> if e = EINTR then f os w1 else Some (e, w1)) = Some y"
    show "w_files (snd y) = w_files w" using b by (auto split: if_splits prod.splits dest!: IH sys_call_files)
  qed
  then show ?thesis by simp
qed

lemma spawn_files [frame]: "spawn os job w = Some (rc, w') \<Longrightarrow> w_files w' = w_files w"
  unfolding spawn_def by (auto split: prod.splits if_splits dest!: waitpid_retry_files sys_call_files)

section \<open>Operations\<close>

lemma snd_write_state_files [simp]:
  "p \<notin> own impl cid \<Longrightarrow> w_files (snd (mkga_containerd_write_state os impl cid st w)) p = w_files w p"
  using write_state_touches [of os impl cid st w] by (cases "mkga_containerd_write_state os impl cid st w") (simp add: touches_def)

lemma log_runner_touches:
  assumes "mkga_containerd_spawn_log_runner os impl cid img args env w = Some (rc, w')"
  shows "touches (own impl cid) w w'"
proof -
  obtain r w1 where p: "mkga_containerd_log_path os impl cid w = (r, w1)" by fastforce
  have 1: "touches (own impl cid) w w1" using path_files(3) [OF p] by (rule touches_same)
  show ?thesis
  proof (cases r)
    case (Inl e)
    then show ?thesis using assms p 1 by (simp add: mkga_containerd_spawn_log_runner_def)
  next
    case (Inr path)
    then have path: "path = log_of impl cid" using p path_is(3) by blast
    then have "spawn os (LogRunner cid img args env path) (unlink os path w1) = Some (rc, w')"
      using assms p Inr by (simp add: mkga_containerd_spawn_log_runner_def)
    then have "touches (own impl cid) (unlink os path w1) w'" by (intro touches_same spawn_files)
    moreover have "touches (own impl cid) w1 (unlink os path w1)" using path by (intro unlink_touches) simp
    ultimately show ?thesis using 1 touches_trans by blast
  qed
qed

lemma exit_watcher_touches: "mkga_containerd_spawn_exit_watcher os impl cid w = Some (rc, w') \<Longrightarrow> w_files w' = w_files w"
  by (auto simp: mkga_containerd_spawn_exit_watcher_def split: if_splits dest: spawn_files)

lemma undo_create_files: "undo_create os impl cid rc resp w = Some (rc', resp', impl', w') \<Longrightarrow> w_files w' = w_files w \<and> impl' = impl"
  by (auto simp: undo_create_def split: if_splits dest: command_files)

lemma create_files_touches:
  assumes "create_files os impl img cid meta resp w = Some (rc, resp', impl', w')"
  shows "touches (own impl cid) w w' \<and> impl' = impl"
proof -
  obtain rc1 w1 where 1: "mkga_containerd_write_metadata os impl cid meta w = (rc1, w1)" by fastforce
  define st where "st = mkga_containerd_fill_state (state_code MKGA_CONTAINER_STATE_CREATED) 0 0 0 0 []"
  obtain rc2 w2 where 2: "mkga_containerd_write_state os impl cid st w1 = (rc2, w2)" by fastforce
  have t: "touches (own impl cid) w w1" "touches (own impl cid) w w2"
    using write_metadata_touches [OF 1] touches_trans write_state_touches [OF 2] by blast+
  have "touches (own impl cid) w (mkga_containerd_delete_metadata os impl cid w2)" "touches (own impl cid) w (mkga_containerd_delete_log os impl cid w2)"
    using touches_trans [OF t(2)] delete_touches by blast+
  then show ?thesis using assms t unfolding create_files_def 1 prod.case Let_def st_def [symmetric] 2
    by (auto simp: touches_def split: if_splits dest!: undo_create_files)
qed

definition created_id :: "mkga_create_container_req \<Rightarrow> bytes" where
  "created_id req = projr (mkga_containerd_make_container_id req MKGA_MAX_ID_LEN)"

definition same_root :: "mkga_containerd_runtime \<Rightarrow> mkga_containerd_runtime \<Rightarrow> bool" where
  "same_root impl impl' \<longleftrightarrow> cd_state_root impl' = cd_state_root impl"

lemma same_root_own: "same_root impl impl' \<Longrightarrow> own impl' = own impl"
  by (simp add: same_root_def own_def path_of_def fun_eq_iff)

lemma apply_env_root: "mkga_containerd_apply_pending_env impl req meta = (rc, impl', meta') \<Longrightarrow> same_root impl impl'"
  by (auto simp: mkga_containerd_apply_pending_env_def same_root_def split: prod.splits)

lemma create_touches:
  assumes "mkga_containerd_create_container os impl req resp w = Some (rc, resp', impl', w')"
  shows "touches (own impl (created_id req)) w w' \<and> same_root impl impl'"
proof -
  let ?m = "\<lparr>km_image = copied MKGA_MAX_IMAGE_LEN (cc_image req),
      km_argv = map (\<lambda>i. copied MKGA_MAX_ARG_LEN (cc_argv req ! i)) [0..<unat (cc_argv_count req)], km_env = []\<rparr>"
  obtain rc1 impl1 meta where a: "mkga_containerd_apply_pending_env impl req ?m = (rc1, impl1, meta)" by (metis prod_cases3)
  note r = apply_env_root [OF a]
  have f: "touches (own impl (created_id req)) w w' \<and> same_root impl impl'"
    if "create_files os impl1 (cc_image req) cid meta resp w2 = Some (rc, resp', impl', w')" "w_files w2 = w_files w"
      "mkga_containerd_make_container_id req MKGA_MAX_ID_LEN = Inr cid" for cid w2
    using create_files_touches [OF that(1)] that(2,3) r same_root_own [OF r] by (auto simp: created_id_def touches_def)
  have "same_root impl impl" by (simp add: same_root_def)
  then show ?thesis using assms r unfolding mkga_containerd_create_container_def a prod.case
    by (auto split: if_splits option.splits sum.splits prod.splits dest!: image_files ctr_files
        intro: f [THEN conjunct1] f [THEN conjunct2] touches_same)
qed

lemma start_touches:
  assumes "mkga_containerd_start_container os impl req w = Some (rc, w')"
  shows "touches (own impl (ct_container_id req)) w w'"
  using assms unfolding mkga_containerd_start_container_def Let_def
  by (auto split: if_splits option.splits sum.splits prod.splits
      dest!: read_files ctr_files now_files write_state_touches log_runner_touches exit_watcher_touches simp: touches_def)

lemma finish_stop_touches: "finish_stop os impl cid ec resp w = (rc, resp', w') \<Longrightarrow> touches (own impl cid) w w'"
  unfolding finish_stop_def
  by (auto split: prod.splits dest!: read_files now_files simp: touches_def)

lemma remove_touches:
  assumes "mkga_containerd_remove_container os impl req w = Some (rc, w')"
  shows "touches (own impl (ct_container_id req)) w w'"
proof -
  let ?c = "ct_container_id req"
  have "touches (own impl ?c) w3 (mkga_containerd_delete_log os impl ?c (mkga_containerd_delete_state os impl ?c (mkga_containerd_delete_metadata os impl ?c w3)))" for w3
    by (intro touches_trans [OF touches_trans [OF delete_touches(1) delete_touches(2)] delete_touches(3)])
  then show ?thesis using assms unfolding mkga_containerd_remove_container_def Let_def
    by (auto split: if_splits option.splits dest!: command_files simp: touches_def)
qed

lemma refresh_touches: "refresh_state os impl cid st w = Some (st', w') \<Longrightarrow> touches (own impl cid) w w'"
  unfolding refresh_state_def task_over_def Let_def
  by (auto split: if_splits option.splits prod.splits dest!: query_files now_files simp: touches_def)

lemma status_touches:
  assumes "mkga_containerd_status_container os impl req resp w = Some (rc, resp', w')"
  shows "touches (own impl (ct_container_id req)) w w'"
  using assms unfolding mkga_containerd_status_container_def Let_def
  by (auto split: if_splits option.splits sum.splits prod.splits dest!: read_files refresh_touches simp: touches_def)

lemma stop_touches:
  assumes "mkga_containerd_stop_container os impl req resp w = Some (rc, resp', w')"
  shows "touches (own impl (ct_container_id req)) w w'"
proof -
  let ?c = "ct_container_id req"
  have f: "touches (own impl ?c) w w'" if "Some (finish_stop os impl ?c ec resp w4) = Some (rc, resp', w')" "w_files w4 = w_files w" for ec w4
    using finish_stop_touches [of os impl ?c ec resp w4 rc resp' w'] that by (auto simp: touches_def)
  show ?thesis using assms unfolding mkga_containerd_stop_container_def Let_def
    by (auto split: if_splits option.splits prod.splits dest!: command_files(1) wait_files(3) now_files
        intro: f touches_same)
qed

lemma network_files: "mkga_containerd_configure_network os impl req w = Some (rc, w') \<Longrightarrow> w_files w' = w_files w"
proof -
  have "exec_network_cmds os impl cmds w = Some w' \<Longrightarrow> w_files w' = w_files w" for cmds w w'
    by (induction cmds arbitrary: w) (auto simp: mkga_containerd_exec_network_cmd_def split: option.splits dest!: ctr_files)
  then show "mkga_containerd_configure_network os impl req w = Some (rc, w') \<Longrightarrow> w_files w' = w_files w"
    by (auto simp: mkga_containerd_configure_network_def Let_def split: if_splits option.splits)
qed

lemma read_log_files: "mkga_containerd_read_log os impl req resp w = (rc, resp', w') \<Longrightarrow> w_files w' = w_files w"
  unfolding mkga_containerd_read_log_def Let_def
  by (auto split: if_splits sum.splits prod.splits dest!: read_files path_files(3) open_read_files sys_call_files)

section \<open>Background processes\<close>

lemma foreground_touches:
  assumes "mkga_containerd_run_logged_foreground os impl cid img args env (log_of impl cid) w = Some (rc, w')"
  shows "touches (own impl cid) w w'"
proof -
  have l: "p \<noteq> log_of impl cid" if "p \<notin> own impl cid" for p using that by auto
  show ?thesis using assms unfolding mkga_containerd_run_logged_foreground_def Let_def
    by (auto split: if_splits sum.splits prod.splits option.splits dest!: read_files now_files sys_call_files simp: touches_def l)
qed

lemma watch_loop_touches:
  assumes "watch_loop os impl cid w = Some w'"
  shows "touches (own impl cid) w w'"
proof (rule watch_loop.raw_induct [where P = "\<lambda>_ impl cid w y. touches (own impl cid) w y", OF _ assms])
  fix f :: "'a os \<Rightarrow> mkga_containerd_runtime \<Rightarrow> bytes \<Rightarrow> 'a world \<Rightarrow> 'a world option" and os impl cid w y
  assume IH: "\<And>os impl cid w y. f os impl cid w = Some y \<Longrightarrow> touches (own impl cid) w y"
    and b: "(case mkga_containerd_wait_for_exit os impl cid INT32_MAX w of
       None \<Rightarrow> None
     | Some (rc, exit_code, w1) \<Rightarrow>
         if rc = 0
         then (case mkga_containerd_read_state os impl cid w1 of
                 (r, w2) \<Rightarrow>
                   (case now_ns os w2 of
                      (t, w3) \<Rightarrow> Some (snd (mkga_containerd_write_state os impl cid (exited_state exit_code t r) w3))))
         else if rc = - ENOENT
         then (case mkga_containerd_read_state os impl cid w1 of
                 (r, w2) \<Rightarrow>
                   if (case r of Inl _ \<Rightarrow> False | Inr st \<Rightarrow> ks_state st = state_code MKGA_CONTAINER_STATE_EXITED) then Some w2
                   else f os impl cid w2)
         else f os impl cid w1) = Some y"
  show "touches (own impl cid) w y"
    using b by (auto split: option.splits if_splits prod.splits dest!: IH wait_files(2) read_files(2) now_files simp: touches_def)
qed

section \<open>Sequences of operations\<close>

text \<open>
  One step of the agent or of a background process on behalf of the container \<open>cid\<close>. Background
  processes may run at any time; a state is the private data of the runtime with the world.
\<close>

inductive ctr_step ::
    "'d os \<Rightarrow> bytes \<Rightarrow> mkga_containerd_runtime \<times> 'd world \<Rightarrow> mkga_containerd_runtime \<times> 'd world \<Rightarrow> bool" for os where
  create: "mkga_containerd_create_container os impl req resp w = Some (rc, resp', impl', w') \<Longrightarrow>
    ctr_step os (created_id req) (impl, w) (impl', w')"
| start: "mkga_containerd_start_container os impl req w = Some (rc, w') \<Longrightarrow> ctr_step os (ct_container_id req) (impl, w) (impl, w')"
| stop: "mkga_containerd_stop_container os impl req resp w = Some (rc, resp', w') \<Longrightarrow> ctr_step os (ct_container_id req) (impl, w) (impl, w')"
| remove: "mkga_containerd_remove_container os impl req w = Some (rc, w') \<Longrightarrow> ctr_step os (ct_container_id req) (impl, w) (impl, w')"
| status: "mkga_containerd_status_container os impl req resp w = Some (rc, resp', w') \<Longrightarrow> ctr_step os (ct_container_id req) (impl, w) (impl, w')"
| read_log: "mkga_containerd_read_log os impl lreq lresp w = (rc, lresp', w') \<Longrightarrow> ctr_step os (rl_container_id lreq) (impl, w) (impl, w')"
| configure_env: "mkga_containerd_configure_env impl ereq = (rc, impl') \<Longrightarrow> ctr_step os cid (impl, w) (impl', w)"
| configure_network: "mkga_containerd_configure_network os impl nreq w = Some (rc, w') \<Longrightarrow> ctr_step os cid (impl, w) (impl, w')"
| runner: "LogRunner cid img args env (log_of impl cid) \<in> set (w_jobs w) \<Longrightarrow>
    run_job os impl (LogRunner cid img args env (log_of impl cid)) w = Some w' \<Longrightarrow> ctr_step os cid (impl, w) (impl, w')"
| watcher: "ExitWatcher cid \<in> set (w_jobs w) \<Longrightarrow> run_job os impl (ExitWatcher cid) w = Some w' \<Longrightarrow> ctr_step os cid (impl, w) (impl, w')"

lemma ctr_step_touches:
  assumes "ctr_step os cid s s'"
  shows "touches (own (fst s) cid) (snd s) (snd s') \<and> same_root (fst s) (fst s')"
  using assms
proof cases
  case (configure_env impl ereq rc impl' w)
  then show ?thesis by (auto simp: mkga_containerd_configure_env_def same_root_def Let_def split: if_splits option.splits)
next
  case (runner img args env impl w w')
  then show ?thesis using foreground_touches [of os impl cid img args env w] by (auto simp: run_job_def same_root_def)
next
  case (read_log impl lreq lresp w rc lresp' w')
  then show ?thesis using read_log_files [OF read_log(4)] by (simp add: same_root_def touches_same)
next
  case (configure_network impl nreq w rc w')
  then show ?thesis using network_files [OF configure_network(3)] by (simp add: same_root_def touches_same)
next
  case (watcher w impl w')
  then show ?thesis using watch_loop_touches [of os impl cid w w'] by (simp add: run_job_def same_root_def)
qed (auto simp: same_root_def dest: create_touches start_touches stop_touches remove_touches status_touches)

text \<open>
  C12. Containers are isolated from each other. Whatever sequence of operations and background
  processes runs for other containers, in any order, and whatever of their system calls and
  commands fail: the metadata, the state and the log of a container stay exactly as they were. The
  names of the containers have no slash; with one, two names could stand for the same file.
\<close>

theorem containers_isolated:
  assumes "47 \<notin> set c" "(\<lambda>s s'. \<exists>cid. cid \<noteq> c \<and> 47 \<notin> set cid \<and> ctr_step os cid s s')\<^sup>*\<^sup>* s s'"
  shows "\<forall>p \<in> own (fst s) c. w_files (snd s') p = w_files (snd s) p"
proof -
  have "(\<forall>p \<in> own (fst s) c. w_files (snd s') p = w_files (snd s) p) \<and> same_root (fst s) (fst s')"
    using assms(2)
  proof (induction rule: rtranclp_induct)
    case base
    then show ?case by (simp add: same_root_def)
  next
    case (step a b)
    then obtain cid where c: "cid \<noteq> c" "ctr_step os cid a b" by blast
    note t = ctr_step_touches [OF c(2)]
    have "own (fst a) = own (fst s)" using same_root_own step.IH by blast
    then have "p \<notin> own (fst a) cid" if "p \<in> own (fst s) c" for p using own_disjoint [OF c(1), of "fst s"] that by auto
    then show ?case using t step.IH by (auto simp: touches_def same_root_def)
  qed
  then show ?thesis by blast
qed

lemma quiet_ctr: "argv \<noteq> [] \<Longrightarrow> ctr quiet_os argv 5000 w = Some (0, cs ''mkc-1'', [], w)"
  by (simp add: ctr_def quiet_os_def two_rounds_exec)

definition control :: "string \<Rightarrow> mkga_container_control_req" where
  "control cid = \<lparr>ct_kernel_id = cs ''k1'', ct_container_id = cs cid, ct_timeout_millis = 0\<rparr>"

lemma control_ok: "cid \<noteq> [] \<Longrightarrow> mkga_containerd_validate_control_req (control cid) = 0" "cd_default_timeout_ms box = 5000"
  by (simp_all add: mkga_containerd_validate_control_req_def control_def box_def cs_def)

lemma quiet_remove: "\<exists>w'. mkga_containerd_remove_container quiet_os box (control ''b'') w = Some (0, w')"
  by (simp add: mkga_containerd_remove_container_def control_ok mkga_containerd_signal_task_def
      mkga_containerd_delete_task_def mkga_containerd_delete_container_def quiet_ctr Let_def)

theorem containers_isolated_witness:
  "\<exists>w'. mkga_containerd_remove_container quiet_os box (control ''b'') (set_file (state_of box (cs ''a'')) (Some [7]) empty_world) = Some (0, w') \<and>
    w_files w' (state_of box (cs ''a'')) = Some [7]"
proof -
  let ?w = "set_file (state_of box (cs ''a'')) (Some [7]) empty_world"
  obtain w' where w': "mkga_containerd_remove_container quiet_os box (control ''b'') ?w = Some (0, w')" using quiet_remove by blast
  then have "ctr_step quiet_os (cs ''b'') (box, ?w) (box, w')" using ctr_step.remove [OF w'] by (simp add: control_def)
  moreover have n: "cs ''b'' \<noteq> cs ''a''" "47 \<notin> set (cs ''b'')" "47 \<notin> set (cs ''a'')" by (simp_all add: cs_def)
  ultimately have "(\<lambda>s s'. \<exists>cid. cid \<noteq> cs ''a'' \<and> 47 \<notin> set cid \<and> ctr_step quiet_os cid s s')\<^sup>*\<^sup>* (box, ?w) (box, w')" by blast
  from containers_isolated [OF n(3) this] w' show ?thesis by (auto simp: own_def)
qed

end
