(* ===== verification/CtrArgv.thy ===== *)
theory CtrArgv
  imports CtrIsolation
begin

text \<open>
  The command lines the containerd runtime assembles and the array of 160 pointers that holds them.
  A command line with its terminating NULL fits the array when it has at most 159 entries. The
  definitions of the model append to a list without a limit, so a list of 160 entries or more stands
  for a write past the end of the array.
\<close>

definition env_args :: "mkga_containerd_env list \<Rightarrow> bytes list" where
  "env_args env = concat (map (\<lambda>v. [cs ''--env'', ke_entry v]) env)"

lemma length_env_args [simp]: "length (env_args env) = 2 * length env"
  by (induction env) (simp_all add: env_args_def)

lemma append_env_argv_result:
  "\<forall>v\<in>set env. ke_entry v \<noteq> [] \<Longrightarrow> mkga_containerd_append_env_argv 160 argv env =
    (if env = [] \<or> length argv + 2 * length env < 160 then Inr (argv @ env_args env) else Inl (- ENOSPC))"
proof (induction env arbitrary: argv)
  case (Cons v env)
  then show ?case by (auto simp: env_args_def)
qed (simp add: env_args_def)

lemma append_args_result:
  "append_args 160 argv as = (if as = [] \<or> length argv + length as < 160 then Inr (argv @ as) else Inl (- E2BIG))"
  by (induction as arbitrary: argv) auto

lemma append_exec_argv_result:
  "length as \<le> 4 \<Longrightarrow> mkga_containerd_append_exec_argv 160 argv as =
    (if as = [] \<or> length argv + length as < 160 then Inr (argv @ as) else Inl (- E2BIG))"
  by (simp add: mkga_containerd_append_exec_argv_def append_args_result)

lemma length_base_args [simp]: "length (mkga_ctr_fill_base_args impl) = 5" "mkga_ctr_fill_base_args impl \<noteq> []"
  by (simp_all add: mkga_ctr_fill_base_args_def)

definition create_line :: "mkga_containerd_runtime \<Rightarrow> bytes \<Rightarrow> mkga_containerd_metadata \<Rightarrow> bytes \<Rightarrow> bytes list" where
  "create_line impl img meta cid =
    mkga_ctr_fill_base_args impl @ [cs ''containers'', cs ''create''] @ env_args (km_env meta) @ [img, cid] @ km_argv meta"

lemma create_argv_result:
  assumes "\<forall>v\<in>set (km_env meta). ke_entry v \<noteq> []" "length (km_argv meta) \<le> 4"
  shows "create_argv impl img meta cid =
    (if 76 < length (km_env meta) then Inl (- ENOSPC)
     else if km_argv meta \<noteq> [] \<and> 150 < 2 * length (km_env meta) + length (km_argv meta) then Inl (- E2BIG)
     else Inr (create_line impl img meta cid))"
  using append_env_argv_result [OF assms(1)] append_exec_argv_result [OF assms(2)]
  by (auto simp: create_argv_def create_line_def)


definition many_variables :: mkga_containerd_metadata where
  "many_variables = \<lparr>km_image = cs ''busybox'', km_argv = [],
    km_env = map (\<lambda>i. \<lparr>ke_key = cs ''A'', ke_value = fmt_u i, ke_entry = cs ''A='' @ fmt_u i\<rparr>) [0..<76]\<rparr>"


end
