(* ===== verification/CtrLifecycle.thy ===== *)
theory CtrLifecycle
  imports CtrArgv
begin

text \<open>
  The life of a container under the containerd runtime when the system calls succeed: creation, start,
  its end as the background processes record it, the status and the log the host reads, and removal.
\<close>

section \<open>Commands that succeed\<close>

text \<open>Every command with a time limit comes back with success; what it prints and does to the daemon is open.\<close>

definition ctr_accepts :: "'d os \<Rightarrow> mkga_containerd_runtime \<Rightarrow> bool" where
  "ctr_accepts os impl \<longleftrightarrow> (\<forall>args t w. t = cd_default_timeout_ms impl \<or> t = MKGA_CONTAINERD_PULL_TIMEOUT_MS \<longrightarrow>
    (\<exists>out err d. ctr os (mkga_ctr_fill_base_args impl @ args) t w = Some (0, out, err, w\<lparr>w_daemon := d\<rparr>)))"

lemma ctr_accepts_env [simp]: "ctr_accepts os (impl\<lparr>cd_pending_env := env\<rparr>) = ctr_accepts os impl"
  by (simp add: ctr_accepts_def mkga_ctr_fill_base_args_def)

text \<open>Same files and jobs; the daemon, the calls made and the directories may differ.\<close>

definition kept :: "'d world \<Rightarrow> 'd world \<Rightarrow> bool" where
  "kept w w' \<longleftrightarrow> w_files w' = w_files w \<and> w_jobs w' = w_jobs w"

definition stored_as :: "(bytes \<Rightarrow> bytes option) \<Rightarrow> 'd world \<Rightarrow> 'd world \<Rightarrow> bool" where
  "stored_as fs w w' \<longleftrightarrow> w_files w' = fs \<and> w_jobs w' = w_jobs w"

lemma kept_refl [simp]: "kept w w"
  by (simp add: kept_def)

lemma kept_trans: "kept w w' \<Longrightarrow> kept w' w'' \<Longrightarrow> kept w w''"
  by (simp add: kept_def)

lemma kept_same: "same w w' \<Longrightarrow> kept w w'"
  by (simp add: same_def kept_def)

lemma ctr_accepted:
  assumes "ctr_accepts os impl"
  shows "\<exists>out err w'. ctr os (mkga_ctr_fill_base_args impl @ args) (cd_default_timeout_ms impl) w = Some (0, out, err, w') \<and> kept w w'"
    "\<exists>out err w'. ctr os (mkga_ctr_fill_base_args impl @ args) MKGA_CONTAINERD_PULL_TIMEOUT_MS w = Some (0, out, err, w') \<and> kept w w'"
proof -
  have "\<exists>out err d. ctr os (mkga_ctr_fill_base_args impl @ args) t w = Some (0, out, err, w\<lparr>w_daemon := d\<rparr>)"
    if "t = cd_default_timeout_ms impl \<or> t = MKGA_CONTAINERD_PULL_TIMEOUT_MS" for t
    using assms that unfolding ctr_accepts_def by blast
  note f = this [of "cd_default_timeout_ms impl"] this [of MKGA_CONTAINERD_PULL_TIMEOUT_MS]
  show "\<exists>out err w'. ctr os (mkga_ctr_fill_base_args impl @ args) (cd_default_timeout_ms impl) w = Some (0, out, err, w') \<and> kept w w'"
    "\<exists>out err w'. ctr os (mkga_ctr_fill_base_args impl @ args) MKGA_CONTAINERD_PULL_TIMEOUT_MS w = Some (0, out, err, w') \<and> kept w w'"
    using f by (fastforce simp: kept_def)+
qed

lemma commands_accepted:
  assumes "ctr_accepts os impl"
  shows "\<exists>w'. mkga_containerd_signal_task os impl cid sig w = Some (0, w') \<and> kept w w'"
    "\<exists>w'. mkga_containerd_delete_task os impl cid w = Some (0, w') \<and> kept w w'"
    "\<exists>w'. mkga_containerd_delete_container os impl cid w = Some (0, w') \<and> kept w w'"
    "\<exists>w'. mkga_containerd_pull_image os impl img w = Some (0, w') \<and> kept w w'"
    "\<exists>b w'. mkga_containerd_image_present os impl img w = Some (b, w') \<and> kept w w'"
proof -
  show "\<exists>w'. mkga_containerd_signal_task os impl cid sig w = Some (0, w') \<and> kept w w'"
    using ctr_accepted(1) [OF assms, of "[cs ''tasks'', cs ''kill'', cs ''--all'', cs ''-s'', sig, cid]" w]
    by (auto simp: mkga_containerd_signal_task_def)
  show "\<exists>w'. mkga_containerd_delete_task os impl cid w = Some (0, w') \<and> kept w w'"
    using ctr_accepted(1) [OF assms, of "[cs ''tasks'', cs ''delete'', cid]" w]
    by (elim exE conjE) (simp add: mkga_containerd_delete_task_def)
  show "\<exists>w'. mkga_containerd_delete_container os impl cid w = Some (0, w') \<and> kept w w'"
    using ctr_accepted(1) [OF assms, of "[cs ''containers'', cs ''delete'', cid]" w]
    by (elim exE conjE) (simp add: mkga_containerd_delete_container_def)
  show "\<exists>w'. mkga_containerd_pull_image os impl img w = Some (0, w') \<and> kept w w'"
    using ctr_accepted(2) [OF assms, of "[cs ''images'', cs ''pull'', img]" w]
    by (elim exE conjE) (simp add: mkga_containerd_pull_image_def)
  show "\<exists>b w'. mkga_containerd_image_present os impl img w = Some (b, w') \<and> kept w w'"
    using ctr_accepted(1) [OF assms, of "[cs ''images'', cs ''ls'']" w]
    by (elim exE conjE) (auto simp: mkga_containerd_image_present_def)
qed

lemma ensure_image_accepted:
  assumes "ctr_accepts os impl"
  shows "\<exists>w'. mkga_containerd_ensure_image os impl img w = Some (0, w') \<and> kept w w'"
proof -
  obtain b w1 where 1: "mkga_containerd_image_present os impl img w = Some (b, w1)" "kept w w1" using commands_accepted(5) [OF assms] by blast
  obtain w2 where 2: "mkga_containerd_pull_image os impl img w1 = Some (0, w2)" "kept w1 w2" using commands_accepted(4) [OF assms] by blast
  show ?thesis using 1 2 kept_trans [OF 1(2) 2(2)] by (simp add: mkga_containerd_ensure_image_def)
qed

section \<open>Files of a container\<close>

lemma now_ns_kept: "now_ns os w = (t, w') \<Longrightarrow> kept w w'"
  by (auto simp: now_ns_def kept_def)

lemma write_state_stored:
  assumes "os_works os" "has_paths impl cid" "length (ks_message st) \<le> 256"
  shows "\<exists>w'. mkga_containerd_write_state os impl cid st w = (0, w') \<and> stored_as ((w_files w)(state_of impl cid \<mapsto> enc_state st)) w w'"
  using write_state_works [OF assms, of w] by (auto simp: stored_def stored_as_def)

lemma spawn_works: "os_works os \<Longrightarrow> \<exists>w'. spawn os job w = Some (0, w') \<and> w_files w' = w_files w \<and> w_jobs w' = w_jobs w @ [job]"
  by (subst spawn_def) (simp add: waitpid_retry.simps [of os "(tick (tick w))\<lparr>w_jobs := w_jobs w @ [job]\<rparr>"])

text \<open>The identifier of a new container has twenty characters.\<close>

lemma length_fmt_016x [simp]: "length (fmt_016x v) = 16"
  by (simp add: fmt_016x_def)

lemma created_id_works: "mkga_containerd_make_container_id req MKGA_MAX_ID_LEN = Inr (created_id req) \<and> length (created_id req) = 20"
proof -
  obtain h where "mkga_containerd_make_container_id req MKGA_MAX_ID_LEN = Inr (cs ''mkc-'' @ fmt_016x h)"
    by (auto simp: mkga_containerd_make_container_id_def Let_def cs_def)
  then show ?thesis by (simp add: created_id_def cs_def)
qed

lemma validate_create: "mkga_containerd_validate_create_req req = 0 \<Longrightarrow> unat (cc_argv_count req) \<le> 4"
  by (auto simp: mkga_containerd_validate_create_req_def word_less_nat_alt split: if_splits)

definition requested :: "mkga_containerd_runtime \<Rightarrow> mkga_create_container_req \<Rightarrow> mkga_containerd_metadata" where
  "requested impl req =
    \<lparr>km_image = copied MKGA_MAX_IMAGE_LEN (cc_image req),
     km_argv = map (\<lambda>i. copied MKGA_MAX_ARG_LEN (cc_argv req ! i)) [0..<unat (cc_argv_count req)],
     km_env = map env_entry (filter (for_container req) (cd_pending_env impl))\<rparr>"

definition fits_argv :: "mkga_containerd_runtime \<Rightarrow> mkga_create_container_req \<Rightarrow> bool" where
  "fits_argv impl req \<longleftrightarrow> 2 * length (filter (for_container req) (cd_pending_env impl)) + unat (cc_argv_count req) \<le> 150"

definition new_state :: mkga_containerd_state where
  "new_state = mkga_containerd_fill_state (state_code MKGA_CONTAINER_STATE_CREATED) 0 0 0 0 []"

lemma create_works:
  assumes "os_works os" "ctr_accepts os impl" "env_inv impl" "has_paths impl (created_id req)"
    and "mkga_containerd_validate_create_req req = 0" "cd_start_via_run impl \<or> fits_argv impl req"
  shows "\<exists>w'. mkga_containerd_create_container os impl req resp w =
      Some (0, \<lparr>cr_container_id = created_id req, cr_image_ref = copied MKGA_MAX_IMAGE_LEN (cc_image req)\<rparr>,
            impl\<lparr>cd_pending_env := filter (\<lambda>e. \<not> for_container req e) (cd_pending_env impl)\<rparr>, w') \<and>
    stored_as ((w_files w)(meta_of impl (created_id req) \<mapsto> concat (metadata_texts (requested impl req)),
      state_of impl (created_id req) \<mapsto> enc_state new_state, log_of impl (created_id req) := None)) w w'"
proof -
  let ?c = "created_id req"
  let ?m0 = "\<lparr>km_image = copied MKGA_MAX_IMAGE_LEN (cc_image req),
      km_argv = map (\<lambda>i. copied MKGA_MAX_ARG_LEN (cc_argv req ! i)) [0..<unat (cc_argv_count req)], km_env = []\<rparr>"
  define impl1 where "impl1 = impl\<lparr>cd_pending_env := filter (\<lambda>e. \<not> for_container req e) (cd_pending_env impl)\<rparr>"
  define m where "m = requested impl req"
  have a: "mkga_containerd_apply_pending_env impl req ?m0 = (0, impl1, m)"
    using apply_env_result [OF assms(3), of ?m0 req] by (simp add: impl1_def m_def requested_def)
  have p: "has_paths impl1 ?c" "path_of x impl1 ?c = path_of x impl ?c" "cd_start_via_run impl1 = cd_start_via_run impl" for x
    using assms(4) by (simp_all add: impl1_def has_paths_def path_of_def)
  obtain w1 where w1: "mkga_containerd_ensure_image os impl (cc_image req) w = Some (0, w1)" "kept w w1"
    using ensure_image_accepted [OF assms(2)] by blast
  have f: "\<exists>w'. create_files os impl1 (cc_image req) ?c m resp w2 = Some (0, \<lparr>cr_container_id = ?c, cr_image_ref = copied MKGA_MAX_IMAGE_LEN (cc_image req)\<rparr>, impl1, w') \<and>
      stored_as ((w_files w)(meta_of impl ?c \<mapsto> concat (metadata_texts m), state_of impl ?c \<mapsto> enc_state new_state, log_of impl ?c := None)) w w'"
    if k: "kept w w2" for w2
  proof -
    obtain w3 where 3: "mkga_containerd_write_metadata os impl1 ?c m w2 = (0, w3)" "stored (meta_of impl ?c) (Some (concat (metadata_texts m))) w2 w3"
      using write_metadata_works [OF assms(1) p(1)] p(2) by metis
    obtain w4 where 4: "mkga_containerd_write_state os impl1 ?c new_state w3 = (0, w4)" "stored_as ((w_files w3)(state_of impl ?c \<mapsto> enc_state new_state)) w3 w4"
      using write_state_stored [OF assms(1) p(1), of new_state] p(2) by (auto simp: new_state_def mkga_containerd_fill_state_def)
    have 5: "stored (log_of impl ?c) None w4 (mkga_containerd_delete_log os impl1 ?c w4)" using delete_works(3) [OF assms(1) p(1)] p(2) by metis
    have "copied MKGA_MAX_ID_LEN ?c = ?c" using created_id_works [of req] by simp
    then show ?thesis using k 3(2) 4(2) 5 unfolding create_files_def 3(1) prod.case Let_def new_state_def [symmetric] 4(1)
      by (auto simp: stored_def stored_as_def kept_def)
  qed
  have "\<exists>w2. kept w w2 \<and> mkga_containerd_create_container os impl req resp w = create_files os impl1 (cc_image req) ?c m resp w2"
  proof (cases "cd_start_via_run impl")
    case True
    then show ?thesis using assms(5) w1 created_id_works [of req] p(3) unfolding mkga_containerd_create_container_def a prod.case
      by (intro exI [of _ w1]) simp
  next
    case False
    have "\<forall>v\<in>set (km_env m). ke_entry v \<noteq> []" by (auto simp: m_def requested_def env_entry_def cs_def)
    moreover have l: "length (km_argv m) = unat (cc_argv_count req)" "length (km_argv m) \<le> 4"
      "length (km_env m) = length (filter (for_container req) (cd_pending_env impl))"
      using validate_create [OF assms(5)] by (simp_all add: m_def requested_def)
    ultimately have c: "create_argv impl1 (cc_image req) m ?c = Inr (create_line impl1 (cc_image req) m ?c)"
      using create_argv_result [of m] assms(6) False by (auto simp: fits_argv_def)
    obtain out err w2 where "ctr os (create_line impl1 (cc_image req) m ?c) (cd_default_timeout_ms impl1) w1 = Some (0, out, err, w2)" "kept w1 w2"
      using ctr_accepted(1) [of os impl1] assms(2) unfolding create_line_def impl1_def by fastforce
    then show ?thesis using assms(5) w1 created_id_works [of req] p(3) False c kept_trans unfolding mkga_containerd_create_container_def a prod.case
      by (intro exI [of _ w2]) auto
  qed
  then show ?thesis using f unfolding impl1_def m_def by auto
qed

text \<open>The operations on an existing container.\<close>

definition resp_of :: "mkga_containerd_state \<Rightarrow> mkga_container_status_resp" where
  "resp_of st = \<lparr>st_state = ks_state st, st_exit_code = ks_exit_code st, st_pid = ks_pid st,
    st_started_at_unix_nano = ks_started_at_unix_nano st, st_finished_at_unix_nano = ks_finished_at_unix_nano st,
    st_message = ks_message st\<rparr>"

definition state_ok :: "mkga_containerd_state \<Rightarrow> bool" where
  "state_ok st \<longleftrightarrow> is_cstr (ks_message st) \<and> length (ks_message st) < 256"

lemma read_state_stored:
  assumes "os_works os" "has_paths impl cid" "w_files w (state_of impl cid) = Some (enc_state st)" "state_ok st"
  shows "\<exists>w'. mkga_containerd_read_state os impl cid w = (Inr st, w') \<and> same w w'"
  using read_state_works [OF assms(1,2), of w] assms(3,4) length_enc_state [of st] dec_enc_state [of st] by (auto simp: state_ok_def)

lemma status_works:
  assumes "os_works os" "has_paths impl (ct_container_id req)" "mkga_containerd_validate_control_req req = 0"
    and "w_files w (state_of impl (ct_container_id req)) = Some (enc_state st)" "state_ok st" "ks_state st \<noteq> 2"
  shows "\<exists>w'. mkga_containerd_status_container os impl req resp w = Some (0, resp_of st, w') \<and> same w w'"
  using read_state_stored [OF assms(1,2,4,5)] assms(3,5,6)
  by (auto simp: mkga_containerd_status_container_def refresh_state_def resp_of_def state_ok_def Let_def)

lemma status_missing:
  assumes "os_works os" "has_paths impl (ct_container_id req)" "mkga_containerd_validate_control_req req = 0"
    and "w_files w (state_of impl (ct_container_id req)) = None"
  shows "\<exists>w'. mkga_containerd_status_container os impl req resp w = Some (- ENOENT, resp, w') \<and> same w w'"
  using read_state_works [OF assms(1,2), of w] assms(3,4) by (auto simp: mkga_containerd_status_container_def Let_def)

lemma remove_works:
  assumes "os_works os" "ctr_accepts os impl" "has_paths impl (ct_container_id req)" "mkga_containerd_validate_control_req req = 0"
  shows "\<exists>w'. mkga_containerd_remove_container os impl req w = Some (0, w') \<and>
    stored_as ((w_files w)(meta_of impl (ct_container_id req) := None, state_of impl (ct_container_id req) := None, log_of impl (ct_container_id req) := None)) w w'"
proof -
  let ?c = "ct_container_id req"
  obtain w1 where 1: "mkga_containerd_signal_task os impl ?c (cs ''SIGKILL'') w = Some (0, w1)" "kept w w1" using commands_accepted(1) [OF assms(2)] by blast
  obtain w2 where 2: "mkga_containerd_delete_task os impl ?c w1 = Some (0, w2)" "kept w1 w2" using commands_accepted(2) [OF assms(2)] by blast
  obtain w3 where 3: "mkga_containerd_delete_container os impl ?c w2 = Some (0, w3)" "kept w2 w3" using commands_accepted(3) [OF assms(2)] by blast
  let ?m = "mkga_containerd_delete_metadata os impl ?c w3" let ?s = "mkga_containerd_delete_state os impl ?c ?m"
  have "stored (meta_of impl ?c) None w3 ?m" "stored (state_of impl ?c) None ?m ?s"
    "stored (log_of impl ?c) None ?s (mkga_containerd_delete_log os impl ?c ?s)"
    using delete_works [OF assms(1,3)] by blast+
  then show ?thesis using assms(4) 1 2 3 by (simp add: mkga_containerd_remove_container_def Let_def stored_def stored_as_def kept_def)
qed

lemma start_works:
  assumes "os_works os" "ctr_accepts os impl" "has_paths impl (ct_container_id req)" "mkga_containerd_validate_control_req req = 0" "\<not> cd_start_via_run impl"
  shows "\<exists>t w'. mkga_containerd_start_container os impl req w = Some (0, w') \<and>
    w_files w' = (w_files w)(state_of impl (ct_container_id req) \<mapsto> enc_state (running_state t)) \<and>
    w_jobs w' = w_jobs w @ [ExitWatcher (ct_container_id req)]"
proof -
  let ?c = "ct_container_id req"
  obtain out err w1 where 1: "ctr os (mkga_ctr_fill_base_args impl @ [cs ''tasks'', cs ''start'', cs ''-d'', ?c]) (cd_default_timeout_ms impl) w = Some (0, out, err, w1)"
    "kept w w1" using ctr_accepted(1) [OF assms(2)] by blast
  obtain t w2 where 2: "now_ns os w1 = (t, w2)" by fastforce
  have m: "length (ks_message (running_state t)) \<le> 256" by (simp add: running_state_def mkga_containerd_fill_state_def)
  obtain w3 where 3: "mkga_containerd_write_state os impl ?c (running_state t) w2 = (0, w3)"
    "stored_as ((w_files w2)(state_of impl ?c \<mapsto> enc_state (running_state t))) w2 w3" using write_state_stored [OF assms(1,3) m] by blast
  obtain w4 where 4: "spawn os (ExitWatcher ?c) w3 = Some (0, w4)" "w_files w4 = w_files w3" "w_jobs w4 = w_jobs w3 @ [ExitWatcher ?c]"
    using spawn_works [OF assms(1)] by blast
  have "?c \<noteq> []" using assms(4) by (auto simp: mkga_containerd_validate_control_req_def split: if_splits)
  then show ?thesis using assms(4,5) 1 2 3 4 now_ns_kept [OF 2]
    by (intro exI [of _ t] exI [of _ w4]) (simp add: mkga_containerd_start_container_def mkga_containerd_spawn_exit_watcher_def Let_def stored_as_def kept_def)
qed

lemma watcher_works:
  assumes "os_works os" "has_paths impl cid" "w_files w (state_of impl cid) = Some (enc_state st)" "state_ok st"
    and "mkga_containerd_wait_for_exit os impl cid INT32_MAX w = Some (0, v, w1)"
  shows "\<exists>t w'. run_job os impl (ExitWatcher cid) w = Some w' \<and> w_files w' = (w_files w)(state_of impl cid \<mapsto> enc_state (exited_state v t (Inr st)))"
proof -
  have f: "w_files w1 = w_files w" using assms(5) by (auto dest!: wait_files)
  obtain w2 where 2: "mkga_containerd_read_state os impl cid w1 = (Inr st, w2)" "same w1 w2"
    using read_state_stored [OF assms(1,2) _ assms(4), of w1] assms(3) f by auto
  obtain t w3 where 3: "now_ns os w2 = (t, w3)" by fastforce
  have m: "length (ks_message (exited_state v t (Inr st))) \<le> 256" by (simp add: exited_state_def)
  obtain w4 where 4: "mkga_containerd_write_state os impl cid (exited_state v t (Inr st)) w3 = (0, w4)"
    "stored_as ((w_files w3)(state_of impl cid \<mapsto> enc_state (exited_state v t (Inr st)))) w3 w4" using write_state_stored [OF assms(1,2) m] by blast
  show ?thesis using assms(5) 2 3 4 f now_ns_kept [OF 3]
    by (intro exI [of _ t] exI [of _ w4]) (simp add: run_job_def watch_loop.simps [of os impl cid w] same_def kept_def stored_as_def)
qed

text \<open>The watcher and the status after it; removal and the status after it.\<close>

lemma watcher_status:
  assumes "os_works os" "has_paths impl (ct_container_id creq)" "mkga_containerd_validate_control_req creq = 0"
    and "w_files w (state_of impl (ct_container_id creq)) = Some (enc_state st)" "state_ok st"
    and "mkga_containerd_wait_for_exit os impl (ct_container_id creq) INT32_MAX w = Some (0, v, w1)"
  shows "\<exists>w' t w''. run_job os impl (ExitWatcher (ct_container_id creq)) w = Some w' \<and>
    mkga_containerd_status_container os impl creq sresp w' = Some (0, resp_of (exited_state v t (Inr st)), w'')"
proof -
  obtain t w3 where 3: "run_job os impl (ExitWatcher (ct_container_id creq)) w = Some w3"
    "w_files w3 = (w_files w)(state_of impl (ct_container_id creq) \<mapsto> enc_state (exited_state v t (Inr st)))"
    using watcher_works [OF assms(1,2,4,5,6)] by blast
  have "state_ok (exited_state v t (Inr st))" "ks_state (exited_state v t (Inr st)) \<noteq> 2" by (simp_all add: exited_state_def state_ok_def)
  then obtain w4 where "mkga_containerd_status_container os impl creq sresp w3 = Some (0, resp_of (exited_state v t (Inr st)), w4)"
    using status_works [OF assms(1-3), of w3 "exited_state v t (Inr st)" sresp] 3(2) by auto
  then show ?thesis using 3(1) by blast
qed

lemma remove_clears:
  assumes "os_works os" "ctr_accepts os impl" "has_paths impl (ct_container_id creq)" "mkga_containerd_validate_control_req creq = 0"
    and "\<forall>p. p \<notin> own impl (ct_container_id creq) \<longrightarrow> w_files w' p = w_files w p"
  shows "\<exists>w3 w4. mkga_containerd_remove_container os impl creq w' = Some (0, w3) \<and>
    w_files w3 = (\<lambda>p. if p \<in> own impl (ct_container_id creq) then None else w_files w p) \<and>
    mkga_containerd_status_container os impl creq sresp w3 = Some (- ENOENT, sresp, w4)"
proof -
  let ?c = "ct_container_id creq"
  obtain w3 where 3: "mkga_containerd_remove_container os impl creq w' = Some (0, w3)"
    "w_files w3 = (w_files w')(meta_of impl ?c := None, state_of impl ?c := None, log_of impl ?c := None)"
    using remove_works [OF assms(1-4), of w'] by (auto simp: stored_as_def)
  have "w_files w3 = (\<lambda>p. if p \<in> own impl ?c then None else w_files w p)" using assms(5) by (intro ext) (auto simp: 3(2) own_def)
  moreover obtain w4 where "mkga_containerd_status_container os impl creq sresp w3 = Some (- ENOENT, sresp, w4)"
    using status_missing [OF assms(1,3,4), of w3] 3(2) by auto
  ultimately show ?thesis using 3(1) by blast
qed

section \<open>Properties\<close>

definition life_req :: "mkga_create_container_req \<Rightarrow> mkga_container_control_req \<Rightarrow> bool" where
  "life_req req creq \<longleftrightarrow> mkga_containerd_validate_create_req req = 0 \<and> mkga_containerd_validate_control_req creq = 0 \<and>
    ct_container_id creq = created_id req"


text \<open>A system in which every command ends at once with success.\<close>

definition prompt_run :: "wait_status \<Rightarrow> ctr_run" where
  "prompt_run st = \<lparr>run_start_ms = 0, run_stdout_pipe = 0, run_stderr_pipe = 0, run_fork = 0, run_nonblock = 0,
    run_rounds = [\<lparr>xr_now = 0, xr_poll = 0, xr_stdout = [ReadBytes (cs ''7''), ReadEof], xr_stderr = [ReadEof], xr_wait = Reaped st\<rparr>]\<rparr>"

definition prompt_os :: "unit os" where
  "prompt_os = quiet_os\<lparr>os_ctr := \<lambda>_ _ d. (prompt_run (WExited 0), d)\<rparr>"

lemma prompt_ctr: "argv \<noteq> [] \<Longrightarrow> ctr prompt_os argv t w = Some (0, cs ''7'', [], w)"
  by (cases "0 < t") (simp_all add: ctr_def prompt_os_def prompt_run_def mkga_ctr_exec_def exec_start_def exec_loop.simps exec_running_def exec_step_def
      read_stdout_def read_stderr_def mkga_read_pipe_into_buffer_def mkga_append_output_def wait_child_def mkga_map_ctr_error_def cs_def insert_Diff_if)

lemma prompt_works: "os_works prompt_os" "ctr_accepts prompt_os impl"
  using quiet_os_works prompt_ctr by (simp_all add: os_works_def prompt_os_def ctr_accepts_def)

definition web_control :: mkga_container_control_req where
  "web_control = \<lparr>ct_kernel_id = cs ''k1'', ct_container_id = created_id web_req, ct_timeout_millis = 0\<rparr>"

lemma web_life: "life_req web_req web_control" "has_paths box (created_id web_req)" "env_inv box" "fits_argv box web_req" "\<not> cd_start_via_run box"
proof -
  have l: "length (created_id web_req) = 20" using created_id_works by blast
  then show "has_paths box (created_id web_req)" by (intro box_paths) simp
  have "created_id web_req \<noteq> []" using l by auto
  then show "life_req web_req web_control"
    by (simp add: life_req_def web_control_def mkga_containerd_validate_control_req_def mkga_containerd_validate_create_req_def web_req_def zero_create_req_def cs_def)
qed (simp_all add: env_inv_def fits_argv_def box_def web_req_def zero_create_req_def)


end
