(* ===== verification/CtrLogs.thy ===== *)
theory CtrLogs
  imports CtrLifecycle
begin

text \<open>
  Containers that run through \<^verbatim>\<open>ctr run\<close> in a background process of their own: what the process is
  given, the log and the state it leaves, and the log as the host reads it piece by piece.
\<close>

section \<open>The log runner\<close>

text \<open>The command runs to its end with the given status, and none of its calls fails.\<close>

definition ran_to_end :: "ctr_run \<Rightarrow> wait_status \<Rightarrow> bool" where
  "ran_to_end run st \<longleftrightarrow> run_stdout_pipe run = 0 \<and> run_stderr_pipe run = 0 \<and> run_fork run = 0 \<and> run_nonblock run = 0 \<and>
    list_all quiet_round (run_rounds run) \<and> list_ex (\<lambda>r. snd (read_data (xr_stdout r))) (polled (run_rounds run)) \<and>
    list_ex (\<lambda>r. snd (read_data (xr_stderr r))) (polled (run_rounds run)) \<and> reaped (polled (run_rounds run)) = Some st"

definition stdout_of :: "ctr_run \<Rightarrow> bytes" where
  "stdout_of run = pipe_data (map xr_stdout (polled (run_rounds run)))"

definition stderr_of :: "ctr_run \<Rightarrow> bytes" where
  "stderr_of run = pipe_data (map xr_stderr (polled (run_rounds run)))"

definition logs_run :: "log_env \<Rightarrow> ctr_run \<Rightarrow> bytes \<Rightarrow> bool" where
  "logs_run env run s \<longleftrightarrow> (\<exists>R. s = rendered env 0 R \<and> log_lines [] (stream_of (cs ''stdout'') R) = lines_of [] (stdout_of run) \<and>
    log_lines [] (stream_of (cs ''stderr'') R) = lines_of [] (stderr_of run))"

text \<open>The state after the command: exit code and error output of the command, the end of the container.\<close>

definition run_state :: "int \<Rightarrow> bytes \<Rightarrow> u64 \<Rightarrow> mkga_containerd_state \<Rightarrow> mkga_containerd_state" where
  "run_state exit_code err t st = st\<lparr>ks_state := state_code MKGA_CONTAINER_STATE_EXITED, ks_exit_code := of_int exit_code, ks_pid := 0,
     ks_finished_at_unix_nano := t, ks_message := copied MKGA_MAX_MESSAGE_LEN (cstr (take (MKGA_CONTAINERD_OUTPUT_MAX - 1) err))\<rparr>"

lemma run_state_ok: "state_ok (run_state n err t st)" "ks_state (run_state n err t st) \<noteq> 2"
  using length_copied [of 256] by (simp_all add: state_ok_def run_state_def)

definition run_line :: "mkga_containerd_runtime \<Rightarrow> bytes \<Rightarrow> mkga_containerd_metadata \<Rightarrow> bytes list" where
  "run_line impl cid m = mkga_ctr_fill_base_args impl @ [cs ''run''] @ (if cd_no_pivot impl then [cs ''--no-pivot''] else []) @
     (if cd_runc_binary impl \<noteq> [] then [cs ''--runc-binary'', cd_runc_binary impl] else []) @ env_args (km_env m) @ [km_image m, cid] @ km_argv m"

lemma run_argv_works:
  assumes "\<forall>v\<in>set (km_env m). ke_entry v \<noteq> []" "length (km_env m) \<le> 70" "length (km_argv m) \<le> 4"
  shows "run_argv impl cid (km_image m) (km_argv m) (km_env m) = Inr (run_line impl cid m)"
  using append_env_argv_result [OF assms(1)] append_exec_argv_result [OF assms(3)] assms(2,3)
  by (simp add: run_argv_def run_line_def Let_def)

lemma runner_works:
  assumes "os_works os" "log_works (os_log os)" "has_paths impl cid" "w_files w (state_of impl cid) = Some (enc_state st)" "state_ok st"
    and "ks_started_at_unix_nano st \<noteq> 0" "run_argv impl cid img args env = Inr argv" "argv \<noteq> []" "w_files w (log_of impl cid) = None"
    and "ran_to_end (fst (os_ctr os argv 0 (w_daemon w))) (WExited n)"
  shows "\<exists>t s w'. run_job os impl (LogRunner cid img args env (log_of impl cid)) w = Some w' \<and>
    w_files w' = (w_files w)(log_of impl cid \<mapsto> s, state_of impl cid \<mapsto> enc_state (run_state n (stderr_of (fst (os_ctr os argv 0 (w_daemon w)))) t st)) \<and>
    logs_run (os_log os) (fst (os_ctr os argv 0 (w_daemon w))) s"
proof -
  obtain run d where run: "os_ctr os argv 0 (w_daemon w) = (run, d)" by fastforce
  let ?f = "\<lparr>lf_data = [], lf_calls = 0, lf_stamps = 0\<rparr>"
  note e = assms(10) [unfolded run fst_conv ran_to_end_def list_all_iff list_ex_iff]
  obtain s R where 1: "mkga_ctr_exec_to_cri_log (os_log os) True argv 0 0 ?f MKGA_CONTAINERD_OUTPUT_MAX run = Some (exit_result (WExited n) s)"
    "lf_data (cy_file s) = rendered (os_log os) 0 R"
    "log_lines [] (stream_of (cs ''stdout'') R) = lines_of [] (stdout_of run)" "log_lines [] (stream_of (cs ''stderr'') R) = lines_of [] (stderr_of run)"
    "cy_buf s = take (MKGA_CONTAINERD_OUTPUT_MAX - 1) (stderr_of run)"
    using cri_log_lines [OF assms(2,8), of run "WExited n" ?f MKGA_CONTAINERD_OUTPUT_MAX] e unfolding stdout_of_def stderr_of_def by auto
  define w3 where "w3 = (set_file (log_of impl cid) (Some (lf_data (cy_file s))) (tick (tick w)))\<lparr>w_daemon := d\<rparr>"
  have f3: "w_files w3 = (w_files w)(log_of impl cid \<mapsto> lf_data (cy_file s))" by (simp add: w3_def set_file_def)
  have d: "log_of impl cid \<noteq> state_of impl cid" by (simp add: path_of_def cs_def)
  obtain w4 where 4: "mkga_containerd_read_state os impl cid w3 = (Inr st, w4)" "same w3 w4"
    using read_state_stored [OF assms(1,3) _ assms(5), of w3] assms(4) f3 d by auto
  obtain t w5 where 5: "now_ns os w4 = (t, w5)" by fastforce
  let ?st = "run_state n (stderr_of run) t st"
  have m: "length (ks_message ?st) \<le> 256" using run_state_ok(1) by (simp add: state_ok_def less_imp_le)
  obtain w6 where 6: "mkga_containerd_write_state os impl cid ?st w5 = (0, w6)" "stored_as ((w_files w5)(state_of impl cid \<mapsto> enc_state ?st)) w5 w6"
    using write_state_stored [OF assms(1,3) m] by blast
  have "exit_result (WExited n) s = (if n = 0 then 0 else - EIO, n, s)" by (simp add: exit_result_def)
  then have "run_job os impl (LogRunner cid img args env (log_of impl cid)) w = Some w6"
    using assms(1,6,7,9) run 1(1) 4 5 6(1) 1(5)
    by (simp add: run_job_def mkga_containerd_run_logged_foreground_def w3_def run_state_def)
  moreover have "w_files w6 = (w_files w)(log_of impl cid \<mapsto> lf_data (cy_file s), state_of impl cid \<mapsto> enc_state ?st)"
    using 6(2) now_ns_kept [OF 5] 4(2) f3 by (simp add: stored_as_def kept_def same_def)
  ultimately show ?thesis unfolding run fst_conv logs_run_def using 1(2-4) by blast
qed

lemma start_run_works:
  assumes "os_works os" "has_paths impl (ct_container_id creq)" "mkga_containerd_validate_control_req creq = 0" "cd_start_via_run impl"
    and "w_files w (meta_of impl (ct_container_id creq)) = Some (concat (metadata_texts m))" "meta_ok m"
  shows "\<exists>k w'. mkga_containerd_start_container os impl creq w = Some (0, w') \<and>
    w_files w' = (w_files w)(state_of impl (ct_container_id creq) \<mapsto> enc_state (running_state (os_nanos os k)), log_of impl (ct_container_id creq) := None) \<and>
    w_jobs w' = w_jobs w @ [LogRunner (ct_container_id creq) (km_image m) (km_argv m) (km_env m) (log_of impl (ct_container_id creq))]"
proof -
  let ?c = "ct_container_id creq"
  obtain w1 where 1: "mkga_containerd_read_metadata os impl ?c w = (Inr m, w1)" "same w w1" using read_metadata_works [OF assms(1,2,5,6)] by blast
  obtain w2 where 2: "now_ns os w1 = (os_nanos os (w_calls w1), w2)" by (simp add: now_ns_def)
  let ?s = "running_state (os_nanos os (w_calls w1))"
  have m: "length (ks_message ?s) \<le> 256" by (simp add: running_state_def mkga_containerd_fill_state_def)
  obtain w3 where 3: "mkga_containerd_write_state os impl ?c ?s w2 = (0, w3)" "stored_as ((w_files w2)(state_of impl ?c \<mapsto> enc_state ?s)) w2 w3"
    using write_state_stored [OF assms(1,2) m] by blast
  obtain w4 where 4: "mkga_containerd_log_path os impl ?c w3 = (Inr (log_of impl ?c), w4)" "same w3 w4" using path_works(3) [OF assms(1,2)] by blast
  have u: "w_files (unlink os (log_of impl ?c) w4) = (w_files w4)(log_of impl ?c := None)" "w_jobs (unlink os (log_of impl ?c) w4) = w_jobs w4"
    using assms(1) by (auto simp: unlink_def os_works_def set_file_def sys_call_def)
  obtain w5 where 5: "spawn os (LogRunner ?c (km_image m) (km_argv m) (km_env m) (log_of impl ?c)) (unlink os (log_of impl ?c) w4) = Some (0, w5)"
    "w_files w5 = w_files (unlink os (log_of impl ?c) w4)"
    "w_jobs w5 = w_jobs (unlink os (log_of impl ?c) w4) @ [LogRunner ?c (km_image m) (km_argv m) (km_env m) (log_of impl ?c)]"
    using spawn_works [OF assms(1)] by blast
  have "mkga_containerd_start_container os impl creq w = Some (0, w5)"
    using assms(3,4) 1 2 3(1) 4(1) 5(1) by (simp add: mkga_containerd_start_container_def mkga_containerd_spawn_log_runner_def)
  moreover have "w_files w5 = (w_files w)(state_of impl ?c \<mapsto> enc_state ?s, log_of impl ?c := None)"
    "w_jobs w5 = w_jobs w @ [LogRunner ?c (km_image m) (km_argv m) (km_env m) (log_of impl ?c)]"
    using 1(2) now_ns_kept [OF 2] 3(2) 4(2) 5(2,3) u by (simp_all add: same_def kept_def stored_as_def)
  ultimately show ?thesis by blast
qed

section \<open>Reading the log\<close>

lemma log_chunk_bounds:
  "log_chunk req n = (off, k) \<Longrightarrow> off = min n (unat (rl_offset req)) \<and> k \<le> 384 \<and> off + k \<le> n \<and> (off < n \<longrightarrow> 0 < k)"
  by (auto simp: log_chunk_def Let_def word_less_nat_alt split: if_splits)

definition chunk_resp :: "bytes \<Rightarrow> bool \<Rightarrow> nat \<times> nat \<Rightarrow> mkga_read_log_resp" where
  "chunk_resp s exited c = (case c of (off, k) \<Rightarrow>
    \<lparr>rr_next_offset = of_nat (off + k), rr_data_len = of_nat k, rr_eof = (length s \<le> off + k \<and> exited),
     rr_data = take k (drop off s) @ replicate (384 - k) 0\<rparr>)"

lemma read_log_works:
  assumes "os_works os" "has_paths impl (rl_container_id req)" "mkga_containerd_validate_read_log_req req = 0"
    and "w_files w (state_of impl (rl_container_id req)) = Some (enc_state st)" "state_ok st" "w_files w (log_of impl (rl_container_id req)) = Some s"
  shows "\<exists>w'. mkga_containerd_read_log os impl req resp w = (0, chunk_resp s (ks_state st = 3) (log_chunk req (length s)), w') \<and> same w w'"
proof -
  let ?c = "rl_container_id req"
  obtain w1 where 1: "mkga_containerd_read_state os impl ?c w = (Inr st, w1)" "same w w1" using read_state_stored [OF assms(1,2,4,5)] by blast
  obtain w2 where 2: "mkga_containerd_log_path os impl ?c w1 = (Inr (log_of impl ?c), w2)" "same w1 w2" using path_works(3) [OF assms(1,2)] by blast
  have 3: "open_read os (log_of impl ?c) w2 = (Inr s, tick w2)" using assms(1,6) 1(2) 2(2) by (simp add: open_read_def same_def)
  obtain off k where c: "log_chunk req (length s) = (off, k)" by fastforce
  note b = log_chunk_bounds [OF c]
  have m: "min (os_amount os j) k = k" for j using os_amount_works [OF assms(1)] b by simp
  have l: "length (take k (drop off s)) = k" using conjunct1 [OF conjunct2 [OF conjunct2 [OF b]]] by simp
  show ?thesis using assms(1,3) 1 2 3 c m l conjunct1 [OF conjunct2 [OF b]] unfolding mkga_containerd_read_log_def Let_def
    by (cases "k = 0") (simp_all add: chunk_resp_def zero_read_log_resp_def same_def)
qed

text \<open>A reader that asks again from where the last answer ended, until it is told that this was the end.\<close>

fun fetch_log :: "'d os \<Rightarrow> mkga_containerd_runtime \<Rightarrow> nat \<Rightarrow> mkga_read_log_req \<Rightarrow> 'd world \<Rightarrow> bytes \<times> bool \<times> 'd world" where
  "fetch_log os impl 0 req w = ([], False, w)"
| "fetch_log os impl (Suc k) req w =
    (case mkga_containerd_read_log os impl req zero_read_log_resp w of
       (rc, r, w1) \<Rightarrow>
         if rc \<noteq> 0 then ([], False, w1)
         else if rr_eof r then (take (unat (rr_data_len r)) (rr_data r), True, w1)
         else map_prod (\<lambda>d. take (unat (rr_data_len r)) (rr_data r) @ d) (\<lambda>x. x) (fetch_log os impl k (req\<lparr>rl_offset := rr_next_offset r\<rparr>) w1))"

lemma fetch_log_works:
  assumes "os_works os" "has_paths impl (rl_container_id req)" "mkga_containerd_validate_read_log_req req = 0"
    and "w_files w (state_of impl (rl_container_id req)) = Some (enc_state st)" "state_ok st" "w_files w (log_of impl (rl_container_id req)) = Some s"
    and "ks_state st = 3" "length s < 2 ^ 64" "unat (rl_offset req) \<le> length s" "length s - unat (rl_offset req) < k"
  shows "\<exists>w'. fetch_log os impl k req w = (drop (unat (rl_offset req)) s, True, w') \<and> same w w'"
  using assms(2-4,6,9,10)
proof (induction k arbitrary: req w)
  case (Suc k)
  obtain off n where c: "log_chunk req (length s) = (off, n)" by fastforce
  then have b: "off = unat (rl_offset req)" "n \<le> 384" "off + n \<le> length s" "off < length s \<longrightarrow> 0 < n" using log_chunk_bounds [OF c] Suc.prems(5) by auto
  obtain w1 where 1: "mkga_containerd_read_log os impl req zero_read_log_resp w = (0, chunk_resp s True (off, n), w1)" "same w w1"
    using read_log_works [OF assms(1) Suc.prems(1-3) assms(5) Suc.prems(4), of zero_read_log_resp] assms(7) c by auto
  have l: "unat (of_nat n :: u32) = n" using b(2) by (simp add: unat_of_nat take_bit_nat_eq_self)
  have o: "unat (of_nat (off + n) :: u64) = off + n" using b(3) assms(8) by (simp only: unat_of_nat) (simp add: take_bit_nat_eq_self)
  have d: "drop off s = take n (drop off s) @ drop (off + n) s" by (metis append_take_drop_id drop_drop add.commute)
  show ?case
  proof (cases "length s \<le> off + n")
    case True
    then show ?thesis using 1 b(1,2,3) l by (simp add: chunk_resp_def)
  next
    case False
    let ?req = "req\<lparr>rl_offset := of_nat (off + n)\<rparr>"
    have "\<exists>w'. fetch_log os impl k ?req w1 = (drop (unat (rl_offset ?req)) s, True, w') \<and> same w1 w'"
      using Suc.prems b False o 1(2) by (intro Suc.IH) (auto simp: same_def mkga_containerd_validate_read_log_req_def)
    then show ?thesis using 1 b(1-3) l o d False by (auto simp: chunk_resp_def same_def)
  qed
qed simp

section \<open>Properties\<close>

definition log_req :: "mkga_container_control_req \<Rightarrow> u32 \<Rightarrow> mkga_read_log_req" where
  "log_req creq n = \<lparr>rl_kernel_id = ct_kernel_id creq, rl_container_id = ct_container_id creq, rl_offset = 0, rl_max_bytes = n\<rparr>"

lemma log_req_ok: "mkga_containerd_validate_control_req creq = 0 \<Longrightarrow> mkga_containerd_validate_read_log_req (log_req creq n) = 0"
  by (auto simp: mkga_containerd_validate_control_req_def mkga_containerd_validate_read_log_req_def log_req_def split: if_splits)

lemma runner_seen:
  assumes "os_works os" "log_works (os_log os)" "has_paths impl (ct_container_id creq)" "mkga_containerd_validate_control_req creq = 0"
    and "w_files w (state_of impl (ct_container_id creq)) = Some (enc_state st)" "state_ok st" "ks_started_at_unix_nano st \<noteq> 0"
    and "run_argv impl (ct_container_id creq) img args env = Inr argv" "argv \<noteq> []" "w_files w (log_of impl (ct_container_id creq)) = None"
    and "ran_to_end (fst (os_ctr os argv 0 (w_daemon w))) (WExited n)"
  shows "\<exists>w' s t w''. run_job os impl (LogRunner (ct_container_id creq) img args env (log_of impl (ct_container_id creq))) w = Some w' \<and>
    mkga_containerd_status_container os impl creq sresp w' = Some (0, resp_of (run_state n (stderr_of (fst (os_ctr os argv 0 (w_daemon w)))) t st), w'') \<and>
    logs_run (os_log os) (fst (os_ctr os argv 0 (w_daemon w))) s \<and>
    (length s < 2 ^ 64 \<longrightarrow> (\<exists>w''. fetch_log os impl (Suc (length s)) (log_req creq mx) w' = (s, True, w'')))"
proof -
  let ?c = "ct_container_id creq" let ?run = "fst (os_ctr os argv 0 (w_daemon w))"
  obtain t s w3 where 3: "run_job os impl (LogRunner ?c img args env (log_of impl ?c)) w = Some w3"
    "w_files w3 = (w_files w)(log_of impl ?c \<mapsto> s, state_of impl ?c \<mapsto> enc_state (run_state n (stderr_of ?run) t st))" "logs_run (os_log os) ?run s"
    using runner_works [OF assms(1-3,5-11)] by blast
  let ?st = "run_state n (stderr_of ?run) t st"
  have d: "log_of impl ?c \<noteq> state_of impl ?c" by (simp add: path_of_def cs_def)
  have f: "w_files w3 (state_of impl ?c) = Some (enc_state ?st)" "w_files w3 (log_of impl ?c) = Some s" using 3(2) d by simp_all
  obtain w4 where 4: "mkga_containerd_status_container os impl creq sresp w3 = Some (0, resp_of ?st, w4)"
    using status_works [OF assms(1,3,4) f(1) run_state_ok] by blast
  have "\<exists>w''. fetch_log os impl (Suc (length s)) (log_req creq mx) w3 = (s, True, w'')" if "length s < 2 ^ 64"
    using fetch_log_works [OF assms(1) _ log_req_ok [OF assms(4)], of impl mx w3 ?st s "Suc (length s)"] assms(3) f run_state_ok(1) that
    by (auto simp: log_req_def run_state_def)
  then show ?thesis using 3(1,3) 4 by blast
qed


text \<open>Commands with a time limit end at once; the container prints some lines and ends with status 3.\<close>

definition echo_os :: "unit os" where
  "echo_os = prompt_os\<lparr>os_ctr := \<lambda>_ t d. (if t = 0 then echo_run else prompt_run (WExited 0), d), os_nanos := \<lambda>_. 5\<rparr>"

lemma echo_works: "os_works echo_os" "log_works (os_log echo_os)" "ctr_accepts echo_os (box\<lparr>cd_start_via_run := True\<rparr>)"
proof -
  show "os_works echo_os" using prompt_works(1) by (simp add: os_works_def echo_os_def)
  show "log_works (os_log echo_os)" by (simp add: echo_os_def prompt_os_def quiet_os_def log_works_def noon_def usual_time_def)
  have "ctr echo_os argv t w = ctr prompt_os argv t w" if "t \<noteq> 0" for argv t w using that by (simp add: ctr_def echo_os_def prompt_os_def)
  then show "ctr_accepts echo_os (box\<lparr>cd_start_via_run := True\<rparr>)"
    using prompt_works(2) [of "box\<lparr>cd_start_via_run := True\<rparr>"] by (auto simp: ctr_accepts_def box_def)
qed

lemma echo_ran: "ran_to_end echo_run (WExited 3)" "stderr_of echo_run = cs ''w''" "stdout_of echo_run = cs ''hello'' @ [newline, newline, 33]"
  by (simp_all add: ran_to_end_def stderr_of_def stdout_of_def polled_def echo_run_def quiet_round_def cs_def)

lemma web_logged:
  "env_inv (box\<lparr>cd_start_via_run := True\<rparr>)" "has_paths (box\<lparr>cd_start_via_run := True\<rparr>) (created_id web_req)"
  "meta_ok (requested (box\<lparr>cd_start_via_run := True\<rparr>) web_req)" "length (km_env (requested (box\<lparr>cd_start_via_run := True\<rparr>) web_req)) \<le> 70"
  using web_life(2) by (simp_all add: env_inv_def has_paths_def requested_def meta_ok_def line_ok_def is_cstr_def box_def web_req_def zero_create_req_def cs_def)


end
