(* ===== verification/CtrStop.thy ===== *)
theory CtrStop
  imports CtrLogs
begin

text \<open>
  Stopping a container: the two signals, the waits between them, and that all of this comes to an end
  whatever the commands answer.
\<close>

section \<open>Waiting ends\<close>

text \<open>
  Every command with a time limit is cut off by the clock in some round, and the clock of the agent does not go back
  and passes every time.
\<close>

definition limited :: "int \<Rightarrow> ctr_run \<Rightarrow> bool" where
  "limited t run \<longleftrightarrow> (\<forall>r\<in>set (run_rounds run). settles (xr_stdout r) \<and> settles (xr_stderr r)) \<and>
    (\<exists>r\<in>set (run_rounds run). run_start_ms run + t \<le> xr_now r)"

definition time_passes :: "'d os \<Rightarrow> bool" where
  "time_passes os \<longleftrightarrow> (\<forall>argv t d. 0 < t \<longrightarrow> limited t (fst (os_ctr os argv t d))) \<and>
    (\<forall>j k. j \<le> k \<longrightarrow> os_millis os j \<le> os_millis os k) \<and> (\<forall>T. \<exists>k. T \<le> os_millis os k)"

lemma exec_returns:
  assumes "0 < t" "limited t run"
  shows "\<exists>rc s. mkga_ctr_exec True argv t n m run = Some (rc, s)"
proof -
  let ?s = "exec_start\<lparr>x_held := x_held exec_start - {StdoutWrite} - {StderrWrite}\<rparr>"
  obtain rc s where "exec_loop t (run_start_ms run) n m (run_rounds run) ?s = Some (rc, s)"
    using exec_loop_ends [of t "run_rounds run" "run_start_ms run" n m ?s] assms unfolding limited_def by fastforce
  then show ?thesis by (simp add: mkga_ctr_exec_def Let_def)
qed

lemma ctr_returns:
  assumes "time_passes os" "0 < t"
  shows "\<exists>rc out err d. ctr os argv t w = Some (rc, out, err, w\<lparr>w_daemon := d\<rparr>)"
proof -
  obtain run d where r: "os_ctr os argv t (w_daemon w) = (run, d)" by fastforce
  then have "limited t run" using assms by (metis time_passes_def fst_conv)
  then obtain rc s where "mkga_ctr_exec True argv t MKGA_CONTAINERD_OUTPUT_MAX MKGA_CONTAINERD_OUTPUT_MAX run = Some (rc, s)"
    using exec_returns [OF assms(2)] by blast
  then have "ctr os argv t w = Some (rc, x_stdout s, x_stderr s, w\<lparr>w_daemon := d\<rparr>)" using r by (simp add: ctr_def)
  then show ?thesis by blast
qed

lemma signal_returns:
  assumes "time_passes os" "0 < cd_default_timeout_ms impl"
  shows "\<exists>rc d. mkga_containerd_signal_task os impl cid sig w = Some (rc, w\<lparr>w_daemon := d\<rparr>)"
  using ctr_returns [OF assms, of "mkga_ctr_fill_base_args impl @ [cs ''tasks'', cs ''kill'', cs ''--all'', cs ''-s'', sig, cid]" w]
  by (auto simp: mkga_containerd_signal_task_def)

lemma query_returns:
  assumes "time_passes os" "0 < cd_default_timeout_ms impl"
  shows "\<exists>rc st pid d. mkga_containerd_query_task_status os impl cid w = Some (rc, st, pid, w\<lparr>w_daemon := d\<rparr>)"
proof -
  obtain rc out err d where "ctr os (mkga_ctr_fill_base_args impl @ [cs ''tasks'', cs ''ls'']) (cd_default_timeout_ms impl) w = Some (rc, out, err, w\<lparr>w_daemon := d\<rparr>)"
    using ctr_returns [OF assms] by blast
  then show ?thesis by (cases "find_task cid (strtok_all (\<lambda>c. c = newline) (cstr out))") (auto simp: mkga_containerd_query_task_status_def)
qed

text \<open>A function that only waits: files and jobs are kept, the calls go up.\<close>

definition later :: "'d world \<Rightarrow> 'd world \<Rightarrow> bool" where
  "later w w' \<longleftrightarrow> kept w w' \<and> w_calls w \<le> w_calls w'"

lemma later_trans: "later w w' \<Longrightarrow> later w' w'' \<Longrightarrow> later w w''"
  by (simp add: later_def kept_def)

lemma poll_returns:
  assumes "time_passes os" "0 < cd_default_timeout_ms impl"
  shows "\<exists>rc v w'. mkga_containerd_poll_for_exit_until os impl cid T w = Some (rc, v, w') \<and> later w w'"
proof -
  obtain k where "T \<le> os_millis os k" using assms(1) unfolding time_passes_def by blast
  then have k: "T \<le> os_millis os j" if "k \<le> j" for j using assms(1) that unfolding time_passes_def by (meson order_trans)
  show ?thesis
  proof (induction "k - w_calls w" arbitrary: w rule: less_induct)
    case less
    obtain rc st pid d where q: "mkga_containerd_query_task_status os impl cid w = Some (rc, st, pid, w\<lparr>w_daemon := d\<rparr>)" using query_returns [OF assms] by blast
    let ?w2 = "w\<lparr>w_daemon := d, w_calls := Suc (w_calls w)\<rparr>"
    have l: "later w (w\<lparr>w_daemon := d\<rparr>)" "later w ?w2" by (simp_all add: later_def kept_def)
    show ?case
    proof (cases "T \<le> os_millis os (w_calls w)")
      case True
      then show ?thesis using q l by (subst mkga_containerd_poll_for_exit_until.simps) (auto simp: now_ms_def)
    next
      case False
      then have "k - w_calls ?w2 < k - w_calls w" using k [of "w_calls w"] by (cases "k \<le> w_calls w") simp_all
      from less [OF this] obtain rc' v w' where i: "mkga_containerd_poll_for_exit_until os impl cid T ?w2 = Some (rc', v, w')" "later w w'"
        using l later_trans by blast
      show ?thesis using q l i False by (subst mkga_containerd_poll_for_exit_until.simps) (auto simp: now_ms_def)
    qed
  qed
qed

lemma wait_returns:
  assumes "time_passes os" "0 < cd_default_timeout_ms impl" "T \<le> os_millis os (w_calls w) + INT32_MAX"
  shows "\<exists>rc v w'. wait_until os impl cid T w = Some (rc, v, w') \<and> later w w'"
proof -
  let ?w1 = "w\<lparr>w_calls := Suc (w_calls w)\<rparr>" let ?r = "T - os_millis os (w_calls w)"
  have l: "later w ?w1" "later w (?w1\<lparr>w_daemon := d\<rparr>)" for d by (simp_all add: later_def kept_def)
  note p = poll_returns [OF assms(1,2), of cid T]
  have "\<exists>rc v w'. mkga_containerd_wait_for_exit_until os impl cid T w = Some (rc, v, w') \<and> later w w'"
  proof (cases "?r \<le> 0")
    case True
    obtain rc v w' where "mkga_containerd_poll_for_exit_until os impl cid T ?w1 = Some (rc, v, w')" "later ?w1 w'" using p by blast
    then show ?thesis using True later_trans [OF l(1)] by (auto simp: mkga_containerd_wait_for_exit_until_def now_ms_def Let_def)
  next
    case False
    then have c: "c_int ?r = ?r" "0 < ?r" using assms(3) by (simp_all add: c_int_id)
    then obtain rc out err d where r: "ctr os (mkga_ctr_fill_base_args impl @ [cs ''tasks'', cs ''wait'', cid]) ?r ?w1 =
      Some (rc, out, err, ?w1\<lparr>w_daemon := d\<rparr>)" using ctr_returns [OF assms(1) c(2)] by blast
    let ?w2 = "?w1\<lparr>w_daemon := d\<rparr>"
    obtain rc' v w' where "mkga_containerd_poll_for_exit_until os impl cid T ?w2 = Some (rc', v, w')" "later ?w2 w'" using p by blast
    then show ?thesis using False r c(1) l later_trans [OF l(2) [of d]]
      by (auto simp: mkga_containerd_wait_for_exit_until_def now_ms_def Let_def split: sum.splits)
  qed
  then show ?thesis using p by (auto simp: wait_until_def)
qed

section \<open>Stopping\<close>

lemma effective_timeout_bound:
  "0 < cd_default_timeout_ms impl \<Longrightarrow> cd_default_timeout_ms impl \<le> INT32_MAX \<Longrightarrow>
    mkga_containerd_effective_timeout impl t (cd_default_timeout_ms impl) \<le> INT32_MAX"
  by (simp add: mkga_containerd_effective_timeout_def)

lemma later_clock: "time_passes os \<Longrightarrow> later w w' \<Longrightarrow> os_millis os (w_calls w) \<le> os_millis os (w_calls w')"
  unfolding time_passes_def later_def by blast

lemma finish_stop_works:
  assumes "os_works os" "has_paths impl cid" "w_files w (state_of impl cid) = Some (enc_state st)" "state_ok st"
  shows "\<exists>t w'. finish_stop os impl cid v resp w = (0, resp\<lparr>sp_exit_code := v\<rparr>, w') \<and>
    w_files w' = (w_files w)(state_of impl cid \<mapsto> enc_state (exited_state v t (Inr st)))"
proof -
  obtain w1 where 1: "mkga_containerd_read_state os impl cid w = (Inr st, w1)" "same w w1" using read_state_stored [OF assms] by blast
  obtain t w2 where 2: "now_ns os w1 = (t, w2)" by fastforce
  have m: "length (ks_message (exited_state v t (Inr st))) \<le> 256" by (simp add: exited_state_def)
  obtain w3 where 3: "mkga_containerd_write_state os impl cid (exited_state v t (Inr st)) w2 = (0, w3)"
    "stored_as ((w_files w2)(state_of impl cid \<mapsto> enc_state (exited_state v t (Inr st)))) w2 w3" using write_state_stored [OF assms(1,2) m] by blast
  then show ?thesis using 1 2 now_ns_kept [OF 2] by (intro exI [of _ t] exI [of _ w3]) (simp add: finish_stop_def same_def kept_def stored_as_def)
qed

text \<open>
  What stopping a container with a recorded state comes to: nothing is recorded, with an error or because
  there is no task; or the exit code that is answered is recorded.
\<close>

definition stopped ::
    "mkga_containerd_runtime \<Rightarrow> bytes \<Rightarrow> mkga_containerd_state \<Rightarrow> mkga_stop_container_resp \<Rightarrow> 'd world \<Rightarrow> int \<times> mkga_stop_container_resp \<times> 'd world \<Rightarrow> bool" where
  "stopped impl cid st resp w r \<longleftrightarrow> (case r of (rc, resp', w') \<Rightarrow>
    w_files w' = w_files w \<and> (rc \<noteq> 0 \<and> resp' = resp \<or> rc = 0 \<and> resp' = resp\<lparr>sp_exit_code := 0\<rparr>) \<or>
    rc = 0 \<and> (\<exists>t v. resp' = resp\<lparr>sp_exit_code := v\<rparr> \<and> w_files w' = (w_files w)(state_of impl cid \<mapsto> enc_state (exited_state v t (Inr st)))))"

lemma stopped_error: "later w w' \<Longrightarrow> rc \<noteq> 0 \<Longrightarrow> stopped impl cid st resp w (rc, resp, w')"
  by (simp add: stopped_def later_def kept_def)

lemma stopped_finish:
  assumes "os_works os" "has_paths impl cid" "w_files w (state_of impl cid) = Some (enc_state st)" "state_ok st" "later w w'"
  shows "stopped impl cid st resp w (finish_stop os impl cid v resp w')"
proof -
  have f: "w_files w' = w_files w" using assms(5) by (simp add: later_def kept_def)
  obtain t w'' where 1: "finish_stop os impl cid v resp w' = (0, resp\<lparr>sp_exit_code := v\<rparr>, w'')"
    and "w_files w'' = (w_files w)(state_of impl cid \<mapsto> enc_state (exited_state v t (Inr st)))"
    using finish_stop_works [OF assms(1,2) _ assms(4), of w' v resp] assms(3) f by auto
  then show ?thesis unfolding stopped_def 1 prod.case by blast
qed


text \<open>Every command is answered at once, in one round that takes all its time.\<close>

definition slow_os :: "unit os" where
  "slow_os = quiet_os\<lparr>os_ctr := \<lambda>_ t d. ((prompt_run (WExited 0))\<lparr>run_rounds :=
    [\<lparr>xr_now = t, xr_poll = 0, xr_stdout = [ReadEof], xr_stderr = [ReadEof], xr_wait = NotYet\<rparr>]\<rparr>, d)\<rparr>"

lemma slow_works: "os_works slow_os" "time_passes slow_os"
proof -
  show "os_works slow_os" using quiet_os_works by (simp add: os_works_def slow_os_def)
  have "\<exists>k. T \<le> int k" for T by (rule exI [of _ "nat T"]) simp
  then show "time_passes slow_os" by (simp add: time_passes_def limited_def slow_os_def quiet_os_def prompt_run_def)
qed


end
