(* ===== verification/ExecTty.thy ===== *)
theory ExecTty
  imports CtrCommands StreamDevice
begin

text \<open>
  Interactive exec sessions of the containerd runtime (\<^verbatim>\<open>mk-guest-agent/src/runtime_containerd_stub.c\<close>, from
  \<^verbatim>\<open>mkga_containerd_build_exec_tty_argv\<close> to the waiter thread and the four operations). A started session
  has a pseudo terminal, a child on its other side, a thread that pumps its output to the host and a
  thread that waits for the child. A critical section of a session and a system call outside of
  one are single steps of a thread; an operation of the agent is one step. Messages on
  standard error are not modelled.
\<close>

abbreviation (input) ESRCH :: int where "ESRCH \<equiv> 3"

section \<open>State\<close>

text \<open>Calls of the stream device, whose results the threads ignore.\<close>

datatype stream_call =
    SendOutput bytes bytes
  | SendExit bytes i32

text \<open>Where a thread is: a thread that has left its critical section holds a copy of the descriptor.\<close>

datatype pump_pc =
    PumpLock
  | PumpPoll int
  | PumpRead int
  | PumpDone

datatype waiter_pc =
    WaitPid
  | WaitLock i32
  | WaitSend i32
  | WaitDone

text \<open>
  \<open>ty_open\<close> has the open terminals by their descriptor, with the output that has not been read yet,
  \<open>ty_size\<close> their columns and rows. \<open>ty_children\<close> are the children that have not been waited for. The
  threads are listed with the index of their session.
\<close>

record tty_state =
  ty_sessions :: sessions
  ty_stream :: mkga_stream_state
  ty_open :: "int \<Rightarrow> bytes option"
  ty_size :: "int \<Rightarrow> u16 \<times> u16"
  ty_children :: "int set"
  ty_pumps :: "(nat \<times> pump_pc) list"
  ty_waiters :: "(nat \<times> waiter_pc) list"
  ty_calls :: "stream_call list"

definition set_session :: "nat \<Rightarrow> mkga_exec_session \<Rightarrow> tty_state \<Rightarrow> tty_state" where
  "set_session i x s = s\<lparr>ty_sessions := (ty_sessions s)[i := x]\<rparr>"

definition close_tty :: "int \<Rightarrow> tty_state \<Rightarrow> tty_state" where
  "close_tty fd s = s\<lparr>ty_open := (ty_open s)(fd := None)\<rparr>"

section \<open>Operations\<close>

definition mkga_containerd_build_exec_tty_argv :: "mkga_containerd_runtime \<Rightarrow> mkga_exec_session \<Rightarrow> nat \<Rightarrow> int + bytes list" where
  "mkga_containerd_build_exec_tty_argv impl x argv_cap =
    (if argv_cap = 0 then Inl (- EINVAL)
     else if xs_argv_count x = 0 \<or> of_nat MKGA_MAX_ARGV < xs_argv_count x then Inl (- EINVAL)
     else mkga_containerd_append_exec_argv argv_cap
       (mkga_ctr_fill_base_args impl @ [cs ''tasks'', cs ''exec'', cs ''--exec-id'', xs_exec_id x] @
        (if xs_tty x then [cs ''--tty''] else []) @ [xs_container_id x])
       (take (unat (xs_argv_count x)) (xs_argv x)))"

definition mkga_containerd_exec_tty_prepare ::
    "i64 \<Rightarrow> bool \<Rightarrow> bool \<Rightarrow> mkga_exec_tty_prepare_req \<Rightarrow> mkga_exec_tty_prepare_resp \<Rightarrow> tty_state \<Rightarrow> int \<times> mkga_exec_tty_prepare_resp \<times> tty_state" where
  "mkga_containerd_exec_tty_prepare now alloc_ok mu_ok req resp s =
    (case mkga_session_prepare now alloc_ok mu_ok (Some req) (Some resp) (ty_sessions s) of
       (rc, resp', ss) \<Rightarrow> (rc, the resp', s\<lparr>ty_sessions := ss\<rparr>))"

text \<open>
  The calls on the way to a running child: the descriptor of the terminal or an error number, error
  numbers (0 for success) of \<^verbatim>\<open>grantpt\<close> or \<^verbatim>\<open>unlockpt\<close>, \<^verbatim>\<open>ptsname\<close> and \<^verbatim>\<open>ioctl\<close>, the process or an
  error number, the result of \<^verbatim>\<open>mkga_set_nonblock\<close>, the allocation, and the two threads. The first
  is the reader thread of the stream device.
\<close>

record start_env =
  se_stream_rc :: int
  se_openpt :: "int + int"
  se_grantpt :: int
  se_ptsname :: int
  se_winsize :: int
  se_fork :: "int + int"
  se_nonblock :: int
  se_waiter_ok :: bool
  se_io_rc :: int
  se_wait_rc :: int

text \<open>A thread could not be made: back to a prepared session; the child is killed and waited for.\<close>

definition undo_start :: "nat \<Rightarrow> int \<Rightarrow> int \<Rightarrow> tty_state \<Rightarrow> tty_state" where
  "undo_start i fd pid s =
    (let s1 = set_session i ((ty_sessions s ! i)\<lparr>xs_state := MKGA_EXEC_SESSION_PREPARED, xs_master_fd := -1, xs_child_pid := -1\<rparr>) s
     in close_tty fd (s1\<lparr>ty_children := ty_children s1 - {pid}\<rparr>))"

definition run_session :: "nat \<Rightarrow> int \<Rightarrow> int \<Rightarrow> tty_state \<Rightarrow> tty_state" where
  "run_session i fd pid s =
    (set_session i ((ty_sessions s ! i)\<lparr>xs_master_fd := fd, xs_child_pid := pid, xs_exit_code := 0, xs_state := MKGA_EXEC_SESSION_RUNNING\<rparr>) s)
      \<lparr>ty_open := (ty_open s)(fd \<mapsto> []), ty_size := (ty_size s)(fd := (80, 24)), ty_children := insert pid (ty_children s)\<rparr>"

definition start_child :: "start_env \<Rightarrow> nat \<Rightarrow> tty_state \<Rightarrow> int \<times> tty_state" where
  "start_child env i s =
    (case se_openpt env of
       Inl e \<Rightarrow> (- e, s)
     | Inr fd \<Rightarrow>
         if se_grantpt env \<noteq> 0 then (- se_grantpt env, s)
         else if se_ptsname env \<noteq> 0 then (- se_ptsname env, s)
         else if se_winsize env \<noteq> 0 then (- se_winsize env, s)
         else case se_fork env of
           Inl e \<Rightarrow> (- e, s)
         | Inr pid \<Rightarrow>
             if se_nonblock env \<noteq> 0 then (se_nonblock env, s)
             else if \<not> se_waiter_ok env then (- ENOMEM, s)
             else
               let s1 = run_session i fd pid s in
               if se_io_rc env \<noteq> 0 then (- se_io_rc env, undo_start i fd pid s1)
               else
                 let s2 = s1\<lparr>ty_pumps := ty_pumps s1 @ [(i, PumpLock)]\<rparr> in
                 if se_wait_rc env \<noteq> 0 then (- se_wait_rc env, undo_start i fd pid s2)
                 else (0, s2\<lparr>ty_waiters := ty_waiters s2 @ [(i, WaitPid)]\<rparr>))"

definition with_exec_id :: "mkga_exec_session \<Rightarrow> mkga_exec_session" where
  "with_exec_id x = (if xs_exec_id x = [] then x\<lparr>xs_exec_id := copied MKGA_MAX_SESSION_ID_LEN (xs_session_id x)\<rparr> else x)"

definition mkga_containerd_exec_tty_start ::
    "'d os \<Rightarrow> start_env \<Rightarrow> mkga_containerd_runtime \<Rightarrow> mkga_exec_session_control_req \<Rightarrow> tty_state \<Rightarrow> 'd world \<Rightarrow> (int \<times> tty_state \<times> 'd world) option" where
  "mkga_containerd_exec_tty_start os env impl req s w =
    (if es_session_id req = [] then Some (- EINVAL, s, w)
     else case mkga_stream_ensure_started (os_getenv os) (se_stream_rc env) (ty_stream s) of
       (rc, st) \<Rightarrow>
         let s0 = s\<lparr>ty_stream := st\<rparr> in
         if rc \<noteq> 0 then Some (rc, s0, w)
         else case mkga_session_lookup (ty_sessions s0) (Some (es_session_id req)) of
           None \<Rightarrow> Some (- ENOENT, s0, w)
         | Some i \<Rightarrow>
             let x = ty_sessions s0 ! i in
             if xs_state x = MKGA_EXEC_SESSION_RUNNING then Some (0, s0, w)
             else if xs_state x \<noteq> MKGA_EXEC_SESSION_PREPARED then Some (- EINVAL, s0, w)
             else
               let x1 = with_exec_id x; s1 = set_session i x1 s0
               in case mkga_containerd_query_task_status os impl (xs_container_id x1) w of
                    None \<Rightarrow> None
                  | Some (rc, task_status, pid, w1) \<Rightarrow>
                      if rc \<noteq> 0 then Some (rc, s1, w1)
                      else if task_status = MKGA_CONTAINERD_TASK_STATUS_STOPPED \<or> task_status = MKGA_CONTAINERD_TASK_STATUS_MISSING
                      then Some (- ENOENT, s1, w1)
                      else if task_status \<noteq> MKGA_CONTAINERD_TASK_STATUS_RUNNING then Some (- EIO, s1, w1)
                      else case mkga_containerd_build_exec_tty_argv impl x1 MKGA_CONTAINERD_ARGV_MAX of
                        Inl rc \<Rightarrow> Some (rc, s1, w1)
                      | Inr argv \<Rightarrow> (case start_child env i s1 of (rc, s2) \<Rightarrow> Some (rc, s2, w1)))"

text \<open>\<open>winsize_rc\<close> is the error number of the \<^verbatim>\<open>ioctl\<close>; the sizes are cut to 16 bits.\<close>

definition mkga_containerd_exec_tty_resize :: "int \<Rightarrow> mkga_exec_tty_resize_req \<Rightarrow> tty_state \<Rightarrow> int \<times> tty_state" where
  "mkga_containerd_exec_tty_resize winsize_rc req s =
    (if ez_session_id req = [] \<or> ez_width req = 0 \<or> ez_height req = 0 then (- EINVAL, s)
     else case mkga_session_lookup (ty_sessions s) (Some (ez_session_id req)) of
       None \<Rightarrow> (- ENOENT, s)
     | Some i \<Rightarrow>
         let x = ty_sessions s ! i in
         if xs_master_fd x < 0 \<or> xs_state x \<noteq> MKGA_EXEC_SESSION_RUNNING then (- EINVAL, s)
         else if winsize_rc \<noteq> 0 then (- winsize_rc, s)
         else (0, s\<lparr>ty_size := (ty_size s)(xs_master_fd x := (ucast (ez_width req), ucast (ez_height req)))\<rparr>))"

text \<open>\<open>kill_rc\<close> is the error number of \<^verbatim>\<open>kill\<close>.\<close>

definition mkga_containerd_exec_tty_close :: "int \<Rightarrow> mkga_exec_session_control_req \<Rightarrow> tty_state \<Rightarrow> int \<times> tty_state" where
  "mkga_containerd_exec_tty_close kill_rc req s =
    (if es_session_id req = [] then (- EINVAL, s)
     else case mkga_session_lookup (ty_sessions s) (Some (es_session_id req)) of
       None \<Rightarrow> (- ENOENT, s)
     | Some i \<Rightarrow>
         let x = ty_sessions s ! i;
             s1 = set_session i (x\<lparr>xs_state := MKGA_EXEC_SESSION_CLOSED, xs_master_fd := (if 0 \<le> xs_master_fd x then -1 else xs_master_fd x)\<rparr>) s;
             s2 = (if 0 \<le> xs_master_fd x then close_tty (xs_master_fd x) s1 else s1)
         in if 0 < xs_child_pid x \<and> kill_rc \<noteq> 0 \<and> kill_rc \<noteq> ESRCH then (- kill_rc, s2) else (0, s2))"

section \<open>Threads\<close>

text \<open>How \<^verbatim>\<open>poll\<close> ends, with the two flags for input and for the end of the other side.\<close>

datatype poll_result =
    PollFails int
  | PollTimeout
  | PollEvents bool bool

text \<open>How \<^verbatim>\<open>read\<close> ends: with at most that many bytes (none at the end of the file), or an error number.\<close>

datatype tty_read =
    TtyRead nat
  | TtyFails int

definition pump_lock :: "nat \<Rightarrow> tty_state \<Rightarrow> pump_pc" where
  "pump_lock i s =
    (let x = ty_sessions s ! i in
     if xs_master_fd x < 0 \<or> xs_state x = MKGA_EXEC_SESSION_EXITED \<or> xs_state x = MKGA_EXEC_SESSION_CLOSED then PumpDone
     else PumpPoll (xs_master_fd x))"

definition pump_poll :: "poll_result \<Rightarrow> int \<Rightarrow> pump_pc" where
  "pump_poll p fd =
    (case p of
       PollFails e \<Rightarrow> if e = EINTR then PumpLock else PumpDone
     | PollTimeout \<Rightarrow> PumpLock
     | PollEvents inp hup \<Rightarrow> if \<not> inp then (if hup then PumpDone else PumpLock) else PumpRead fd)"

text \<open>Reading from a descriptor that is not open fails with EBADF.\<close>

definition pump_read :: "tty_read \<Rightarrow> nat \<Rightarrow> int \<Rightarrow> tty_state \<Rightarrow> pump_pc \<times> tty_state" where
  "pump_read r i fd s =
    (case ty_open s fd of
       None \<Rightarrow> (PumpDone, s)
     | Some buf \<Rightarrow>
         (case r of
            TtyFails e \<Rightarrow> (if e = EINTR \<or> e = EAGAIN then PumpLock else PumpDone, s)
          | TtyRead n \<Rightarrow>
              let d = take (min n MKRING_STREAM_MAX_PAYLOAD) buf in
              if d = [] then (PumpDone, s)
              else (PumpLock, s\<lparr>ty_open := (ty_open s)(fd \<mapsto> drop (length d) buf),
                                ty_calls := ty_calls s @ [SendOutput (xs_session_id (ty_sessions s ! i)) d]\<rparr>)))"

definition mkga_containerd_exec_tty_output_pump ::
    "poll_result \<Rightarrow> tty_read \<Rightarrow> nat \<Rightarrow> pump_pc \<Rightarrow> tty_state \<Rightarrow> pump_pc \<times> tty_state" where
  "mkga_containerd_exec_tty_output_pump p r i pc s =
    (case pc of
       PumpLock \<Rightarrow> (pump_lock i s, s)
     | PumpPoll fd \<Rightarrow> (pump_poll p fd, s)
     | PumpRead fd \<Rightarrow> pump_read r i fd s
     | PumpDone \<Rightarrow> (PumpDone, s))"

text \<open>How \<^verbatim>\<open>waitpid\<close> ends; after an error the status is taken as 0, a normal exit.\<close>

datatype waitpid_result =
    WaitGot wait_status
  | WaitErr int

definition exit_code_of :: "wait_status \<Rightarrow> i32" where
  "exit_code_of st = (case st of WExited c \<Rightarrow> of_int c | WSignaled sig \<Rightarrow> of_int (128 + sig) | WOther \<Rightarrow> 0)"

definition waiter_pid :: "waitpid_result \<Rightarrow> nat \<Rightarrow> tty_state \<Rightarrow> waiter_pc \<times> tty_state" where
  "waiter_pid r i s =
    (case r of
       WaitGot st \<Rightarrow> (WaitLock (exit_code_of st), s\<lparr>ty_children := ty_children s - {xs_child_pid (ty_sessions s ! i)}\<rparr>)
     | WaitErr e \<Rightarrow> (if e = EINTR then WaitPid else WaitLock 0, s))"

definition waiter_lock :: "nat \<Rightarrow> i32 \<Rightarrow> tty_state \<Rightarrow> tty_state" where
  "waiter_lock i code s =
    (let x = ty_sessions s ! i;
         s1 = (if 0 \<le> xs_master_fd x then close_tty (xs_master_fd x) s else s)
     in set_session i (x\<lparr>xs_master_fd := (if 0 \<le> xs_master_fd x then -1 else xs_master_fd x), xs_child_pid := -1, xs_exit_code := sint code,
          xs_state := (if xs_state x \<noteq> MKGA_EXEC_SESSION_CLOSED then MKGA_EXEC_SESSION_EXITED else xs_state x)\<rparr>) s1)"

definition mkga_containerd_exec_tty_waiter :: "waitpid_result \<Rightarrow> nat \<Rightarrow> waiter_pc \<Rightarrow> tty_state \<Rightarrow> waiter_pc \<times> tty_state" where
  "mkga_containerd_exec_tty_waiter r i pc s =
    (case pc of
       WaitPid \<Rightarrow> waiter_pid r i s
     | WaitLock code \<Rightarrow> (WaitSend code, waiter_lock i code s)
     | WaitSend code \<Rightarrow> (WaitDone, s\<lparr>ty_calls := ty_calls s @ [SendExit (xs_session_id (ty_sessions s ! i)) code]\<rparr>)
     | WaitDone \<Rightarrow> (WaitDone, s))"

text \<open>
  One step of the system. A new terminal gets a descriptor that is not in use, a new child a new
  process number; \<^verbatim>\<open>waitpid\<close> finds a child that has not been waited for.
\<close>

definition fresh_env :: "start_env \<Rightarrow> tty_state \<Rightarrow> bool" where
  "fresh_env env s \<longleftrightarrow> (case se_openpt env of Inr fd \<Rightarrow> 0 \<le> fd \<and> ty_open s fd = None | Inl _ \<Rightarrow> True) \<and>
    (case se_fork env of Inr pid \<Rightarrow> 0 < pid \<and> pid \<notin> ty_children s | Inl _ \<Rightarrow> True)"

inductive tty_step :: "'d os \<Rightarrow> mkga_containerd_runtime \<Rightarrow> tty_state \<Rightarrow> tty_state \<Rightarrow> bool" for os impl where
  prepare: "mkga_containerd_exec_tty_prepare now a m req resp s = (rc, resp', s') \<Longrightarrow> tty_step os impl s s'"
| start: "mkga_containerd_exec_tty_start os env impl req s w = Some (rc, s', w') \<Longrightarrow> fresh_env env s \<Longrightarrow> tty_step os impl s s'"
| resize: "mkga_containerd_exec_tty_resize e rreq s = (rc, s') \<Longrightarrow> tty_step os impl s s'"
| close: "mkga_containerd_exec_tty_close e req s = (rc, s') \<Longrightarrow> tty_step os impl s s'"
| print: "ty_open s fd = Some buf \<Longrightarrow> tty_step os impl s (s\<lparr>ty_open := (ty_open s)(fd \<mapsto> buf @ out)\<rparr>)"
| pump: "j < length (ty_pumps s) \<Longrightarrow> ty_pumps s ! j = (i, pc) \<Longrightarrow>
    mkga_containerd_exec_tty_output_pump p r i pc s = (pc', s') \<Longrightarrow> tty_step os impl s (s'\<lparr>ty_pumps := (ty_pumps s)[j := (i, pc')]\<rparr>)"
| waiter: "j < length (ty_waiters s) \<Longrightarrow> ty_waiters s ! j = (i, pc) \<Longrightarrow>
    (pc = WaitPid \<and> (\<exists>st. q = WaitGot st) \<longrightarrow> xs_child_pid (ty_sessions s ! i) \<in> ty_children s) \<Longrightarrow>
    mkga_containerd_exec_tty_waiter q i pc s = (pc', s') \<Longrightarrow> tty_step os impl s (s'\<lparr>ty_waiters := (ty_waiters s)[j := (i, pc')]\<rparr>)"

definition tty_init :: tty_state where
  "tty_init = \<lparr>ty_sessions = [], ty_stream = \<lparr>sm_peer_kernel_id = 0, sm_started = False, sm_stopping = False, sm_next_seq = 0\<rparr>,
    ty_open = \<lambda>_. None, ty_size = \<lambda>_. (0, 0), ty_children = {}, ty_pumps = [], ty_waiters = [], ty_calls = []\<rparr>"

end
