(* ===== verification/ExecInv.thy ===== *)
theory ExecInv
  imports ExecTty "HOL-Library.Multiset"
begin

text \<open>
  What holds of the exec sessions in every interleaving of the operations of the agent and the threads
  of the sessions, and what goes wrong between a thread that holds a copy of a descriptor and the
  thread that closes it.
\<close>

section \<open>Terminals\<close>

text \<open>The part of the sessions that says who has a terminal, and the set of open terminals.\<close>

abbreviation key :: "mkga_exec_session \<Rightarrow> mkga_exec_session_state \<times> int" where
  "key x \<equiv> (xs_state x, xs_master_fd x)"

definition fd_ok :: "(mkga_exec_session_state \<times> int) list \<Rightarrow> int set \<Rightarrow> bool" where
  "fd_ok ks D \<longleftrightarrow> (\<forall>i<length ks. 0 \<le> snd (ks ! i) \<longleftrightarrow> fst (ks ! i) = MKGA_EXEC_SESSION_RUNNING) \<and>
    (\<forall>i<length ks. \<forall>j<length ks. 0 \<le> snd (ks ! i) \<longrightarrow> snd (ks ! i) = snd (ks ! j) \<longrightarrow> i = j) \<and>
    (\<forall>fd. fd \<in> D \<longleftrightarrow> 0 \<le> fd \<and> (\<exists>i<length ks. snd (ks ! i) = fd))"

lemma fd_ok_run:
  assumes "fd_ok ks D" "i < length ks" "fst (ks ! i) \<noteq> MKGA_EXEC_SESSION_RUNNING" "0 \<le> fd" "fd \<notin> D"
  shows "fd_ok (ks[i := (MKGA_EXEC_SESSION_RUNNING, fd)]) (insert fd D)"
proof -
  have i: "snd (ks ! i) < 0" using assms(1-3) unfolding fd_ok_def by (meson not_less)
  have n: "snd (ks ! j) \<noteq> fd" if "j < length ks" for j using assms(1,4,5) that unfolding fd_ok_def by blast
  show ?thesis unfolding fd_ok_def length_list_update
  proof (intro conjI allI impI)
    fix f show "f \<in> insert fd D \<longleftrightarrow> 0 \<le> f \<and> (\<exists>j<length ks. snd (ks[i := (MKGA_EXEC_SESSION_RUNNING, fd)] ! j) = f)"
    proof (cases "f = fd")
      case False
      then show ?thesis using assms(1,2) i unfolding fd_ok_def by (metis insertE insertI2 linorder_not_less nth_list_update snd_conv)
    qed (use assms(2,4) in auto)
  next
    fix a b assume "a < length ks" "b < length ks" "0 \<le> snd (ks[i := (MKGA_EXEC_SESSION_RUNNING, fd)] ! a)"
      "snd (ks[i := (MKGA_EXEC_SESSION_RUNNING, fd)] ! a) = snd (ks[i := (MKGA_EXEC_SESSION_RUNNING, fd)] ! b)"
    then show "a = b" using assms(1,2) n [of a] n [of b] unfolding fd_ok_def by (cases "a = i"; cases "b = i") auto
  qed (use assms(1,2,4) in \<open>auto simp: fd_ok_def nth_list_update\<close>)
qed

lemma fd_ok_drop:
  assumes "fd_ok ks D" "i < length ks" "st \<noteq> MKGA_EXEC_SESSION_RUNNING" "v < 0"
  shows "fd_ok (ks[i := (st, v)]) (D - {snd (ks ! i)})"
  unfolding fd_ok_def length_list_update
proof (intro conjI allI impI)
  fix f show "f \<in> D - {snd (ks ! i)} \<longleftrightarrow> 0 \<le> f \<and> (\<exists>j<length ks. snd (ks[i := (st, v)] ! j) = f)"
  proof (cases "0 \<le> f")
    case True
    then show ?thesis using assms unfolding fd_ok_def by (metis Diff_iff insertE insertI1 linorder_not_less nth_list_update singletonD snd_conv)
  qed (use assms(1) in \<open>auto simp: fd_ok_def\<close>)
next
  fix a b assume "a < length ks" "b < length ks" "0 \<le> snd (ks[i := (st, v)] ! a)" "snd (ks[i := (st, v)] ! a) = snd (ks[i := (st, v)] ! b)"
  then show "a = b" using assms unfolding fd_ok_def by (cases "a = i"; cases "b = i") auto
qed (use assms in \<open>auto simp: fd_ok_def nth_list_update\<close>)

lemma fd_ok_neg: "fd_ok ks D \<Longrightarrow> v < 0 \<Longrightarrow> D - {v} = D"
  by (auto simp: fd_ok_def)

lemma fd_ok_new:
  assumes "fd_ok ks D"
  shows "fd_ok (ks @ [(MKGA_EXEC_SESSION_PREPARED, -1)]) D"
  unfolding fd_ok_def
proof (intro conjI allI impI)
  fix f show "f \<in> D \<longleftrightarrow> 0 \<le> f \<and> (\<exists>j<length (ks @ [(MKGA_EXEC_SESSION_PREPARED, -1)]). snd ((ks @ [(MKGA_EXEC_SESSION_PREPARED, -1)]) ! j) = f)"
    using assms by (auto simp: fd_ok_def nth_append less_Suc_eq)
qed (use assms in \<open>auto simp: fd_ok_def nth_append less_Suc_eq\<close>)

section \<open>Waiters\<close>

definition over :: "waiter_pc \<Rightarrow> bool" where
  "over pc \<longleftrightarrow> pc = WaitDone \<or> (\<exists>c. pc = WaitSend c)"

definition wait_ok :: "mkga_exec_session_state list \<Rightarrow> (nat \<times> waiter_pc) list \<Rightarrow> bool" where
  "wait_ok ss ws \<longleftrightarrow> distinct (map fst ws) \<and>
    (\<forall>i pc. (i, pc) \<in> set ws \<longrightarrow> i < length ss \<and> ss ! i \<noteq> MKGA_EXEC_SESSION_PREPARED \<and> (over pc \<longrightarrow> ss ! i \<noteq> MKGA_EXEC_SESSION_RUNNING)) \<and>
    (\<forall>i<length ss. ss ! i = MKGA_EXEC_SESSION_RUNNING \<longrightarrow> i \<in> fst ` set ws)"

lemma wait_ok_new: "wait_ok ss ws \<Longrightarrow> wait_ok (ss @ [MKGA_EXEC_SESSION_PREPARED]) ws"
  by (auto simp: wait_ok_def nth_append less_Suc_eq)

lemma wait_ok_run:
  assumes "wait_ok ss ws" "i < length ss" "ss ! i = MKGA_EXEC_SESSION_PREPARED"
  shows "wait_ok (ss[i := MKGA_EXEC_SESSION_RUNNING]) (ws @ [(i, WaitPid)])"
proof -
  have i: "i \<notin> fst ` set ws" using assms unfolding wait_ok_def by auto
  show ?thesis unfolding wait_ok_def
  proof (intro conjI allI impI, goal_cases)
    case (2 k pc)
    then show ?case using assms by (auto simp: wait_ok_def)
  next
    case (3 k pc)
    then show ?case using assms by (cases "k = i") (auto simp: wait_ok_def)
  next
    case (4 k pc)
    then show ?case using assms by (cases "k = i") (auto simp: wait_ok_def over_def)
  qed (use assms i in \<open>auto simp: wait_ok_def nth_list_update\<close>)
qed

lemma wait_ok_stop:
  assumes "wait_ok ss ws" "i < length ss" "st \<noteq> MKGA_EXEC_SESSION_PREPARED" "st \<noteq> MKGA_EXEC_SESSION_RUNNING"
  shows "wait_ok (ss[i := st]) ws"
  using assms by (auto simp: wait_ok_def nth_list_update)

lemma map_fst_update: "j < length ws \<Longrightarrow> ws ! j = (i, pc) \<Longrightarrow> map fst (ws[j := (i, pc')]) = map fst ws"
  by (metis fst_conv list_update_id map_update nth_map)

lemma wait_ok_entry:
  assumes "wait_ok (map xs_state ss) ws" "(i, pc) \<in> set ws"
  shows "i < length ss" "xs_state (ss ! i) \<noteq> MKGA_EXEC_SESSION_PREPARED" "over pc \<longrightarrow> xs_state (ss ! i) \<noteq> MKGA_EXEC_SESSION_RUNNING"
proof -
  have "i < length (map xs_state ss) \<and> map xs_state ss ! i \<noteq> MKGA_EXEC_SESSION_PREPARED \<and> (over pc \<longrightarrow> map xs_state ss ! i \<noteq> MKGA_EXEC_SESSION_RUNNING)"
    using assms unfolding wait_ok_def by blast
  then show "i < length ss" "xs_state (ss ! i) \<noteq> MKGA_EXEC_SESSION_PREPARED" "over pc \<longrightarrow> xs_state (ss ! i) \<noteq> MKGA_EXEC_SESSION_RUNNING" by auto
qed

lemma wait_ok_step:
  assumes "wait_ok ss ws" "j < length ws" "ws ! j = (i, pc)" "over pc' \<longrightarrow> ss ! i \<noteq> MKGA_EXEC_SESSION_RUNNING"
  shows "wait_ok ss (ws[j := (i, pc')])"
proof -
  have "(i, pc) \<in> set ws" using assms(2,3) by (metis nth_mem)
  moreover have "fst ` set (ws[j := (i, pc')]) = fst ` set ws" using map_fst_update [OF assms(2,3)] by (metis set_map)
  ultimately show ?thesis using assms map_fst_update [OF assms(2,3)] set_update_subset_insert [of ws j "(i, pc')"]
    unfolding wait_ok_def by (auto 4 4)
qed

section \<open>Exit notices\<close>

definition exit_ids :: "stream_call list \<Rightarrow> bytes list" where
  "exit_ids calls = concat (map (\<lambda>c. case c of SendExit sid _ \<Rightarrow> [sid] | SendOutput _ _ \<Rightarrow> []) calls)"

definition finished_ids :: "bytes list \<Rightarrow> (nat \<times> waiter_pc) list \<Rightarrow> bytes list" where
  "finished_ids ids ws = map (\<lambda>(i, pc). ids ! i) (filter (\<lambda>(i, pc). pc = WaitDone) ws)"

lemma exit_ids_simps [simp]:
  "exit_ids [] = []" "exit_ids (cs1 @ cs2) = exit_ids cs1 @ exit_ids cs2" "exit_ids [SendExit sid c] = [sid]" "exit_ids [SendOutput sid d] = []"
  by (simp_all add: exit_ids_def)

lemma finished_ids_append: "finished_ids ids (ws @ ws') = finished_ids ids ws @ finished_ids ids ws'"
  by (simp add: finished_ids_def)

lemma finished_ids_update:
  assumes "j < length ws" "ws ! j = (i, pc)" "pc \<noteq> WaitDone"
  shows "mset (finished_ids ids (ws[j := (i, pc')])) = mset (finished_ids ids ws) + (if pc' = WaitDone then {#ids ! i#} else {#})"
proof -
  have e: "ws[j := (i, pc')] = take j ws @ (i, pc') # drop (Suc j) ws" "ws = take j ws @ (i, pc) # drop (Suc j) ws"
    using assms(1,2) by (simp_all add: upd_conv_take_nth_drop id_take_nth_drop [symmetric]) (metis id_take_nth_drop)
  show ?thesis unfolding e(1) by (subst (2) e(2)) (simp add: finished_ids_def assms(3))
qed

lemma finished_ids_new: "\<forall>i pc. (i, pc) \<in> set ws \<longrightarrow> i < length ids \<Longrightarrow> finished_ids (ids @ [x]) ws = finished_ids ids ws"
  by (auto simp: finished_ids_def nth_append intro!: map_cong)

section \<open>The invariant\<close>

definition tty_inv :: "tty_state \<Rightarrow> bool" where
  "tty_inv s \<longleftrightarrow> fd_ok (map key (ty_sessions s)) (dom (ty_open s)) \<and> wait_ok (map xs_state (ty_sessions s)) (ty_waiters s) \<and>
    mset (exit_ids (ty_calls s)) = mset (finished_ids (map xs_session_id (ty_sessions s)) (ty_waiters s)) \<and>
    set (map fst (ty_pumps s)) \<subseteq> {..<length (ty_sessions s)}"

lemma tty_inv_init: "tty_inv tty_init"
  by (simp add: tty_inv_def tty_init_def fd_ok_def wait_ok_def finished_ids_def)

lemma map_update_same: "i < length xs \<Longrightarrow> f x = f (xs ! i) \<Longrightarrow> map f (xs[i := x]) = map f xs"
  by (metis list_update_id map_update)

lemma map_nth_update [simp]: "i < length xs \<Longrightarrow> (map f xs)[i := f (xs ! i)] = map f xs"
  by (metis list_update_id nth_map)

lemma tty_inv_cong:
  assumes "tty_inv s" "map key (ty_sessions s') = map key (ty_sessions s)" "map xs_session_id (ty_sessions s') = map xs_session_id (ty_sessions s)"
    and "dom (ty_open s') = dom (ty_open s)" "ty_waiters s' = ty_waiters s" "exit_ids (ty_calls s') = exit_ids (ty_calls s)"
    and "set (map fst (ty_pumps s')) \<subseteq> {..<length (ty_sessions s)}"
  shows "tty_inv s'"
proof -
  have "map xs_state (ty_sessions s') = map xs_state (ty_sessions s)" using arg_cong [OF assms(2), of "map fst"] by (simp add: comp_def)
  moreover have "length (ty_sessions s') = length (ty_sessions s)" using assms(3) by (metis length_map)
  ultimately show ?thesis using assms by (simp add: tty_inv_def)
qed

lemma prepare_inv:
  assumes "tty_inv s" "mkga_containerd_exec_tty_prepare now a m req resp s = (rc, resp', s')"
  shows "tty_inv s'"
proof -
  consider "s' = s" | x where "s' = s\<lparr>ty_sessions := ty_sessions s @ [x]\<rparr>" "key x = (MKGA_EXEC_SESSION_PREPARED, -1)"
    using assms(2) by (auto simp: mkga_containerd_exec_tty_prepare_def mkga_session_prepare_def Let_def split: if_splits)
  then show ?thesis
  proof cases
    case (2 x)
    have "\<forall>i pc. (i, pc) \<in> set (ty_waiters s) \<longrightarrow> i < length (map xs_session_id (ty_sessions s))" using assms(1) by (auto simp: tty_inv_def wait_ok_def)
    then show ?thesis using assms(1) fd_ok_new wait_ok_new finished_ids_new 2 by (auto simp: tty_inv_def less_SucI)
  qed (use assms in simp)
qed

text \<open>What starting the child comes to: nothing, a session that was set back, or a running session.\<close>

lemma start_child_cases:
  assumes "start_child env i s = (rc, s')"
  obtains "s' = s"
  | fd pid ps where "se_openpt env = Inr fd" "s' = undo_start i fd pid ((run_session i fd pid s)\<lparr>ty_pumps := ps\<rparr>)" "set ps \<subseteq> insert (i, PumpLock) (set (ty_pumps s))"
  | fd pid where "se_openpt env = Inr fd"
    "s' = (run_session i fd pid s)\<lparr>ty_pumps := ty_pumps s @ [(i, PumpLock)], ty_waiters := ty_waiters s @ [(i, WaitPid)]\<rparr>" "rc = 0"
proof -
  have p: "ty_pumps (run_session i fd pid s) = ty_pumps s" "ty_waiters (run_session i fd pid s) = ty_waiters s"
    "(run_session i fd pid s)\<lparr>ty_pumps := ty_pumps s\<rparr> = run_session i fd pid s" for fd pid
    by (simp_all add: run_session_def set_session_def)
  show ?thesis using assms that(1) that(2) [where ps = "ty_pumps s", unfolded p(3)] that(2) [where ps = "ty_pumps s @ [(i, PumpLock)]"] that(3)
    by (auto simp: start_child_def Let_def p split: sum.splits if_splits)
qed

lemma start_child_inv:
  assumes "tty_inv s" "i < length (ty_sessions s)" "xs_state (ty_sessions s ! i) = MKGA_EXEC_SESSION_PREPARED" "fresh_env env s"
    and "start_child env i s = (rc, s')"
  shows "tty_inv s'"
proof -
  let ?ks = "map key (ty_sessions s)"
  have f: "fd_ok ?ks (dom (ty_open s))" "wait_ok (map xs_state (ty_sessions s)) (ty_waiters s)" using assms(1) by (simp_all add: tty_inv_def)
  have i: "i < length ?ks" "?ks ! i = (MKGA_EXEC_SESSION_PREPARED, xs_master_fd (ty_sessions s ! i))" "xs_master_fd (ty_sessions s ! i) < 0"
    using f(1) assms(2,3) by (auto simp: fd_ok_def)
  from assms(5) show ?thesis
  proof (cases rule: start_child_cases)
    case 1
    then show ?thesis using assms(1) by simp
  next
    case (2 fd pid ps)
    have n: "fd \<notin> dom (ty_open s)" using assms(4) 2(1) by (auto simp: fresh_env_def)
    have p: "(map xs_state (ty_sessions s))[i := MKGA_EXEC_SESSION_PREPARED] = map xs_state (ty_sessions s)"
      using map_nth_update [OF assms(2), of xs_state] assms(3) by simp
    have s': "map key (ty_sessions s') = ?ks[i := (MKGA_EXEC_SESSION_PREPARED, -1)]" "map xs_session_id (ty_sessions s') = map xs_session_id (ty_sessions s)"
      "dom (ty_open s') = dom (ty_open s)" "ty_waiters s' = ty_waiters s" "ty_calls s' = ty_calls s" "ty_pumps s' = ps" "length (ty_sessions s') = length (ty_sessions s)"
      "map xs_state (ty_sessions s') = map xs_state (ty_sessions s)"
      using assms(2,3) n p by (auto simp: 2(2) undo_start_def run_session_def set_session_def close_tty_def map_update)
    have "fd_ok (map key (ty_sessions s')) (dom (ty_open s'))"
      using fd_ok_drop [OF f(1) i(1), of MKGA_EXEC_SESSION_PREPARED "-1"] fd_ok_neg [OF f(1) i(3)] i(2) unfolding s' by simp
    moreover have "set (map fst ps) \<subseteq> {..<length (ty_sessions s)}" using assms(1,2) image_mono [OF 2(3), of fst] unfolding tty_inv_def by auto
    ultimately show ?thesis using assms(1) s' unfolding tty_inv_def by simp
  next
    case (3 fd pid)
    have n: "0 \<le> fd" "fd \<notin> dom (ty_open s)" using assms(4) 3(1) by (auto simp: fresh_env_def)
    have s': "map key (ty_sessions s') = ?ks[i := (MKGA_EXEC_SESSION_RUNNING, fd)]" "map xs_session_id (ty_sessions s') = map xs_session_id (ty_sessions s)"
      "dom (ty_open s') = insert fd (dom (ty_open s))" "map xs_state (ty_sessions s') = (map xs_state (ty_sessions s))[i := MKGA_EXEC_SESSION_RUNNING]"
      "ty_waiters s' = ty_waiters s @ [(i, WaitPid)]" "ty_calls s' = ty_calls s" "ty_pumps s' = ty_pumps s @ [(i, PumpLock)]" "length (ty_sessions s') = length (ty_sessions s)"
      using assms(2) by (auto simp: 3(2) run_session_def set_session_def map_update)
    have "fd_ok (map key (ty_sessions s')) (dom (ty_open s'))" unfolding s' using fd_ok_run [OF f(1) i(1) _ n] i(2) by simp
    moreover have "wait_ok (map xs_state (ty_sessions s')) (ty_waiters s')" unfolding s' using wait_ok_run [OF f(2)] assms(2,3) by simp
    moreover have "finished_ids ids (ty_waiters s') = finished_ids ids (ty_waiters s)" for ids unfolding s' by (simp add: finished_ids_append) (simp add: finished_ids_def)
    ultimately show ?thesis using assms(1,2) s' unfolding tty_inv_def by auto
  qed
qed

lemma fresh_env_cong: "fresh_env env s \<Longrightarrow> ty_open s' = ty_open s \<Longrightarrow> ty_children s' = ty_children s \<Longrightarrow> fresh_env env s'"
  by (auto simp: fresh_env_def split: sum.splits)

lemma with_exec_id_fields [simp]:
  "xs_state (with_exec_id x) = xs_state x" "xs_master_fd (with_exec_id x) = xs_master_fd x" "xs_session_id (with_exec_id x) = xs_session_id x"
  by (simp_all add: with_exec_id_def)

lemma start_inv:
  assumes "tty_inv s" "mkga_containerd_exec_tty_start os env impl req s w = Some (rc, s', w')" "fresh_env env s"
  shows "tty_inv s'"
proof -
  have st: "tty_inv (s\<lparr>ty_stream := st\<rparr>)" for st using assms(1) by (simp add: tty_inv_def)
  have x: "tty_inv (set_session i (with_exec_id (ty_sessions s ! i)) (s\<lparr>ty_stream := st\<rparr>))"
    "fresh_env env (set_session i (with_exec_id (ty_sessions s ! i)) (s\<lparr>ty_stream := st\<rparr>))"
    if "i < length (ty_sessions s)" for i st
  proof -
    show "tty_inv (set_session i (with_exec_id (ty_sessions s ! i)) (s\<lparr>ty_stream := st\<rparr>))"
      by (rule tty_inv_cong [OF assms(1)]) (use assms(1) that in \<open>auto simp: set_session_def map_update_same tty_inv_def\<close>)
    show "fresh_env env (set_session i (with_exec_id (ty_sessions s ! i)) (s\<lparr>ty_stream := st\<rparr>))"
      by (rule fresh_env_cong [OF assms(3)]) (simp_all add: set_session_def)
  qed
  have c: "tty_inv s2" if "i < length (ty_sessions s)" "xs_state (ty_sessions s ! i) = MKGA_EXEC_SESSION_PREPARED"
    "start_child env i (set_session i (with_exec_id (ty_sessions s ! i)) (s\<lparr>ty_stream := st\<rparr>)) = (r, s2)" for i st r s2
    by (rule start_child_inv [OF x(1) [OF that(1)] _ _ x(2) [OF that(1)] that(3)]) (use that(1,2) in \<open>simp_all add: set_session_def\<close>)
  have l: "i < length (ty_sessions s)" if "mkga_session_lookup (ty_sessions s) (Some k) = Some i" for i k
    using that by (simp add: lookup_is_find find_locked_Some)
  show ?thesis using assms(1,2) unfolding mkga_containerd_exec_tty_start_def
    by (auto simp: Let_def st x(1) split: if_splits prod.splits option.splits sum.splits dest!: l intro: c x(1))
qed

lemma resize_inv:
  assumes "tty_inv s" "mkga_containerd_exec_tty_resize e req s = (rc, s')"
  shows "tty_inv s'"
proof -
  have "s' = s \<or> (\<exists>z. s' = s\<lparr>ty_size := z\<rparr>)"
    using assms(2) by (auto simp: mkga_containerd_exec_tty_resize_def Let_def split: if_splits option.splits)
  then show ?thesis using assms(1) by (elim disjE exE) (simp_all add: tty_inv_def)
qed

text \<open>A session gives up its terminal and does not run any more; used by close and by the waiter.\<close>

lemma stop_session_inv:
  assumes "tty_inv s" "i < length (ty_sessions s)" "xs_state x \<noteq> MKGA_EXEC_SESSION_PREPARED" "xs_state x \<noteq> MKGA_EXEC_SESSION_RUNNING"
    and "xs_master_fd x < 0" "xs_session_id x = xs_session_id (ty_sessions s ! i)"
    and "ty_sessions s' = (ty_sessions s)[i := x]" "ty_open s' = (if 0 \<le> xs_master_fd (ty_sessions s ! i) then (ty_open s)(xs_master_fd (ty_sessions s ! i) := None) else ty_open s)"
    and "ty_waiters s' = ty_waiters s" "ty_calls s' = ty_calls s" "ty_pumps s' = ty_pumps s"
  shows "tty_inv s'"
proof -
  have f: "fd_ok (map key (ty_sessions s)) (dom (ty_open s))" "wait_ok (map xs_state (ty_sessions s)) (ty_waiters s)" using assms(1) by (simp_all add: tty_inv_def)
  have "dom (ty_open s') = dom (ty_open s) - {xs_master_fd (ty_sessions s ! i)}" using fd_ok_neg [OF f(1)] assms(8) by auto
  then have "fd_ok (map key (ty_sessions s')) (dom (ty_open s'))"
    using fd_ok_drop [OF f(1), of i "xs_state x" "xs_master_fd x"] assms(2,4,5,7) by (simp add: map_update)
  moreover have "wait_ok (map xs_state (ty_sessions s')) (ty_waiters s')" using wait_ok_stop [OF f(2), of i "xs_state x"] assms(2-4,7,9) by (simp add: map_update)
  moreover have "map xs_session_id (ty_sessions s') = map xs_session_id (ty_sessions s)" using assms(2,6,7) by (simp add: map_update_same)
  ultimately show ?thesis using assms(1,7,9-11) by (simp add: tty_inv_def)
qed

lemma close_inv:
  assumes "tty_inv s" "mkga_containerd_exec_tty_close e req s = (rc, s')"
  shows "tty_inv s'"
proof (cases "s' = s")
  case False
  then obtain i where i: "mkga_session_lookup (ty_sessions s) (Some (es_session_id req)) = Some i"
    using assms(2) by (auto simp: mkga_containerd_exec_tty_close_def split: if_splits option.splits)
  let ?x = "ty_sessions s ! i"
  let ?y = "?x\<lparr>xs_state := MKGA_EXEC_SESSION_CLOSED, xs_master_fd := (if 0 \<le> xs_master_fd ?x then -1 else xs_master_fd ?x)\<rparr>"
  have l: "i < length (ty_sessions s)" using i by (simp add: lookup_is_find find_locked_Some)
  show ?thesis by (rule stop_session_inv [OF assms(1) l, of ?y])
      (use assms(2) i False in \<open>auto simp: mkga_containerd_exec_tty_close_def set_session_def close_tty_def Let_def split: if_splits\<close>)
qed (use assms in simp)

lemma pump_inv:
  assumes "tty_inv s" "j < length (ty_pumps s)" "ty_pumps s ! j = (i, pc)" "mkga_containerd_exec_tty_output_pump p r i pc s = (pc', s')"
  shows "tty_inv (s'\<lparr>ty_pumps := (ty_pumps s)[j := (i, pc')]\<rparr>)"
proof (rule tty_inv_cong [OF assms(1)])
  show "set (map fst (ty_pumps (s'\<lparr>ty_pumps := (ty_pumps s)[j := (i, pc')]\<rparr>))) \<subseteq> {..<length (ty_sessions s)}"
    using assms(1) map_fst_update [OF assms(2,3), of pc'] unfolding tty_inv_def by simp
qed (use assms(4) in \<open>auto simp: mkga_containerd_exec_tty_output_pump_def pump_read_def Let_def split: pump_pc.splits option.splits tty_read.splits if_splits\<close>)

lemma waiter_lock_inv:
  assumes "tty_inv s" "i < length (ty_sessions s)" "xs_state (ty_sessions s ! i) \<noteq> MKGA_EXEC_SESSION_PREPARED"
  shows "tty_inv (waiter_lock i code s)" "xs_state (ty_sessions (waiter_lock i code s) ! i) \<noteq> MKGA_EXEC_SESSION_RUNNING"
    "ty_waiters (waiter_lock i code s) = ty_waiters s"
proof -
  let ?x = "ty_sessions s ! i"
  let ?y = "?x\<lparr>xs_master_fd := (if 0 \<le> xs_master_fd ?x then -1 else xs_master_fd ?x), xs_child_pid := -1, xs_exit_code := sint code,
    xs_state := (if xs_state ?x \<noteq> MKGA_EXEC_SESSION_CLOSED then MKGA_EXEC_SESSION_EXITED else xs_state ?x)\<rparr>"
  show "tty_inv (waiter_lock i code s)" by (rule stop_session_inv [OF assms(1,2), of ?y])
      (simp_all add: waiter_lock_def set_session_def close_tty_def Let_def)
qed (use assms(2) in \<open>simp_all add: waiter_lock_def set_session_def close_tty_def Let_def\<close>)

text \<open>A waiter moves on: only its own entry changes, and a notice is sent when it is done.\<close>

lemma waiter_moves:
  assumes "tty_inv s" "j < length (ty_waiters s)" "ty_waiters s ! j = (i, pc)" "pc \<noteq> WaitDone"
    and "over pc' \<longrightarrow> xs_state (ty_sessions s ! i) \<noteq> MKGA_EXEC_SESSION_RUNNING"
    and "exit_ids calls = exit_ids (ty_calls s) @ (if pc' = WaitDone then [xs_session_id (ty_sessions s ! i)] else [])"
  shows "tty_inv (s\<lparr>ty_calls := calls, ty_waiters := (ty_waiters s)[j := (i, pc')]\<rparr>)"
proof -
  have w: "wait_ok (map xs_state (ty_sessions s)) (ty_waiters s)" using assms(1) by (simp add: tty_inv_def)
  have "(i, pc) \<in> set (ty_waiters s)" using assms(2,3) by (metis nth_mem)
  then have i: "i < length (ty_sessions s)" using w unfolding wait_ok_def by auto
  have "wait_ok (map xs_state (ty_sessions s)) ((ty_waiters s)[j := (i, pc')])" using wait_ok_step [OF w assms(2,3)] assms(5) i by simp
  then show ?thesis using assms(1,6) finished_ids_update [OF assms(2-4)] i by (simp add: tty_inv_def)
qed

lemma waiter_inv:
  assumes "tty_inv s" "j < length (ty_waiters s)" "ty_waiters s ! j = (i, pc)" "mkga_containerd_exec_tty_waiter q i pc s = (pc', s')"
  shows "tty_inv (s'\<lparr>ty_waiters := (ty_waiters s)[j := (i, pc')]\<rparr>)"
proof -
  have w: "(i, pc) \<in> set (ty_waiters s)" using assms(2,3) by (metis nth_mem)
  have "wait_ok (map xs_state (ty_sessions s)) (ty_waiters s)" using assms(1) by (simp add: tty_inv_def)
  note i = wait_ok_entry [OF this w]
  show ?thesis
  proof (cases pc)
    case WaitPid
    obtain C where s': "s' = s\<lparr>ty_children := C\<rparr>" "\<not> over pc'"
      using assms(4) WaitPid that [of "ty_children s"] by (auto simp: mkga_containerd_exec_tty_waiter_def waiter_pid_def over_def split: waitpid_result.splits if_splits)
    have "tty_inv (s\<lparr>ty_calls := ty_calls s, ty_waiters := (ty_waiters s)[j := (i, pc')]\<rparr>)"
      by (rule waiter_moves [OF assms(1-3)]) (use WaitPid s'(2) in \<open>auto simp: over_def\<close>)
    then show ?thesis by (simp add: s'(1) tty_inv_def)
  next
    case (WaitLock code)
    then have s': "s' = waiter_lock i code s" "pc' = WaitSend code" using assms(4) by (simp_all add: mkga_containerd_exec_tty_waiter_def)
    note l = waiter_lock_inv [OF assms(1) i(1,2), of code]
    have "tty_inv (s'\<lparr>ty_calls := ty_calls s', ty_waiters := (ty_waiters s')[j := (i, pc')]\<rparr>)"
      by (rule waiter_moves [of s' j i pc]) (use l assms(2,3) s' WaitLock in simp_all)
    then show ?thesis using l(3) s'(1) by simp
  next
    case (WaitSend code)
    then have s': "s' = s\<lparr>ty_calls := ty_calls s @ [SendExit (xs_session_id (ty_sessions s ! i)) code]\<rparr>" "pc' = WaitDone"
      using assms(4) by (simp_all add: mkga_containerd_exec_tty_waiter_def)
    have "tty_inv (s\<lparr>ty_calls := ty_calls s', ty_waiters := (ty_waiters s)[j := (i, pc')]\<rparr>)"
      by (rule waiter_moves [OF assms(1-3)]) (use WaitSend s' i(3) in \<open>auto simp: over_def\<close>)
    then show ?thesis by (simp add: s'(1))
  next
    case WaitDone
    then have "s' = s" "pc' = pc" using assms(4) by (simp_all add: mkga_containerd_exec_tty_waiter_def)
    moreover have "(ty_waiters s)[j := (i, pc)] = ty_waiters s" unfolding assms(3) [symmetric] by simp
    ultimately show ?thesis using assms(1) by simp
  qed
qed

lemma print_inv: "tty_inv s \<Longrightarrow> ty_open s fd = Some buf \<Longrightarrow> tty_inv (s\<lparr>ty_open := (ty_open s)(fd \<mapsto> out)\<rparr>)"
  by (simp add: tty_inv_def insert_absorb domI)

lemma tty_step_inv: "tty_step os impl s s' \<Longrightarrow> tty_inv s \<Longrightarrow> tty_inv s'"
  by (induction rule: tty_step.induct) (auto intro: prepare_inv start_inv resize_inv close_inv print_inv pump_inv waiter_inv)

lemma tty_reachable_inv: "(tty_step os impl)\<^sup>*\<^sup>* tty_init s \<Longrightarrow> tty_inv s"
  by (induction rule: rtranclp_induct) (auto intro: tty_inv_init tty_step_inv)

section \<open>Properties\<close>

text \<open>
  C14. Terminals, waiters and exit notices of the exec sessions, in every interleaving of the operations
  of the agent with the threads of all sessions and whatever fails on the way. The open terminals
  are exactly those of the running sessions, so none is leaked, and no two sessions share one. Every
  running session has a thread that waits for its child, no session ever has two, and when this
  thread has got past its critical section the session does not run any more. The exit notices
  that have been sent are, one for one, those of the waiting threads that have come to their end.
\<close>

theorem exec_sessions_sound:
  assumes "(tty_step os impl)\<^sup>*\<^sup>* tty_init s"
  shows "dom (ty_open s) = {xs_master_fd x |x. x \<in> set (ty_sessions s) \<and> xs_state x = MKGA_EXEC_SESSION_RUNNING} \<and>
    (\<forall>i<length (ty_sessions s). \<forall>j<length (ty_sessions s). xs_state (ty_sessions s ! i) = MKGA_EXEC_SESSION_RUNNING \<longrightarrow>
      xs_master_fd (ty_sessions s ! i) = xs_master_fd (ty_sessions s ! j) \<longrightarrow> i = j) \<and>
    distinct (map fst (ty_waiters s)) \<and>
    (\<forall>i<length (ty_sessions s). xs_state (ty_sessions s ! i) = MKGA_EXEC_SESSION_RUNNING \<longrightarrow> (\<exists>pc. (i, pc) \<in> set (ty_waiters s) \<and> \<not> over pc)) \<and>
    mset (exit_ids (ty_calls s)) = mset (finished_ids (map xs_session_id (ty_sessions s)) (ty_waiters s))"
proof -
  have inv: "fd_ok (map key (ty_sessions s)) (dom (ty_open s))" "wait_ok (map xs_state (ty_sessions s)) (ty_waiters s)"
    "mset (exit_ids (ty_calls s)) = mset (finished_ids (map xs_session_id (ty_sessions s)) (ty_waiters s))"
    using tty_reachable_inv [OF assms] by (simp_all add: tty_inv_def)
  have f: "(0 \<le> xs_master_fd x) = (xs_state x = MKGA_EXEC_SESSION_RUNNING)" if "x \<in> set (ty_sessions s)" for x
    using inv(1) that by (auto simp: fd_ok_def in_set_conv_nth)
  have "fd \<in> dom (ty_open s) \<longleftrightarrow> (\<exists>x. fd = xs_master_fd x \<and> x \<in> set (ty_sessions s) \<and> xs_state x = MKGA_EXEC_SESSION_RUNNING)" for fd
  proof -
    have "fd \<in> dom (ty_open s) \<longleftrightarrow> 0 \<le> fd \<and> (\<exists>i<length (ty_sessions s). xs_master_fd (ty_sessions s ! i) = fd)"
      using inv(1) by (simp add: fd_ok_def cong: conj_cong)
    then show ?thesis using f by (metis in_set_conv_nth)
  qed
  then have 1: "dom (ty_open s) = {xs_master_fd x |x. x \<in> set (ty_sessions s) \<and> xs_state x = MKGA_EXEC_SESSION_RUNNING}" by blast
  have 2: "i = j" if "i < length (ty_sessions s)" "j < length (ty_sessions s)" "xs_state (ty_sessions s ! i) = MKGA_EXEC_SESSION_RUNNING"
    "xs_master_fd (ty_sessions s ! i) = xs_master_fd (ty_sessions s ! j)" for i j
    using inv(1) f [of "ty_sessions s ! i"] that by (simp add: fd_ok_def)
  have 3: "\<exists>pc. (i, pc) \<in> set (ty_waiters s) \<and> \<not> over pc" if i: "i < length (ty_sessions s)" "xs_state (ty_sessions s ! i) = MKGA_EXEC_SESSION_RUNNING" for i
  proof -
    obtain pc where "(i, pc) \<in> set (ty_waiters s)" using inv(2) i by (auto simp: wait_ok_def)
    then show ?thesis using wait_ok_entry(3) [OF inv(2)] i(2) by blast
  qed
  have "distinct (map fst (ty_waiters s))" using inv(2) by (simp add: wait_ok_def)
  then show ?thesis using 1 2 3 inv(3) by blast
qed

end
