(* ===== verification/ExecRace.thy ===== *)
theory ExecRace
  imports ExecInv CtrLifecycle
begin

text \<open>
  Two runs of the exec sessions in which output goes wrong: a pump that has copied a descriptor reads
  the terminal of another session, and a waiter closes a terminal that still holds output.
\<close>

section \<open>A container with a running task\<close>

definition task_table :: bytes where
  "task_table = cs ''TASK PID STATUS'' @ [newline] @ cs ''ctr-1 42 RUNNING'' @ [newline]"

definition task_run :: ctr_run where
  "task_run = (prompt_run (WExited 0))\<lparr>run_rounds :=
    [\<lparr>xr_now = 0, xr_poll = 0, xr_stdout = [ReadBytes task_table, ReadEof], xr_stderr = [ReadEof], xr_wait = Reaped (WExited 0)\<rparr>]\<rparr>"

definition task_os :: "unit os" where
  "task_os = quiet_os\<lparr>os_ctr := \<lambda>_ _ d. (task_run, d)\<rparr>"

lemma task_ctr: "argv \<noteq> [] \<Longrightarrow> ctr task_os argv 5000 w = Some (0, task_table, [], w)"
  by (simp add: ctr_def task_os_def task_run_def prompt_run_def mkga_ctr_exec_def exec_start_def exec_loop.simps exec_running_def exec_step_def
      read_stdout_def read_stderr_def mkga_read_pipe_into_buffer_def mkga_append_output_def wait_child_def mkga_map_ctr_error_def task_table_def cs_def insert_Diff_if)

lemma task_running: "\<exists>pid. mkga_containerd_query_task_status task_os box (cs ''ctr-1'') w = Some (0, MKGA_CONTAINERD_TASK_STATUS_RUNNING, pid, w)"
proof -
  have t: "strtok_all (\<lambda>c. c = newline) (cstr task_table) = [cs ''TASK PID STATUS'', cs ''ctr-1 42 RUNNING'']"
    by (simp add: strtok_all_def task_table_def cstr_def cs_def)
  have l: "strtok_all blank (copied MKGA_CONTAINERD_OUTPUT_MAX (cs ''TASK PID STATUS'')) = [cs ''TASK'', cs ''PID'', cs ''STATUS'']"
    "strtok_all blank (copied MKGA_CONTAINERD_OUTPUT_MAX (cs ''ctr-1 42 RUNNING'')) = [cs ''ctr-1'', cs ''42'', cs ''RUNNING'']"
    by (simp_all add: strtok_all_def blank_def copied_def cs_def)
  have n: "cs ''TASK'' \<noteq> cs ''ctr-1''" "cs ''ctr-1'' \<noteq> cs ''TASK''" by (simp_all add: cs_def)
  show ?thesis using task_ctr [of "mkga_ctr_fill_base_args box @ [cs ''tasks'', cs ''ls'']" w] n
    by (simp add: mkga_containerd_query_task_status_def control_ok(2) t l)
qed

section \<open>Steps\<close>

definition sh :: "string \<Rightarrow> mkga_exec_session_state \<Rightarrow> int \<Rightarrow> int \<Rightarrow> mkga_exec_session" where
  "sh k st fd pid = \<lparr>xs_session_id = cs k, xs_container_id = cs ''ctr-1'', xs_exec_id = (if st = MKGA_EXEC_SESSION_PREPARED then [] else cs k),
    xs_argv_count = 1, xs_argv = [cs ''sh'', [], [], []], xs_tty = False, xs_stdin_enabled = False, xs_stdout_enabled = False, xs_stderr_enabled = False,
    xs_state = st, xs_master_fd = fd, xs_child_pid = pid, xs_exit_code = 0\<rparr>"

definition on_terminal :: "int \<Rightarrow> int \<Rightarrow> start_env" where
  "on_terminal fd pid = \<lparr>se_stream_rc = 0, se_openpt = Inr fd, se_grantpt = 0, se_ptsname = 0, se_winsize = 0, se_fork = Inr pid, se_nonblock = 0,
    se_waiter_ok = True, se_io_rc = 0, se_wait_rc = 0\<rparr>"

lemma small_numbers: "fmt_d (sint (1 :: i64)) = cs ''1''" "fmt_d (sint (2 :: i64)) = cs ''2''"
  by (simp_all add: fmt_d_def fmt_u.simps cs_def)

lemma prepare_step:
  "tty_step os impl s (s\<lparr>ty_sessions := ty_sessions s @ [sh ''exec-1'' MKGA_EXEC_SESSION_PREPARED (-1) (-1)]\<rparr>)"
  "tty_step os impl s (s\<lparr>ty_sessions := ty_sessions s @ [sh ''exec-2'' MKGA_EXEC_SESSION_PREPARED (-1) (-1)]\<rparr>)"
proof -
  have "mkga_containerd_exec_tty_prepare 1 True True exec_req zero_prepare_resp s =
    (0, \<lparr>er_session_id = cs ''exec-1''\<rparr>, s\<lparr>ty_sessions := ty_sessions s @ [sh ''exec-1'' MKGA_EXEC_SESSION_PREPARED (-1) (-1)]\<rparr>)"
    "mkga_containerd_exec_tty_prepare 2 True True exec_req zero_prepare_resp s =
    (0, \<lparr>er_session_id = cs ''exec-2''\<rparr>, s\<lparr>ty_sessions := ty_sessions s @ [sh ''exec-2'' MKGA_EXEC_SESSION_PREPARED (-1) (-1)]\<rparr>)"
    unfolding mkga_containerd_exec_tty_prepare_def mkga_session_prepare_def small_numbers
    by (simp_all add: sh_def exec_req_def zero_prepare_req_def zero_prepare_resp_def copied_def cs_def upt_rec)
  then show "tty_step os impl s (s\<lparr>ty_sessions := ty_sessions s @ [sh ''exec-1'' MKGA_EXEC_SESSION_PREPARED (-1) (-1)]\<rparr>)"
    "tty_step os impl s (s\<lparr>ty_sessions := ty_sessions s @ [sh ''exec-2'' MKGA_EXEC_SESSION_PREPARED (-1) (-1)]\<rparr>)"
    by (auto intro: tty_step.prepare)
qed

text \<open>The newest session starts on a terminal that is not in use.\<close>

lemma start_step:
  assumes "ty_sessions s = ss @ [sh k MKGA_EXEC_SESSION_PREPARED (-1) (-1)]" "k \<noteq> []" "length k < 64" "0 \<le> fd" "0 < pid" "ty_open s fd = None" "pid \<notin> ty_children s"
  shows "\<exists>str. tty_step task_os box s (s\<lparr>ty_sessions := ss @ [sh k MKGA_EXEC_SESSION_RUNNING fd pid], ty_stream := str, ty_open := (ty_open s)(fd \<mapsto> []),
    ty_size := (ty_size s)(fd := (80, 24)), ty_children := insert pid (ty_children s), ty_pumps := ty_pumps s @ [(length ss, PumpLock)],
    ty_waiters := ty_waiters s @ [(length ss, WaitPid)]\<rparr>)"
proof -
  have "fst (mkga_stream_ensure_started (os_getenv task_os) 0 (ty_stream s)) = 0" by (simp add: mkga_stream_ensure_started_def Let_def)
  then obtain str where str: "mkga_stream_ensure_started (os_getenv task_os) 0 (ty_stream s) = (0, str)" by (metis prod.collapse)
  obtain p where p: "mkga_containerd_query_task_status task_os box (cs ''ctr-1'') empty_world = Some (0, MKGA_CONTAINERD_TASK_STATUS_RUNNING, p, empty_world)"
    using task_running by blast
  let ?x = "sh k MKGA_EXEC_SESSION_PREPARED (-1) (-1)"
  have l: "mkga_session_lookup (ty_sessions s) (Some (cs k)) = Some (length ss)" by (simp add: assms(1) lookup_is_find find_locked_append sh_def)
  have k: "cs k \<noteq> []" "length (cs k) < 64" using assms(2,3) by (simp_all add: cs_def)
  have x: "with_exec_id ?x = ?x\<lparr>xs_exec_id := cs k\<rparr>" using k by (simp add: with_exec_id_def sh_def copied_def)
  have a: "\<exists>argv. mkga_containerd_build_exec_tty_argv box (?x\<lparr>xs_exec_id := cs k\<rparr>) MKGA_CONTAINERD_ARGV_MAX = Inr argv"
    by (simp add: mkga_containerd_build_exec_tty_argv_def sh_def mkga_containerd_append_exec_argv_def mkga_ctr_fill_base_args_def)
  then obtain argv where a: "mkga_containerd_build_exec_tty_argv box (?x\<lparr>xs_exec_id := cs k\<rparr>) MKGA_CONTAINERD_ARGV_MAX = Inr argv" ..
  have f: "xs_state ?x = MKGA_EXEC_SESSION_PREPARED" "xs_container_id (?x\<lparr>xs_exec_id := cs k\<rparr>) = cs ''ctr-1''"
    "(?x\<lparr>xs_exec_id := cs k\<rparr>)\<lparr>xs_master_fd := fd, xs_child_pid := pid, xs_exit_code := 0, xs_state := MKGA_EXEC_SESSION_RUNNING\<rparr> = sh k MKGA_EXEC_SESSION_RUNNING fd pid"
    by (simp_all add: sh_def)
  let ?s = "s\<lparr>ty_sessions := ss @ [sh k MKGA_EXEC_SESSION_RUNNING fd pid], ty_stream := str, ty_open := (ty_open s)(fd \<mapsto> []),
    ty_size := (ty_size s)(fd := (80, 24)), ty_children := insert pid (ty_children s), ty_pumps := ty_pumps s @ [(length ss, PumpLock)],
    ty_waiters := ty_waiters s @ [(length ss, WaitPid)]\<rparr>"
  have "mkga_containerd_exec_tty_start task_os (on_terminal fd pid) box \<lparr>es_kernel_id = [], es_session_id = cs k\<rparr> s empty_world = Some (0, ?s, empty_world)"
    using str p l k(1) a f by (simp add: mkga_containerd_exec_tty_start_def on_terminal_def assms(1) x start_child_def run_session_def set_session_def Let_def)
  moreover have "fresh_env (on_terminal fd pid) s" using assms(4-7) by (simp add: fresh_env_def on_terminal_def)
  ultimately have "tty_step task_os box s ?s" by (rule tty_step.start)
  then show ?thesis by blast
qed

lemma waiter_step:
  "j < length (ty_waiters s) \<Longrightarrow> ty_waiters s ! j = (i, WaitPid) \<Longrightarrow> xs_child_pid (ty_sessions s ! i) \<in> ty_children s \<Longrightarrow>
    tty_step os impl s (s\<lparr>ty_children := ty_children s - {xs_child_pid (ty_sessions s ! i)}, ty_waiters := (ty_waiters s)[j := (i, WaitLock (exit_code_of st))]\<rparr>)"
  "j < length (ty_waiters s) \<Longrightarrow> ty_waiters s ! j = (i, WaitLock c) \<Longrightarrow>
    tty_step os impl s ((waiter_lock i c s)\<lparr>ty_waiters := (ty_waiters s)[j := (i, WaitSend c)]\<rparr>)"
  "j < length (ty_waiters s) \<Longrightarrow> ty_waiters s ! j = (i, WaitSend c) \<Longrightarrow>
    tty_step os impl s (s\<lparr>ty_calls := ty_calls s @ [SendExit (xs_session_id (ty_sessions s ! i)) c], ty_waiters := (ty_waiters s)[j := (i, WaitDone)]\<rparr>)"
proof -
  show "j < length (ty_waiters s) \<Longrightarrow> ty_waiters s ! j = (i, WaitPid) \<Longrightarrow> xs_child_pid (ty_sessions s ! i) \<in> ty_children s \<Longrightarrow>
    tty_step os impl s (s\<lparr>ty_children := ty_children s - {xs_child_pid (ty_sessions s ! i)}, ty_waiters := (ty_waiters s)[j := (i, WaitLock (exit_code_of st))]\<rparr>)"
    using tty_step.waiter [where os = os and impl = impl, of j s i WaitPid "WaitGot st"] by (simp add: mkga_containerd_exec_tty_waiter_def waiter_pid_def)
  show "j < length (ty_waiters s) \<Longrightarrow> ty_waiters s ! j = (i, WaitLock c) \<Longrightarrow>
    tty_step os impl s ((waiter_lock i c s)\<lparr>ty_waiters := (ty_waiters s)[j := (i, WaitSend c)]\<rparr>)"
    using tty_step.waiter [where os = os and impl = impl, of j s i "WaitLock c"] by (simp add: mkga_containerd_exec_tty_waiter_def)
  show "j < length (ty_waiters s) \<Longrightarrow> ty_waiters s ! j = (i, WaitSend c) \<Longrightarrow>
    tty_step os impl s (s\<lparr>ty_calls := ty_calls s @ [SendExit (xs_session_id (ty_sessions s ! i)) c], ty_waiters := (ty_waiters s)[j := (i, WaitDone)]\<rparr>)"
    using tty_step.waiter [where os = os and impl = impl, of j s i "WaitSend c"] by (simp add: mkga_containerd_exec_tty_waiter_def)
qed

section \<open>Runs\<close>

lemma one_session:
  "\<exists>s. (tty_step task_os box)\<^sup>*\<^sup>* tty_init s \<and> ty_sessions s = [sh ''exec-1'' MKGA_EXEC_SESSION_RUNNING 5 70] \<and> ty_open s = [5 \<mapsto> []] \<and>
    ty_children s = {70} \<and> ty_pumps s = [(0, PumpLock)] \<and> ty_waiters s = [(0, WaitPid)] \<and> ty_calls s = []"
proof -
  let ?s = "tty_init\<lparr>ty_sessions := [sh ''exec-1'' MKGA_EXEC_SESSION_PREPARED (-1) (-1)]\<rparr>"
  have 1: "tty_step task_os box tty_init ?s" using prepare_step(1) [of task_os box tty_init] by (simp add: tty_init_def)
  obtain str where 2: "tty_step task_os box ?s (?s\<lparr>ty_sessions := [sh ''exec-1'' MKGA_EXEC_SESSION_RUNNING 5 70], ty_stream := str, ty_open := (ty_open ?s)(5 \<mapsto> []),
      ty_size := (ty_size ?s)(5 := (80, 24)), ty_children := insert 70 (ty_children ?s), ty_pumps := ty_pumps ?s @ [(0, PumpLock)],
      ty_waiters := ty_waiters ?s @ [(0, WaitPid)]\<rparr>)" (is "tty_step _ _ _ ?t")
    using start_step [of ?s "[]" "''exec-1''" 5 70] by (auto simp: tty_init_def)
  show ?thesis by (rule exI [of _ ?t]) (use 1 2 in \<open>auto simp: tty_init_def intro: rtranclp.rtrancl_into_rtrancl\<close>)
qed

text \<open>The child ends while the pump is about to read; the waiter closes the terminal.\<close>

lemma child_ends:
  assumes "ty_sessions s = [sh ''exec-1'' MKGA_EXEC_SESSION_RUNNING 5 70]" "ty_open s = [5 \<mapsto> buf]" "ty_children s = {70}" "ty_waiters s = [(0, WaitPid)]"
  shows "\<exists>s'. (tty_step os impl)\<^sup>*\<^sup>* s s' \<and> ty_sessions s' = [sh ''exec-1'' MKGA_EXEC_SESSION_EXITED (-1) (-1)] \<and> ty_open s' = (\<lambda>_. None) \<and>
    ty_children s' = {} \<and> ty_waiters s' = [(0, WaitSend 0)] \<and> ty_pumps s' = ty_pumps s \<and> ty_calls s' = ty_calls s"
proof -
  let ?a = "s\<lparr>ty_children := {}, ty_waiters := [(0, WaitLock 0)]\<rparr>"
  have 1: "tty_step os impl s ?a" using waiter_step(1) [of 0 s 0 os impl "WExited 0"] assms by (simp add: sh_def exit_code_of_def)
  let ?b = "(waiter_lock 0 0 ?a)\<lparr>ty_waiters := [(0, WaitSend 0)]\<rparr>"
  have 2: "tty_step os impl ?a ?b" using waiter_step(2) [of 0 ?a 0 0 os impl] by simp
  have "ty_sessions ?b = [sh ''exec-1'' MKGA_EXEC_SESSION_EXITED (-1) (-1)]" "ty_open ?b = (\<lambda>_. None)"
    using assms(1,2) by (simp_all add: waiter_lock_def set_session_def close_tty_def sh_def Let_def fun_eq_iff)
  then show ?thesis using 1 2 by (intro exI [of _ ?b]) (auto simp: waiter_lock_def set_session_def close_tty_def Let_def intro: rtranclp.rtrancl_into_rtrancl)
qed

lemma output_crosses:
  "\<exists>s s'. (tty_step task_os box)\<^sup>*\<^sup>* tty_init s \<and> tty_step task_os box s s' \<and>
    ty_sessions s = [sh ''exec-1'' MKGA_EXEC_SESSION_EXITED (-1) (-1), sh ''exec-2'' MKGA_EXEC_SESSION_RUNNING 5 71] \<and>
    ty_open s = [5 \<mapsto> cs ''secret''] \<and> ty_calls s' = ty_calls s @ [SendOutput (cs ''exec-1'') (cs ''secret'')]"
proof -
  let ?R = "tty_step task_os box"
  obtain s1 where 1: "?R\<^sup>*\<^sup>* tty_init s1" "ty_sessions s1 = [sh ''exec-1'' MKGA_EXEC_SESSION_RUNNING 5 70]" "ty_open s1 = [5 \<mapsto> []]"
    "ty_children s1 = {70}" "ty_pumps s1 = [(0, PumpLock)]" "ty_waiters s1 = [(0, WaitPid)]" "ty_calls s1 = []" using one_session by blast
  let ?s2 = "s1\<lparr>ty_pumps := [(0, PumpPoll 5)]\<rparr>" and ?s3 = "s1\<lparr>ty_pumps := [(0, PumpRead 5)]\<rparr>"
  have 2: "?R s1 ?s2" using tty_step.pump [where os = task_os and impl = box, of 0 s1 0 PumpLock] 1
    by (simp add: mkga_containerd_exec_tty_output_pump_def pump_lock_def sh_def)
  have 3: "?R ?s2 ?s3" using tty_step.pump [where os = task_os and impl = box, of 0 ?s2 0 "PumpPoll 5" "PollEvents True False"]
    by (simp add: mkga_containerd_exec_tty_output_pump_def pump_poll_def)
  obtain s4 where 4: "?R\<^sup>*\<^sup>* ?s3 s4" "ty_sessions s4 = [sh ''exec-1'' MKGA_EXEC_SESSION_EXITED (-1) (-1)]" "ty_open s4 = (\<lambda>_. None)"
    "ty_children s4 = {}" "ty_pumps s4 = [(0, PumpRead 5)]" using child_ends [of ?s3 "[]" task_os box] 1 by auto
  let ?s5 = "s4\<lparr>ty_sessions := [sh ''exec-1'' MKGA_EXEC_SESSION_EXITED (-1) (-1), sh ''exec-2'' MKGA_EXEC_SESSION_PREPARED (-1) (-1)]\<rparr>"
  have 5: "?R s4 ?s5" using prepare_step(2) [of task_os box s4] 4(2) by simp
  obtain s6 where 6: "?R ?s5 s6" "ty_sessions s6 = [sh ''exec-1'' MKGA_EXEC_SESSION_EXITED (-1) (-1), sh ''exec-2'' MKGA_EXEC_SESSION_RUNNING 5 71]"
    "ty_open s6 = [5 \<mapsto> []]" "ty_pumps s6 ! 0 = (0, PumpRead 5)" "0 < length (ty_pumps s6)"
    using start_step [of ?s5 "[sh ''exec-1'' MKGA_EXEC_SESSION_EXITED (-1) (-1)]" "''exec-2''" 5 71] 4 by auto
  let ?s7 = "s6\<lparr>ty_open := [5 \<mapsto> cs ''secret'']\<rparr>"
  have 7: "?R s6 ?s7" using tty_step.print [where os = task_os and impl = box, of s6 5 "[]" "cs ''secret''"] 6(3) by simp
  have "pump_read (TtyRead 99) 0 5 ?s7 = (PumpLock, ?s7\<lparr>ty_open := [5 \<mapsto> []], ty_calls := ty_calls ?s7 @ [SendOutput (cs ''exec-1'') (cs ''secret'')]\<rparr>)"
    by (simp add: pump_read_def 6(2) sh_def cs_def Let_def)
  then have 8: "?R ?s7 (?s7\<lparr>ty_open := [5 \<mapsto> []], ty_calls := ty_calls ?s7 @ [SendOutput (cs ''exec-1'') (cs ''secret'')],
      ty_pumps := (ty_pumps s6)[0 := (0, PumpLock)]\<rparr>)"
    using tty_step.pump [where os = task_os and impl = box, of 0 ?s7 0 "PumpRead 5" PollTimeout "TtyRead 99"] 6(4,5)
    by (simp add: mkga_containerd_exec_tty_output_pump_def)
  have r: "?R\<^sup>*\<^sup>* tty_init ?s7" using 1(1) 2 3 4(1) 5 6(1) 7 by (meson rtranclp.rtrancl_into_rtrancl rtranclp_trans)
  show ?thesis by (rule exI [of _ ?s7], rule exI, intro conjI, rule r, rule 8) (simp_all add: 6(2))
qed

lemma output_lost:
  "\<exists>s s'. (tty_step task_os box)\<^sup>*\<^sup>* tty_init s \<and> (tty_step task_os box)\<^sup>*\<^sup>* s s' \<and>
    ty_sessions s = [sh ''exec-1'' MKGA_EXEC_SESSION_RUNNING 5 70] \<and> ty_open s = [5 \<mapsto> cs ''bye''] \<and> ty_calls s = [] \<and>
    ty_pumps s' = [(0, PumpDone)] \<and> ty_waiters s' = [(0, WaitDone)] \<and> ty_calls s' = [SendExit (cs ''exec-1'') 0]"
proof -
  let ?R = "tty_step task_os box"
  obtain s1 where 1: "?R\<^sup>*\<^sup>* tty_init s1" "ty_sessions s1 = [sh ''exec-1'' MKGA_EXEC_SESSION_RUNNING 5 70]" "ty_open s1 = [5 \<mapsto> []]"
    "ty_children s1 = {70}" "ty_pumps s1 = [(0, PumpLock)]" "ty_waiters s1 = [(0, WaitPid)]" "ty_calls s1 = []" using one_session by blast
  let ?s2 = "s1\<lparr>ty_open := [5 \<mapsto> cs ''bye'']\<rparr>"
  have 2: "?R s1 ?s2" using tty_step.print [where os = task_os and impl = box, of s1 5 "[]" "cs ''bye''"] 1(3) by simp
  obtain s3 where 3: "?R\<^sup>*\<^sup>* ?s2 s3" "ty_sessions s3 = [sh ''exec-1'' MKGA_EXEC_SESSION_EXITED (-1) (-1)]" "ty_pumps s3 = [(0, PumpLock)]"
    "ty_waiters s3 = [(0, WaitSend 0)]" "ty_calls s3 = []" using child_ends [of ?s2 "cs ''bye''" task_os box] 1 by auto
  let ?s4 = "s3\<lparr>ty_calls := [SendExit (cs ''exec-1'') 0], ty_waiters := [(0, WaitDone)]\<rparr>"
  have 4: "?R s3 ?s4" using waiter_step(3) [of 0 s3 0 0 task_os box] 3 by (simp add: sh_def)
  have 5: "?R ?s4 (?s4\<lparr>ty_pumps := [(0, PumpDone)]\<rparr>)" using tty_step.pump [where os = task_os and impl = box, of 0 ?s4 0 PumpLock] 3(2,3)
    by (simp add: mkga_containerd_exec_tty_output_pump_def pump_lock_def sh_def)
  have r: "?R\<^sup>*\<^sup>* tty_init ?s2" "?R\<^sup>*\<^sup>* ?s2 (?s4\<lparr>ty_pumps := [(0, PumpDone)]\<rparr>)" using 1(1) 2 3(1) 4 5 by (meson rtranclp.rtrancl_into_rtrancl)+
  show ?thesis by (rule exI [of _ ?s2], rule exI, intro conjI, rule r(1), rule r(2)) (simp_all add: 1)
qed

section \<open>Properties\<close>

text \<open>
  C26. Output can reach the wrong session, and the end of the output can be lost. The pump reads a copy of
  the descriptor outside of the critical section. There is a run in which the session of the pump
  ends in between, its descriptor is given to the terminal of a second session, and what the second
  session prints is sent under the identifier of the first. And there is a run in which a child
  prints and exits, the waiter closes the terminal before the pump has read it, and all threads end
  with the exit notice sent and not one byte of the output.
\<close>

theorem exec_output_races:
  "(\<exists>s s'. (tty_step task_os box)\<^sup>*\<^sup>* tty_init s \<and> tty_step task_os box s s' \<and>
     ty_sessions s = [sh ''exec-1'' MKGA_EXEC_SESSION_EXITED (-1) (-1), sh ''exec-2'' MKGA_EXEC_SESSION_RUNNING 5 71] \<and>
     ty_open s = [5 \<mapsto> cs ''secret''] \<and> ty_calls s' = ty_calls s @ [SendOutput (cs ''exec-1'') (cs ''secret'')]) \<and>
   (\<exists>s s'. (tty_step task_os box)\<^sup>*\<^sup>* tty_init s \<and> (tty_step task_os box)\<^sup>*\<^sup>* s s' \<and>
     ty_sessions s = [sh ''exec-1'' MKGA_EXEC_SESSION_RUNNING 5 70] \<and> ty_open s = [5 \<mapsto> cs ''bye''] \<and> ty_calls s = [] \<and>
     ty_pumps s' = [(0, PumpDone)] \<and> ty_waiters s' = [(0, WaitDone)] \<and> ty_calls s' = [SendExit (cs ''exec-1'') 0])"
  using output_crosses output_lost by blast

theorem exec_sessions_sound_witness:
  "\<exists>s. (tty_step task_os box)\<^sup>*\<^sup>* tty_init s \<and> dom (ty_open s) = {5} \<and> distinct (map fst (ty_waiters s)) \<and> ty_waiters s = [(0, WaitPid)]"
proof -
  obtain s where s: "(tty_step task_os box)\<^sup>*\<^sup>* tty_init s" "ty_sessions s = [sh ''exec-1'' MKGA_EXEC_SESSION_RUNNING 5 70]" "ty_waiters s = [(0, WaitPid)]"
    using one_session by blast
  from exec_sessions_sound [OF s(1)] s(2,3) have "dom (ty_open s) = {5}" by (auto simp: sh_def)
  then show ?thesis using s exec_sessions_sound [OF s(1)] by blast
qed

end
