(* ===== verification/MkringTest.thy ===== *)
theory MkringTest
  imports Demux MkSystem Packed
begin

text \<open>
  The loadable self-test of the ring (\<^verbatim>\<open>mkring/mkring_test.c\<close>): a thread that sends numbered messages
  to one peer, and a receive callback that counts what the peer sends. What the rest of the
  machine does between two rounds of the thread, the clocks and the outcome of \<^verbatim>\<open>kthread_run\<close> are
  arguments. The printed reports are values.
\<close>

section \<open>The module\<close>

abbreviation (input) MKRING_TEST_MAGIC :: u32 where "MKRING_TEST_MAGIC \<equiv> 0x4d4b5453"

definition mkring_test_msg :: packed where
  "mkring_test_msg = [(''magic'', 4), (''seq'', 4), (''send_ns'', 8), (''sender_cpu'', 4), (''reserved'', 12)]"

text \<open>\<open>tc_tx_task\<close> tells whether the pointer to the thread is set.\<close>

record mkring_test_ctx =
  tc_peer :: u16
  tc_period_ms :: u32
  tc_report_sec :: u32
  tc_tx_task :: bool
  tc_tx_seq :: u64
  tc_tx_ok :: u64
  tc_tx_fail :: u64
  tc_rx_ok :: u64
  tc_rx_bad :: u64
  tc_rx_registered :: bool

definition mk_test_ctx :: mkring_test_ctx where
  "mk_test_ctx = \<lparr>tc_peer = 0xFFFF, tc_period_ms = 1000, tc_report_sec = 5, tc_tx_task = False, tc_tx_seq = 0,
     tc_tx_ok = 0, tc_tx_fail = 0, tc_rx_ok = 0, tc_rx_bad = 0, tc_rx_registered = False\<rparr>"

record mk_report =
  mr_tag :: string
  mr_peer :: u16
  mr_counters :: "u64 \<times> u64 \<times> u64 \<times> u64"

definition mk_test_report :: "mkring_test_ctx \<Rightarrow> string \<Rightarrow> mk_report" where
  "mk_test_report ctx tag =
    \<lparr>mr_tag = tag, mr_peer = tc_peer ctx, mr_counters = (tc_tx_ok ctx, tc_tx_fail ctx, tc_rx_ok ctx, tc_rx_bad ctx)\<rparr>"

definition mk_test_rx_cb :: "u16 \<Rightarrow> bytes \<Rightarrow> u32 \<Rightarrow> mkring_test_ctx option \<Rightarrow> mkring_test_ctx option" where
  "mk_test_rx_cb src_kid data len arg =
    (case arg of
       None \<Rightarrow> None
     | Some ctx \<Rightarrow>
         if src_kid \<noteq> tc_peer ctx \<or> len \<noteq> of_nat (sizeof mkring_test_msg) \<or>
            dec_le (get mkring_test_msg ''magic'' data) \<noteq> MKRING_TEST_MAGIC
         then Some (ctx\<lparr>tc_rx_bad := tc_rx_bad ctx + 1\<rparr>)
         else Some (ctx\<lparr>tc_rx_ok := tc_rx_ok ctx + 1\<rparr>))"

text \<open>The number that stands for \<^verbatim>\<open>mk_test_rx_cb\<close> with the address of \<^verbatim>\<open>mk_test_ctx\<close>.\<close>

abbreviation (input) TEST_CB :: nat where "TEST_CB \<equiv> 2"

text \<open>The members that the initialiser does not name are zero.\<close>

definition test_msg :: "u32 \<Rightarrow> u64 \<Rightarrow> u32 \<Rightarrow> bytes" where
  "test_msg seq ns cpu = enc_le 4 MKRING_TEST_MAGIC @ enc_le 4 seq @ enc_le 8 ns @ enc_le 4 cpu @ replicate 12 0"

text \<open>
  One turn of the loop sees: what others did since the last turn, the answer of \<^verbatim>\<open>kthread_should_stop\<close>,
  the clock and the processor, \<^verbatim>\<open>jiffies\<close> at its two reads, and whether the sleep was interrupted.
\<close>

type_synonym test_view = "mkring_test_ctx \<times> mkring_shm \<times> mkring_ctx option"

record test_tick =
  tk_others :: "test_view \<Rightarrow> test_view"
  tk_stop :: bool
  tk_ns :: u64
  tk_cpu :: u32
  tk_jiffies :: "u64 \<times> u64"
  tk_woken :: bool

text \<open>\<open>report_sec * HZ\<close> is computed in 32 bits and then added to \<^verbatim>\<open>jiffies\<close>.\<close>

definition report_at :: "u32 \<Rightarrow> mkring_test_ctx \<Rightarrow> u64 \<Rightarrow> u64" where
  "report_at hz ctx now = now + ucast (tc_report_sec ctx * hz)"

definition time_after_eq :: "u64 \<Rightarrow> u64 \<Rightarrow> bool" where
  "time_after_eq a b \<longleftrightarrow> 0 \<le> sint (a - b)"

definition tx_round :: "(nat \<Rightarrow> u16 \<Rightarrow> u16 \<Rightarrow> int) \<Rightarrow> test_tick \<Rightarrow> test_view \<Rightarrow> test_view \<times> (u16 \<times> u16) list" where
  "tx_round nf t v =
    (case v of (ctx, s, g) \<Rightarrow>
       let ctx1 = ctx\<lparr>tc_tx_seq := tc_tx_seq ctx + 1\<rparr>;
           msg = test_msg (ucast (tc_tx_seq ctx1)) (tk_ns t) (tk_cpu t)
       in case mkring_send nf (tc_peer ctx1) (Some msg) (of_nat (sizeof mkring_test_msg)) s g of
            (ret, s', g', ipis) \<Rightarrow>
              ((if ret = 0 then ctx1\<lparr>tc_tx_ok := tc_tx_ok ctx1 + 1\<rparr> else ctx1\<lparr>tc_tx_fail := tc_tx_fail ctx1 + 1\<rparr>, s', g'), ipis))"

text \<open>\<open>None\<close>: the thread is still in its loop when the list of turns ends.\<close>

fun tx_loop ::
    "u32 \<Rightarrow> (nat \<Rightarrow> u16 \<Rightarrow> u16 \<Rightarrow> int) \<Rightarrow> test_tick list \<Rightarrow> u64 \<Rightarrow> test_view \<Rightarrow> (mk_report list \<times> test_view \<times> (u16 \<times> u16) list) option" where
  "tx_loop hz nf [] next_report v = None"
| "tx_loop hz nf (t # ts) next_report v =
    (let v0 = tk_others t v in
     if tk_stop t then Some ([], v0, [])
     else case tx_round nf t v0 of
       (v1, ipis) \<Rightarrow>
         let due = time_after_eq (fst (tk_jiffies t)) next_report;
             reports = (if due then [mk_test_report (fst v1) ''periodic''] else []);
             next' = (if due then report_at hz (fst v1) (snd (tk_jiffies t)) else next_report)
         in if tk_woken t then Some (reports, v1, ipis)
            else case tx_loop hz nf ts next' v1 of
              None \<Rightarrow> None
            | Some (reports', v', ipis') \<Rightarrow> Some (reports @ reports', v', ipis @ ipis'))"

definition mk_test_tx_thread ::
    "u32 \<Rightarrow> (nat \<Rightarrow> u16 \<Rightarrow> u16 \<Rightarrow> int) \<Rightarrow> u64 \<Rightarrow> test_tick list \<Rightarrow> test_view \<Rightarrow> (int \<times> mk_report list \<times> test_view \<times> (u16 \<times> u16) list) option" where
  "mk_test_tx_thread hz nf now ts v =
    (case tx_loop hz nf ts (report_at hz (fst v) now) v of
       None \<Rightarrow> None
     | Some (reports, v', ipis) \<Rightarrow> Some (0, reports @ [mk_test_report (fst v') ''stop''], v', ipis))"

text \<open>\<open>thread\<close> is 0 when \<^verbatim>\<open>kthread_run\<close> succeeds and the negative error otherwise.\<close>

definition mkring_test_init ::
    "int \<Rightarrow> u32 \<Rightarrow> u32 \<Rightarrow> int \<Rightarrow> mkring_test_ctx \<Rightarrow> mkring_ctx option \<Rightarrow> int \<times> mkring_test_ctx \<times> mkring_ctx option" where
  "mkring_test_init peer period_ms report_sec thread ctx g =
    (if peer < 0 \<or> 0xFFFF < peer then (- EINVAL, ctx, g)
     else if period_ms = 0 \<or> report_sec = 0 then (- EINVAL, ctx, g)
     else
       let ctx1 = ctx\<lparr>tc_peer := of_int peer, tc_period_ms := period_ms, tc_report_sec := report_sec\<rparr>
       in case mkring_register_rx_cb (tc_peer ctx1) (Some TEST_CB) g of
            (ret, g1) \<Rightarrow>
              if ret \<noteq> 0 then (ret, ctx1, g1)
              else
                let ctx2 = ctx1\<lparr>tc_rx_registered := True\<rparr> in
                if thread \<noteq> 0
                then (thread, ctx2\<lparr>tc_tx_task := False, tc_rx_registered := False\<rparr>, mkring_unregister_rx_cb (tc_peer ctx2) g1)
                else (0, ctx2\<lparr>tc_tx_task := True\<rparr>, g1))"

definition mkring_test_exit :: "mkring_test_ctx \<Rightarrow> mkring_ctx option \<Rightarrow> mkring_test_ctx \<times> mkring_ctx option \<times> mk_report" where
  "mkring_test_exit ctx g =
    (let ctx1 = (if tc_tx_task ctx then ctx\<lparr>tc_tx_task := False\<rparr> else ctx);
         (ctx2, g') = (if tc_rx_registered ctx1 then (ctx1\<lparr>tc_rx_registered := False\<rparr>, mkring_unregister_rx_cb (tc_peer ctx1) g) else (ctx1, g))
     in (ctx2, g', mk_test_report ctx2 ''exit''))"

section \<open>Messages and counters\<close>

lemma test_msg_size [simp]: "length (test_msg seq ns cpu) = 32" "sizeof mkring_test_msg = 32"
  by (simp_all add: test_msg_def mkring_test_msg_def)

lemma rx_cb_counts:
  "mk_test_rx_cb (tc_peer y) (test_msg seq ns cpu) 32 (Some y) = Some (y\<lparr>tc_rx_ok := tc_rx_ok y + 1\<rparr>)"
proof -
  have "get mkring_test_msg ''magic'' (test_msg seq ns cpu) = enc_le 4 MKRING_TEST_MAGIC"
    by (simp add: get_def mkring_test_msg_def test_msg_def field_append)
  then show ?thesis by (simp add: mk_test_rx_cb_def)
qed

text \<open>The callbacks that a run of the receive loop makes, with \<^verbatim>\<open>mk_test_ctx\<close> as their private data.\<close>

definition run_test_calls :: "rx_call list \<Rightarrow> mkring_test_ctx option \<Rightarrow> mkring_test_ctx option" where
  "run_test_calls calls y = foldl (\<lambda>y c. if call_cb c = TEST_CB
     then mk_test_rx_cb (call_src c) (call_data c) (of_nat (length (call_data c))) y else y) y calls"

definition is_test_msg :: "bytes \<Rightarrow> bool" where
  "is_test_msg m \<longleftrightarrow> (\<exists>seq ns cpu. m = test_msg seq ns cpu)"

lemma run_calls_count:
  assumes "\<forall>m\<in>set ms. is_test_msg m" "rx_cb q = Some TEST_CB" "remote_id q = tc_peer y"
  shows "run_test_calls (rx_calls q ms) (Some y) = Some (y\<lparr>tc_rx_ok := tc_rx_ok y + of_nat (length ms)\<rparr>)"
  using assms
proof (induction ms arbitrary: y)
  case Nil
  then show ?case by (simp add: run_test_calls_def rx_calls_def)
next
  case (Cons m ms)
  obtain seq ns cpu where m: "m = test_msg seq ns cpu" using Cons.prems(1) by (auto simp: is_test_msg_def)
  let ?y = "y\<lparr>tc_rx_ok := tc_rx_ok y + 1\<rparr>"
  have "run_test_calls (rx_calls q (m # ms)) (Some y) = run_test_calls (rx_calls q ms) (Some ?y)"
    using Cons.prems(2,3) rx_cb_counts [of y seq ns cpu] by (simp add: run_test_calls_def rx_calls_def m)
  with Cons.IH [of ?y] Cons.prems show ?case by (simp add: add.assoc)
qed

section \<open>Rounds of the thread\<close>

fun rounds :: "test_tick list \<Rightarrow> nat" where
  "rounds [] = 0"
| "rounds (t # ts) = (if tk_stop t then 0 else if tk_woken t then 1 else Suc (rounds ts))"

lemma contents_le:
  assumes "ring_inv dn ms v tx rx"
  shows "length (ring_contents dn v rx) \<le> unat dn"
  using assms by (auto simp: ring_inv_def ring_contents_def)

text \<open>One machine, two kernels that are up, and what is in the ring between them.\<close>

definition test_link :: "mkring_boot_params \<Rightarrow> (nat \<Rightarrow> u16 \<Rightarrow> u16 \<Rightarrow> int) \<Rightarrow> u16 \<Rightarrow> u16 \<Rightarrow> mkring_ctx \<Rightarrow> mkring_ctx \<Rightarrow> bytes list \<Rightarrow> mk_sys \<Rightarrow> bool" where
  "test_link p nf a b ca cb ms s \<longleftrightarrow> sys_inv p s \<and> y_ctx s a = Some ca \<and> y_ctx s b = Some cb \<and> a \<noteq> b \<and>
     (\<exists>n. notify ca = Some n \<and> nf n a b = 0) \<and> ring_contents (bp_desc_num p) (link_mem p s a b) (rx_of cb a) = ms"

lemma test_link_ring:
  assumes "test_link p nf a b ca cb ms s"
  shows "a < bp_kernels p" "b < bp_kernels p"
    "ring_inv (bp_desc_num p) (bp_msg_size p) (link_mem p s a b) (tx_of ca b) (rx_of cb a)"
    "y_sent s a b = y_got s b a @ rx_msgs (rx_of cb a) @ ms"
proof -
  have s: "sys_inv p s" "y_ctx s a = Some ca" "y_ctx s b = Some cb" "a \<noteq> b" using assms by (auto simp: test_link_def)
  show k: "a < bp_kernels p" "b < bp_kernels p" using sys_invD(1) [OF s(1)] s(2,3) by blast+
  show "ring_inv (bp_desc_num p) (bp_msg_size p) (link_mem p s a b) (tx_of ca b) (rx_of cb a)"
    "y_sent s a b = y_got s b a @ rx_msgs (rx_of cb a) @ ms"
    using sys_invD(4) [OF s(1,2) k s(4)] s(2,3) assms
    by (auto simp: link_ok_def link_state_def tx_view_def rx_view_def test_link_def)
qed

lemma tx_round_link:
  assumes p: "good_config p" "32 \<le> unat (bp_msg_size p)" and l: "test_link p nf a b ca cb ms s" and x: "tc_peer x = b"
  obtains x' s' ca' ms' ipis where "tx_round nf t (x, y_shm s, Some ca) = ((x', y_shm s', Some ca'), ipis)"
    "test_link p nf a b ca' cb (ms @ ms') s'" "\<forall>m\<in>set ms'. is_test_msg m"
    "length ms' = (if length ms = unat (bp_desc_num p) then 0 else 1)" "tc_peer x' = b"
    "tc_tx_ok x' = tc_tx_ok x + of_nat (length ms')" "tc_tx_fail x' = tc_tx_fail x + of_nat (1 - length ms')"
    "tc_tx_seq x' = tc_tx_seq x + 1"
proof -
  let ?m = "test_msg (ucast (tc_tx_seq x + 1)) (tk_ns t) (tk_cpu t)"
  have s: "sys_inv p s" "y_ctx s a = Some ca" "y_ctx s b = Some cb" "a \<noteq> b" using l by (auto simp: test_link_def)
  obtain n where n: "notify ca = Some n" "nf n a b = 0" using l by (auto simp: test_link_def)
  note r = test_link_ring [OF l]
  obtain rc shm' g ipis where send: "mkring_send nf b (Some ?m) 32 (y_shm s) (Some ca) = (rc, shm', g, ipis)" by (metis prod_cases4)
  have out: "if length ms = unat (bp_desc_num p) then rc \<noteq> 0 \<and> ipis = [] else rc = 0 \<and> ipis \<noteq> []"
    using send_outcome [OF p(1) s n(1), of ?m nf] send n p(2) l by (auto simp: test_link_def split: if_splits)
  obtain ca' where g: "g = Some ca'" "notify ca' = notify ca" using send by (cases rule: mkring_send_cases) auto
  define s' where "s' = s\<lparr>y_shm := shm', y_ctx := (y_ctx s)(a := g),
      y_sent := (if ipis = [] then y_sent s else upd2 (y_sent s) a b (y_sent s a b @ [?m]))\<rparr>"
  have inv: "sys_inv p s'" using step_send_inv [OF p(1) s(1) r(1), of ?m nf b] send s(2) by (simp add: s'_def)
  have s'b: "y_ctx s' a = Some ca'" "y_ctx s' b = Some cb" using s g by (simp_all add: s'_def)
  have l': "test_link p nf a b ca' cb (ring_contents (bp_desc_num p) (link_mem p s' a b) (rx_of cb a)) s'"
    using inv s'b s(4) n g(2) by (auto simp: test_link_def)
  have "ring_contents (bp_desc_num p) (link_mem p s' a b) (rx_of cb a) = ms @ (if length ms = unat (bp_desc_num p) then [] else [?m])"
    using test_link_ring(4) [OF l'] r(4) out by (auto simp: s'_def upd2_def split: if_splits)
  with l' have l'': "test_link p nf a b ca' cb (ms @ (if length ms = unat (bp_desc_num p) then [] else [?m])) s'" by simp
  show thesis
    by (rule that [OF _ l'', of "(if rc = 0 then x\<lparr>tc_tx_seq := tc_tx_seq x + 1, tc_tx_ok := tc_tx_ok x + 1\<rparr>
          else x\<lparr>tc_tx_seq := tc_tx_seq x + 1, tc_tx_fail := tc_tx_fail x + 1\<rparr>)" ipis])
      (use send out x g in \<open>auto simp: tx_round_def s'_def is_test_msg_def Let_def split: if_splits\<close>)
qed

lemma tx_loop_link:
  assumes "good_config p" "32 \<le> unat (bp_msg_size p)" "test_link p nf a b ca cb ms s" "tc_peer x = b"
    "\<forall>t\<in>set ts. \<forall>v. tk_others t v = v" "tx_loop hz nf ts nr (x, y_shm s, Some ca) = Some (reports, (x', shm', g'), ipis)"
  shows "\<exists>s' ca' ms'. shm' = y_shm s' \<and> test_link p nf a b ca' cb (ms @ ms') s' \<and> (\<forall>m\<in>set ms'. is_test_msg m) \<and>
    length ms' = min (rounds ts) (unat (bp_desc_num p) - length ms) \<and> tc_tx_seq x' = tc_tx_seq x + of_nat (rounds ts) \<and>
    tc_tx_ok x' = tc_tx_ok x + of_nat (length ms') \<and> tc_tx_fail x' = tc_tx_fail x + of_nat (rounds ts - length ms')"
  using assms(3-6)
proof (induction ts arbitrary: nr s x ca ms reports ipis)
  case Nil
  then show ?case by simp
next
  case (Cons t ts)
  have id: "tk_others t v = v" for v using Cons.prems(3) by (simp del: split_paired_All)
  have le: "length ms \<le> unat (bp_desc_num p)"
    using contents_le [OF test_link_ring(3) [OF Cons.prems(1)]] Cons.prems(1) by (simp add: test_link_def)
  show ?case
  proof (cases "tk_stop t")
    case True
    with Cons.prems id show ?thesis by (intro exI [of _ s] exI [of _ ca] exI [of _ "[]"]) simp
  next
    case False
    obtain x1 s1 ca1 ms1 ip where r: "tx_round nf t (x, y_shm s, Some ca) = ((x1, y_shm s1, Some ca1), ip)"
      "test_link p nf a b ca1 cb (ms @ ms1) s1" "\<forall>m\<in>set ms1. is_test_msg m"
      "length ms1 = (if length ms = unat (bp_desc_num p) then 0 else 1)" "tc_peer x1 = b"
      "tc_tx_ok x1 = tc_tx_ok x + of_nat (length ms1)" "tc_tx_fail x1 = tc_tx_fail x + of_nat (1 - length ms1)" "tc_tx_seq x1 = tc_tx_seq x + 1"
      by (rule tx_round_link [OF assms(1,2) Cons.prems(1,2)])
    show ?thesis
    proof (cases "tk_woken t")
      case True
      with Cons.prems(4) False id r le show ?thesis
        by (intro exI [of _ s1] exI [of _ ca1] exI [of _ ms1]) (auto simp: Let_def split: if_splits)
    next
      case woken: False
      obtain nr' reports' ipis' where "tx_loop hz nf ts nr' (x1, y_shm s1, Some ca1) = Some (reports', (x', shm', g'), ipis')"
        using Cons.prems(4) False woken id r(1) by (auto simp: Let_def split: option.splits)
      with Cons.IH [OF r(2,5)] Cons.prems(3) obtain s' ca' ms' where i: "shm' = y_shm s'" "test_link p nf a b ca' cb ((ms @ ms1) @ ms') s'"
        "\<forall>m\<in>set ms'. is_test_msg m" "length ms' = min (rounds ts) (unat (bp_desc_num p) - length (ms @ ms1))"
        "tc_tx_seq x' = tc_tx_seq x1 + of_nat (rounds ts)"
        "tc_tx_ok x' = tc_tx_ok x1 + of_nat (length ms')" "tc_tx_fail x' = tc_tx_fail x1 + of_nat (rounds ts - length ms')"
        by fastforce
      have n: "length (ms1 @ ms') = min (rounds (t # ts)) (unat (bp_desc_num p) - length ms)"
        "rounds (t # ts) - length (ms1 @ ms') = (1 - length ms1) + (rounds ts - length ms')" "rounds (t # ts) = 1 + rounds ts"
        using i(4) r(4) le False woken by auto
      have "tc_tx_ok x' = tc_tx_ok x + of_nat (length (ms1 @ ms'))" by (simp only: i(6) r(6) length_append of_nat_add add.assoc)
      moreover have "tc_tx_fail x' = tc_tx_fail x + of_nat (rounds (t # ts) - length (ms1 @ ms'))"
        by (simp only: i(7) r(7) n(2) of_nat_add add.assoc)
      moreover have "tc_tx_seq x' = tc_tx_seq x + of_nat (rounds (t # ts))" by (simp only: i(5) r(8) n(3) of_nat_add of_nat_1 add.assoc)
      moreover have "\<forall>m\<in>set (ms1 @ ms'). is_test_msg m" "test_link p nf a b ca' cb (ms @ ms1 @ ms') s'" using i(2,3) r(3) by auto
      ultimately show ?thesis using i(1) n(1) by blast
    qed
  qed
qed

section \<open>Loading and unloading\<close>

definition with_cb :: "u16 \<Rightarrow> nat option \<Rightarrow> mkring_ctx \<Rightarrow> mkring_ctx" where
  "with_cb k cb c = set_rx k ((rx_of c k)\<lparr>rx_cb := cb\<rparr>) c"

lemma rx_of_with_cb:
  assumes "has_queues c" "\<not> bad_peer c k"
  shows "rx_of (with_cb k cb c) j = (if j = k then (rx_of c k)\<lparr>rx_cb := cb\<rparr> else rx_of c j)"
  using rx_of_set [OF assms(1), of k "(rx_of c k)\<lparr>rx_cb := cb\<rparr>" j] assms(2) unfolding with_cb_def by (simp only: bad_peer_def not_le de_Morgan_disj)

lemma test_init_eq:
  fixes ctx :: mkring_test_ctx
  assumes "period \<noteq> 0" "report \<noteq> 0" "ready c" "\<not> bad_peer c k"
  defines "x \<equiv> ctx\<lparr>tc_peer := k, tc_period_ms := period, tc_report_sec := report\<rparr>"
  shows "mkring_test_init (int (unat k)) period report thread ctx (Some c) =
    (if thread \<noteq> 0 then (thread, x\<lparr>tc_tx_task := False, tc_rx_registered := False\<rparr>, mkring_unregister_rx_cb k (Some (with_cb k (Some TEST_CB) c)))
     else (0, x\<lparr>tc_rx_registered := True, tc_tx_task := True\<rparr>, Some (with_cb k (Some TEST_CB) c)))"
proof -
  have "of_int (int (unat k)) = k" "int (unat k) \<le> 0xFFFF"
    using uint_lt2p [of k] by (simp_all flip: uint_nat)
  with assms show ?thesis by (simp add: mkring_test_init_def mkring_register_rx_cb_def with_cb_def Let_def)
qed

lemma test_init_ok:
  assumes "mkring_test_init (int (unat k)) period report th ctx (Some c) = (0, ctx', g)"
  shows "tc_peer ctx' = k" "\<not> bad_peer c k" "g = Some (with_cb k (Some TEST_CB) c)"
proof -
  have "period \<noteq> 0" "report \<noteq> 0" "ready c" "\<not> bad_peer c k"
    using assms by (auto simp: mkring_test_init_def mkring_register_rx_cb_def Let_def split: if_splits)
  from test_init_eq [OF this, of th ctx] this(4) assms show "tc_peer ctx' = k" "\<not> bad_peer c k" "g = Some (with_cb k (Some TEST_CB) c)"
    by (auto split: if_splits)
qed

lemma ring_inv_with_cb [simp]:
  "ring_inv dn ms v tx (rx\<lparr>rx_cb := cb\<rparr>) = ring_inv dn ms v tx rx"
  "ring_contents dn v (rx\<lparr>rx_cb := cb\<rparr>) = ring_contents dn v rx"
  by (simp_all add: ring_inv_def ring_contents_def)

lemma register_inv:
  assumes "sys_inv p s" "y_ctx s k = Some c" "\<not> bad_peer c j"
  shows "sys_inv p (s\<lparr>y_ctx := (y_ctx s)(k := Some (with_cb j cb c))\<rparr>)"
proof (rule sys_inv_update [OF assms(1,2)])
  note D = sys_invD [OF assms(1,2)]
  have hq: "has_queues c" using D(2) by (simp add: wf_ctx_def)
  note rx = rx_of_with_cb [OF hq assms(3), of cb]
  show "wf_ctx p k (with_cb j cb c)" using D(2) rx by (auto simp: wf_ctx_def with_cb_def has_queues_def)
  fix a b assume ab: "a < bp_kernels p" "b < bp_kernels p" "a \<noteq> b"
  from D(4) [OF this] assms(2) rx show "link_ok p (s\<lparr>y_ctx := (y_ctx s)(k := Some (with_cb j cb c))\<rparr>) a b"
    by (auto simp: link_ok_def link_state_def link_mem_def tx_view_def rx_view_def fresh_tx_def fresh_rx_def with_cb_def split: option.splits)
qed simp_all

section \<open>Properties\<close>


text \<open>Two kernels with rings of four descriptors, and a thread that makes six rounds.\<close>

definition boot64 :: mkring_boot_params where
  "boot64 = boot2\<lparr>bp_msg_size := 64\<rparr>"

definition six_rounds :: "test_tick list" where
  "six_rounds = replicate 6 \<lparr>tk_others = id, tk_stop = False, tk_ns = 7, tk_cpu = 1, tk_jiffies = (0, 0), tk_woken = False\<rparr> @
     [\<lparr>tk_others = id, tk_stop = True, tk_ns = 7, tk_cpu = 1, tk_jiffies = (0, 0), tk_woken = False\<rparr>]"

lemma boot64_ok: "boot_ok boot64"
proof -
  have "\<exists>L. mkring_calc_layout 4 64 = Inr L \<and> queue_size L = 4096"
    by (simp add: mkring_calc_layout_def check_mul_overflow_def check_add_overflow_def ALIGN_def Let_def)
  then show ?thesis by (auto simp: boot_ok_def good_config_def boot64_def boot2_def bad_params_def)
qed

lemma boot64_up:
  "\<exists>s c0 c1. reachable boot64 nf s \<and> y_ctx s 0 = Some c0 \<and> y_ctx s 1 = Some c1 \<and> notify c0 \<noteq> None \<and> remote_id (rx_of c1 0) = 0 \<and>
     y_sent s 0 1 = [] \<and> y_got s 1 0 = []"
proof -
  have "reachable boot64 nf sys_start" by (simp add: reachable_def)
  from reachable_init [OF boot64_ok this, of 0] obtain s c0 where
    s: "reachable boot64 nf s" "y_ctx s = (y_ctx sys_start)(0 := Some c0)" "notify c0 \<noteq> None"
      "y_sent s = y_sent sys_start" "y_got s = y_got sys_start"
    by (auto simp: boot64_def boot2_def sys_start_def)
  from reachable_init [OF boot64_ok this(1), of 1] s(2) obtain s' c1 where
    "reachable boot64 nf s'" "y_ctx s' = (y_ctx s)(1 := Some c1)" "y_sent s' = y_sent s" "y_got s' = y_got s"
    "\<forall>j. j < 2 \<and> j \<noteq> 1 \<longrightarrow> remote_id (rx_of c1 j) = j"
    by (auto simp: boot64_def boot2_def sys_start_def)
  with this(5) [rule_format, of 0] s show ?thesis by (intro exI [of _ s'] exI [of _ c0] exI [of _ c1]) (simp add: sys_start_def)
qed

lemma tx_loop_ends: "tk_stop u \<Longrightarrow> tx_loop hz nf (replicate n t @ [u]) nr v \<noteq> None"
proof (induction n arbitrary: nr v)
  case (Suc n)
  obtain v1 i where r: "tx_round nf t (tk_others t v) = (v1, i)" by fastforce
  then show ?case using Suc by (auto simp: Let_def simp del: not_None_eq split: option.split)
qed (simp add: Let_def)

lemma tx_loop_six: "\<exists>r x s g i. tx_loop hz nf six_rounds nr v = Some (r, (x, s, g), i)"
  using tx_loop_ends [of "last six_rounds" hz nf 6 "hd six_rounds" nr v] by (auto simp: six_rounds_def)


text \<open>
  C28. The self-test and the demultiplexer fight over the receive callback. Registering a callback
  replaces the one that is there. On a kernel whose queue from \<open>k\<close> feeds the demultiplexer, loading
  the module with peer \<open>k\<close> takes the queue away from it, and unloading the module, or a load that
  fails because the thread cannot be made, leaves the queue with no callback at all: from then on
  no message from \<open>k\<close> reaches the demultiplexer.
\<close>

theorem test_module_unhooks_demux:
  assumes "has_queues c" "ready c" "\<not> bad_peer c k" "rx_cb (rx_of c k) = Some DEMUX_CB" "period \<noteq> 0" "report \<noteq> 0"
    and "mkring_test_init (int (unat k)) period report thread ctx (Some c) = (rc, ctx1, Some c1)"
    and "mkring_test_exit ctx1 (Some c1) = (ctx2, Some c2, r)"
  shows "rc = thread \<and> (thread = 0 \<longrightarrow> rx_cb (rx_of c1 k) = Some TEST_CB \<and> rx_cb (rx_of c2 k) = None) \<and>
    (thread \<noteq> 0 \<longrightarrow> rx_cb (rx_of c1 k) = None) \<and>
    (\<forall>ok data. snd (mkring_rx_enqueue_local ok (rx_of c2 k) data) = [])"
proof -
  note init = test_init_eq [OF assms(5,6,2,3), of thread ctx]
    have unreg: "mkring_unregister_rx_cb k (Some (with_cb k cb c)) = Some (with_cb k None (with_cb k cb c))" for cb
    using assms(2,3) by (simp add: mkring_unregister_rx_cb_def with_cb_def bad_peer_def)
  have "has_queues (with_cb k cb c)" "\<not> bad_peer (with_cb k cb c) k" for cb
    using assms(1,3) by (auto simp: with_cb_def has_queues_def bad_peer_def)
  note cbs = rx_of_with_cb [OF this, of None] rx_of_with_cb [OF assms(1,3)]
  show ?thesis using assms(7,8) unfolding init
    by (auto simp: unreg mkring_test_exit_def Let_def cbs mkring_rx_enqueue_local_def split: if_splits)
qed

lemma exit_keeps_ctx: "fst (snd (mkring_test_exit x (Some c))) \<noteq> None"
  by (cases "tc_tx_task x"; cases "tc_rx_registered x") (simp_all add: mkring_test_exit_def mkring_unregister_rx_cb_def Let_def)

theorem test_module_unhooks_demux_witness:
  "\<exists>c' d' x1 c1 x2 c2 r. mkring_demux_init \<lparr>shm_hdr = zero_hdr, shm_queues = []\<rparr> (Some ctx3) zero_demux = (0, Some c', d') \<and>
    rx_cb (rx_of c' 1) = Some DEMUX_CB \<and> mkring_test_init 1 1000 5 0 mk_test_ctx (Some c') = (0, x1, Some c1) \<and>
    rx_cb (rx_of c1 1) = Some TEST_CB \<and> mkring_test_exit x1 (Some c1) = (x2, Some c2, r) \<and> rx_cb (rx_of c2 1) = None"
proof -
  have bad: "\<not> bad_peer ctx3 1" by (simp add: bad_peer_def ctx3_def word_le_nat_alt)
  have z: "\<not> d_started zero_demux" by (simp add: zero_demux_def)
  obtain c' d' where d: "mkring_demux_init \<lparr>shm_hdr = zero_hdr, shm_queues = []\<rparr> (Some ctx3) zero_demux = (0, Some c', d')"
    and sp: "same_params ctx3 c'" "has_queues c'"
    and all: "\<forall>k. rx_of c' k = (if \<not> bad_peer ctx3 k then (rx_of ctx3 k)\<lparr>rx_cb := Some DEMUX_CB\<rparr> else rx_of ctx3 k)"
    using demux_init_spec [OF z ctx3_ok, of "\<lparr>shm_hdr = zero_hdr, shm_queues = []\<rparr>"] by (elim exE conjE)
  have rx: "rx_cb (rx_of c' 1) = Some DEMUX_CB" using all [rule_format, of 1] bad by simp
  have c: "has_queues c'" "ready c'" "bad_peer c' 1 = bad_peer ctx3 1" using sp ctx3_ok(1) by (simp_all add: same_params_def bad_peer_def)
  from bad c have b': "\<not> bad_peer c' 1" by simp
  from test_init_eq [of 1000 5 c' 1 0 mk_test_ctx] c b' obtain x1 where
    i: "mkring_test_init 1 1000 5 0 mk_test_ctx (Some c') = (0, x1, Some (with_cb 1 (Some TEST_CB) c'))" by simp
  obtain x2 c2 r where e: "mkring_test_exit x1 (Some (with_cb 1 (Some TEST_CB) c')) = (x2, Some c2, r)"
    using exit_keeps_ctx [of x1 "with_cb 1 (Some TEST_CB) c'"] by (cases "mkring_test_exit x1 (Some (with_cb 1 (Some TEST_CB) c'))") auto
  from test_module_unhooks_demux [of c' 1 1000 5 0 mk_test_ctx 0, OF c(1,2) b' _ _ _ _ e] i rx d e show ?thesis by auto
qed

end
