(* ===== verification/HeaderSync.thy ===== *)
theory HeaderSync
  imports MkringTransport StreamDevice TransportSyscall
begin

text \<open>
  The protocol headers exist twice: in \<^verbatim>\<open>mkring\<close> for the kernel and the host, and in
  \<^verbatim>\<open>mk-guest-agent/include\<close> for the guest, with the remark that they are to be kept in sync. The other
  theories model the structures from the copy that the code includes. Here the structures of both
  copies are written with their C types, the kernel's with the prefix \<open>kernel_\<close> and those of the
  guest that no other theory has with the prefix \<open>guest_\<close>, and compared. All of them are packed.
\<close>

section \<open>C types\<close>

datatype ctype = Chr | U8 | U16 | U32 | U64 | S32 | S64
  | Arr nat ctype
  | Struct "(string \<times> ctype) list"
  | Union "(string \<times> ctype) list"

fun csize :: "ctype \<Rightarrow> nat" where
  "csize Chr = 1"
| "csize U8 = 1"
| "csize U16 = 2"
| "csize U32 = 4"
| "csize U64 = 8"
| "csize S32 = 4"
| "csize S64 = 8"
| "csize (Arr n t) = n * csize t"
| "csize (Struct fs) = sum_list (map (\<lambda>(n, t). csize t) fs)"
| "csize (Union fs) = foldr (\<lambda>(n, t) m. max (csize t) m) fs 0"

text \<open>The members of a packed structure with their sizes.\<close>

fun members :: "ctype \<Rightarrow> packed" where
  "members (Struct fs) = map (\<lambda>(n, t). (n, csize t)) fs"
| "members _ = []"

fun alternatives :: "ctype \<Rightarrow> (string \<times> packed) list" where
  "alternatives (Union fs) = map (\<lambda>(n, t). (n, members t)) fs"
| "alternatives _ = []"

section \<open>Kernel copies\<close>

definition kernel_mkring_proto_header :: ctype where
  "kernel_mkring_proto_header = Struct
    [(''magic'', U32), (''version'', U8), (''channel'', U8), (''kind'', U8), (''operation'', U8), (''flags'', U16),
     (''reserved0'', U16), (''request_id'', U64), (''status'', S32), (''payload_len'', U32)]"

definition kernel_mkring_container_ready_payload :: ctype where
  "kernel_mkring_container_ready_payload = Struct
    [(''features'', U32), (''runtime_name'', Arr 16 Chr)]"

definition kernel_mkring_container_create_request :: ctype where
  "kernel_mkring_container_create_request = Struct
    [(''kernel_id'', Arr 64 Chr), (''pod_id'', Arr 64 Chr), (''name'', Arr 64 Chr), (''image'', Arr 256 Chr),
     (''log_path'', Arr 256 Chr), (''argv_count'', U32), (''reserved0'', U32), (''argv'', Arr 4 (Arr 64 Chr))]"

definition kernel_mkring_container_control_request :: ctype where
  "kernel_mkring_container_control_request = Struct
    [(''kernel_id'', Arr 64 Chr), (''container_id'', Arr 64 Chr), (''timeout_millis'', S64)]"

definition kernel_mkring_container_create_response :: ctype where
  "kernel_mkring_container_create_response = Struct
    [(''container_id'', Arr 64 Chr), (''image_ref'', Arr 256 Chr)]"

definition kernel_mkring_container_stop_response :: ctype where
  "kernel_mkring_container_stop_response = Struct
    [(''exit_code'', S32)]"

definition kernel_mkring_container_status_response :: ctype where
  "kernel_mkring_container_status_response = Struct
    [(''state'', U32), (''exit_code'', S32), (''pid'', S32), (''started_at_unix_nano'', U64), (''finished_at_unix_nano'', U64),
     (''message'', Arr 128 Chr)]"

definition kernel_mkring_container_read_log_request :: ctype where
  "kernel_mkring_container_read_log_request = Struct
    [(''kernel_id'', Arr 64 Chr), (''container_id'', Arr 64 Chr), (''offset'', U64), (''max_bytes'', U32)]"

definition kernel_mkring_container_read_log_response :: ctype where
  "kernel_mkring_container_read_log_response = Struct
    [(''next_offset'', U64), (''data_len'', U32), (''eof'', U8), (''reserved0'', Arr 3 U8), (''data'', Arr 384 Chr)]"

definition kernel_mkring_container_exec_tty_prepare_request :: ctype where
  "kernel_mkring_container_exec_tty_prepare_request = Struct
    [(''kernel_id'', Arr 64 Chr), (''container_id'', Arr 64 Chr), (''argv_count'', U32), (''tty'', U8), (''stdin_enabled'', U8),
     (''stdout_enabled'', U8), (''stderr_enabled'', U8), (''argv'', Arr 4 (Arr 64 Chr))]"

definition kernel_mkring_container_exec_tty_prepare_response :: ctype where
  "kernel_mkring_container_exec_tty_prepare_response = Struct
    [(''session_id'', Arr 64 Chr)]"

definition kernel_mkring_container_exec_tty_start_request :: ctype where
  "kernel_mkring_container_exec_tty_start_request = Struct
    [(''kernel_id'', Arr 64 Chr), (''session_id'', Arr 64 Chr)]"

definition kernel_mkring_container_exec_tty_resize_request :: ctype where
  "kernel_mkring_container_exec_tty_resize_request = Struct
    [(''kernel_id'', Arr 64 Chr), (''session_id'', Arr 64 Chr), (''width'', U32), (''height'', U32)]"

definition kernel_mkring_container_exec_tty_close_request :: ctype where
  "kernel_mkring_container_exec_tty_close_request = Struct
    [(''kernel_id'', Arr 64 Chr), (''session_id'', Arr 64 Chr)]"

definition kernel_mkring_container_network_endpoint :: ctype where
  "kernel_mkring_container_network_endpoint = Struct
    [(''ip'', Arr 16 Chr), (''peer_kernel_id'', U16), (''reserved0'', U16)]"

definition kernel_mkring_container_configure_network_request :: ctype where
  "kernel_mkring_container_configure_network_request = Struct
    [(''kernel_id'', Arr 64 Chr), (''pod_id'', Arr 64 Chr), (''pod_ip'', Arr 16 Chr), (''pod_cidr'', Arr 24 Chr),
     (''mode'', Arr 16 Chr), (''endpoint_count'', U32), (''port_count'', U32),
     (''endpoints'', Arr 16 kernel_mkring_container_network_endpoint), (''ports'', Arr 32 U16)]"

definition kernel_mkring_container_configure_env_request :: ctype where
  "kernel_mkring_container_configure_env_request = Struct
    [(''kernel_id'', Arr 64 Chr), (''pod_id'', Arr 64 Chr), (''name'', Arr 64 Chr), (''key'', Arr 64 Chr),
     (''value'', Arr 256 Chr)]"

definition kernel_mkring_container_error_payload :: ctype where
  "kernel_mkring_container_error_payload = Struct
    [(''errno_value'', S32), (''message'', Arr 128 Chr)]"

definition kernel_mkring_container_payload :: ctype where
  "kernel_mkring_container_payload = Union
    [(''ready'', kernel_mkring_container_ready_payload), (''create_req'', kernel_mkring_container_create_request),
     (''control_req'', kernel_mkring_container_control_request), (''create_resp'', kernel_mkring_container_create_response),
     (''stop_resp'', kernel_mkring_container_stop_response), (''status_resp'', kernel_mkring_container_status_response),
     (''read_log_req'', kernel_mkring_container_read_log_request),
     (''read_log_resp'', kernel_mkring_container_read_log_response),
     (''exec_tty_prepare_req'', kernel_mkring_container_exec_tty_prepare_request),
     (''exec_tty_prepare_resp'', kernel_mkring_container_exec_tty_prepare_response),
     (''exec_tty_start_req'', kernel_mkring_container_exec_tty_start_request),
     (''exec_tty_resize_req'', kernel_mkring_container_exec_tty_resize_request),
     (''exec_tty_close_req'', kernel_mkring_container_exec_tty_close_request),
     (''configure_network_req'', kernel_mkring_container_configure_network_request),
     (''configure_env_req'', kernel_mkring_container_configure_env_request), (''error'', kernel_mkring_container_error_payload)]"

definition kernel_mkring_container_message :: ctype where
  "kernel_mkring_container_message = Struct
    [(''hdr'', kernel_mkring_proto_header), (''payload'', kernel_mkring_container_payload)]"

definition kernel_mkring_container_packet :: ctype where
  "kernel_mkring_container_packet = Struct
    [(''peer_kernel_id'', U16), (''reserved0'', U16), (''msg'', kernel_mkring_container_message)]"

definition kernel_mkring_container_wait_ready :: ctype where
  "kernel_mkring_container_wait_ready = Struct
    [(''peer_kernel_id'', U16), (''reserved0'', U16), (''timeout_ms'', U32), (''ready'', U32)]"

definition kernel_mkring_container_set_ready :: ctype where
  "kernel_mkring_container_set_ready = Struct
    [(''peer_kernel_id'', U16), (''reserved0'', U16), (''features'', U32), (''runtime_name'', Arr 16 Chr)]"

definition kernel_mkring_container_force_peer_ready :: ctype where
  "kernel_mkring_container_force_peer_ready = Struct
    [(''peer_kernel_id'', U16), (''reserved0'', U16)]"

definition kernel_mkring_container_call :: ctype where
  "kernel_mkring_container_call = Struct
    [(''peer_kernel_id'', U16), (''reserved0'', U16), (''timeout_ms'', U32), (''status'', S32),
     (''request'', kernel_mkring_container_message), (''response'', kernel_mkring_container_message)]"

definition kernel_mkring_stream_header :: ctype where
  "kernel_mkring_stream_header = Struct
    [(''magic'', U32), (''version'', U8), (''channel'', U8), (''stream_type'', U8), (''flags'', U8), (''session_seq'', U64),
     (''session_id'', Arr 64 Chr), (''payload_len'', U32)]"

definition kernel_mkring_stream_control_resize :: ctype where
  "kernel_mkring_stream_control_resize = Struct
    [(''kind'', U32), (''width'', U32), (''height'', U32)]"

definition kernel_mkring_stream_control_exit :: ctype where
  "kernel_mkring_stream_control_exit = Struct
    [(''kind'', U32), (''exit_code'', S32)]"

definition kernel_mkring_stream_message :: ctype where
  "kernel_mkring_stream_message = Struct
    [(''hdr'', kernel_mkring_stream_header), (''payload'', Arr 768 U8)]"

definition kernel_mkring_stream_packet :: ctype where
  "kernel_mkring_stream_packet = Struct
    [(''peer_kernel_id'', U16), (''reserved0'', U16), (''msg'', kernel_mkring_stream_message)]"

definition kernel_mkring_net_header :: ctype where
  "kernel_mkring_net_header = Struct
    [(''magic'', U32), (''version'', U8), (''channel'', U8), (''msg_type'', U8), (''flags'', U8), (''conn_id'', U64),
     (''seq'', U32), (''payload_len'', U32), (''src_ip_be'', U32), (''dst_ip_be'', U32), (''src_port_be'', U16),
     (''dst_port_be'', U16)]"

definition kernel_mkring_net_message :: ctype where
  "kernel_mkring_net_message = Struct
    [(''hdr'', kernel_mkring_net_header), (''payload'', Arr 768 U8)]"

definition kernel_mkring_transport_send :: ctype where
  "kernel_mkring_transport_send = Struct
    [(''peer_kernel_id'', U16), (''channel'', U16), (''message_len'', U32), (''message'', Arr 1024 U8)]"

definition kernel_mkring_transport_recv :: ctype where
  "kernel_mkring_transport_recv = Struct
    [(''peer_kernel_id'', U16), (''channel'', U16), (''timeout_ms'', U32), (''message_len'', U32), (''message'', Arr 1024 U8)]"

text \<open>The operation codes of a container message, in the order of \<^verbatim>\<open>mkring_container.h\<close>.\<close>

definition kernel_container_ops :: "(string \<times> u8) list" where
  "kernel_container_ops =
    [(''NONE'', 0), (''CREATE'', 1), (''START'', 2), (''STOP'', 3), (''REMOVE'', 4), (''STATUS'', 5), (''READ_LOG'', 6),
     (''EXEC_TTY_PREPARE'', 7), (''EXEC_TTY_START'', 8), (''EXEC_TTY_RESIZE'', 9), (''EXEC_TTY_CLOSE'', 10),
     (''CONFIGURE_NETWORK'', 11), (''CONFIGURE_ENV'', 12)]"

text \<open>Request codes of \<^verbatim>\<open>ioctl\<close>: direction, size in 14 bits, magic number and number.\<close>

definition ioc :: "nat \<Rightarrow> nat \<Rightarrow> nat \<Rightarrow> ctype \<Rightarrow> nat" where
  "ioc dir magic nr t = ((dir * 2 ^ 14 + csize t) * 2 ^ 8 + magic) * 2 ^ 8 + nr"

definition kernel_container_ioctls :: "(string \<times> nat \<times> ctype) list" where
  "kernel_container_ioctls =
    [(''WAIT_READY'', ioc 3 0xB7 0x01 kernel_mkring_container_wait_ready, kernel_mkring_container_wait_ready),
     (''SET_READY'', ioc 1 0xB7 0x02 kernel_mkring_container_set_ready, kernel_mkring_container_set_ready),
     (''CALL'', ioc 3 0xB7 0x03 kernel_mkring_container_call, kernel_mkring_container_call),
     (''FORCE_PEER_READY'', ioc 1 0xB7 0x04 kernel_mkring_container_force_peer_ready, kernel_mkring_container_force_peer_ready)]"

section \<open>Guest copies\<close>

definition guest_mkring_proto_header :: ctype where
  "guest_mkring_proto_header = Struct
    [(''magic'', U32), (''version'', U8), (''channel'', U8), (''kind'', U8), (''operation'', U8), (''flags'', U16),
     (''reserved0'', U16), (''request_id'', U64), (''status'', S32), (''payload_len'', U32)]"

definition guest_mkring_net_header :: ctype where
  "guest_mkring_net_header = Struct
    [(''magic'', U32), (''version'', U8), (''channel'', U8), (''msg_type'', U8), (''flags'', U8), (''conn_id'', U64),
     (''seq'', U32), (''payload_len'', U32), (''src_ip_be'', U32), (''dst_ip_be'', U32), (''src_port_be'', U16),
     (''dst_port_be'', U16)]"

definition guest_mkring_net_message :: ctype where
  "guest_mkring_net_message = Struct
    [(''hdr'', guest_mkring_net_header), (''payload'', Arr 768 U8)]"

definition guest_mkring_transport_send :: ctype where
  "guest_mkring_transport_send = Struct
    [(''peer_kernel_id'', U16), (''channel'', U16), (''message_len'', U32), (''message'', Arr 1024 U8)]"

definition guest_mkring_transport_recv :: ctype where
  "guest_mkring_transport_recv = Struct
    [(''peer_kernel_id'', U16), (''channel'', U16), (''timeout_ms'', U32), (''message_len'', U32), (''message'', Arr 1024 U8)]"

definition guest_mkring_stream_control_resize :: ctype where
  "guest_mkring_stream_control_resize = Struct
    [(''kind'', U32), (''width'', U32), (''height'', U32)]"

definition guest_mkring_proto_header_valid :: "bytes option \<Rightarrow> u32 \<Rightarrow> bool" where
  "guest_mkring_proto_header_valid data len =
    (case data of
       None \<Rightarrow> False
     | Some bs \<Rightarrow>
         if len < of_nat (csize guest_mkring_proto_header) then False
         else let hdr = (\<lambda>n. get (members guest_mkring_proto_header) n bs) in
           if (dec_le (hdr ''magic'') :: u32) \<noteq> MKRING_PROTO_MAGIC then False
           else if (dec_le (hdr ''version'') :: u8) \<noteq> MKRING_PROTO_VERSION then False
           else if (dec_le (hdr ''channel'') :: u8) = 0 then False
           else if len - of_nat (csize guest_mkring_proto_header) < (dec_le (hdr ''payload_len'') :: u32) then False
           else True)"

section \<open>Comparison\<close>

lemmas kernel_structs =
  kernel_mkring_proto_header_def
  kernel_mkring_container_ready_payload_def
  kernel_mkring_container_create_request_def
  kernel_mkring_container_control_request_def
  kernel_mkring_container_create_response_def
  kernel_mkring_container_stop_response_def
  kernel_mkring_container_status_response_def
  kernel_mkring_container_read_log_request_def
  kernel_mkring_container_read_log_response_def
  kernel_mkring_container_exec_tty_prepare_request_def
  kernel_mkring_container_exec_tty_prepare_response_def
  kernel_mkring_container_exec_tty_start_request_def
  kernel_mkring_container_exec_tty_resize_request_def
  kernel_mkring_container_exec_tty_close_request_def
  kernel_mkring_container_network_endpoint_def
  kernel_mkring_container_configure_network_request_def
  kernel_mkring_container_configure_env_request_def
  kernel_mkring_container_error_payload_def
  kernel_mkring_container_payload_def
  kernel_mkring_container_message_def
  kernel_mkring_container_packet_def
  kernel_mkring_container_wait_ready_def
  kernel_mkring_container_set_ready_def
  kernel_mkring_container_force_peer_ready_def
  kernel_mkring_container_call_def
  kernel_mkring_stream_header_def
  kernel_mkring_stream_control_resize_def
  kernel_mkring_stream_control_exit_def
  kernel_mkring_stream_message_def
  kernel_mkring_stream_packet_def
  kernel_mkring_net_header_def
  kernel_mkring_net_message_def
  kernel_mkring_transport_send_def
  kernel_mkring_transport_recv_def
  guest_mkring_proto_header_def
  guest_mkring_net_header_def
  guest_mkring_net_message_def
  guest_mkring_transport_send_def
  guest_mkring_transport_recv_def
  guest_mkring_stream_control_resize_def

lemma container_layouts:
  "alternatives kernel_mkring_container_payload = mkring_container_payload" "members kernel_mkring_proto_header = mkring_container_header"
  "members kernel_mkring_container_message = mkring_container_message"
  by (simp_all add: kernel_structs container_structs mkring_container_payload_def mkring_container_message_def del: container_sizes)

lemma stream_layouts:
  "members kernel_mkring_stream_header = mkring_stream_header" "members kernel_mkring_stream_control_exit = mkring_stream_control_exit"
  "csize kernel_mkring_stream_message = sizeof mkring_stream_message"
  by (simp_all add: kernel_structs mkring_stream_header_def mkring_stream_control_exit_def del: stream_sizes(1,2))

lemma operation_codes:
  "map snd kernel_container_ops = map mkga_operation_to_mkring
     [MKGA_OP_INVALID, MKGA_OP_CREATE_CONTAINER, MKGA_OP_START_CONTAINER, MKGA_OP_STOP_CONTAINER, MKGA_OP_REMOVE_CONTAINER, MKGA_OP_STATUS_CONTAINER,
      MKGA_OP_READ_LOG, MKGA_OP_EXEC_TTY_PREPARE, MKGA_OP_EXEC_TTY_START, MKGA_OP_EXEC_TTY_RESIZE, MKGA_OP_EXEC_TTY_CLOSE,
      MKGA_OP_CONFIGURE_NETWORK, MKGA_OP_CONFIGURE_ENV]"
  by (simp add: kernel_container_ops_def)

lemma prefixes:
  "map (\<lambda>h bs. (dec_le (get (members h) ''magic'' bs), dec_le (get (members h) ''version'' bs), dec_le (get (members h) ''channel'' bs)))
     [kernel_mkring_proto_header, kernel_mkring_stream_header, kernel_mkring_net_header] =
     replicate 3 (\<lambda>bs. (prefix_magic bs, prefix_version bs, prefix_channel bs))"
  by (simp add: kernel_structs get_def prefix_magic_def prefix_version_def prefix_channel_def numeral_eq_Suc)

lemma messages_fit:
  "list_all (\<lambda>m. csize m \<le> 1024) [kernel_mkring_container_message, kernel_mkring_stream_message, kernel_mkring_net_message]"
  by (simp add: kernel_structs)

lemma guest_header_valid: "guest_mkring_proto_header_valid = mkring_proto_header_valid"
  by (intro ext) (simp add: guest_mkring_proto_header_valid_def mkring_proto_header_valid_def guest_mkring_proto_header_def get_def dec_proto_header_def Let_def
    split: option.split)

lemma dec_send_layout:
  "dec_send = (\<lambda>bs. let rd = (\<lambda>n. get (members kernel_mkring_transport_send) n bs) in
     \<lparr>snd_peer = dec_le (rd ''peer_kernel_id''), snd_channel = dec_le (rd ''channel''), snd_len = dec_le (rd ''message_len''), snd_message = rd ''message''\<rparr>)"
  by (intro ext) (simp add: dec_send_def kernel_mkring_transport_send_def get_def)

lemma ioctl_codes:
  "distinct (map (fst \<circ> snd) kernel_container_ioctls)" "list_all (\<lambda>(n, c, t). csize t < 2 ^ 14 \<and> c < 2 ^ 32) kernel_container_ioctls"
  by (simp_all add: kernel_container_ioctls_def ioc_def kernel_structs)


end
