(* ===== verification/CtrAgent.thy ===== *)
theory CtrAgent
  imports CtrLifecycle ExecTty Agent
begin

text \<open>
  The containerd runtime behind the runtime interface: the table \<^verbatim>\<open>mkga_containerd_ops\<close> of
  \<^verbatim>\<open>mk-guest-agent/src/runtime_containerd_stub.c\<close>, and the agent that serves requests with it. The
  private state of the runtime is the guest: the runtime structure, the exec sessions and the world
  of files, commands and processes. A call that does not return leaves the state \<open>None\<close>; nothing is
  claimed about the agent from then on.
\<close>

record 'd guest =
  gu_impl :: mkga_containerd_runtime
  gu_tty :: tty_state
  gu_world :: "'d world"
  gu_turn :: nat

text \<open>What the system calls of the exec operations return, for each of them in turn.\<close>

record session_env =
  sv_now :: i64
  sv_alloc :: bool
  sv_mutex :: bool
  sv_start :: start_env
  sv_winsize :: int
  sv_kill :: int

definition on_guest :: "('d guest \<Rightarrow> (int \<times> 'd guest) option) \<Rightarrow> 'd guest option \<Rightarrow> int \<times> 'd guest option" where
  "on_guest f m = (case Option.bind m f of None \<Rightarrow> (0, None) | Some (rc, g) \<Rightarrow> (rc, Some g))"

definition on_guest_resp :: "('d guest \<Rightarrow> (int \<times> 'r \<times> 'd guest) option) \<Rightarrow> 'd guest option \<Rightarrow> 'r \<Rightarrow> int \<times> 'r \<times> 'd guest option" where
  "on_guest_resp f m r = (case Option.bind m f of None \<Rightarrow> (0, r, None) | Some (rc, r', g) \<Rightarrow> (rc, r', Some g))"

definition in_world :: "('d guest \<Rightarrow> (int \<times> 'd world) option) \<Rightarrow> 'd guest \<Rightarrow> (int \<times> 'd guest) option" where
  "in_world f g = map_option (\<lambda>(rc, w). (rc, g\<lparr>gu_world := w\<rparr>)) (f g)"

definition in_world_resp :: "('d guest \<Rightarrow> (int \<times> 'r \<times> 'd world) option) \<Rightarrow> 'd guest \<Rightarrow> (int \<times> 'r \<times> 'd guest) option" where
  "in_world_resp f g = map_option (\<lambda>(rc, r, w). (rc, r, g\<lparr>gu_world := w\<rparr>)) (f g)"

definition in_sessions :: "('d guest \<Rightarrow> int \<times> tty_state) \<Rightarrow> 'd guest \<Rightarrow> (int \<times> 'd guest) option" where
  "in_sessions f g = (case f g of (rc, s) \<Rightarrow> Some (rc, g\<lparr>gu_tty := s, gu_turn := Suc (gu_turn g)\<rparr>))"

definition mkga_containerd_ops :: "'d os \<Rightarrow> (nat \<Rightarrow> session_env) \<Rightarrow> 'd guest option mkga_runtime_ops" where
  "mkga_containerd_ops os env =
    \<lparr>op_create_container = Some (\<lambda>m q r. on_guest_resp (\<lambda>g.
       map_option (\<lambda>(rc, r', impl, w). (rc, r', g\<lparr>gu_impl := impl, gu_world := w\<rparr>))
         (mkga_containerd_create_container os (gu_impl g) q r (gu_world g))) m r),
     op_start_container = Some (\<lambda>m q. on_guest (in_world (\<lambda>g. mkga_containerd_start_container os (gu_impl g) q (gu_world g))) m),
     op_stop_container = Some (\<lambda>m q r. on_guest_resp (in_world_resp (\<lambda>g. mkga_containerd_stop_container os (gu_impl g) q r (gu_world g))) m r),
     op_remove_container = Some (\<lambda>m q. on_guest (in_world (\<lambda>g. mkga_containerd_remove_container os (gu_impl g) q (gu_world g))) m),
     op_status_container = Some (\<lambda>m q r. on_guest_resp (in_world_resp (\<lambda>g. mkga_containerd_status_container os (gu_impl g) q r (gu_world g))) m r),
     op_read_log = Some (\<lambda>m q r. on_guest_resp (in_world_resp (\<lambda>g. Some (mkga_containerd_read_log os (gu_impl g) q r (gu_world g)))) m r),
     op_configure_network = Some (\<lambda>m q. on_guest (in_world (\<lambda>g. mkga_containerd_configure_network os (gu_impl g) q (gu_world g))) m),
     op_configure_env = Some (\<lambda>m q. on_guest (\<lambda>g. case mkga_containerd_configure_env (gu_impl g) q of (rc, impl) \<Rightarrow> Some (rc, g\<lparr>gu_impl := impl\<rparr>)) m),
     op_exec_tty_prepare = Some (\<lambda>m q r. on_guest_resp (\<lambda>g. let e = env (gu_turn g) in
       case mkga_containerd_exec_tty_prepare (sv_now e) (sv_alloc e) (sv_mutex e) q r (gu_tty g) of
         (rc, r', s) \<Rightarrow> Some (rc, r', g\<lparr>gu_tty := s, gu_turn := Suc (gu_turn g)\<rparr>)) m r),
     op_exec_tty_start = Some (\<lambda>m q. on_guest (\<lambda>g.
       map_option (\<lambda>(rc, s, w). (rc, g\<lparr>gu_tty := s, gu_world := w, gu_turn := Suc (gu_turn g)\<rparr>))
         (mkga_containerd_exec_tty_start os (sv_start (env (gu_turn g))) (gu_impl g) q (gu_tty g) (gu_world g))) m),
     op_exec_tty_resize = Some (\<lambda>m q. on_guest (in_sessions (\<lambda>g. mkga_containerd_exec_tty_resize (sv_winsize (env (gu_turn g))) q (gu_tty g))) m),
     op_exec_tty_close = Some (\<lambda>m q. on_guest (in_sessions (\<lambda>g. mkga_containerd_exec_tty_close (sv_kill (env (gu_turn g))) q (gu_tty g))) m),
     op_destroy = Some mkga_containerd_destroy\<rparr>"

section \<open>Requests on the containerd runtime\<close>

definition asks :: "mkga_operation \<Rightarrow> mkga_payload \<Rightarrow> mkga_envelope \<Rightarrow> bool" where
  "asks op p q \<longleftrightarrow> e_kind q = MKGA_MESSAGE_REQUEST \<and> e_operation q = op \<and> e_payload q = p"

lemmas guest_defs = answer_def asks_def finish_plain_def finish_resp_def runtime_dispatch rt_of_def mkga_containerd_ops_def
  on_guest_def on_guest_resp_def in_world_def in_world_resp_def create_container_req_def container_control_req_def

lemma answer_create:
  assumes "asks MKGA_OP_CREATE_CONTAINER (PCreateReq req) q"
    and "mkga_containerd_create_container os (gu_impl g) req zero_create_resp (gu_world g) = Some (0, r, impl, w)"
  shows "answer t1 t2 (rt_of (mkga_containerd_ops os env) (Some g)) q =
    ((mkga_envelope_make_response t1 q)\<lparr>e_payload := PCreateResp r\<rparr>, rt_of (mkga_containerd_ops os env) (Some (g\<lparr>gu_impl := impl, gu_world := w\<rparr>)))"
  using assms by (simp add: guest_defs)

lemma answer_plain:
  assumes "asks op (PControlReq req) q"
    and "op = MKGA_OP_START_CONTAINER \<and> mkga_containerd_start_container os (gu_impl g) req (gu_world g) = Some (0, w) \<or>
      op = MKGA_OP_REMOVE_CONTAINER \<and> mkga_containerd_remove_container os (gu_impl g) req (gu_world g) = Some (0, w)"
  shows "answer t1 t2 (rt_of (mkga_containerd_ops os env) (Some g)) q =
    (mkga_envelope_make_response t1 q, rt_of (mkga_containerd_ops os env) (Some (g\<lparr>gu_world := w\<rparr>)))"
  using assms by (auto simp: guest_defs)

lemma answer_status:
  assumes "asks MKGA_OP_STATUS_CONTAINER (PControlReq req) q"
    and "mkga_containerd_status_container os (gu_impl g) req zero_status_resp (gu_world g) = Some (rc, r, w)"
  shows "answer t1 t2 (rt_of (mkga_containerd_ops os env) (Some g)) q =
    (if rc \<noteq> 0 then mkga_envelope_set_error t2 q (mkga_strerror_name rc) (cs ''status_container failed'')
     else (mkga_envelope_make_response t1 q)\<lparr>e_payload := PStatusResp r\<rparr>,
     rt_of (mkga_containerd_ops os env) (Some (g\<lparr>gu_world := w\<rparr>)))"
  using assms by (simp add: guest_defs)

text \<open>The five requests of a session, each against the state the previous one left.\<close>

definition life_requests :: "mkga_create_container_req \<Rightarrow> mkga_container_control_req \<Rightarrow> mkga_envelope list \<Rightarrow> bool" where
  "life_requests req creq qs \<longleftrightarrow> list_all2 (\<lambda>(op, p) q. asks op p q)
    [(MKGA_OP_CREATE_CONTAINER, PCreateReq req), (MKGA_OP_STATUS_CONTAINER, PControlReq creq), (MKGA_OP_START_CONTAINER, PControlReq creq),
     (MKGA_OP_REMOVE_CONTAINER, PControlReq creq), (MKGA_OP_STATUS_CONTAINER, PControlReq creq)] qs"

definition outcome :: "mkga_envelope \<Rightarrow> bytes + mkga_payload" where
  "outcome r = (if err_present (e_error r) then Inl (err_code (e_error r)) else Inr (e_payload r))"

lemma outcome_simps [simp]:
  "outcome (mkga_envelope_make_response t q) = Inr PZero"
  "outcome ((mkga_envelope_make_response t q)\<lparr>e_payload := p\<rparr>) = Inr p"
  "outcome (mkga_envelope_set_error t q c m) = Inl (copied MKGA_MAX_CODE_LEN c)"
  by (simp_all add: outcome_def mkga_envelope_make_response_def mkga_envelope_set_error_def mkga_envelope_init_def zero_envelope_def zero_error_def)

lemma answer_life:
  assumes "os_works os" "ctr_accepts os (gu_impl g)" "env_inv (gu_impl g)" "has_paths (gu_impl g) (created_id req)" "life_req req creq"
    and "\<not> cd_start_via_run (gu_impl g)" "fits_argv (gu_impl g) req" "life_requests req creq qs"
  shows "\<exists>rs g'. answer_all clk i (rt_of (mkga_containerd_ops os env) (Some g)) qs = (rs, rt_of (mkga_containerd_ops os env) (Some g')) \<and>
    map outcome rs = [Inr (PCreateResp \<lparr>cr_container_id = created_id req, cr_image_ref = copied MKGA_MAX_IMAGE_LEN (cc_image req)\<rparr>),
      Inr (PStatusResp (resp_of new_state)), Inr PZero, Inr PZero, Inl (cs ''not_found'')] \<and>
    gu_tty g' = gu_tty g \<and> w_jobs (gu_world g') = w_jobs (gu_world g) @ [ExitWatcher (created_id req)] \<and>
    w_files (gu_world g') = (\<lambda>p. if p \<in> own (gu_impl g) (created_id req) then None else w_files (gu_world g) p)"
proof -
  let ?c = "created_id req" and ?impl = "gu_impl g" and ?w = "gu_world g" and ?rt = "\<lambda>g. rt_of (mkga_containerd_ops os env) (Some g)"
  define impl' where "impl' = ?impl\<lparr>cd_pending_env := filter (\<lambda>e. \<not> for_container req e) (cd_pending_env ?impl)\<rparr>"
  have c: "mkga_containerd_validate_create_req req = 0" "mkga_containerd_validate_control_req creq = 0" "ct_container_id creq = ?c"
    using assms(5) by (simp_all add: life_req_def)
  have a: "ctr_accepts os impl'" using assms(2) by (simp add: impl'_def)
  have p: "has_paths impl' ?c" "path_of x impl' ?c = path_of x ?impl ?c" "\<not> cd_start_via_run impl'" for x
    using assms(4,6) by (simp_all add: impl'_def has_paths_def path_of_def)
  note p' = p(1) [folded c(3)]
  obtain w1 where 1: "mkga_containerd_create_container os ?impl req zero_create_resp ?w =
      Some (0, \<lparr>cr_container_id = ?c, cr_image_ref = copied MKGA_MAX_IMAGE_LEN (cc_image req)\<rparr>, impl', w1)"
    "w_files w1 = (w_files ?w)(meta_of ?impl ?c \<mapsto> concat (metadata_texts (requested ?impl req)), state_of ?impl ?c \<mapsto> enc_state new_state, log_of ?impl ?c := None)"
    "w_jobs w1 = w_jobs ?w"
    using create_works [OF assms(1-4) c(1), of zero_create_resp ?w] assms(7) unfolding impl'_def stored_as_def by blast
  have d: "log_of ?impl ?c \<noteq> state_of ?impl ?c" by (simp add: path_of_def cs_def)
  obtain w2 where 2: "mkga_containerd_status_container os impl' creq zero_status_resp w1 = Some (0, resp_of new_state, w2)" "same w1 w2"
    using status_works [OF assms(1) p' c(2), of w1 new_state] 1(2) p(2) c(3) d by (auto simp: new_state_def state_ok_def mkga_containerd_fill_state_def)
  obtain t w3 where 3: "mkga_containerd_start_container os impl' creq w2 = Some (0, w3)"
    "w_files w3 = (w_files w2)(state_of ?impl ?c \<mapsto> enc_state (running_state t))" "w_jobs w3 = w_jobs w2 @ [ExitWatcher ?c]"
    using start_works [OF assms(1) a p' c(2) p(3), of w2] p(2) c(3) by auto
  obtain w4 where 4: "mkga_containerd_remove_container os impl' creq w3 = Some (0, w4)"
    "w_files w4 = (w_files w3)(meta_of ?impl ?c := None, state_of ?impl ?c := None, log_of ?impl ?c := None)" "w_jobs w4 = w_jobs w3"
    using remove_works [OF assms(1) a p' c(2), of w3] p(2) c(3) by (auto simp: stored_as_def)
  obtain w5 where 5: "mkga_containerd_status_container os impl' creq zero_status_resp w4 = Some (- ENOENT, zero_status_resp, w5)" "same w4 w5"
    using status_missing [OF assms(1) p' c(2), of w4] 4(2) p(2) c(3) by auto
  obtain q1 q2 q3 q4 q5 where qs: "qs = [q1, q2, q3, q4, q5]" "asks MKGA_OP_CREATE_CONTAINER (PCreateReq req) q1" "asks MKGA_OP_STATUS_CONTAINER (PControlReq creq) q2"
    "asks MKGA_OP_START_CONTAINER (PControlReq creq) q3" "asks MKGA_OP_REMOVE_CONTAINER (PControlReq creq) q4" "asks MKGA_OP_STATUS_CONTAINER (PControlReq creq) q5"
    using assms(8) by (auto simp: life_requests_def list_all2_Cons1)
  let ?g = "\<lambda>w. g\<lparr>gu_impl := impl', gu_world := w\<rparr>"
  note an = answer_create [OF qs(2) 1(1), where env = env] answer_status [OF qs(3), where g = "?g w1" and os = os and env = env, simplified, OF 2(1)]
    answer_plain [OF qs(4), where g = "?g w2" and os = os and env = env, simplified, OF 3(1)]
    answer_plain [OF qs(5), where g = "?g w3" and os = os and env = env, simplified, OF 4(1)]
    answer_status [OF qs(6), where g = "?g w4" and os = os and env = env, simplified, OF 5(1)]
  have "w_files w5 = (\<lambda>p. if p \<in> own ?impl ?c then None else w_files ?w p)" "w_jobs w5 = w_jobs ?w @ [ExitWatcher ?c]"
    using 1(2,3) 2(2) 3(2,3) 4(2,3) 5(2) by (auto simp: fun_eq_iff own_def same_def)
  then show ?thesis unfolding qs(1) by (intro exI [of _ "?g w5"] exI conjI, simp add: an mkga_strerror_name.simps) (simp_all add: cs_def)
qed

section \<open>Properties\<close>


definition ask :: "mkga_operation \<Rightarrow> mkga_payload \<Rightarrow> mkga_envelope" where
  "ask op p = zero_envelope\<lparr>e_kind := MKGA_MESSAGE_REQUEST, e_operation := op, e_payload := p\<rparr>"

definition web_requests :: "mkga_envelope list" where
  "web_requests = [ask MKGA_OP_CREATE_CONTAINER (PCreateReq web_req), ask MKGA_OP_STATUS_CONTAINER (PControlReq web_control),
     ask MKGA_OP_START_CONTAINER (PControlReq web_control), ask MKGA_OP_REMOVE_CONTAINER (PControlReq web_control),
     ask MKGA_OP_STATUS_CONTAINER (PControlReq web_control)]"

definition web_stub :: mkga_stub_transport where
  "web_stub = \<lparr>sb_closed = False, sb_inbound = \<lparr>rq_items = web_requests, rq_capacity = 5, rq_head = 0, rq_tail = 0, rq_count = 5\<rparr>,
     sb_outbound = \<lparr>rq_items = replicate 5 zero_envelope, rq_capacity = 5, rq_head = 0, rq_tail = 0, rq_count = 0\<rparr>\<rparr>"

definition web_guest :: "unit guest" where
  "web_guest = \<lparr>gu_impl = box, gu_tty = tty_init, gu_world = empty_world, gu_turn = 0\<rparr>"

definition no_sessions :: "nat \<Rightarrow> session_env" where
  "no_sessions n = \<lparr>sv_now = 0, sv_alloc = False, sv_mutex = False, sv_start = \<lparr>se_stream_rc = 0, se_openpt = Inl EIO, se_grantpt = 0, se_ptsname = 0,
     se_winsize = 0, se_fork = Inl EAGAIN, se_nonblock = 0, se_waiter_ok = False, se_io_rc = 0, se_wait_rc = 0\<rparr>, sv_winsize = 0, sv_kill = 0\<rparr>"

definition web_agent :: "(stub_impl, unit guest option) mkga_agent" where
  "web_agent = mkga_agent_init (tr_of mkga_stub_ops (web_stub, [])) (rt_of (mkga_containerd_ops prompt_os no_sessions) (Some web_guest)) 200"


end
