(* ===== verification/AgentMain.thy ===== *)
theory AgentMain
  imports CtrAgent MkringTransport Config
begin

text \<open>
  The main program of the guest agent (\<^verbatim>\<open>mk-guest-agent/src/main.c\<close>): configuration, signal handlers, the choice
  of runtime and transport, the serve loop, and the clean-up. The result is the exit code with what
  is still held of the runtime and of the transport; \<open>None\<close> means that the program has not ended.
  Messages on the standard streams are not modelled.
\<close>

abbreviation (input) MKRING_CONTAINER_FEATURE_CONTAINERD :: u32 where "MKRING_CONTAINER_FEATURE_CONTAINERD \<equiv> 1"

text \<open>
  What the program finds: the results of the two \<^verbatim>\<open>sigaction\<close> calls, the signals that have arrived at
  each read of the stop flag, and what the constructors of the runtimes and transports depend on.
\<close>

record ('d, 'k) main_env =
  mn_sigint :: int
  mn_sigterm :: int
  mn_signals :: "nat \<Rightarrow> nat \<Rightarrow> int list"
  mn_memory_ok :: "bool \<times> bool \<times> bool"
  mn_containerd_ok :: "bool \<times> bool"
  mn_os :: "'d os"
  mn_world :: "'d world"
  mn_tty :: tty_state
  mn_sessions :: "nat \<Rightarrow> session_env"
  mn_stub_ok :: "bool \<times> bool \<times> bool \<times> bool \<times> bool \<times> bool"
  mn_waits :: "stub_wait list"
  mn_syscall :: "(u32 \<Rightarrow> bytes \<Rightarrow> 'k \<Rightarrow> int \<times> bytes \<times> 'k) option"
  mn_now :: i64
  mn_mkring_ok :: bool
  mn_kernel :: 'k
  mn_fuel :: nat
  mn_clock :: "nat \<Rightarrow> nat \<Rightarrow> i64"

text \<open>The handler sets the flag whatever the signal.\<close>

definition mkga_handle_signal :: "int \<Rightarrow> bool \<Rightarrow> bool" where
  "mkga_handle_signal signo mkga_stop = True"

definition mkga_stop_flag :: "('d, 'k) main_env \<Rightarrow> nat \<Rightarrow> nat \<Rightarrow> bool" where
  "mkga_stop_flag e i j = fold mkga_handle_signal (mn_signals e i j) False"

definition mkga_install_signal_handlers :: "int \<Rightarrow> int \<Rightarrow> int" where
  "mkga_install_signal_handlers sigint sigterm = (if sigint \<noteq> 0 then -1 else if sigterm \<noteq> 0 then -1 else 0)"

definition serve_and_clean_up ::
    "('d, 'k) main_env \<Rightarrow> mkga_config \<Rightarrow> ('t mkga_transport option \<Rightarrow> 't mkga_transport option) \<Rightarrow> 't mkga_transport option \<Rightarrow> resource set \<Rightarrow>
     's mkga_runtime option \<Rightarrow> resource set \<Rightarrow> (int \<times> resource set \<times> resource set) option" where
  "serve_and_clean_up e config shutdown transport theld runtime rheld =
    (case mkga_agent_serve (mn_fuel e) (mn_clock e) (Some (mkga_stop_flag e))
            (Some (mkga_agent_init transport runtime (cf_receive_timeout_ms config))) of
       None \<Rightarrow> None
     | Some (rc, a) \<Rightarrow>
         let transport' = shutdown (ag_transport (the a))
         in Some (if rc = 0 then 0 else 1, mkga_runtime_destroy (ag_runtime (the a)) rheld, mkga_transport_destroy transport' theld))"

definition with_transport ::
    "('d, 'k) main_env \<Rightarrow> mkga_config \<Rightarrow> u32 \<Rightarrow> 's mkga_runtime option \<Rightarrow> resource set \<Rightarrow> (int \<times> resource set \<times> resource set) option" where
  "with_transport e config ready_features runtime rheld =
    (if runtime = None then Some (1, rheld, {})
     else if cf_transport_driver config = cs ''stub''
     then (case mn_stub_ok e of (tr_ok, stub_ok, mu_ok, cv_ok, in_ok, out_ok) \<Rightarrow>
             case mkga_stub_transport_create tr_ok stub_ok mu_ok cv_ok in_ok out_ok (mn_waits e) (unat (cf_inbound_buffer config)) of
               (Inl err, theld) \<Rightarrow> Some (1, mkga_runtime_destroy runtime rheld, theld)
             | (Inr tr, theld) \<Rightarrow> serve_and_clean_up e config mkga_stub_transport_shutdown (Some tr) theld runtime rheld)
     else if cf_transport_driver config = cs ''mkring''
     then (case mkga_mkring_transport_create (mn_syscall e) (mn_now e) (mn_mkring_ok e) (mn_kernel e)
                  (cf_peer_kernel_id config) (Some (cf_runtime_driver config)) ready_features of
             Inl _ \<Rightarrow> Some (1, mkga_runtime_destroy runtime rheld, {})
           | Inr tr \<Rightarrow> serve_and_clean_up e config (\<lambda>t. t) (Some tr) {RHandle, RImpl} runtime rheld)
     else Some (1, mkga_runtime_destroy runtime rheld, {}))"

definition agent_main :: "('d, 'k) main_env \<Rightarrow> (int \<times> resource set \<times> resource set) option" where
  "agent_main e =
    (let config = mkga_config_load_from_env (os_getenv (mn_os e)) in
     if mkga_install_signal_handlers (mn_sigint e) (mn_sigterm e) \<noteq> 0 then Some (1, {}, {})
     else if cf_runtime_driver config = cs ''memory''
     then (case mn_memory_ok e of (runtime_ok, impl_ok, mu_ok) \<Rightarrow>
             case mkga_memory_runtime_create runtime_ok impl_ok mu_ok of (rt, held) \<Rightarrow> with_transport e config 0 rt held)
     else if cf_runtime_driver config = cs ''containerd''
     then (case mn_containerd_ok e of (runtime_ok, impl_ok) \<Rightarrow>
             case mkga_containerd_runtime_create (mn_os e) runtime_ok impl_ok (Some (cf_containerd_socket config)) (mn_world e) of
               None \<Rightarrow> None
             | Some (Inl err, held, w) \<Rightarrow>
                 with_transport e config MKRING_CONTAINER_FEATURE_CONTAINERD (None :: 'd guest option mkga_runtime option) held
             | Some (Inr impl, held, w) \<Rightarrow>
                 with_transport e config MKRING_CONTAINER_FEATURE_CONTAINERD
                   (rt_of (mkga_containerd_ops (mn_os e) (mn_sessions e))
                      (Some \<lparr>gu_impl = impl, gu_tty = mn_tty e, gu_world = w, gu_turn = 0\<rparr>)) held)
     else Some (1, {}, {}))"

section \<open>Serving keeps runtime and transport\<close>

definition rt_intact :: "'s mkga_runtime_ops \<Rightarrow> 's mkga_runtime option \<Rightarrow> bool" where
  "rt_intact tbl rt \<longleftrightarrow> (\<exists>r. rt = Some r \<and> rt_ops r = Some tbl \<and> rt_impl r \<noteq> None)"

definition tr_intact :: "'t mkga_transport_ops \<Rightarrow> 't mkga_transport option \<Rightarrow> bool" where
  "tr_intact tbl tr \<longleftrightarrow> (\<exists>t. tr = Some t \<and> tr_ops t = Some tbl \<and> tr_impl t \<noteq> None)"

lemma call_intact:
  "rt_intact tbl rt \<Longrightarrow> rt_intact tbl (snd (runtime_call sel rt q))"
  "rt_intact tbl rt \<Longrightarrow> rt_intact tbl (snd (snd (runtime_call_resp sel' rt q' r)))"
  unfolding rt_intact_def by (metis runtime_call_keeps, metis runtime_call_resp_keeps)

lemma finish_snd: "snd (finish_plain t1 t2 q f res) = snd res" "snd (finish_resp t1 t2 q f m res') = snd (snd res')"
  by (simp_all add: finish_plain_def finish_resp_def split: prod.split)

lemma dispatch_intact: "rt_intact tbl rt \<Longrightarrow> rt_intact tbl (snd (dispatch t1 t2 op q rt))"
  by (cases op) (simp_all add: finish_snd runtime_dispatch call_intact)

lemma handle_intact:
  assumes "mkga_agent_handle t1 t2 (Some a) q r = (rc, r', b)" "rt_intact tbl (ag_runtime a)"
  shows "\<exists>b'. b = Some b' \<and> ag_transport b' = ag_transport a \<and> rt_intact tbl (ag_runtime b')"
  using assms dispatch_intact [OF assms(2), of t1 t2]
  by (auto simp: mkga_agent_handle_def split: option.splits if_splits prod.splits) (metis snd_conv)+

lemma transport_intact:
  "mkga_transport_receive tr q ms = Some (rc, q', tr') \<Longrightarrow> tr_intact tbl tr \<Longrightarrow> tr_intact tbl tr'"
  "mkga_transport_send tr r = (rc, tr') \<Longrightarrow> tr_intact tbl tr \<Longrightarrow> tr_intact tbl tr'"
  by (auto simp: mkga_transport_receive_def mkga_transport_send_def tr_intact_def split: option.splits prod.splits)

lemma serve_intact:
  assumes "serve_loop fuel clk flag i a = Some (rc, a')" "tr_intact tops (ag_transport a)" "rt_intact tbl (ag_runtime a)"
  shows "tr_intact tops (ag_transport a') \<and> rt_intact tbl (ag_runtime a')"
  using assms
proof (induction fuel arbitrary: i a)
  case (Suc fuel)
  show ?case
  proof (cases "stopped flag i 0")
    case False
    with Suc.prems(1) obtain rc1 q tr where r: "mkga_transport_receive (ag_transport a) (Some (mkga_envelope_init (clk i 0))) (ag_receive_timeout_ms a) = Some (rc1, q, tr)"
      by (auto split: option.splits)
    let ?a1 = "a\<lparr>ag_transport := tr\<rparr>"
    have tr: "tr_intact tops tr" using transport_intact(1) [OF r Suc.prems(2)] .
    obtain rc2 resp a2 where h: "mkga_agent_handle (clk i 2) (clk i 3) (Some ?a1) q (Some (mkga_envelope_init (clk i 1))) = (rc2, resp, a2)" by (metis prod_cases3)
    obtain b where b: "a2 = Some b" "ag_transport b = tr" "rt_intact tbl (ag_runtime b)" using handle_intact [OF h] Suc.prems(3) by auto
    obtain rc3 tr3 where s: "mkga_transport_send tr resp = (rc3, tr3)" by fastforce
    have tr3: "tr_intact tops tr3" using transport_intact(2) [OF s tr] .
    show ?thesis using Suc.prems False r h b s tr tr3 Suc.IH [of "Suc i" ?a1] Suc.IH [of "Suc i" "b\<lparr>ag_transport := tr3\<rparr>"]
      by (auto simp: Let_def split: if_splits)
  qed (use Suc.prems in simp)
qed simp

lemma clean_up_complete:
  assumes "serve_and_clean_up e config sd tr theld rt rheld = Some (code, lr, lt)" "tr_intact tops tr" "rt_intact tbl rt"
    and "\<And>t. tr_intact tops t \<Longrightarrow> mkga_transport_destroy (sd t) theld = {}" "\<And>r. rt_intact tbl r \<Longrightarrow> mkga_runtime_destroy r rheld = {}"
  shows "lr = {} \<and> lt = {} \<and> (code = 0 \<or> code = 1)"
proof -
  let ?a = "mkga_agent_init tr rt (cf_receive_timeout_ms config)"
  have "ag_transport ?a \<noteq> None" "ag_runtime ?a \<noteq> None" using assms(2,3) by (auto simp: mkga_agent_init_def tr_intact_def rt_intact_def)
  with assms(1) obtain rc a' where "serve_loop (mn_fuel e) (mn_clock e) (Some (mkga_stop_flag e)) 0 ?a = Some (rc, a')"
    "(code, lr, lt) = (if rc = 0 then 0 else 1, mkga_runtime_destroy (ag_runtime a') rheld, mkga_transport_destroy (sd (ag_transport a')) theld)"
    by (auto simp: serve_and_clean_up_def mkga_agent_serve_def Let_def split: option.splits)
  with serve_intact [OF this(1), of tops tbl] assms(2-5) show ?thesis by (auto simp: mkga_agent_init_def)
qed

lemma destroys:
  "tr_intact mkga_stub_ops t \<Longrightarrow> mkga_transport_destroy (mkga_stub_transport_shutdown t) held = {}"
  "tr_intact (mkga_mkring_ops now) t' \<Longrightarrow> mkga_transport_destroy t' {RHandle, RImpl} = {}"
  "rt_intact mkga_memory_ops r \<Longrightarrow> mkga_runtime_destroy r {RHandle, RImpl, RMutex} = {}"
  "rt_intact (mkga_containerd_ops os env) r' \<Longrightarrow> mkga_runtime_destroy r' {RHandle, RImpl} = {}"
proof -
  have "held - {RMutex, RCond, RInbound, ROutbound, RImpl} - {RHandle} = {}" by (auto, metis resource.exhaust)
  then show "tr_intact mkga_stub_ops t \<Longrightarrow> mkga_transport_destroy (mkga_stub_transport_shutdown t) held = {}"
    by (auto simp: tr_intact_def mkga_transport_destroy_def mkga_stub_transport_shutdown_def mkga_stub_ops_def mkga_stub_destroy_def simp del: Diff_eq_empty_iff split: option.splits)
qed (auto simp: tr_intact_def rt_intact_def mkga_transport_destroy_def mkga_runtime_destroy_def mkga_mkring_ops_def mkga_mkring_destroy_def
    mkga_memory_ops_def mkga_memory_destroy_def mkga_containerd_ops_def mkga_containerd_destroy_def split: option.splits)

lemma with_transport_clean:
  assumes "with_transport e config feat rt held = Some (code, lr, lt)" "rt = None \<and> held = {} \<or> rt_intact tbl rt"
    and "\<And>r. rt_intact tbl r \<Longrightarrow> mkga_runtime_destroy r held = {}"
  shows "lr = {} \<and> lt = {} \<and> (code = 0 \<or> code = 1) \<and>
    (code = 0 \<longrightarrow> rt \<noteq> None \<and> (cf_transport_driver config = cs ''stub'' \<or> cf_transport_driver config = cs ''mkring''))"
proof (cases "rt = None")
  case True
  then show ?thesis using assms(1,2) by (auto simp: with_transport_def rt_intact_def)
next
  case False
  then have rt: "rt_intact tbl rt" "mkga_runtime_destroy rt held = {}" using assms(2,3) by auto
  consider (stub) "cf_transport_driver config = cs ''stub''" | (ring) "cf_transport_driver config = cs ''mkring''" "cf_transport_driver config \<noteq> cs ''stub''"
    | (other) "cf_transport_driver config \<noteq> cs ''mkring''" "cf_transport_driver config \<noteq> cs ''stub''" by blast
  then show ?thesis
  proof cases
    case stub
    obtain a b c d f g where ok: "mn_stub_ok e = (a, b, c, d, f, g)" by (metis prod_cases6)
    obtain t th where c: "mkga_stub_transport_create a b c d f g (mn_waits e) (unat (cf_inbound_buffer config)) = (t, th)" by fastforce
    show ?thesis
    proof (cases t)
      case (Inl err)
      then have "th = {}" using c by (auto simp: mkga_stub_transport_create_def stub_create_fail_def got_def mkga_queue_init_def Let_def split: if_splits prod.splits)
      with assms(1) False stub ok c Inl rt(2) show ?thesis by (auto simp: with_transport_def)
    next
      case (Inr tr)
      then have "tr_intact mkga_stub_ops (Some tr)"
        using c by (auto simp: mkga_stub_transport_create_def stub_create_fail_def Let_def tr_intact_def split: if_splits prod.splits)
      moreover have eq: "serve_and_clean_up e config mkga_stub_transport_shutdown (Some tr) th rt held = Some (code, lr, lt)"
        using assms(1) False stub ok c Inr by (simp add: with_transport_def)
      ultimately show ?thesis using clean_up_complete [OF eq _ rt(1) destroys(1) assms(3)] False stub by blast
    qed
  next
    case ring
    show ?thesis
    proof (cases "mkga_mkring_transport_create (mn_syscall e) (mn_now e) (mn_mkring_ok e) (mn_kernel e) (cf_peer_kernel_id config) (Some (cf_runtime_driver config)) feat")
      case (Inl err)
      with assms(1) False ring rt(2) show ?thesis by (auto simp: with_transport_def)
    next
      case (Inr tr)
      then have tr: "tr_intact (mkga_mkring_ops (mn_now e)) (Some tr)"
        by (auto simp: mkga_mkring_transport_create_def mkga_mkring_publish_ready_def tr_intact_def Let_def split: if_splits prod.splits option.splits sum.splits)
      have eq: "serve_and_clean_up e config (\<lambda>t. t) (Some tr) {RHandle, RImpl} rt held = Some (code, lr, lt)"
        using assms(1) False ring Inr by (simp add: with_transport_def)
      show ?thesis using clean_up_complete [OF eq tr rt(1) destroys(2) [where now = "mn_now e"] assms(3)] False ring by blast
    qed
  next
    case other
    with assms(1) False rt(2) show ?thesis by (auto simp: with_transport_def)
  qed
qed

section \<open>Properties\<close>

text \<open>
  C17. The agent ends in good order. Whatever the environment, and whether the program stops at a bad
  setting, a failed allocation, a daemon that is not there, an error of the serve loop or a signal,
  when it ends it has given back everything that the runtime and the transport held, and its exit
  code is 0 or 1. It is 0 only when both signal handlers were installed and the configuration names
  one of the two runtimes and one of the two transports.
\<close>

theorem agent_main_cleans_up:
  assumes "agent_main e = Some (code, lr, lt)"
  defines "config \<equiv> mkga_config_load_from_env (os_getenv (mn_os e))"
  shows "lr = {} \<and> lt = {} \<and> (code = 0 \<or> code = 1) \<and>
    (code = 0 \<longrightarrow> mn_sigint e = 0 \<and> mn_sigterm e = 0 \<and> cf_runtime_driver config \<in> {cs ''memory'', cs ''containerd''} \<and>
      cf_transport_driver config \<in> {cs ''stub'', cs ''mkring''})"
proof (cases "mkga_install_signal_handlers (mn_sigint e) (mn_sigterm e) = 0")
  case False
  then show ?thesis using assms(1) by (auto simp: agent_main_def Let_def)
next
  case True
  then have sig: "mn_sigint e = 0" "mn_sigterm e = 0" by (simp_all add: mkga_install_signal_handlers_def split: if_splits)
  consider (mem) "cf_runtime_driver config = cs ''memory''" | (ctr) "cf_runtime_driver config = cs ''containerd''" "cf_runtime_driver config \<noteq> cs ''memory''"
    | (other) "cf_runtime_driver config \<noteq> cs ''memory''" "cf_runtime_driver config \<noteq> cs ''containerd''" by blast
  then show ?thesis
  proof cases
    case mem
    obtain a b c where ok: "mn_memory_ok e = (a, b, c)" by (metis prod_cases3)
    obtain rt held where r: "mkga_memory_runtime_create a b c = (rt, held)" by fastforce
    then have i: "rt = None \<and> held = {} \<or> rt_intact mkga_memory_ops rt" "rt \<noteq> None \<Longrightarrow> held = {RHandle, RImpl, RMutex}"
      by (auto simp: mkga_memory_runtime_create_def got_def rt_of_def rt_intact_def Let_def split: if_splits)
    have t: "with_transport e config 0 rt held = Some (code, lr, lt)" using assms(1) True mem ok r by (simp add: agent_main_def Let_def config_def)
    have "mkga_runtime_destroy r held = {}" if "rt_intact mkga_memory_ops r" for r
      using that i destroys(3) [OF that] by (cases "rt = None") (auto simp: mkga_runtime_destroy_def rt_intact_def mkga_memory_ops_def mkga_memory_destroy_def)
    from with_transport_clean [OF t i(1) this] sig mem show ?thesis by auto
  next
    case ctr
    obtain a b where ok: "mn_containerd_ok e = (a, b)" by fastforce
    obtain x held w where r: "mkga_containerd_runtime_create (mn_os e) a b (Some (cf_containerd_socket config)) (mn_world e) = Some (x, held, w)"
      using assms(1) True ctr ok by (auto simp: agent_main_def Let_def config_def split: option.splits)
    have held: "held = (if isl x then {} else {RHandle, RImpl})"
      using r by (auto simp: mkga_containerd_runtime_create_def got_def Let_def split: if_splits option.splits)
    define rt where "rt = (case x of Inl _ \<Rightarrow> None
      | Inr impl \<Rightarrow> rt_of (mkga_containerd_ops (mn_os e) (mn_sessions e)) (Some \<lparr>gu_impl = impl, gu_tty = mn_tty e, gu_world = w, gu_turn = 0\<rparr>))"
    have t: "with_transport e config MKRING_CONTAINER_FEATURE_CONTAINERD rt held = Some (code, lr, lt)"
      using assms(1) True ctr ok r by (cases x) (simp_all add: agent_main_def Let_def config_def rt_def)
    have i: "rt = None \<and> held = {} \<or> rt_intact (mkga_containerd_ops (mn_os e) (mn_sessions e)) rt"
      using held by (cases x) (simp_all add: rt_def rt_of_def rt_intact_def)
    have "mkga_runtime_destroy r held = {}" if "rt_intact (mkga_containerd_ops (mn_os e) (mn_sessions e)) r" for r
      using that held destroys(4) by (cases x) (auto simp: mkga_runtime_destroy_def rt_intact_def mkga_containerd_ops_def mkga_containerd_destroy_def)
    from with_transport_clean [OF t i this] sig ctr show ?thesis by auto
  next
    case other
    then show ?thesis using assms(1) True by (auto simp: agent_main_def Let_def config_def)
  qed
qed

text \<open>Nothing is set in the environment, every allocation succeeds, and a signal is pending from the start.\<close>

definition default_start :: "(unit, unit) main_env" where
  "default_start = \<lparr>mn_sigint = 0, mn_sigterm = 0, mn_signals = (\<lambda>_ _. [15]), mn_memory_ok = (True, True, True), mn_containerd_ok = (True, True),
     mn_os = quiet_os\<lparr>os_getenv := \<lambda>_. None\<rparr>, mn_world = empty_world, mn_tty = tty_init, mn_sessions = no_sessions, mn_stub_ok = (True, True, True, True, True, True), mn_waits = [],
     mn_syscall = None, mn_now = 0, mn_mkring_ok = True, mn_kernel = (), mn_fuel = 1, mn_clock = (\<lambda>_ _. 0)\<rparr>"

lemma default_ends: "\<exists>lr lt. agent_main default_start = Some (0, lr, lt)"
proof -
  let ?c = "mkga_config_load_from_env (\<lambda>_. None)"
  have c: "cf_transport_driver ?c = cs ''stub''" "cf_runtime_driver ?c = cs ''memory''" "unat (cf_inbound_buffer ?c) = 32"
    by (simp_all add: mkga_config_load_from_env_def mkga_getenv_int_def cs_def)
  have f: "stopped (Some (mkga_stop_flag default_start)) 0 0" by (simp add: stopped_def mkga_stop_flag_def default_start_def mkga_handle_signal_def)
  show ?thesis using f c
    by (simp add: agent_main_def default_start_def mkga_install_signal_handlers_def mkga_memory_runtime_create_def rt_of_def with_transport_def
        mkga_stub_transport_create_def mkga_queue_init_def serve_and_clean_up_def mkga_agent_serve_def mkga_agent_init_def Let_def)
qed

theorem agent_main_cleans_up_witness: "agent_main default_start = Some (0, {}, {})"
proof -
  obtain lr lt where "agent_main default_start = Some (0, lr, lt)" using default_ends by blast
  with agent_main_cleans_up [OF this] show ?thesis by simp
qed

end
