(* ===== verification/Mkhalt.thy ===== *)
theory Mkhalt
  imports Config
begin

text \<open>
  The command \<^verbatim>\<open>mkhalt\<close> (\<^verbatim>\<open>scripts/mkhalt.c\<close>), which asks the kernel to halt one multikernel instance. The
  effective user, the arguments and the answer of the system call are arguments; the result is the
  exit code with the system calls made.
\<close>

abbreviation (input) ERANGE :: int where "ERANGE \<equiv> 34"
abbreviation (input) INT_MAX :: int where "INT_MAX \<equiv> 2147483647"
abbreviation (input) LINUX_REBOOT_CMD_MULTIKERNEL_HALT :: u32 where "LINUX_REBOOT_CMD_MULTIKERNEL_HALT \<equiv> 0x4D4B4C48"
abbreviation (input) LINUX_REBOOT_MAGIC1 :: u32 where "LINUX_REBOOT_MAGIC1 \<equiv> 0xfee1dead"
abbreviation (input) LINUX_REBOOT_MAGIC2 :: u32 where "LINUX_REBOOT_MAGIC2 \<equiv> 672274793"

text \<open>The error number that \<^verbatim>\<open>strtol\<close> sets, 0 when it sets none.\<close>

definition strtol_errno :: "bytes \<Rightarrow> int" where
  "strtol_errno s = (case scan_int s of None \<Rightarrow> 0 | Some (v, rest) \<Rightarrow> if v < - (2 ^ 63) \<or> 2 ^ 63 \<le> v then ERANGE else 0)"

definition parse_mk_id :: "bytes option \<Rightarrow> bool \<Rightarrow> int + int" where
  "parse_mk_id s out =
    (case s of
       None \<Rightarrow> Inl (- EINVAL)
     | Some s \<Rightarrow>
         if \<not> out then Inl (- EINVAL)
         else case strtol s of (value, end) \<Rightarrow>
           if strtol_errno s \<noteq> 0 then Inl (- strtol_errno s)
           else if length end = length s \<or> end \<noteq> [] then Inl (- EINVAL)
           else if value < 0 \<or> INT_MAX < value then Inl (- ERANGE)
           else Inr (c_int value))"

record reboot_call =
  rb_magic1 :: u32
  rb_magic2 :: u32
  rb_cmd :: u32
  rb_mk_id :: int

definition halt_multikernel :: "int \<Rightarrow> reboot_call" where
  "halt_multikernel mk_id =
    \<lparr>rb_magic1 = LINUX_REBOOT_MAGIC1, rb_magic2 = LINUX_REBOOT_MAGIC2, rb_cmd = LINUX_REBOOT_CMD_MULTIKERNEL_HALT, rb_mk_id = mk_id\<rparr>"

definition mkhalt_main :: "int \<Rightarrow> bytes list \<Rightarrow> (reboot_call \<Rightarrow> int) \<Rightarrow> int \<times> reboot_call list" where
  "mkhalt_main euid argv syscall =
    (if euid \<noteq> 0 then (1, [])
     else if length argv \<noteq> 2 then (1, [])
     else case parse_mk_id (Some (argv ! 1)) True of
       Inl ret \<Rightarrow> (1, [])
     | Inr mk_id \<Rightarrow>
         let call = halt_multikernel mk_id
         in (if syscall call < 0 then 1 else 0, [call]))"

lemma parse_mk_id_printed:
  "parse_mk_id (Some (fmt_d v)) True = (if 0 \<le> v \<and> v \<le> INT_MAX then Inr v
     else Inl (- ERANGE))"
proof -
  have s: "scan_int (fmt_d v) = Some (v, [])" using scan_fmt_d [of "[]" v] by simp
  then have e: "strtol_errno (fmt_d v) = (if v < - (2 ^ 63) \<or> 2 ^ 63 \<le> v then ERANGE else 0)"
    and l: "strtol (fmt_d v) = (max (- (2 ^ 63)) (min v (2 ^ 63 - 1)), [])" by (simp_all add: strtol_errno_def strtol_def)
  show ?thesis using fmt_d_nonempty [of v] c_int_id [of v] by (auto simp: parse_mk_id_def e l)
qed


end
