(* ===== verification/Spec2Isabelle.thy ===== *)
theory Spec2Isabelle
  imports RingWrap InitRace InitMk AgentLink StreamLink CtrStop ExecRace
    MkringTest HeaderSync AgentMain Mkhalt
begin

text \<open>
  \<^bold>\<open>MKSandbox: shared-memory rings between kernels and a container agent on top of them.\<close>

  The program has two halves. The first runs in every kernel of a machine whose kernels share a
  memory region (\<^verbatim>\<open>mkring/\<close>): it lays out one queue per ordered pair of kernels in the region, sends by
  writing a descriptor and raising an interrupt, receives in the interrupt, and hands what it
  received through a demultiplexer to the per-channel queues of a system call. The second is the
  agent that runs in user space of a guest kernel (\<^verbatim>\<open>mk-guest-agent/\<close>): it receives container requests
  from that system call, carries them out with a runtime (an in-memory one, or containerd
  through the command \<^verbatim>\<open>ctr\<close>), answers them, and carries terminal sessions over a second channel. The
  development follows this order; each theory below opens with what it holds.

  \<^bold>\<open>Conventions.\<close> A machine integer of \<open>w\<close> bits is a word of \<open>w\<close> bits and wraps. A structure is a record
  with the members of the C structure; a pointer that may be NULL is an option. A C function is
  one definition with the name it has in C. It takes the state it reads and returns the state it
  leaves, next to its return code, an integer that is a negated errno value on failure. What the
  surroundings decide is an argument: whether an allocation succeeds, what a clock shows, how a
  system call or a command ends, what other kernels wrote in the meantime. A character array is
  given by the C string it holds. Arrays of bytes that go over a wire are lists of bytes with the
  offsets of the packed C structures. Locks are not part of the state: a critical section is one
  step, and where code runs between critical sections the steps are separate (theories InitRace,
  ExecTty).

  \<^bold>\<open>Shared theories.\<close> Prelude: word and list lemmas, the collections \<open>wordnat\<close> and \<open>cstr_simps\<close>. Fifo: the
  locale \<open>fifo_chan\<close>, the contract of a bounded queue (push appends or refuses, pop takes the head),
  and its consequence for any run of pushes and pops. It is interpreted on the ring in shared
  memory (\<open>ring\<close>), on the queues of the transport call (\<open>mkctq\<close>) and on those of the stub transport
  (\<open>stubq\<close>). Wire and Packed: little-endian fields and packed structures. Decimal: the numbers that
  \<^verbatim>\<open>snprintf\<close> writes and \<^verbatim>\<open>strtol\<close> reads.

  \<^bold>\<open>Rings\<close> (\<^verbatim>\<open>mkring/mkring.c\<close>).
  \<^item> Layout: \<open>mkring_calc_layout\<close> in 32-bit arithmetic with each overflow exit. The regions of a queue are
    aligned, disjoint and inside the queue; the last rounding can wrap, and exactly when.
  \<^item> Ring: one queue (\<open>mkring_vring\<close> in shared memory, \<open>mkring_queue\<close> on each side) with \<open>mkring_tx_enqueue\<close>,
    \<open>mkring_tx_reclaim_locked\<close>, \<open>mkring_rx_step\<close> and \<open>mkring_process_rx_queue\<close>. The invariant \<open>ring_inv\<close> says who owns
    which descriptor; under it the queue refines a list. RingWrap: why the number of
    descriptors has to divide 65536, with a run that loses a message when it is 3.
  \<^item> Mkring: the shared header, \<open>mkring_init\<close> and \<open>mkring_exit\<close> with every error exit, \<open>mkring_send\<close>,
    \<open>mkring_recv\<close>, \<open>mkring_handle_ipi_all\<close> and the registration functions, on the context of one kernel.
    InitRace: the initialisation of the region by several kernels at once, in the steps in which
    they touch the shared header, with a run that loses a ready bit.
  \<^item> MkSystem: all kernels of a machine, as a step relation over the exported functions, and
    delivery from end to end by an invariant over it.
  \<^item> InitMk (\<^verbatim>\<open>mkring/init_mk.c\<close>): boot parameters, the table of interrupt destinations, the interrupt.
  \<^item> MkringTest (\<^verbatim>\<open>mkring/mkring_test.c\<close>): the self-test module, its counters on both ends of a ring, and
    what it does to a demultiplexer on the same queue.

  \<^bold>\<open>Channels\<close> (\<^verbatim>\<open>mkring/mkring_demux.c\<close>, \<^verbatim>\<open>mkring/mkring_transport_syscall.c\<close>). Demux: the routing table and the receive
  callback. TransportSyscall: the queue of each channel and the system call; a message that one
  kernel sends is what the other receives on the same channel. HeaderSync: the protocol headers
  of the kernel and of the guest, which are two copies, have the same structures and codes.

  \<^bold>\<open>The agent\<close> (\<^verbatim>\<open>mk-guest-agent/src\<close>).
  \<^item> GuestProtocol (\<^verbatim>\<open>protocol.c\<close>, \<^verbatim>\<open>mkga_protocol.h\<close>): requests, responses and envelopes. Config (\<^verbatim>\<open>config.c\<close>).
  \<^item> Runtime (\<^verbatim>\<open>mkga_runtime.h\<close>): the table of operations, its dispatchers, and the locale
    \<open>container_runtime\<close>, the contract of a runtime in terms of the set of containers a client sees.
    MemoryRuntime (\<^verbatim>\<open>runtime_memory.c\<close>) interprets it (\<open>mem\<close>).
  \<^item> StubTransport (\<^verbatim>\<open>transport_stub.c\<close>); ContainerWire, MkringTransport, RequestWire and ResponseWire
    (\<^verbatim>\<open>transport_mkring.c\<close>, \<^verbatim>\<open>mkring_container.h\<close>): the two transports, and round trips of every request and
    response through the bytes of the wire.
  \<^item> Agent (\<^verbatim>\<open>agent.c\<close>): \<open>mkga_agent_handle\<close> and the serve loop for any runtime and transport; what an agent
    answers under the contract of the runtime, proved in the locale. AgentMemory: the agent on the
    in-memory runtime implements a container store. AgentLink: a remote call from the ring
    of the caller to the ring of the answer.
  \<^item> Session and StreamDevice (\<^verbatim>\<open>session.c\<close>, \<^verbatim>\<open>stream_device.c\<close>): terminal sessions and their packets. StreamLink:
    input from the ring to the descriptor of the session.
  \<^item> AgentMain (\<^verbatim>\<open>main.c\<close>): from the environment to the exit code, and that nothing is left behind.

  \<^bold>\<open>The containerd runtime\<close> (\<^verbatim>\<open>runtime_containerd_stub.c\<close>). Its state is the runtime structure, a \<open>world\<close> (files,
  directories, the daemon, processes that outlive a call) and the exec sessions. The record \<open>os\<close>
  has what the operating system and the command \<^verbatim>\<open>ctr\<close> do, as functions of the number of the call;
  the daemon is a parameter with a state of its own. Hypotheses name what is needed of it: \<open>os_works\<close>
  (system calls succeed), \<open>ctr_accepts\<close> (commands end with 0 and leave files alone), \<open>time_passes\<close> (the
  clock advances).
  \<^item> CtrExec: running a command with a timeout, its pipes and its end. CriLog: the log in
    the format of the container runtime interface. CtrFiles: metadata, state and log files.
    CtrCommands: command lines, queries, waiting, the watcher and the log runner. Containerd: the
    operations of the runtime.
  \<^item> CtrEnv, CtrIsolation, CtrArgv, CtrLifecycle, CtrLogs, CtrStop: configured variables; an operation
    touches the files of its own container only; the array of arguments and when it overflows; the
    life of a container; its log; stopping it returns.
  \<^item> ExecTty: interactive exec sessions, with the output pump and the waiter of every session as
    threads of a step relation. ExecInv: the invariant of its reachable states. ExecRace: runs
    in which output reaches the wrong session or is lost.
  \<^item> CtrAgent: the table of the operations, and the agent serving the life of a container with it.

  \<^bold>\<open>Tools.\<close> Mkhalt (\<^verbatim>\<open>scripts/mkhalt.c\<close>): which instance is halted.

  \<^bold>\<open>Loops and bounds.\<close> The loops over the ring end because the 16-bit distance between the indices
  shrinks, which is their termination measure. Loops over arrays are recursion over lists. Loops
  that depend on the outside are of three kinds. The serve loop has fuel, one unit for each round; \<open>n\<close>
  requests and the stop flag need \<open>n + 1\<close>, which is what the theorems ask for. The loops of
  \<open>mkga_ctr_exec\<close>, \<open>mkga_session_write_stdin\<close>, \<open>mkga_wait_for_item\<close>, the stream reader and the thread of the self-test run
  over the list of what the system answers in each turn, with no result when the list ends first.
  The waiting loops of the containerd runtime are partial functions into options, where
  \<open>None\<close> means that the call does not return; where they are bounded by a clock it is proved that they
  return. A machine has at most 32 kernels, as in the code; all other sizes are those of the C
  arrays.

  \<^bold>\<open>Not modelled.\<close> Memory barriers and reads that tear: a step of one side of a ring sees what all
  earlier steps wrote. Interrupt masking and the scheduling of kernel threads. What a forked child
  does before it calls \<^verbatim>\<open>exec\<close>, and \<^verbatim>\<open>ctr\<close> and containerd themselves. Messages on the standard streams and in
  the kernel log, except the reports of the self-test. The unit test of the agent
  (\<^verbatim>\<open>mk-guest-agent/tests/test_agent.c\<close>). The host side in Go (\<^verbatim>\<open>mk-container/\<close>) and the shell scripts, which
  are not C.
\<close>

end
